(* ===== verification/Prelude.thy ===== *)
theory Prelude
  imports Main "HOL-Library.Word" "HOL-Library.AList"
begin

text \<open>
  Shared vocabulary of the development: bytes and machine integers, little-endian reading of
  struct fields, checked slices of byte buffers, and the generic lemmas on lists and association
  lists that the component theories use.

  \<^item> \<open>u8\<close>, \<open>u16\<close>, \<open>u32\<close>, \<open>u64\<close> are Rust's unsigned integers; \<open>usize\<close> (64 bit on every target
    of the crate) is \<open>nat\<close> where it only counts bytes held in memory.
  \<^item> \<open>String\<close> is \<open>string\<close>, one \<open>char\<close> per UTF-8 byte.
  \<^item> \<open>IndexMap<K, V>\<close> is an association list in insertion order; \<open>AList.update\<close> is its \<open>insert\<close>
    (a present key keeps its place and takes the new value, a new key goes to the end).
\<close>

type_synonym u8 = "8 word"
type_synonym u16 = "16 word"
type_synonym u32 = "32 word"
type_synonym u64 = "64 word"
type_synonym bytes = "8 word list"

text \<open>Collections of the development: inversion rules for results, and layout facts.\<close>

named_theorems res_intro \<open>introduction rules for successful computations\<close>
named_theorems res_elim \<open>inversion of successful computations\<close>
named_theorems buf_simps \<open>facts on byte buffers and slices\<close>

subsection \<open>Byte buffers\<close>

text \<open>\<open>buf[off..off+len]\<close> for a range known to lie inside the buffer.\<close>

definition slice :: "nat \<Rightarrow> nat \<Rightarrow> bytes \<Rightarrow> bytes" where
  "slice off len bs = take len (drop off bs)"

text \<open>\<open>buf[off..off + src.len()].copy_from_slice(src)\<close> for a range inside the buffer.\<close>

definition blit :: "bytes \<Rightarrow> nat \<Rightarrow> bytes \<Rightarrow> bytes" where
  "blit buf off src = take off buf @ src @ drop (off + length src) buf"

lemma length_slice [buf_simps]: "off + len \<le> length bs \<Longrightarrow> length (slice off len bs) = len"
  by (simp add: slice_def)

lemma slice_all [simp]: "slice 0 (length bs) bs = bs"
  by (simp add: slice_def)

lemma slice_append1 [simp]: "slice 0 (length xs) (xs @ ys) = xs"
  by (simp add: slice_def)

lemma slice_append2 [simp]: "slice (length xs) (length ys) (xs @ ys @ zs) = ys"
  by (simp add: slice_def)

lemma length_blit [buf_simps]: "off + length src \<le> length buf \<Longrightarrow> length (blit buf off src) = length buf"
  by (simp add: blit_def)

lemma take_blit [buf_simps]: "off \<le> length buf \<Longrightarrow> take (off + length src) (blit buf off src) = take off buf @ src"
  by (simp add: blit_def)

lemma take_blit0 [buf_simps]: "take (length src) (blit buf 0 src) = src"
  by (simp add: blit_def)

lemma drop_blit [buf_simps]:
  "off \<le> length buf \<Longrightarrow> drop (off + length src) (blit buf off src) = drop (off + length src) buf"
  by (simp add: blit_def)

subsection \<open>Little-endian integers\<close>

fun le_nat :: "bytes \<Rightarrow> nat" where
  "le_nat [] = 0"
| "le_nat (b # bs) = unat b + 256 * le_nat bs"

fun nat_le :: "nat \<Rightarrow> nat \<Rightarrow> bytes" where
  "nat_le 0 n = []"
| "nat_le (Suc k) n = word_of_nat (n mod 256) # nat_le k (n div 256)"

lemma length_nat_le [simp]: "length (nat_le k n) = k"
  by (induction k arbitrary: n) auto

lemma nat_le_numeral: "nat_le (numeral k) n = word_of_nat (n mod 256) # nat_le (pred_numeral k) (n div 256)"
  by (subst numeral_eq_Suc [of k]) (rule nat_le.simps(2))

lemma unat_byte_of_mod [simp]: "unat (word_of_nat (n mod 256) :: u8) = n mod 256"
  by (simp add: unat_of_nat)

lemma le_nat_nat_le: "le_nat (nat_le k n) = n mod 256 ^ k"
proof (induction k arbitrary: n)
  case 0
  show ?case by simp
next
  case (Suc k)
  have "n mod 256 + 256 * (n div 256 mod 256 ^ k) = n mod (256 * 256 ^ k)"
    by (simp add: mod_mult2_eq)
  with Suc show ?case by simp
qed

lemma le_nat_bound: "le_nat bs < 256 ^ length bs"
proof (induction bs)
  case Nil
  show ?case by simp
next
  case (Cons b bs)
  have "unat b < 256" using unsigned_less [of b] by simp
  with Cons show ?case by simp
qed

subsection \<open>Association lists (IndexMap)\<close>

lemma map_of_update: "map_of (AList.update k v al) = (map_of al)(k \<mapsto> v)"
  by (rule update_conv')

lemma distinct_keys_update: "distinct (map fst al) \<Longrightarrow> distinct (map fst (AList.update k v al))"
  by (rule distinct_update)

lemma map_of_foldl_update:
  "map_of (foldl (\<lambda>m (k, v). AList.update k v m) m kvs) = map_of m ++ map_of (rev kvs)"
  by (induction kvs arbitrary: m)
     (auto simp: map_of_update map_add_def fun_eq_iff split: option.splits)

lemma distinct_foldl_update:
  "distinct (map fst m) \<Longrightarrow> distinct (map fst (foldl (\<lambda>m (k, v). AList.update k v m) m kvs))"
  by (induction kvs arbitrary: m) (auto simp: distinct_keys_update)

end
