(* ===== verification/Errors.thy ===== *)
theory Errors
  imports Prelude
begin

text \<open>
  \<^verbatim>\<open>rats-rs/src/errors.rs\<close>: the error kinds, the \<open>Error\<close> value with its kind and optional message,
  and the \<open>WithContext\<close> combinators \<open>kind\<close>, \<open>context\<close> and \<open>with_context\<close> on results.

  A call of the program ends in one of four ways, the constructors of \<open>res\<close>: it returns \<open>Ok\<close>, it
  returns \<open>Err\<close> of an \<open>Error\<close>, it panics (\<open>Panic\<close>: an out-of-range slice, an \<open>unwrap\<close> of \<open>None\<close>, a
  \<open>todo!\<close>, \<open>unreachable!\<close> or failed assertion), or an unsafe block reads memory it does not own
  (\<open>UB\<close>). \<open>andthen\<close> is the \<open>?\<close> operator followed by the rest of the function body.

  A message built by \<open>format!\<close> is kept as its format string: the arguments are not substituted.
  Log output (\<open>debug!\<close>, \<open>warn!\<close>, \<open>error!\<close>) is not part of the model.
\<close>

datatype error_kind =
    UnsupportedTeeType
  | UnrecognizedEvidenceType
  | SgxDcapUnsupportedEvidenceType
  | SgxDcapAttesterGenerateQuoteFailed
  | SgxDcapVerifierVerifyQuoteFailed
  | SgxDcapVerifierGetSupplementalDataFailed
  | SgxDcapMulformedQuote
  | SgxDcapVerifierReportDataMismatch
  | TdxUnsupportedEvidenceType
  | TdxAttesterGenerateQuoteFailed
  | TdxVerifierVerifyQuoteFailed
  | TdxVerifierGetSupplementalDataFailed
  | TdxMulformedQuote
  | TdxVerifierReportDataMismatch
  | InvalidParameter
  | UnsupportedHashAlgo
  | CalculateHashFailed
  | GenCertError
  | ParseCertError
  | CertVerifySignatureFailed
  | CertExtractExtensionFailed
  | CertVerifyPublicKeyHashFailed
  | ParsePrivateKey
  | SpdmNegotiate
  | SpdmSend
  | SpdmReceive
  | SpdmShutdown
  | SpdmSessionNotReady
  | SpdmBrokenSession
  | SpdmlibError
  | OsslTlsBuilderStreamUnset
  | OsslUnsupportedPkeyAlgo
  | OsslCtxUninitialize
  | OsslCtxInitializeFail
  | OsslUsePrivKeyfail
  | OsslUseCertfail
  | OsslNoMem
  | OsslSetFdFail
  | OsslServerNegotiationFail
  | OsslGetExtensionFail
  | OsslClientNegotiationFail
  | OsslFindX509ExFail
  | OsslOIDErr
  | OsslClientConnectFail
  | OsslCtxOrSessionUninitialized
  | OsslSendFail
  | OsslReceiveFail
  | OsslInitializeFail
  | Unknown

record error =
  err_kind :: error_kind
  err_msg :: "string option"

definition error_of_kind :: "error_kind \<Rightarrow> error" where
  "error_of_kind k = \<lparr>err_kind = k, err_msg = None\<rparr>"

definition error_unknown :: error where
  "error_unknown = error_of_kind Unknown"

definition kind_with_msg :: "error_kind \<Rightarrow> string \<Rightarrow> error" where
  "kind_with_msg k m = \<lparr>err_kind = k, err_msg = Some m\<rparr>"

definition error_of_msg :: "string \<Rightarrow> error" where
  "error_of_msg m = kind_with_msg Unknown m"

definition with_kind :: "error \<Rightarrow> error_kind \<Rightarrow> error" where
  "with_kind e k = e\<lparr>err_kind := k\<rparr>"

definition with_msg :: "error \<Rightarrow> string \<Rightarrow> error" where
  "with_msg e m = e\<lparr>err_msg := Some m\<rparr>"

definition get_kind :: "error \<Rightarrow> error_kind" where
  "get_kind e = err_kind e"

text \<open>\<open>impl<E: Display> From<E> for Error\<close>: a foreign error enters with its display text.\<close>

definition error_from :: "string \<Rightarrow> error" where
  "error_from s = kind_with_msg Unknown s"

lemmas error_defs = error_of_kind_def error_unknown_def kind_with_msg_def error_of_msg_def
  with_kind_def with_msg_def get_kind_def error_from_def

subsection \<open>Results\<close>

datatype 'a res = Ok 'a | Err error | Panic | UB

definition andthen :: "'a res \<Rightarrow> ('a \<Rightarrow> 'b res) \<Rightarrow> 'b res" where
  "andthen r f = (case r of Ok x \<Rightarrow> f x | Err e \<Rightarrow> Err e | Panic \<Rightarrow> Panic | UB \<Rightarrow> UB)"

lemma andthen_simps [simp]:
  "andthen (Ok x) f = f x"
  "andthen (Err e) f = Err e"
  "andthen Panic f = Panic"
  "andthen UB f = UB"
  by (simp_all add: andthen_def)

lemma andthen_assoc: "andthen (andthen r f) g = andthen r (\<lambda>x. andthen (f x) g)"
  by (cases r) auto

lemma andthen_eq_Ok [simp]: "andthen r f = Ok y \<longleftrightarrow> (\<exists>x. r = Ok x \<and> f x = Ok y)"
  by (cases r) auto

lemma andthen_eq_Err: "andthen r f = Err e \<longleftrightarrow> r = Err e \<or> (\<exists>x. r = Ok x \<and> f x = Err e)"
  by (cases r) auto

lemma andthen_eq_UB: "andthen r f = UB \<longleftrightarrow> r = UB \<or> (\<exists>x. r = Ok x \<and> f x = UB)"
  by (cases r) auto

lemma andthen_eq_Panic: "andthen r f = Panic \<longleftrightarrow> r = Panic \<or> (\<exists>x. r = Ok x \<and> f x = Panic)"
  by (cases r) auto

lemmas andthen_inv = andthen_eq_Err andthen_eq_UB andthen_eq_Panic

lemma andthen_cong [fundef_cong]:
  "r = r' \<Longrightarrow> (\<And>x. r' = Ok x \<Longrightarrow> f x = g x) \<Longrightarrow> andthen r f = andthen r' g"
  by (cases r') auto

text \<open>A result of foreign code (\<open>Inl\<close> its error's display text) used with \<open>?\<close>.\<close>

definition lift_ext :: "string + 'a \<Rightarrow> 'a res" where
  "lift_ext r = (case r of Inl s \<Rightarrow> Err (error_from s) | Inr x \<Rightarrow> Ok x)"

lemma lift_ext_simps [simp]:
  "lift_ext (Inl s) = Err (error_from s)"
  "lift_ext (Inr x) = Ok x"
  by (simp_all add: lift_ext_def)

lemma lift_ext_eq_Ok [simp]: "lift_ext r = Ok x \<longleftrightarrow> r = Inr x"
  by (cases r) auto

lemma lift_ext_not [simp]: "lift_ext r \<noteq> Panic" "lift_ext r \<noteq> UB"
  by (cases r; simp)+

definition map_err :: "(error \<Rightarrow> error) \<Rightarrow> 'a res \<Rightarrow> 'a res" where
  "map_err f r = (case r of Err e \<Rightarrow> Err (f e) | _ \<Rightarrow> r)"

lemma map_err_simps [simp]:
  "map_err f (Ok x) = Ok x" "map_err f (Err e) = Err (f e)" "map_err f Panic = Panic" "map_err f UB = UB"
  by (simp_all add: map_err_def)

lemma map_err_eq [simp]:
  "map_err f r = Ok x \<longleftrightarrow> r = Ok x" "map_err f r = Panic \<longleftrightarrow> r = Panic" "map_err f r = UB \<longleftrightarrow> r = UB"
  by (cases r; simp)+

lemma map_err_eq_Err: "map_err f r = Err e \<longleftrightarrow> (\<exists>e'. r = Err e' \<and> e = f e')"
  by (cases r) auto

subsection \<open>WithContext\<close>

definition res_kind :: "error_kind \<Rightarrow> 'a res \<Rightarrow> 'a res" where
  "res_kind k r = map_err (\<lambda>e. with_kind e k) r"

text \<open>The impl for a foreign error type: the message is replaced.\<close>

definition ext_context :: "string \<Rightarrow> string + 'a \<Rightarrow> 'a res" where
  "ext_context c r = map_err (\<lambda>e. with_msg e c) (lift_ext r)"

text \<open>The specialised impl for \<open>Result<T, Error>\<close>: the context is put before the message.\<close>

definition res_context :: "string \<Rightarrow> 'a res \<Rightarrow> 'a res" where
  "res_context c r = map_err (\<lambda>e. case err_msg e of
       Some m \<Rightarrow> with_msg e (c @ '': '' @ m)
     | None \<Rightarrow> with_msg e c) r"

definition res_with_context :: "(unit \<Rightarrow> string) \<Rightarrow> 'a res \<Rightarrow> 'a res" where
  "res_with_context f r = (case r of
       Ok t \<Rightarrow> Ok t
     | Err e \<Rightarrow> res_context (f ()) (Err e)
     | Panic \<Rightarrow> Panic
     | UB \<Rightarrow> UB)"

lemma res_kind_eq [simp]:
  "res_kind k r = Ok x \<longleftrightarrow> r = Ok x" "res_kind k r = Panic \<longleftrightarrow> r = Panic" "res_kind k r = UB \<longleftrightarrow> r = UB"
  by (simp_all add: res_kind_def)

lemma res_context_eq [simp]:
  "res_context c r = Ok x \<longleftrightarrow> r = Ok x" "res_context c r = Panic \<longleftrightarrow> r = Panic" "res_context c r = UB \<longleftrightarrow> r = UB"
  by (simp_all add: res_context_def)

lemma ext_context_eq [simp]:
  "ext_context c r = Ok x \<longleftrightarrow> r = Inr x" "ext_context c r \<noteq> Panic" "ext_context c r \<noteq> UB"
  by (simp_all add: ext_context_def)

lemma res_with_context_is_context: "res_with_context f r = res_context (f ()) r"
  by (cases r) (auto simp: res_with_context_def res_context_def)

lemma res_kind_Ok [simp]: "res_kind k (Ok x) = Ok x"
  by (simp add: res_kind_def)

lemma res_context_Ok [simp]: "res_context c (Ok x) = Ok x"
  by (simp add: res_context_def)

lemma res_kind_Err [simp]: "res_kind k (Err e) = Err (with_kind e k)"
  by (simp add: res_kind_def)

lemma res_context_Err:
  "res_context c (Err e) =
     Err (with_msg e (case err_msg e of Some m \<Rightarrow> c @ '': '' @ m | None \<Rightarrow> c))"
  by (simp add: res_context_def split: option.splits)

text \<open>The kind of a failure, \<open>None\<close> when there is none.\<close>

definition fails_with :: "'a res \<Rightarrow> error_kind \<Rightarrow> bool" where
  "fails_with r k = (case r of Err e \<Rightarrow> err_kind e = k | _ \<Rightarrow> False)"

lemma fails_with_simps [simp]:
  "fails_with (Ok x) k = False" "fails_with (Err e) k = (err_kind e = k)"
  "fails_with Panic k = False" "fails_with UB k = False"
  by (simp_all add: fails_with_def)

lemma fails_with_kind [simp]: "fails_with (res_kind k r) k' \<longleftrightarrow> k' = k \<and> (\<exists>e. r = Err e)"
  by (cases r) (auto simp: res_kind_def with_kind_def)

lemma fails_with_context [simp]: "fails_with (res_context c r) k \<longleftrightarrow> fails_with r k"
  by (cases r) (auto simp: res_context_def with_msg_def split: option.splits)

lemma err_kind_kind_with_msg [simp]: "err_kind (kind_with_msg k m) = k" "err_msg (kind_with_msg k m) = Some m"
  by (simp_all add: kind_with_msg_def)

lemma err_kind_error_of_kind [simp]: "err_kind (error_of_kind k) = k"
  by (simp add: error_of_kind_def)

text \<open>Adding contexts \<open>c1\<close>, \<open>c2\<close>, ... one after the other to one failure.\<close>

fun add_contexts :: "string list \<Rightarrow> 'a res \<Rightarrow> 'a res" where
  "add_contexts [] r = r"
| "add_contexts (c # cs) r = add_contexts cs (res_context c r)"

lemma res_context_msg:
  "err_msg e = Some m \<Longrightarrow> res_context c (Err e) = Err (with_msg e (c @ '': '' @ m))"
  by (simp add: res_context_def)

lemma with_msg_twice [simp]: "with_msg (with_msg e a) b = with_msg e b" "err_msg (with_msg e a) = Some a"
  by (simp_all add: with_msg_def)

lemma err_kind_with [simp]: "err_kind (with_kind e k) = k" "err_kind (with_msg e m) = err_kind e"
  by (simp_all add: with_kind_def with_msg_def)

end
