(* ===== verification/Claims.thy ===== *)
theory Claims
  imports Errors
begin

text \<open>
  \<^verbatim>\<open>rats-rs/src/tee/claims.rs\<close> and the claim names of \<^verbatim>\<open>rats-rs/src/cert/mod.rs\<close>: claims are an
  \<open>IndexMap<String, Vec<u8>>\<close>, here the association list in insertion order. The representation
  invariant \<open>claims_wf\<close> says that no name occurs twice; every operation keeps it.
\<close>

type_synonym claims = "(string \<times> bytes) list"

definition claims_insert :: "claims \<Rightarrow> string \<Rightarrow> bytes \<Rightarrow> claims" where
  "claims_insert cl k v = AList.update k v cl"

definition claims_get :: "claims \<Rightarrow> string \<Rightarrow> bytes option" where
  "claims_get cl k = map_of cl k"

definition contains_key :: "claims \<Rightarrow> string \<Rightarrow> bool" where
  "contains_key cl k = (map_of cl k \<noteq> None)"

definition claims_wf :: "claims \<Rightarrow> bool" where
  "claims_wf cl = distinct (map fst cl)"

definition BUILT_IN_CLAIM_COMMON_QUOTE :: string where
  "BUILT_IN_CLAIM_COMMON_QUOTE = ''common_quote''"

definition BUILT_IN_CLAIM_COMMON_QUOTE_TYPE :: string where
  "BUILT_IN_CLAIM_COMMON_QUOTE_TYPE = ''common_quote_type''"

definition CLAIM_NAME_PUBLIC_KEY_HASH :: string where
  "CLAIM_NAME_PUBLIC_KEY_HASH = ''pubkey-hash''"

text \<open>A sequence of \<open>insert\<close> calls, in order.\<close>

fun claims_inserts :: "claims \<Rightarrow> (string \<times> bytes) list \<Rightarrow> claims" where
  "claims_inserts cl [] = cl"
| "claims_inserts cl ((k, v) # kvs) = claims_inserts (claims_insert cl k v) kvs"

lemma claims_get_insert [simp]: "claims_get (claims_insert cl k v) = (claims_get cl)(k \<mapsto> v)"
  by (simp add: claims_get_def claims_insert_def map_of_update fun_eq_iff)

lemma claims_get_Nil [simp]: "claims_get [] = Map.empty"
  by (simp add: claims_get_def fun_eq_iff)

lemma contains_key_get: "contains_key cl k \<longleftrightarrow> claims_get cl k \<noteq> None"
  by (simp add: contains_key_def claims_get_def)

lemma claims_wf_Nil [simp]: "claims_wf []"
  by (simp add: claims_wf_def)

lemma claims_wf_insert [simp]: "claims_wf cl \<Longrightarrow> claims_wf (claims_insert cl k v)"
  by (simp add: claims_wf_def claims_insert_def distinct_keys_update)

lemma claims_wf_inserts [simp]: "claims_wf cl \<Longrightarrow> claims_wf (claims_inserts cl kvs)"
  by (induction cl kvs rule: claims_inserts.induct) simp_all

lemma claims_get_inserts: "claims_get (claims_inserts cl kvs) = claims_get cl ++ map_of (rev kvs)"
  by (induction cl kvs rule: claims_inserts.induct)
     (auto simp: map_add_def fun_eq_iff split: option.splits)

lemma update_fresh: "k \<notin> fst ` set al \<Longrightarrow> AList.update k v al = al @ [(k, v)]"
  by (induction al) auto

lemma claims_insert_fresh: "claims_get cl k = None \<Longrightarrow> claims_insert cl k v = cl @ [(k, v)]"
  by (auto simp: claims_insert_def claims_get_def map_of_eq_None_iff update_fresh)

lemma claims_inserts_new:
  "distinct (map fst (cl @ kvs)) \<Longrightarrow> claims_inserts cl kvs = cl @ kvs"
proof (induction cl kvs rule: claims_inserts.induct)
  case (1 cl)
  show ?case by simp
next
  case (2 cl k v kvs)
  then have "claims_insert cl k v = cl @ [(k, v)]"
    by (auto simp: claims_insert_def update_fresh)
  with 2 show ?case by simp
qed

end
