(* ===== verification/Crypto.thy ===== *)
theory Crypto
  imports Errors
begin

text \<open>
  \<^verbatim>\<open>rats-rs/src/crypto/mod.rs\<close>: hash algorithms, key algorithms, private keys and the operations of
  \<open>DefaultCrypto\<close>. The crates \<open>rsa\<close>, \<open>p256\<close>, \<open>pkcs8\<close> and \<open>sha2\<close> are the parameter \<open>crypto_lib\<close>: one
  function per entry point the code calls, the failure of each (its display text) on the left.
  A library key is an opaque handle. Randomness is an explicit argument, the state of
  \<open>rand::thread_rng()\<close> at the call.
\<close>

type_synonym rsa_private_key = bytes
type_synonym p256_secret_key = bytes
type_synonym rng = nat

datatype hash_algo = Sha256 | Sha384 | Sha512

datatype asymmetric_algo = AlgoRsa2048 | AlgoRsa3072 | AlgoRsa4096 | AlgoP256

datatype asymmetric_private_key =
    Rsa2048 rsa_private_key
  | Rsa3072 rsa_private_key
  | Rsa4096 rsa_private_key
  | P256 p256_secret_key

text \<open>The finite enumerations of the code, so that a statement over all algorithms evaluates.\<close>

lemma UNIV_hash_algo: "(UNIV :: hash_algo set) = {Sha256, Sha384, Sha512}"
  using hash_algo.exhaust by blast

instantiation hash_algo :: enum
begin
definition "enum_hash_algo = [Sha256, Sha384, Sha512]"
definition "enum_all_hash_algo P \<longleftrightarrow> P Sha256 \<and> P Sha384 \<and> P Sha512"
definition "enum_ex_hash_algo P \<longleftrightarrow> P Sha256 \<or> P Sha384 \<or> P Sha512"
instance
  by standard (auto simp: UNIV_hash_algo enum_hash_algo_def enum_all_hash_algo_def enum_ex_hash_algo_def)
end

lemma UNIV_asymmetric_algo: "(UNIV :: asymmetric_algo set) = {AlgoRsa2048, AlgoRsa3072, AlgoRsa4096, AlgoP256}"
  using asymmetric_algo.exhaust by blast

instantiation asymmetric_algo :: enum
begin
definition "enum_asymmetric_algo = [AlgoRsa2048, AlgoRsa3072, AlgoRsa4096, AlgoP256]"
definition "enum_all_asymmetric_algo P \<longleftrightarrow> P AlgoRsa2048 \<and> P AlgoRsa3072 \<and> P AlgoRsa4096 \<and> P AlgoP256"
definition "enum_ex_asymmetric_algo P \<longleftrightarrow> P AlgoRsa2048 \<or> P AlgoRsa3072 \<or> P AlgoRsa4096 \<or> P AlgoP256"
instance
  by standard (auto simp: UNIV_asymmetric_algo enum_asymmetric_algo_def enum_all_asymmetric_algo_def enum_ex_asymmetric_algo_def)
end

record crypto_lib =
  sha2_256 :: "bytes \<Rightarrow> bytes"
  sha2_384 :: "bytes \<Rightarrow> bytes"
  sha2_512 :: "bytes \<Rightarrow> bytes"
  rsa_new :: "rng \<Rightarrow> nat \<Rightarrow> string + rsa_private_key"
  rsa_n_bits :: "rsa_private_key \<Rightarrow> nat"
  rsa_to_pem :: "rsa_private_key \<Rightarrow> string + string"
  rsa_from_pem :: "string \<Rightarrow> string + rsa_private_key"
  rsa_to_der :: "rsa_private_key \<Rightarrow> string + bytes"
  rsa_public_der :: "rsa_private_key \<Rightarrow> string + bytes"
  p256_random :: "rng \<Rightarrow> p256_secret_key"
  p256_to_pem :: "p256_secret_key \<Rightarrow> string + string"
  p256_from_pem :: "string \<Rightarrow> string + p256_secret_key"
  p256_to_der :: "p256_secret_key \<Rightarrow> string + bytes"
  p256_public_der :: "p256_secret_key \<Rightarrow> string + bytes"

subsection \<open>AsymmetricPrivateKey\<close>

fun to_pkcs8_pem :: "crypto_lib \<Rightarrow> asymmetric_private_key \<Rightarrow> string res" where
  "to_pkcs8_pem C (Rsa2048 key) = lift_ext (rsa_to_pem C key)"
| "to_pkcs8_pem C (Rsa3072 key) = lift_ext (rsa_to_pem C key)"
| "to_pkcs8_pem C (Rsa4096 key) = lift_ext (rsa_to_pem C key)"
| "to_pkcs8_pem C (P256 key) = lift_ext (p256_to_pem C key)"

fun to_pkcs8_der :: "crypto_lib \<Rightarrow> asymmetric_private_key \<Rightarrow> bytes res" where
  "to_pkcs8_der C (Rsa2048 key) = lift_ext (rsa_to_der C key)"
| "to_pkcs8_der C (Rsa3072 key) = lift_ext (rsa_to_der C key)"
| "to_pkcs8_der C (Rsa4096 key) = lift_ext (rsa_to_der C key)"
| "to_pkcs8_der C (P256 key) = lift_ext (p256_to_der C key)"

definition from_pkcs8_pem :: "crypto_lib \<Rightarrow> string \<Rightarrow> asymmetric_private_key res" where
  "from_pkcs8_pem C pem =
     (case rsa_from_pem C pem of
        Inr key \<Rightarrow>
          (let bit_len = rsa_n_bits C key in
           if bit_len = 2048 then Ok (Rsa2048 key)
           else if bit_len = 3072 then Ok (Rsa3072 key)
           else if bit_len = 4096 then Ok (Rsa4096 key)
           else Err (kind_with_msg ParsePrivateKey ''unsupported rsa modulus bit length: {}''))
      | Inl _ \<Rightarrow>
          (case p256_from_pem C pem of
             Inr key \<Rightarrow> Ok (P256 key)
           | Inl e \<Rightarrow>
               res_context ''failed to parse private key from pkcs8 pem format. content: {}''
                 (res_kind ParsePrivateKey (lift_ext (Inl e)))))"

subsection \<open>DefaultCrypto\<close>

fun gen_private_key :: "crypto_lib \<Rightarrow> rng \<Rightarrow> asymmetric_algo \<Rightarrow> asymmetric_private_key res" where
  "gen_private_key C g AlgoRsa2048 = andthen (lift_ext (rsa_new C g 2048)) (\<lambda>k. Ok (Rsa2048 k))"
| "gen_private_key C g AlgoRsa3072 = andthen (lift_ext (rsa_new C g 3072)) (\<lambda>k. Ok (Rsa3072 k))"
| "gen_private_key C g AlgoRsa4096 = andthen (lift_ext (rsa_new C g 4096)) (\<lambda>k. Ok (Rsa4096 k))"
| "gen_private_key C g AlgoP256 = Ok (P256 (p256_random C g))"

fun hash :: "crypto_lib \<Rightarrow> hash_algo \<Rightarrow> bytes \<Rightarrow> bytes" where
  "hash C Sha256 bs = sha2_256 C bs"
| "hash C Sha384 bs = sha2_384 C bs"
| "hash C Sha512 bs = sha2_512 C bs"

text \<open>The DER encoding of the SubjectPublicKeyInfo of a private key's public half.\<close>

fun spki_doc :: "crypto_lib \<Rightarrow> asymmetric_private_key \<Rightarrow> bytes res" where
  "spki_doc C (Rsa2048 key) = lift_ext (rsa_public_der C key)"
| "spki_doc C (Rsa3072 key) = lift_ext (rsa_public_der C key)"
| "spki_doc C (Rsa4096 key) = lift_ext (rsa_public_der C key)"
| "spki_doc C (P256 key) = lift_ext (p256_public_der C key)"

definition hash_of_private_key :: "crypto_lib \<Rightarrow> hash_algo \<Rightarrow> asymmetric_private_key \<Rightarrow> bytes res" where
  "hash_of_private_key C hash_algo private_key =
     andthen (spki_doc C private_key) (\<lambda>bytes. Ok (hash C hash_algo bytes))"

subsection \<open>What the code relies on\<close>

text \<open>
  PKCS#8: what the \<open>rsa\<close> and \<open>p256\<close> crates write as PEM they read back as the same key, and a P-256
  document is not an RSA document (the algorithm identifier differs). \<open>RsaPrivateKey::new(rng, n)\<close>
  makes a key with an \<open>n\<close> bit modulus.
\<close>

definition pkcs8_ok :: "crypto_lib \<Rightarrow> bool" where
  "pkcs8_ok C \<longleftrightarrow>
     (\<forall>k pem. rsa_to_pem C k = Inr pem \<longrightarrow> rsa_from_pem C pem = Inr k) \<and>
     (\<forall>k pem. p256_to_pem C k = Inr pem \<longrightarrow> p256_from_pem C pem = Inr k \<and> (\<exists>e. rsa_from_pem C pem = Inl e))"

definition rsa_new_ok :: "crypto_lib \<Rightarrow> bool" where
  "rsa_new_ok C \<longleftrightarrow> (\<forall>g n k. rsa_new C g n = Inr k \<longrightarrow> rsa_n_bits C k = n)"

text \<open>The digest lengths of SHA-2.\<close>

definition sha2_ok :: "crypto_lib \<Rightarrow> bool" where
  "sha2_ok C \<longleftrightarrow> (\<forall>bs. length (sha2_256 C bs) = 32 \<and> length (sha2_384 C bs) = 48 \<and> length (sha2_512 C bs) = 64)"

fun key_algo :: "asymmetric_private_key \<Rightarrow> asymmetric_algo" where
  "key_algo (Rsa2048 _) = AlgoRsa2048"
| "key_algo (Rsa3072 _) = AlgoRsa3072"
| "key_algo (Rsa4096 _) = AlgoRsa4096"
| "key_algo (P256 _) = AlgoP256"

text \<open>The invariant of a key value: its constructor names its modulus length.\<close>

fun key_wf :: "crypto_lib \<Rightarrow> asymmetric_private_key \<Rightarrow> bool" where
  "key_wf C (Rsa2048 key) = (rsa_n_bits C key = 2048)"
| "key_wf C (Rsa3072 key) = (rsa_n_bits C key = 3072)"
| "key_wf C (Rsa4096 key) = (rsa_n_bits C key = 4096)"
| "key_wf C (P256 key) = True"

lemma hash_length:
  "sha2_ok C \<Longrightarrow> length (hash C a bs) = (case a of Sha256 \<Rightarrow> 32 | Sha384 \<Rightarrow> 48 | Sha512 \<Rightarrow> 64)"
  by (cases a) (simp_all add: sha2_ok_def)

lemma gen_private_key_wf:
  "rsa_new_ok C \<Longrightarrow> gen_private_key C g a = Ok k \<Longrightarrow> key_algo k = a \<and> key_wf C k"
  by (cases a) (auto simp: rsa_new_ok_def)

lemma from_pkcs8_pem_wf: "from_pkcs8_pem C pem = Ok k \<Longrightarrow> key_wf C k"
  by (auto simp: from_pkcs8_pem_def Let_def split: sum.splits if_splits)

lemma from_pkcs8_pem_Err:
  "from_pkcs8_pem C pem = Err e \<Longrightarrow> err_kind e = ParsePrivateKey"
  by (auto simp: from_pkcs8_pem_def Let_def res_context_Err with_msg_def with_kind_def split: sum.splits if_splits)

lemma from_pkcs8_pem_total: "from_pkcs8_pem C pem \<noteq> Panic" "from_pkcs8_pem C pem \<noteq> UB"
  by (auto simp: from_pkcs8_pem_def Let_def res_context_Err split: sum.splits)

lemma pem_read_back:
  assumes "pkcs8_ok C" and "key_wf C k" and "to_pkcs8_pem C k = Ok pem"
  shows "from_pkcs8_pem C pem = Ok k"
proof (cases k)
  case (P256 key)
  with assms have "p256_from_pem C pem = Inr key" and "\<exists>e. rsa_from_pem C pem = Inl e"
    by (auto simp: pkcs8_ok_def)
  with P256 show ?thesis by (auto simp: from_pkcs8_pem_def)
qed (use assms in \<open>auto simp: pkcs8_ok_def from_pkcs8_pem_def Let_def\<close>)

subsection \<open>A concrete library for the witnesses\<close>

text \<open>
  Handles carry their modulus length in front; PEM text is a one-letter label and the handle;
  digests are the message cut or zero padded to the digest length, with its last byte counted in.
\<close>

definition chars_of :: "bytes \<Rightarrow> string" where
  "chars_of bs = map (\<lambda>b. char_of (unat b)) bs"

definition bytes_of :: "string \<Rightarrow> bytes" where
  "bytes_of s = map (\<lambda>c. word_of_nat (of_char c)) s"

lemma bytes_of_chars_of [simp]: "bytes_of (chars_of bs) = bs"
proof -
  have "(word_of_nat (of_char (char_of (unat b) :: char)) :: u8) = b" for b :: u8
  proof -
    have "unat b < 256" using unsigned_less [of b] by simp
    then have "(of_char (char_of (unat b) :: char) :: nat) = unat b" by simp
    then show ?thesis by (simp only: of_nat_unat ucast_id)
  qed
  then show ?thesis by (simp add: bytes_of_def chars_of_def comp_def map_idI)
qed

definition sample_digest :: "nat \<Rightarrow> bytes \<Rightarrow> bytes" where
  "sample_digest n bs = take n (bs @ replicate n 0)"

lemma length_sample_digest [simp]: "length (sample_digest n bs) = n"
  by (simp add: sample_digest_def)

definition sample_crypto :: crypto_lib where
  "sample_crypto = \<lparr>
     sha2_256 = sample_digest 32, sha2_384 = sample_digest 48, sha2_512 = sample_digest 64,
     rsa_new = (\<lambda>g n. if n mod 256 = 0 \<and> n div 256 < 256 then Inr [word_of_nat (n div 256), word_of_nat g] else Inl ''bad size''),
     rsa_n_bits = (\<lambda>k. case k of [] \<Rightarrow> 0 | b # _ \<Rightarrow> 256 * unat b),
     rsa_to_pem = (\<lambda>k. Inr (CHR ''R'' # chars_of k)),
     rsa_from_pem = (\<lambda>s. case s of c # cs \<Rightarrow> if c = CHR ''R'' then Inr (bytes_of cs) else Inl ''not rsa'' | [] \<Rightarrow> Inl ''empty''),
     rsa_to_der = (\<lambda>k. Inr (0x30 # k)),
     rsa_public_der = (\<lambda>k. Inr (0x31 # k)),
     p256_random = (\<lambda>g. [word_of_nat g]),
     p256_to_pem = (\<lambda>k. Inr (CHR ''E'' # chars_of k)),
     p256_from_pem = (\<lambda>s. case s of c # cs \<Rightarrow> if c = CHR ''E'' then Inr (bytes_of cs) else Inl ''not ec'' | [] \<Rightarrow> Inl ''empty''),
     p256_to_der = (\<lambda>k. Inr (0x32 # k)),
     p256_public_der = (\<lambda>k. Inr (0x33 # k))\<rparr>"

lemma sample_pkcs8_ok: "pkcs8_ok sample_crypto"
  by (auto simp: pkcs8_ok_def sample_crypto_def)

lemma sample_rsa_new_ok: "rsa_new_ok sample_crypto"
proof -
  have "256 * unat (word_of_nat (n div 256) :: u8) = n" if "n mod 256 = 0" "n div 256 < 256" for n :: nat
  proof -
    have "unat (word_of_nat (n div 256) :: u8) = n div 256"
      using that(2) by (simp add: unat_of_nat)
    with that(1) show ?thesis by auto
  qed
  then show ?thesis by (auto simp: rsa_new_ok_def sample_crypto_def split: if_splits)
qed

lemma sample_sha2_ok: "sha2_ok sample_crypto"
  by (simp add: sha2_ok_def sample_crypto_def)

subsection \<open>Properties\<close>

text \<open>
  A private key generated for an algorithm has that algorithm's constructor and modulus length,
  and exporting it as PKCS#8 PEM and importing the text gives the same key back, for every algorithm.
\<close>
theorem generated_key_pem_roundtrip:
  assumes "pkcs8_ok C" and "rsa_new_ok C"
    and "gen_private_key C g a = Ok k" and "to_pkcs8_pem C k = Ok pem"
  shows "key_algo k = a \<and> key_wf C k \<and> from_pkcs8_pem C pem = Ok k"
  using gen_private_key_wf [OF assms(2,3)] pem_read_back [OF assms(1) _ assms(4)] by blast

theorem generated_key_pem_roundtrip_witness:
  "key_algo (Rsa3072 [12, 5]) = AlgoRsa3072 \<and> key_wf sample_crypto (Rsa3072 [12, 5]) \<and>
   from_pkcs8_pem sample_crypto (CHR ''R'' # chars_of [12, 5]) = Ok (Rsa3072 [12, 5])"
  by (rule generated_key_pem_roundtrip [OF sample_pkcs8_ok sample_rsa_new_ok, where g = 5])
     (simp_all add: sample_crypto_def)

text \<open>
  Importing a PEM text never panics: it returns a key whose constructor agrees with the modulus
  length the library reports, or fails with kind \<open>ParsePrivateKey\<close>; an RSA document with any other
  modulus length is refused even if it would also parse as P-256.
\<close>
theorem from_pkcs8_pem_classifies:
  "(case from_pkcs8_pem C pem of
      Ok (P256 key) \<Rightarrow> (\<exists>e. rsa_from_pem C pem = Inl e) \<and> p256_from_pem C pem = Inr key
    | Ok k \<Rightarrow> key_wf C k \<and> (\<exists>key. rsa_from_pem C pem = Inr key \<and> k \<in> {Rsa2048 key, Rsa3072 key, Rsa4096 key})
    | Err e \<Rightarrow> err_kind e = ParsePrivateKey \<and>
        ((\<exists>e'. p256_from_pem C pem = Inl e') \<and> (\<exists>e'. rsa_from_pem C pem = Inl e') \<or>
         (\<exists>key. rsa_from_pem C pem = Inr key \<and> rsa_n_bits C key \<notin> {2048, 3072, 4096}))
    | _ \<Rightarrow> False)"
proof (cases "rsa_from_pem C pem")
  case (Inl e)
  then show ?thesis
    by (cases "p256_from_pem C pem") (simp_all add: from_pkcs8_pem_def res_context_Err with_msg_def with_kind_def)
next
  case (Inr key)
  then show ?thesis by (simp add: from_pkcs8_pem_def Let_def)
qed

end
