(* ===== verification/Cbor.thy ===== *)
theory Cbor
  imports Claims Crypto
begin

text \<open>
  \<^verbatim>\<open>rats-rs/src/cert/dice/cbor.rs\<close>: the CBOR messages that carry the evidence, the custom claims and
  the public key hash. The CBOR crate \<open>ciborium\<close> is the parameter \<open>cbor_lib\<close>: \<open>into_writer\<close> and
  \<open>from_reader\<close> at the types the code uses them with. What the code itself does, the conversion of
  its structures from and to \<open>ciborium::Value\<close> and the IANA hash identifiers, is modelled here.
\<close>

definition OCBR_TAG_EVIDENCE_INTEL_TEE_QUOTE :: u64 where
  "OCBR_TAG_EVIDENCE_INTEL_TEE_QUOTE = 60000"

definition OCBR_TAG_EVIDENCE_INTEL_TEE_REPORT :: u64 where
  "OCBR_TAG_EVIDENCE_INTEL_TEE_REPORT = 60001"

definition OCBR_TAG_EVIDENCE_INTEL_SGX_LEGACY_REPORT :: u64 where
  "OCBR_TAG_EVIDENCE_INTEL_SGX_LEGACY_REPORT = 60002"

text \<open>\<open>ciborium::Value\<close>.\<close>

datatype cbor_value =
    CInteger int
  | CBytes bytes
  | CFloat u64
  | CText string
  | CBool bool
  | CNull
  | CTag u64 cbor_value
  | CArray "cbor_value list"
  | CMap "(cbor_value \<times> cbor_value) list"

record cbor_lib =
  into_writer :: "cbor_value \<Rightarrow> string + bytes"
  from_reader :: "bytes \<Rightarrow> string + cbor_value"
  claims_from_reader :: "bytes \<Rightarrow> string + claims"
  u8_bytes_into_writer :: "u8 \<times> bytes \<Rightarrow> string + bytes"
  u8_bytes_from_reader :: "bytes \<Rightarrow> string + u8 \<times> bytes"

subsection \<open>Hash algorithm identifiers\<close>

definition hash_algo_try_from :: "u8 \<Rightarrow> hash_algo res" where
  "hash_algo_try_from value =
     (if value = 1 then Ok Sha256
      else if value = 7 then Ok Sha384
      else if value = 8 then Ok Sha512
      else Err (kind_with_msg UnsupportedHashAlgo ''unsupported hash-alg-id: {}''))"

fun hash_algo_into :: "hash_algo \<Rightarrow> u8" where
  "hash_algo_into Sha256 = 1"
| "hash_algo_into Sha384 = 7"
| "hash_algo_into Sha512 = 8"

subsection \<open>The tagged evidence buffer\<close>

text \<open>\<open>Serialize for TaggedEvidenceBufferHelperRef\<close>: the value that is written.\<close>

definition evidence_value :: "u64 \<Rightarrow> bytes \<Rightarrow> bytes \<Rightarrow> cbor_value" where
  "evidence_value tag evidence claims_buffer =
     CTag tag (CArray [CBytes evidence, CBytes claims_buffer])"

text \<open>\<open>Deserialize for TaggedEvidenceBufferHelperOwned\<close>, from the value that was read.\<close>

definition expect_bytes :: "string \<Rightarrow> cbor_value \<Rightarrow> string + bytes" where
  "expect_bytes what v = (case v of CBytes bs \<Rightarrow> Inr bs | _ \<Rightarrow> Inl (''invalid type, expected '' @ what))"

definition evidence_of_value :: "cbor_value \<Rightarrow> string + u64 \<times> bytes \<times> bytes" where
  "evidence_of_value tagged =
     (case tagged of
        CTag tag any \<Rightarrow>
          (case any of
             CArray a \<Rightarrow>
               (case a of
                  [a_0, a_1] \<Rightarrow>
                    (case expect_bytes ''bytes (raw_evidence)'' a_0 of
                       Inl e \<Rightarrow> Inl e
                     | Inr evidence \<Rightarrow>
                         (case expect_bytes ''bytes (claims_buffer)'' a_1 of
                            Inl e \<Rightarrow> Inl e
                          | Inr claims_buffer \<Rightarrow> Inr (tag, evidence, claims_buffer)))
                | _ \<Rightarrow> Inl ''invalid type, expected an array with length 2'')
           | _ \<Rightarrow> Inl ''invalid type, expected array'')
      | _ \<Rightarrow> Inl ''invalid type, expected tag'')"

definition generate_evidence_buffer_with_tag :: "cbor_lib \<Rightarrow> u64 \<Rightarrow> bytes \<Rightarrow> bytes \<Rightarrow> bytes res" where
  "generate_evidence_buffer_with_tag B tag raw_evidence claims_buffer =
     lift_ext (into_writer B (evidence_value tag raw_evidence claims_buffer))"

definition parse_evidence_buffer_with_tag :: "cbor_lib \<Rightarrow> bytes \<Rightarrow> (u64 \<times> bytes \<times> bytes) res" where
  "parse_evidence_buffer_with_tag B evidence_buffer =
     andthen (lift_ext (from_reader B evidence_buffer)) (\<lambda>v. lift_ext (evidence_of_value v))"

subsection \<open>The claims buffer\<close>

text \<open>\<open>Serialize for ClaimsHelper\<close>: every value is written as a byte string.\<close>

definition claims_value :: "claims \<Rightarrow> cbor_value" where
  "claims_value cl = CMap (map (\<lambda>(k, v). (CText k, CBytes v)) cl)"

definition generate_claims_buffer :: "cbor_lib \<Rightarrow> claims \<Rightarrow> bytes res" where
  "generate_claims_buffer B claims = lift_ext (into_writer B (claims_value claims))"

definition parse_claims_buffer :: "cbor_lib \<Rightarrow> bytes \<Rightarrow> claims res" where
  "parse_claims_buffer B claims_buffer = lift_ext (claims_from_reader B claims_buffer)"

subsection \<open>The public key hash claim\<close>

definition generate_pubkey_hash_value_buffer :: "cbor_lib \<Rightarrow> hash_algo \<Rightarrow> bytes \<Rightarrow> bytes res" where
  "generate_pubkey_hash_value_buffer B hash_algo hash_bytes =
     lift_ext (u8_bytes_into_writer B (hash_algo_into hash_algo, hash_bytes))"

definition parse_pubkey_hash_value_buffer :: "cbor_lib \<Rightarrow> bytes \<Rightarrow> (hash_algo \<times> bytes) res" where
  "parse_pubkey_hash_value_buffer B buf =
     andthen (lift_ext (u8_bytes_from_reader B buf)) (\<lambda>(hash_algo_id, hash_bytes).
     andthen (hash_algo_try_from hash_algo_id) (\<lambda>algo. Ok (algo, hash_bytes)))"

subsection \<open>What the code relies on\<close>

text \<open>
  \<open>ciborium\<close> reads back what it wrote, at the four message types of the code: a tagged pair of byte
  strings (tags 2 and 3 are CBOR big numbers and read as such), a text-to-bytes map without
  duplicate keys, a \<open>u8\<close> with a byte string. Deserialising an \<open>IndexMap\<close> never yields a duplicate key.
\<close>

definition cbor_ok :: "cbor_lib \<Rightarrow> bool" where
  "cbor_ok B \<longleftrightarrow>
     (\<forall>tag a b buf. tag \<notin> {2, 3} \<longrightarrow> into_writer B (CTag tag (CArray [CBytes a, CBytes b])) = Inr buf \<longrightarrow>
        from_reader B buf = Inr (CTag tag (CArray [CBytes a, CBytes b]))) \<and>
     (\<forall>cl buf. distinct (map fst cl) \<longrightarrow> into_writer B (CMap (map (\<lambda>(k, v). (CText k, CBytes v)) cl)) = Inr buf \<longrightarrow>
        claims_from_reader B buf = Inr cl) \<and>
     (\<forall>buf cl. claims_from_reader B buf = Inr cl \<longrightarrow> distinct (map fst cl)) \<and>
     (\<forall>p buf. u8_bytes_into_writer B p = Inr buf \<longrightarrow> u8_bytes_from_reader B buf = Inr p)"

lemma hash_algo_id_roundtrip [simp]: "hash_algo_try_from (hash_algo_into a) = Ok a"
  by (cases a) (simp_all add: hash_algo_try_from_def)

lemma hash_algo_try_from_eq_Ok: "hash_algo_try_from v = Ok a \<longleftrightarrow> v = hash_algo_into a"
  by (cases a) (auto simp: hash_algo_try_from_def)

lemma hash_algo_try_from_cases:
  "hash_algo_try_from v \<noteq> Panic" "hash_algo_try_from v \<noteq> UB"
  by (auto simp: hash_algo_try_from_def)

lemma expect_bytes_eq_Inr [simp]: "expect_bytes what v = Inr bs \<longleftrightarrow> v = CBytes bs"
  by (cases v) (simp_all add: expect_bytes_def)

lemma evidence_of_value_write [simp]: "evidence_of_value (evidence_value tag e c) = Inr (tag, e, c)"
  by (simp add: evidence_of_value_def evidence_value_def expect_bytes_def)

lemma evidence_of_array:
  "evidence_of_value (CTag tag (CArray a)) = Inr r \<Longrightarrow> \<exists>e c. a = [CBytes e, CBytes c] \<and> r = (tag, e, c)"
  by (cases a rule: remdups_adj.cases)
     (auto simp: evidence_of_value_def split: list.splits sum.splits)

lemma evidence_of_value_eq_Inr:
  "evidence_of_value v = Inr (tag, e, c) \<longleftrightarrow> v = evidence_value tag e c"
proof
  assume read: "evidence_of_value v = Inr (tag, e, c)"
  then obtain t any where v: "v = CTag t any"
    by (cases v) (simp_all add: evidence_of_value_def)
  with read obtain a where "any = CArray a"
    by (cases any) (simp_all add: evidence_of_value_def)
  with v read show "v = evidence_value tag e c"
    by (auto simp: evidence_value_def dest!: evidence_of_array)
qed simp

lemma parse_evidence_read_back:
  assumes "cbor_ok B" and "tag \<notin> {2, 3}" and "generate_evidence_buffer_with_tag B tag e c = Ok buf"
  shows "parse_evidence_buffer_with_tag B buf = Ok (tag, e, c)"
proof -
  from assms(3) have "into_writer B (evidence_value tag e c) = Inr buf"
    by (simp add: generate_evidence_buffer_with_tag_def)
  with assms(1,2) have "from_reader B buf = Inr (evidence_value tag e c)"
    unfolding cbor_ok_def evidence_value_def by blast
  then show ?thesis by (simp add: parse_evidence_buffer_with_tag_def)
qed

lemma cbor_ok_claims:
  "cbor_ok B \<Longrightarrow> claims_wf cl \<Longrightarrow> into_writer B (claims_value cl) = Inr buf \<Longrightarrow> claims_from_reader B buf = Inr cl"
  unfolding cbor_ok_def claims_wf_def claims_value_def by blast

lemma cbor_ok_keys: "cbor_ok B \<Longrightarrow> claims_from_reader B buf = Inr cl \<Longrightarrow> claims_wf cl"
  unfolding cbor_ok_def claims_wf_def by blast

lemma cbor_ok_pair: "cbor_ok B \<Longrightarrow> u8_bytes_into_writer B p = Inr buf \<Longrightarrow> u8_bytes_from_reader B buf = Inr p"
  unfolding cbor_ok_def by blast

lemma parse_claims_read_back:
  "cbor_ok B \<Longrightarrow> claims_wf cl \<Longrightarrow> generate_claims_buffer B cl = Ok buf \<Longrightarrow>
   parse_claims_buffer B buf = Ok cl"
  unfolding generate_claims_buffer_def parse_claims_buffer_def lift_ext_eq_Ok by (rule cbor_ok_claims)

lemma parse_claims_wf: "cbor_ok B \<Longrightarrow> parse_claims_buffer B buf = Ok cl \<Longrightarrow> claims_wf cl"
  unfolding parse_claims_buffer_def lift_ext_eq_Ok by (rule cbor_ok_keys)

lemma parse_pubkey_hash_read_back:
  "cbor_ok B \<Longrightarrow> generate_pubkey_hash_value_buffer B a h = Ok buf \<Longrightarrow>
   parse_pubkey_hash_value_buffer B buf = Ok (a, h)"
  unfolding generate_pubkey_hash_value_buffer_def lift_ext_eq_Ok
  by (drule (1) cbor_ok_pair) (simp add: parse_pubkey_hash_value_buffer_def)

lemma parse_pubkey_hash_total:
  "parse_pubkey_hash_value_buffer B buf \<noteq> Panic" "parse_pubkey_hash_value_buffer B buf \<noteq> UB"
  by (auto simp: parse_pubkey_hash_value_buffer_def andthen_inv hash_algo_try_from_cases)

end
