(* ===== verification/Dice.thy ===== *)
theory Dice
  imports Cbor
begin

text \<open>
  \<^verbatim>\<open>rats-rs/src/cert/dice/extensions.rs\<close> and \<^verbatim>\<open>rats-rs/src/cert/dice/mod.rs\<close>: the two DICE extensions
  and \<open>generate_and_sign_dice_cert\<close>. The crates \<open>x509_cert\<close>, \<open>rsa\<close> and \<open>p256\<close> are the parameter
  \<open>x509_lib\<close>. A \<open>CertificateBuilder\<close> of the library is the record of the calls made on it so far
  (\<open>cert_request\<close>); whether a call succeeds and what is built are functions of these calls, given by
  the library. \<open>add_extension\<close> asks an extension for its value through the trait \<open>AsExtension\<close>, which
  the code implements for its own two types: their \<open>to_extension\<close> is modelled, the library's types
  (\<open>lib_ext\<close>) are named only.
\<close>

type_synonym oid = string
type_synonym x509_name = bytes
type_synonym spki = bytes

record x509_extension =
  extn_id :: oid
  critical :: bool
  extn_value :: bytes

text \<open>\<open>tbs_rest\<close> stands for the fields the code never reads (version, serial number, validity).\<close>

record tbs_certificate =
  tbs_signature_oid :: oid
  tbs_issuer :: x509_name
  tbs_subject :: x509_name
  tbs_spki :: spki
  tbs_extensions :: "x509_extension list option"
  tbs_rest :: bytes

text \<open>\<open>cert_signature\<close> is what \<open>signature.as_bytes()\<close> returns: \<open>None\<close> for an odd bit string.\<close>

record certificate =
  tbs :: tbs_certificate
  signature_algorithm_oid :: oid
  cert_signature :: "bytes option"

datatype key_usage = KeyCertSign | CRLSign | DigitalSignature

datatype lib_ext =
    SubjectKeyIdentifier bytes
  | BasicConstraints bool "nat option"
  | KeyUsage "key_usage list"

datatype ext_obj = LibExt lib_ext | OwnExt x509_extension

datatype profile = ProfileManual "x509_name option"

text \<open>The signing keys: PKCS#1 v1.5 with a hash, or ECDSA on P-256 with DER signatures.\<close>

datatype signer = RsaSigner hash_algo rsa_private_key | P256Signer p256_secret_key

record cert_request =
  req_profile :: profile
  req_serial :: u32
  req_validity :: bytes
  req_subject :: x509_name
  req_spki :: spki
  req_signer :: signer
  req_extensions :: "ext_obj list"

record x509_lib =
  cert_from_der :: "bytes \<Rightarrow> string + certificate"
  cert_to_der_lib :: "certificate \<Rightarrow> string + bytes"
  cert_to_pem_lib :: "certificate \<Rightarrow> string + string"
  tbs_to_der :: "tbs_certificate \<Rightarrow> string + bytes"
  spki_to_der :: "spki \<Rightarrow> string + bytes"
  validity_from_now :: "nat \<Rightarrow> string + bytes"
  name_from_str :: "string \<Rightarrow> string + x509_name"
  spki_from_rsa :: "rsa_private_key \<Rightarrow> string + spki"
  spki_from_p256 :: "p256_secret_key \<Rightarrow> string + spki"
  ski_try_from :: "spki \<Rightarrow> string + bytes"
  octet_string_new :: "bytes \<Rightarrow> string + bytes"
  builder_new :: "cert_request \<Rightarrow> string + unit"
  builder_add_extension :: "cert_request \<Rightarrow> string + unit"
  builder_build :: "cert_request \<Rightarrow> string + certificate"
  rsa_public_try_from :: "spki \<Rightarrow> string + bytes"
  pkcs1v15_signature_try_from :: "bytes \<Rightarrow> string + bytes"
  pkcs1v15_verify :: "hash_algo \<Rightarrow> bytes \<Rightarrow> bytes \<Rightarrow> bytes \<Rightarrow> string + unit"
  p256_signature_try_from :: "bytes \<Rightarrow> string + bytes"
  p256_public_try_from :: "spki \<Rightarrow> string + bytes"
  p256_verify :: "bytes \<Rightarrow> bytes \<Rightarrow> bytes \<Rightarrow> string + unit"

subsection \<open>extensions.rs\<close>

definition OID_TCG_DICE_TAGGED_EVIDENCE :: oid where
  "OID_TCG_DICE_TAGGED_EVIDENCE = ''2.23.133.5.4.9''"

definition OID_TCG_DICE_ENDORSEMENT_MANIFEST :: oid where
  "OID_TCG_DICE_ENDORSEMENT_MANIFEST = ''2.23.133.5.4.2''"

text \<open>\<open>encoded_len\<close> casts the length to \<open>u16\<close>; \<open>encode\<close> writes the bytes as they are.\<close>

definition dice_evidence_encoded_len :: "bytes \<Rightarrow> u16" where
  "dice_evidence_encoded_len data = word_of_nat (length data)"

definition dice_evidence_to_extension :: "x509_lib \<Rightarrow> bytes \<Rightarrow> string + x509_extension" where
  "dice_evidence_to_extension X data =
     (case octet_string_new X data of
        Inl e \<Rightarrow> Inl e
      | Inr content \<Rightarrow> Inr \<lparr>extn_id = OID_TCG_DICE_TAGGED_EVIDENCE, critical = False, extn_value = content\<rparr>)"

definition dice_endorsement_encoded_len :: "bytes \<Rightarrow> u16" where
  "dice_endorsement_encoded_len data = word_of_nat (length data)"

definition dice_endorsement_to_extension :: "x509_lib \<Rightarrow> bytes \<Rightarrow> string + x509_extension" where
  "dice_endorsement_to_extension X data =
     (case octet_string_new X data of
        Inl e \<Rightarrow> Inl e
      | Inr content \<Rightarrow> Inr \<lparr>extn_id = OID_TCG_DICE_ENDORSEMENT_MANIFEST, critical = False, extn_value = content\<rparr>)"

text \<open>The cast is lossless only below 64 KiB; \<open>to_extension\<close> does not go through it.\<close>

lemma dice_encoded_len_exact:
  "unat (dice_evidence_encoded_len data) = length data \<longleftrightarrow> length data < 65536"
  "unat (dice_endorsement_encoded_len data) = length data \<longleftrightarrow> length data < 65536"
  by (simp_all add: dice_evidence_encoded_len_def dice_endorsement_encoded_len_def unat_of_nat mod_eq_self_iff_div_eq_0
      div_eq_0_iff)

subsection \<open>generate_and_sign_dice_cert\<close>

definition gen_cert_step :: "string \<Rightarrow> string + 'a \<Rightarrow> 'a res" where
  "gen_cert_step c r = res_context c (res_kind GenCertError (lift_ext r))"

text \<open>\<open>builder.add_extension(&obj)\<close>: the object's value first, then the builder's own checks.\<close>

definition add_extension :: "x509_lib \<Rightarrow> string \<Rightarrow> cert_request \<Rightarrow> string + ext_obj \<Rightarrow> cert_request res" where
  "add_extension X c req obj =
     gen_cert_step c (case obj of
         Inl e \<Rightarrow> Inl e
       | Inr x \<Rightarrow>
           (let req' = req\<lparr>req_extensions := req_extensions req @ [x]\<rparr>
            in case builder_add_extension X req' of Inl e \<Rightarrow> Inl e | Inr _ \<Rightarrow> Inr req'))"

definition own_ext :: "string + x509_extension \<Rightarrow> string + ext_obj" where
  "own_ext r = (case r of Inl e \<Rightarrow> Inl e | Inr x \<Rightarrow> Inr (OwnExt x))"

definition build_with_signer ::
    "x509_lib \<Rightarrow> cert_request \<Rightarrow> bytes \<Rightarrow> bytes option \<Rightarrow> certificate res" where
  "build_with_signer X req evidence_buffer endorsements_buffer =
     andthen (gen_cert_step ''failed to create certificate builder'' (builder_new X req)) (\<lambda>_.
     andthen (lift_ext (ski_try_from X (req_spki req))) (\<lambda>ski.
     andthen (add_extension X ''failed to add evidence extension'' req (Inr (LibExt (SubjectKeyIdentifier ski)))) (\<lambda>req.
     andthen (add_extension X ''failed to add evidence extension'' req (Inr (LibExt (BasicConstraints True None)))) (\<lambda>req.
     andthen (add_extension X ''failed to add evidence extension'' req
       (Inr (LibExt (KeyUsage [KeyCertSign, CRLSign, DigitalSignature])))) (\<lambda>req.
     andthen (add_extension X ''failed to add evidence extension'' req
       (own_ext (dice_evidence_to_extension X evidence_buffer))) (\<lambda>req.
     andthen (case endorsements_buffer of
         Some b \<Rightarrow> add_extension X ''failed to add endorsement extension'' req
           (own_ext (dice_endorsement_to_extension X b))
       | None \<Rightarrow> Ok req) (\<lambda>req.
     gen_cert_step ''failed to create certificate'' (builder_build X req))))))))"

fun signer_of :: "hash_algo \<Rightarrow> asymmetric_private_key \<Rightarrow> signer" where
  "signer_of h (Rsa2048 key) = RsaSigner h key"
| "signer_of h (Rsa3072 key) = RsaSigner h key"
| "signer_of h (Rsa4096 key) = RsaSigner h key"
| "signer_of h (P256 key) = P256Signer key"

fun spki_from_key :: "x509_lib \<Rightarrow> asymmetric_private_key \<Rightarrow> string + spki" where
  "spki_from_key X (Rsa2048 key) = spki_from_rsa X key"
| "spki_from_key X (Rsa3072 key) = spki_from_rsa X key"
| "spki_from_key X (Rsa4096 key) = spki_from_rsa X key"
| "spki_from_key X (P256 key) = spki_from_p256 X key"

definition generate_and_sign_dice_cert ::
    "x509_lib \<Rightarrow> string \<Rightarrow> hash_algo \<Rightarrow> asymmetric_private_key \<Rightarrow> bytes \<Rightarrow> bytes option \<Rightarrow> certificate res" where
  "generate_and_sign_dice_cert X subject hash_algo private_key evidence_buffer endorsements_buffer =
     andthen (gen_cert_step ''bad validity value'' (validity_from_now X 60)) (\<lambda>validity.
     andthen (gen_cert_step (''bad subject value `'' @ subject @ ''`'') (name_from_str X subject)) (\<lambda>subject.
     andthen (gen_cert_step ''failed to create SubjectPublicKeyInfo'' (spki_from_key X private_key)) (\<lambda>pub_key_info.
     build_with_signer X
       \<lparr>req_profile = ProfileManual None, req_serial = 42, req_validity = validity, req_subject = subject,
        req_spki = pub_key_info, req_signer = signer_of hash_algo private_key, req_extensions = []\<rparr>
       evidence_buffer endorsements_buffer)))"

subsection \<open>What the code relies on\<close>

fun lib_ext_oid :: "lib_ext \<Rightarrow> oid" where
  "lib_ext_oid (SubjectKeyIdentifier _) = ''2.5.29.14''"
| "lib_ext_oid (BasicConstraints _ _) = ''2.5.29.19''"
| "lib_ext_oid (KeyUsage _) = ''2.5.29.15''"

fun ext_written :: "ext_obj \<Rightarrow> x509_extension \<Rightarrow> bool" where
  "ext_written (LibExt l) e = (extn_id e = lib_ext_oid l)"
| "ext_written (OwnExt x) e = (e = x)"

text \<open>
  \<open>OctetString::new\<close> keeps its bytes. The builder puts the subject, the key and the extensions it was
  given, in this order, into the certificate, and for \<open>Profile::Manual\<close> without issuer the subject is
  the issuer.
\<close>

definition builder_ok :: "x509_lib \<Rightarrow> bool" where
  "builder_ok X \<longleftrightarrow>
     (\<forall>b v. octet_string_new X b = Inr v \<longrightarrow> v = b) \<and>
     (\<forall>req cert. builder_build X req = Inr cert \<longrightarrow>
        tbs_subject (tbs cert) = req_subject req \<and>
        tbs_issuer (tbs cert) = (case req_profile req of ProfileManual i \<Rightarrow> (case i of None \<Rightarrow> req_subject req | Some n \<Rightarrow> n)) \<and>
        tbs_spki (tbs cert) = req_spki req \<and>
        (\<exists>exts. tbs_extensions (tbs cert) = Some exts \<and> list_all2 ext_written (req_extensions req) exts))"

lemma gen_cert_step_eq [simp]:
  "gen_cert_step c r = Ok x \<longleftrightarrow> r = Inr x" "gen_cert_step c r \<noteq> Panic" "gen_cert_step c r \<noteq> UB"
  by (simp_all add: gen_cert_step_def)

lemma gen_cert_step_kind: "gen_cert_step c r = Err e \<Longrightarrow> err_kind e = GenCertError"
  by (cases r) (auto simp: gen_cert_step_def res_context_Err with_kind_def with_msg_def)

lemma add_extension_eq_Ok:
  "add_extension X c req obj = Ok req' \<longleftrightarrow>
   (\<exists>x. obj = Inr x \<and> req' = req\<lparr>req_extensions := req_extensions req @ [x]\<rparr> \<and>
        (\<exists>u. builder_add_extension X req' = Inr u))"
  by (cases obj) (auto simp: add_extension_def Let_def split: sum.splits)

lemma add_extension_total [simp]: "add_extension X c req obj \<noteq> Panic" "add_extension X c req obj \<noteq> UB"
  by (simp_all add: add_extension_def)

lemma own_ext_eq_Inr [simp]: "own_ext r = Inr x \<longleftrightarrow> (\<exists>e. r = Inr e \<and> x = OwnExt e)"
  by (cases r) (auto simp: own_ext_def)

lemma dice_to_extension_eq:
  "builder_ok X \<Longrightarrow> dice_evidence_to_extension X b = Inr e \<Longrightarrow>
     e = \<lparr>extn_id = OID_TCG_DICE_TAGGED_EVIDENCE, critical = False, extn_value = b\<rparr>"
  "builder_ok X \<Longrightarrow> dice_endorsement_to_extension X b = Inr e \<Longrightarrow>
     e = \<lparr>extn_id = OID_TCG_DICE_ENDORSEMENT_MANIFEST, critical = False, extn_value = b\<rparr>"
  unfolding builder_ok_def dice_evidence_to_extension_def dice_endorsement_to_extension_def
  by (auto split: sum.splits)

text \<open>The extensions of a certificate that was built, in the order of the \<open>add_extension\<close> calls.\<close>

definition dice_exts :: "bytes \<Rightarrow> bytes \<Rightarrow> bytes option \<Rightarrow> ext_obj list" where
  "dice_exts ski evidence endorsements =
     [LibExt (SubjectKeyIdentifier ski), LibExt (BasicConstraints True None),
      LibExt (KeyUsage [KeyCertSign, CRLSign, DigitalSignature]),
      OwnExt \<lparr>extn_id = OID_TCG_DICE_TAGGED_EVIDENCE, critical = False, extn_value = evidence\<rparr>] @
     (case endorsements of None \<Rightarrow> [] | Some b \<Rightarrow>
        [OwnExt \<lparr>extn_id = OID_TCG_DICE_ENDORSEMENT_MANIFEST, critical = False, extn_value = b\<rparr>])"

lemma build_with_signer_Ok:
  assumes "builder_ok X" and "build_with_signer X req ev en = Ok cert" and "req_extensions req = []"
  shows "\<exists>ski. ski_try_from X (req_spki req) = Inr ski \<and>
    builder_build X (req\<lparr>req_extensions := dice_exts ski ev en\<rparr>) = Inr cert"
proof (cases en)
  case None
  with assms show ?thesis
    by (auto simp: build_with_signer_def add_extension_eq_Ok dice_exts_def dest!: dice_to_extension_eq(1) [OF assms(1)])
next
  case (Some b)
  with assms show ?thesis
    by (auto simp: build_with_signer_def add_extension_eq_Ok dice_exts_def
        dest!: dice_to_extension_eq [OF assms(1)])
qed

lemma generate_and_sign_Ok:
  assumes "builder_ok X" and "generate_and_sign_dice_cert X subject h k ev en = Ok cert"
  shows "\<exists>v n s ski. name_from_str X subject = Inr n \<and> spki_from_key X k = Inr s \<and>
    builder_build X \<lparr>req_profile = ProfileManual None, req_serial = 42, req_validity = v, req_subject = n,
        req_spki = s, req_signer = signer_of h k, req_extensions = dice_exts ski ev en\<rparr> = Inr cert"
proof -
  from assms(2) obtain v n s where "name_from_str X subject = Inr n" "spki_from_key X k = Inr s"
    and b: "build_with_signer X \<lparr>req_profile = ProfileManual None, req_serial = 42, req_validity = v, req_subject = n,
        req_spki = s, req_signer = signer_of h k, req_extensions = []\<rparr> ev en = Ok cert"
    by (auto simp: generate_and_sign_dice_cert_def)
  with build_with_signer_Ok [OF assms(1) b] show ?thesis by auto
qed

lemma generate_and_sign_total:
  "generate_and_sign_dice_cert X subject h k ev en \<noteq> Panic" "generate_and_sign_dice_cert X subject h k ev en \<noteq> UB"
  by (cases en; simp add: generate_and_sign_dice_cert_def build_with_signer_def andthen_inv)+

end
