(* ===== verification/Dcap.thy ===== *)
theory Dcap
  imports Cbor
begin

text \<open>
  What the SGX and TDX modules share: the quote structures of the Intel headers as bindgen generates
  them for \<^verbatim>\<open>intel-dcap\<close> (a parameter, \<open>dcap_layout\<close>: sizes of the structs and place of each field),
  the unsafe reads of such a struct out of a byte vector, the report data comparison, and the call of
  the Intel quote verification library (the parameter \<open>qvl\<close>) by \<open>ecdsa_quote_verification\<close>, which
  \<^verbatim>\<open>tee/sgx_dcap/verifier.rs\<close> and \<^verbatim>\<open>tee/tdx/verifier.rs\<close> contain in two copies that differ in the
  error kinds only.

  A reference \<open>&*(p as *const T)\<close> is only defined when \<open>size_of::<T>()\<close> bytes are owned behind \<open>p\<close>:
  \<open>deref\<close> yields \<open>UB\<close> otherwise. Reading a field of a valid struct reference is always defined. The
  structs are packed, so there is no alignment condition; the target is little endian.
\<close>

type_synonym field = "nat \<times> nat"  \<comment> \<open>offset in the struct, size in bytes\<close>

record report2_layout =
  r2_size :: nat
  r2_tee_tcb_svn :: field
  r2_mr_seam :: field
  r2_mrsigner_seam :: field
  r2_seam_attributes :: field
  r2_td_attributes :: field
  r2_xfam :: field
  r2_mr_td :: field
  r2_mr_config_id :: field
  r2_mr_owner :: field
  r2_mr_owner_config :: field
  r2_rt_mr :: "nat \<Rightarrow> field"
  r2_report_data :: field

record report2_v1_5_layout = report2_layout +
  r2_tee_tcb_svn2 :: field
  r2_mr_servicetd :: field

record dcap_layout =
  sz_quote4_header :: nat
  hd_version :: field
  hd_att_key_type :: field
  hd_tee_type :: field
  sz_quote3 :: nat
  q3_signature_data_len :: field
  q3_cpu_svn :: field
  q3_isv_ext_prod_id :: field
  q3_attributes :: field
  q3_mr_enclave :: field
  q3_mr_signer :: field
  q3_config_id :: field
  q3_isv_prod_id :: field
  q3_isv_svn :: field
  q3_config_svn :: field
  q3_isv_family_id :: field
  q3_report_data :: field
  sz_quote4 :: nat
  q4_signature_data_len :: field
  q4_report_body_at :: nat
  sz_quote5 :: nat
  q5_type :: field
  q5_size :: field
  q5_body_at :: nat
  report2 :: report2_layout
  report2_v1_5 :: report2_v1_5_layout
  dead_local :: "string \<Rightarrow> bytes \<Rightarrow> nat \<Rightarrow> u8"

text \<open>A struct value is the bytes it occupies; a field of it is the bytes at the field's place.\<close>

definition get_field :: "bytes \<Rightarrow> field \<Rightarrow> bytes" where
  "get_field s f = slice (fst f) (snd f) s"

definition field_nat :: "bytes \<Rightarrow> field \<Rightarrow> nat" where
  "field_nat s f = le_nat (get_field s f)"

definition deref :: "bytes \<Rightarrow> nat \<Rightarrow> nat \<Rightarrow> bytes res" where
  "deref data off n = (if off + n \<le> length data then Ok (slice off n data) else UB)"

lemma deref_eq_Ok: "deref data off n = Ok s \<longleftrightarrow> off + n \<le> length data \<and> s = slice off n data"
  by (auto simp: deref_def)

lemma deref_inside [simp]: "off + n \<le> length data \<Longrightarrow> deref data off n = Ok (slice off n data)"
  by (simp add: deref_def)

lemma deref_cases [simp]: "deref data off n \<noteq> Err e" "deref data off n \<noteq> Panic"
  by (simp_all add: deref_def)

text \<open>\<open>sgx_report_data_t::default()\<close> with \<open>report_data\<close> copied to its front: panics when it does not fit.\<close>

definition extend_report_data :: "bytes \<Rightarrow> bytes res" where
  "extend_report_data report_data =
     (if length report_data > 64 then Panic else Ok (blit (replicate 64 0) 0 report_data))"

lemma extend_report_data_eq_Ok:
  "extend_report_data rd = Ok x \<longleftrightarrow> length rd \<le> 64 \<and> x = rd @ replicate (64 - length rd) 0"
  by (auto simp: extend_report_data_def blit_def)

lemma extend_report_data_cases [simp]: "extend_report_data rd \<noteq> Err e" "extend_report_data rd \<noteq> UB"
  by (simp_all add: extend_report_data_def)

text \<open>
  The macro \<open>as_slice!\<close> of both \<^verbatim>\<open>claims.rs\<close>: it copies a field to a local of its own block and hands out a slice
  of this local, which is read once the block has ended and the storage is no longer the local's. What such a
  read finds is not defined by the language. The model fixes only the length: the byte at each place is an
  arbitrary function (\<open>dead_local\<close>) of the claim the slice is taken for, the bytes the local held and the place.
  So a statement about claims is about the field itself only under \<open>locals_last\<close>, which says that a build leaves
  such a storage alone until the statement ends; nothing in the language promises this.
\<close>

definition as_slice :: "dcap_layout \<Rightarrow> string \<Rightarrow> bytes \<Rightarrow> bytes" where
  "as_slice L name v = map (dead_local L name v) [0..<length v]"

definition locals_last :: "dcap_layout \<Rightarrow> bool" where
  "locals_last L \<longleftrightarrow> (\<forall>name v i. i < length v \<longrightarrow> dead_local L name v i = v ! i)"

lemma length_as_slice [simp]: "length (as_slice L name v) = length v"
  by (simp add: as_slice_def)

lemma as_slice_lasting: "locals_last L \<Longrightarrow> as_slice L name v = v"
  by (rule nth_equalityI) (simp_all add: as_slice_def locals_last_def)

subsection \<open>ecdsa_quote_verification\<close>

text \<open>The results of \<open>sgx_ql_qv_result_t\<close> that the code names, and the rest of its values.\<close>

datatype qv_result =
    SGX_QL_QV_RESULT_OK
  | SGX_QL_QV_RESULT_CONFIG_NEEDED
  | SGX_QL_QV_RESULT_OUT_OF_DATE
  | SGX_QL_QV_RESULT_OUT_OF_DATE_CONFIG_NEEDED
  | SGX_QL_QV_RESULT_SW_HARDENING_NEEDED
  | SGX_QL_QV_RESULT_CONFIG_AND_SW_HARDENING_NEEDED
  | SGX_QL_QV_RESULT_other u32

text \<open>
  The library and the clock: failures carry the library's status code. \<open>qv_verify_quote\<close> takes the
  quote, the collateral, the time and the supplemental data descriptor's size (\<open>None\<close>: no descriptor).
  \<open>qv_now\<close> is \<open>SystemTime::now().duration_since(UNIX_EPOCH)\<close> in seconds, \<open>None\<close> before the epoch.
\<close>

type_synonym collateral = bytes

record qvl =
  qv_supp_version_and_size :: "bytes \<Rightarrow> u32 + u32 \<times> u32"
  qv_sizeof_supplemental :: u32
  qv_get_collateral :: "bytes \<Rightarrow> u32 + collateral"
  qv_verify_quote :: "bytes \<Rightarrow> collateral option \<Rightarrow> int \<Rightarrow> u32 option \<Rightarrow> u32 + u32 \<times> qv_result"
  qv_now :: "int option"

fun qv_non_terminal :: "qv_result \<Rightarrow> bool" where
  "qv_non_terminal SGX_QL_QV_RESULT_OK = True"
| "qv_non_terminal SGX_QL_QV_RESULT_CONFIG_NEEDED = True"
| "qv_non_terminal SGX_QL_QV_RESULT_OUT_OF_DATE = True"
| "qv_non_terminal SGX_QL_QV_RESULT_OUT_OF_DATE_CONFIG_NEEDED = True"
| "qv_non_terminal SGX_QL_QV_RESULT_SW_HARDENING_NEEDED = True"
| "qv_non_terminal SGX_QL_QV_RESULT_CONFIG_AND_SW_HARDENING_NEEDED = True"
| "qv_non_terminal (SGX_QL_QV_RESULT_other w) = False"

text \<open>The two error kinds in which the SGX and the TDX copy differ are the first arguments.\<close>

definition ecdsa_quote_verification ::
    "error_kind \<Rightarrow> error_kind \<Rightarrow> qvl \<Rightarrow> bytes \<Rightarrow> unit res" where
  "ecdsa_quote_verification supp_failed verify_failed Q quote =
     andthen (case qv_supp_version_and_size Q quote of
         Inr (supp_ver, supp_size) \<Rightarrow>
           (if supp_size = qv_sizeof_supplemental Q then Ok supp_size else Ok 0)
       | Inl e \<Rightarrow> Err (kind_with_msg supp_failed ''tee_get_quote_supplemental_data_size failed: {:#04x}''))
     (\<lambda>data_size.
       let p_collateral = (case qv_get_collateral Q quote of Inr c \<Rightarrow> Some c | Inl e \<Rightarrow> None);
           current_time = (case qv_now Q of Some t \<Rightarrow> t | None \<Rightarrow> 0);
           p_supplemental_data = (if data_size = 0 then None else Some data_size)
       in case qv_verify_quote Q quote p_collateral current_time p_supplemental_data of
            Inl e \<Rightarrow> Err (kind_with_msg verify_failed ''tee_verify_quote failed: {:#04x}'')
          | Inr (collateral_expiration_status, quote_verification_result) \<Rightarrow>
              (if qv_non_terminal quote_verification_result then Ok ()
               else Err (kind_with_msg verify_failed ''Verification completed with Terminal result: {:x}'')))"

text \<open>What a successful call says of the library's answers: the trust decision on a quote.\<close>

definition chain_trusted :: "qvl \<Rightarrow> bytes \<Rightarrow> bool" where
  "chain_trusted Q quote =
     (case qv_supp_version_and_size Q quote of
        Inl e \<Rightarrow> False
      | Inr (ver, sz) \<Rightarrow>
          (case qv_verify_quote Q quote
                 (case qv_get_collateral Q quote of Inr c \<Rightarrow> Some c | Inl e \<Rightarrow> None)
                 (case qv_now Q of Some t \<Rightarrow> t | None \<Rightarrow> 0)
                 (if sz = qv_sizeof_supplemental Q \<and> sz \<noteq> 0 then Some sz else None) of
             Inl e \<Rightarrow> False
           | Inr (st, r) \<Rightarrow> qv_non_terminal r))"

text \<open>One case distinction for the whole call: the library's answers decide.\<close>

lemma ecdsa_quote_verification_alt:
  "ecdsa_quote_verification sk vk Q quote =
     (case qv_supp_version_and_size Q quote of
        Inl e \<Rightarrow> Err (kind_with_msg sk ''tee_get_quote_supplemental_data_size failed: {:#04x}'')
      | Inr (ver, sz) \<Rightarrow>
          (case qv_verify_quote Q quote
                 (case qv_get_collateral Q quote of Inr c \<Rightarrow> Some c | Inl e \<Rightarrow> None)
                 (case qv_now Q of Some t \<Rightarrow> t | None \<Rightarrow> 0)
                 (if sz = qv_sizeof_supplemental Q \<and> sz \<noteq> 0 then Some sz else None) of
             Inl e \<Rightarrow> Err (kind_with_msg vk ''tee_verify_quote failed: {:#04x}'')
           | Inr (st, r) \<Rightarrow>
               (if qv_non_terminal r then Ok ()
                else Err (kind_with_msg vk ''Verification completed with Terminal result: {:x}''))))"
proof (cases "qv_supp_version_and_size Q quote")
  case (Inl e)
  then show ?thesis by (simp add: ecdsa_quote_verification_def)
next
  case (Inr p)
  obtain ver sz where "p = (ver, sz)" by (cases p)
  with Inr show ?thesis
    by (cases "sz = qv_sizeof_supplemental Q"; cases "sz = 0")
       (simp_all add: ecdsa_quote_verification_def Let_def)
qed

lemma ecdsa_quote_verification_eq_Ok:
  "ecdsa_quote_verification sk vk Q quote = Ok u \<longleftrightarrow> chain_trusted Q quote"
  unfolding ecdsa_quote_verification_alt chain_trusted_def by (simp split: sum.split)

lemma ecdsa_quote_verification_cases:
  "ecdsa_quote_verification sk vk Q quote \<noteq> Panic" "ecdsa_quote_verification sk vk Q quote \<noteq> UB"
  unfolding ecdsa_quote_verification_alt by (simp_all split: sum.split)

lemma ecdsa_quote_verification_kind:
  assumes "ecdsa_quote_verification sk vk Q quote = Err e"
  shows "err_kind e = sk \<or> err_kind e = vk"
proof (cases "qv_supp_version_and_size Q quote")
  case (Inl x)
  with assms show ?thesis unfolding ecdsa_quote_verification_alt by auto
next
  case (Inr p)
  obtain ver sz where p: "p = (ver, sz)" by (cases p)
  show ?thesis
  proof (cases "qv_verify_quote Q quote (case qv_get_collateral Q quote of Inr c \<Rightarrow> Some c | Inl e \<Rightarrow> None)
      (case qv_now Q of Some t \<Rightarrow> t | None \<Rightarrow> 0) (if sz = qv_sizeof_supplemental Q \<and> sz \<noteq> 0 then Some sz else None)")
    case (Inl x)
    with assms Inr p show ?thesis unfolding ecdsa_quote_verification_alt by auto
  next
    case r: (Inr y)
    obtain st r where "y = (st, r)" by (cases y)
    with r assms Inr p show ?thesis
      unfolding ecdsa_quote_verification_alt by (cases "qv_non_terminal r") auto
  qed
qed

lemma ecdsa_quote_verification_Err:
  assumes "\<not> chain_trusted Q quote"
  shows "\<exists>e. ecdsa_quote_verification sk vk Q quote = Err e \<and> (err_kind e = sk \<or> err_kind e = vk)"
proof (cases "ecdsa_quote_verification sk vk Q quote")
  case (Ok u)
  with assms show ?thesis by (simp add: ecdsa_quote_verification_eq_Ok)
qed (auto simp: ecdsa_quote_verification_cases dest: ecdsa_quote_verification_kind)

subsection \<open>The evidence and verifier interfaces\<close>

text \<open>\<open>TeeType\<close> of \<^verbatim>\<open>tee/mod.rs\<close>.\<close>

datatype tee_type = SgxDcapTee | TdxTee

text \<open>The name of a quote's type in its claims.\<close>

fun quote_type_name :: "tee_type \<Rightarrow> string" where
  "quote_type_name SgxDcapTee = ''sgx_dcap''"
| "quote_type_name TdxTee = ''tdx''"

text \<open>
  The trait \<open>GenericEvidence\<close> with the constructor that the certificate layer uses, as a contract:
  \<open>create\<close> re-creates a checked evidence from the tag and the raw bytes it was serialised to, accepts
  nothing else, and a checked evidence always has claims, among them the whole quote and its type.
\<close>

locale generic_evidence =
  fixes get_dice_cbor_tag :: "'e \<Rightarrow> u64"
    and get_dice_raw_evidence :: "'e \<Rightarrow> bytes"
    and get_tee_type :: "'e \<Rightarrow> tee_type"
    and get_claims :: "'e \<Rightarrow> claims res"
    and create :: "u64 \<Rightarrow> bytes \<Rightarrow> 'e res option"
    and checked :: "'e \<Rightarrow> bool"
    and quote_type_name :: "tee_type \<Rightarrow> string"
  assumes create_own: "checked e \<Longrightarrow> create (get_dice_cbor_tag e) (get_dice_raw_evidence e) = Some (Ok e)"
    and create_checked: "create tag raw = Some (Ok e) \<Longrightarrow>
      checked e \<and> get_dice_cbor_tag e = tag \<and> get_dice_raw_evidence e = raw"
    and create_safe: "create tag raw \<noteq> Some Panic \<and> create tag raw \<noteq> Some UB"
    and claims_of_checked: "checked e \<Longrightarrow> \<exists>cl. get_claims e = Ok cl \<and> claims_wf cl \<and>
      claims_get cl BUILT_IN_CLAIM_COMMON_QUOTE = Some (get_dice_raw_evidence e) \<and>
      claims_get cl BUILT_IN_CLAIM_COMMON_QUOTE_TYPE = Some (bytes_of (quote_type_name (get_tee_type e)))"
begin

lemma create_inj:
  "create tag raw = Some (Ok e) \<Longrightarrow> create tag' raw' = Some (Ok e) \<Longrightarrow> tag' = tag \<and> raw' = raw"
  by (auto dest: create_checked)

lemma create_claims:
  assumes "create tag raw = Some (Ok e)"
  shows "\<exists>cl. get_claims e = Ok cl \<and> claims_wf cl \<and> claims_get cl BUILT_IN_CLAIM_COMMON_QUOTE = Some raw"
  using create_checked [OF assms] claims_of_checked by blast

end

text \<open>
  The trait \<open>GenericVerifier\<close>: verification succeeds exactly when the quote's chain is trusted, the
  report data fits and the quote carries it zero padded. A report data of 64 bytes or less never makes
  the verifier of a checked evidence panic.
\<close>

locale generic_verifier =
  fixes verify_evidence :: "'e \<Rightarrow> bytes \<Rightarrow> unit res"
    and checked :: "'e \<Rightarrow> bool"
    and trusted :: "'e \<Rightarrow> bool"
    and bound_data :: "'e \<Rightarrow> bytes"
  assumes verify_exact: "checked e \<Longrightarrow> verify_evidence e rd = Ok () \<longleftrightarrow>
      trusted e \<and> length rd \<le> 64 \<and> bound_data e = rd @ replicate (64 - length rd) 0"
    and verify_safe: "checked e \<Longrightarrow> length rd \<le> 64 \<Longrightarrow> verify_evidence e rd \<noteq> Panic"
    and verify_sound_memory: "checked e \<Longrightarrow> verify_evidence e rd \<noteq> UB"
begin

lemma verify_binds:
  assumes "checked e" and "verify_evidence e rd = Ok ()" and "verify_evidence e rd' = Ok ()"
    and "length rd' = length rd"
  shows "rd' = rd"
  using assms by (auto simp: verify_exact)

lemma verify_decides:
  assumes "checked e" and "length rd \<le> 64"
  shows "verify_evidence e rd = Ok () \<or> (\<exists>err. verify_evidence e rd = Err err)"
  using verify_safe [OF assms] verify_sound_memory [OF assms(1), of rd]
  by (cases "verify_evidence e rd") auto

lemma verify_long_never_ok: "checked e \<Longrightarrow> 64 < length rd \<Longrightarrow> verify_evidence e rd \<noteq> Ok ()"
  by (simp add: verify_exact)

end

subsection \<open>The layout of the Intel headers\<close>

text \<open>
  The x86-64 layout of \<^verbatim>\<open>sgx_quote_3.h\<close>, \<^verbatim>\<open>sgx_quote_4.h\<close> and \<^verbatim>\<open>sgx_quote_5.h\<close>, at which the witnesses
  instantiate \<open>dcap_layout\<close>, with a storage that lasts.
\<close>

definition intel_report2 :: report2_layout where
  "intel_report2 = \<lparr>r2_size = 584, r2_tee_tcb_svn = (0, 16), r2_mr_seam = (16, 48), r2_mrsigner_seam = (64, 48),
     r2_seam_attributes = (112, 8), r2_td_attributes = (120, 8), r2_xfam = (128, 8), r2_mr_td = (136, 48),
     r2_mr_config_id = (184, 48), r2_mr_owner = (232, 48), r2_mr_owner_config = (280, 48),
     r2_rt_mr = (\<lambda>i. (328 + 48 * i, 48)), r2_report_data = (520, 64)\<rparr>"

definition intel_report2_v1_5 :: report2_v1_5_layout where
  "intel_report2_v1_5 = \<lparr>r2_size = 648, r2_tee_tcb_svn = (0, 16), r2_mr_seam = (16, 48), r2_mrsigner_seam = (64, 48),
     r2_seam_attributes = (112, 8), r2_td_attributes = (120, 8), r2_xfam = (128, 8), r2_mr_td = (136, 48),
     r2_mr_config_id = (184, 48), r2_mr_owner = (232, 48), r2_mr_owner_config = (280, 48),
     r2_rt_mr = (\<lambda>i. (328 + 48 * i, 48)), r2_report_data = (520, 64),
     r2_tee_tcb_svn2 = (584, 16), r2_mr_servicetd = (600, 48)\<rparr>"

definition intel_layout :: dcap_layout where
  "intel_layout = \<lparr>sz_quote4_header = 48, hd_version = (0, 2), hd_att_key_type = (2, 2), hd_tee_type = (4, 4),
     sz_quote3 = 436, q3_signature_data_len = (432, 4), q3_cpu_svn = (48, 16), q3_isv_ext_prod_id = (80, 16),
     q3_attributes = (96, 16), q3_mr_enclave = (112, 32), q3_mr_signer = (176, 32), q3_config_id = (240, 64),
     q3_isv_prod_id = (304, 2), q3_isv_svn = (306, 2), q3_config_svn = (308, 2), q3_isv_family_id = (352, 16),
     q3_report_data = (368, 64), sz_quote4 = 636, q4_signature_data_len = (632, 4), q4_report_body_at = 48,
     sz_quote5 = 54, q5_type = (48, 2), q5_size = (50, 4), q5_body_at = 54,
     report2 = intel_report2, report2_v1_5 = intel_report2_v1_5, dead_local = (\<lambda>name v i. v ! i)\<rparr>"

lemma intel_locals_last: "locals_last intel_layout"
  by (simp add: locals_last_def intel_layout_def)

lemmas intel_layout_defs = intel_layout_def intel_report2_def intel_report2_v1_5_def

text \<open>A library that trusts every quote, and one that distrusts every quote.\<close>

definition trusting_qvl :: qvl where
  "trusting_qvl = \<lparr>qv_supp_version_and_size = (\<lambda>q. Inr (3, 336)), qv_sizeof_supplemental = 336,
     qv_get_collateral = (\<lambda>q. Inr []), qv_verify_quote = (\<lambda>q c t s. Inr (0, SGX_QL_QV_RESULT_OK)),
     qv_now = Some 1700000000\<rparr>"

definition distrusting_qvl :: qvl where
  "distrusting_qvl = trusting_qvl\<lparr>qv_verify_quote := (\<lambda>q c t s. Inr (0, SGX_QL_QV_RESULT_other 0xa005))\<rparr>"

lemma trusting_qvl_trusts [simp]: "chain_trusted trusting_qvl q"
  by (simp add: trusting_qvl_def chain_trusted_def)

lemma distrusting_qvl_trusts [simp]: "\<not> chain_trusted distrusting_qvl q"
  by (simp add: distrusting_qvl_def trusting_qvl_def chain_trusted_def)

end
