(* ===== verification/SgxDcap.thy ===== *)
theory SgxDcap
  imports Dcap
begin

text \<open>
  \<^verbatim>\<open>rats-rs/src/tee/sgx_dcap/\<close>: the environment probe (\<^verbatim>\<open>mod.rs\<close>), the SGX evidence and its
  validation (\<^verbatim>\<open>evidence.rs\<close>), the claims of a quote (\<^verbatim>\<open>claims.rs\<close>), the attester on the Occlum
  device (\<^verbatim>\<open>attester.rs\<close>, the device is the parameter \<open>occlum_dcap\<close>) and the verifier
  (\<^verbatim>\<open>verifier.rs\<close>). \<open>SgxDcapEvidence\<close> keeps its bytes in \<open>sgx_data\<close>; \<open>sgx_checked\<close> is the
  invariant that \<open>new_from_unchecked\<close> establishes and that \<open>as_quote\<close> relies on.

  What the macro \<open>as_slice!\<close> reads is not defined by the language; see \<open>as_slice\<close> in \<open>Dcap\<close>.
\<close>

definition sgx_detect_env :: "bool \<Rightarrow> (string \<Rightarrow> string option) \<Rightarrow> bool" where
  "sgx_detect_env feature_occlum env = (feature_occlum \<and> env ''OCCLUM'' \<noteq> None)"

subsection \<open>evidence.rs\<close>

record sgx_dcap_evidence =
  sgx_data :: bytes

definition sgx_new_from_checked :: "bytes \<Rightarrow> sgx_dcap_evidence res" where
  "sgx_new_from_checked checked_quote = Ok \<lparr>sgx_data = checked_quote\<rparr>"

text \<open>The test on the header that both the length check and the error branch hang on.\<close>

definition sgx_supported_header :: "dcap_layout \<Rightarrow> bytes \<Rightarrow> bool" where
  "sgx_supported_header L header =
     ((field_nat header (hd_version L) = 3 \<and>
         (field_nat header (hd_att_key_type L) = 2 \<or> field_nat header (hd_att_key_type L) = 3)) \<or>
      ((field_nat header (hd_version L) = 4 \<or> field_nat header (hd_version L) = 5) \<and>
         field_nat header (hd_tee_type L) = 0))"

definition sgx_new_from_unchecked :: "dcap_layout \<Rightarrow> bytes \<Rightarrow> sgx_dcap_evidence res" where
  "sgx_new_from_unchecked L unchecked_quote =
     (if length unchecked_quote < sz_quote4_header L
      then Err (kind_with_msg SgxDcapMulformedQuote ''Invalid quote: quote length {} is too short'')
      else andthen (deref unchecked_quote 0 (sz_quote4_header L)) (\<lambda>header.
        if sgx_supported_header L header then
          (if length unchecked_quote < sz_quote3 L
           then Err (kind_with_msg SgxDcapMulformedQuote ''Invalid quote: quote length {} is too short'')
           else andthen (deref unchecked_quote 0 (sz_quote3 L)) (\<lambda>quote.
             let expected_quote_len = sz_quote3 L + field_nat quote (q3_signature_data_len L)
             in if length unchecked_quote \<noteq> expected_quote_len
                then Err (kind_with_msg SgxDcapMulformedQuote
                  ''Invalid SGX DCAP quote version 3: quote length mismatch and probably got truncated'')
                else Ok \<lparr>sgx_data = unchecked_quote\<rparr>))
        else Err (kind_with_msg SgxDcapUnsupportedEvidenceType
               ''Unsupported quote type, version: {:02x}, att_key_type: {:02x}, tee_type: {:02x}'')))"

definition sgx_as_quote :: "dcap_layout \<Rightarrow> sgx_dcap_evidence \<Rightarrow> bytes res" where
  "sgx_as_quote L e = deref (sgx_data e) 0 (sz_quote3 L)"

definition sgx_get_dice_raw_evidence :: "sgx_dcap_evidence \<Rightarrow> bytes" where
  "sgx_get_dice_raw_evidence e = sgx_data e"

definition sgx_get_dice_cbor_tag :: "sgx_dcap_evidence \<Rightarrow> u64" where
  "sgx_get_dice_cbor_tag e = OCBR_TAG_EVIDENCE_INTEL_TEE_QUOTE"

definition sgx_get_tee_type :: "sgx_dcap_evidence \<Rightarrow> tee_type" where
  "sgx_get_tee_type e = SgxDcapTee"

definition sgx_create_evidence_from_dice ::
    "dcap_layout \<Rightarrow> u64 \<Rightarrow> bytes \<Rightarrow> sgx_dcap_evidence res option" where
  "sgx_create_evidence_from_dice L cbor_tag raw_evidence =
     (if cbor_tag = OCBR_TAG_EVIDENCE_INTEL_TEE_QUOTE then Some (sgx_new_from_unchecked L raw_evidence)
      else if cbor_tag = OCBR_TAG_EVIDENCE_INTEL_TEE_REPORT then
        Some (Err (kind_with_msg SgxDcapUnsupportedEvidenceType
          ''Unsupported evidence type: Intel TEE report (TDX report or SGX report type 2)''))
      else None)"

subsection \<open>claims.rs\<close>

text \<open>
  The claims inserted after the two common ones, in order: name and field of the quote.
\<close>

definition sgx_claim_fields :: "dcap_layout \<Rightarrow> (string \<times> field) list" where
  "sgx_claim_fields L =
     [(''sgx_cpu_svn'', q3_cpu_svn L), (''sgx_isv_ext_prod_id'', q3_isv_ext_prod_id L),
      (''sgx_attributes'', q3_attributes L), (''sgx_mr_enclave'', q3_mr_enclave L),
      (''sgx_mr_signer'', q3_mr_signer L), (''sgx_config_id'', q3_config_id L),
      (''sgx_isv_prod_id'', q3_isv_prod_id L), (''sgx_isv_svn'', q3_isv_svn L),
      (''sgx_config_svn'', q3_config_svn L), (''sgx_isv_family_id'', q3_isv_family_id L)]"

text \<open>
  \<open>memory\<close> is what is owned behind the reference: the common quote claim is read through a raw
  pointer past the struct, over \<open>signature_data_len\<close> further bytes.
\<close>

definition sgx_gen_claims_from_quote :: "dcap_layout \<Rightarrow> bytes \<Rightarrow> claims res" where
  "sgx_gen_claims_from_quote L memory =
     andthen (deref memory 0 (sz_quote3 L)) (\<lambda>quote.
     andthen (deref memory 0 (sz_quote3 L + field_nat quote (q3_signature_data_len L))) (\<lambda>whole.
     let claims = claims_insert [] BUILT_IN_CLAIM_COMMON_QUOTE whole;
         claims = claims_insert claims BUILT_IN_CLAIM_COMMON_QUOTE_TYPE (bytes_of ''sgx_dcap'')
     in Ok (claims_inserts claims (map (\<lambda>(name, f). (name, as_slice L name (get_field quote f))) (sgx_claim_fields L)))))"

definition sgx_get_claims :: "dcap_layout \<Rightarrow> sgx_dcap_evidence \<Rightarrow> claims res" where
  "sgx_get_claims L e = andthen (sgx_as_quote L e) (\<lambda>_. sgx_gen_claims_from_quote L (sgx_data e))"

subsection \<open>attester.rs\<close>

text \<open>
  The Occlum device: opening it, the size of a quote, and the bytes \<open>generate_quote\<close> writes through
  the pointer it is given for a report data of 64 bytes. Errors carry their display text.
\<close>

record occlum_dcap =
  dcap_quote_new :: "string + unit"
  dcap_get_quote_size :: "string + u32"
  dcap_generate_quote :: "bytes \<Rightarrow> string + bytes"

definition write_ptr :: "bytes \<Rightarrow> bytes \<Rightarrow> bytes res" where
  "write_ptr buf written = (if length written \<le> length buf then Ok (blit buf 0 written) else UB)"

definition sgx_get_evidence :: "bool \<Rightarrow> occlum_dcap \<Rightarrow> bytes \<Rightarrow> sgx_dcap_evidence res" where
  "sgx_get_evidence feature_occlum D report_data =
     (if feature_occlum then
        (if length report_data > 64
         then Err (kind_with_msg InvalidParameter ''report data length too long: {} > 64'')
         else
           andthen (lift_ext (dcap_quote_new D)) (\<lambda>_.
           andthen (lift_ext (dcap_get_quote_size D)) (\<lambda>quote_size.
           let occlum_quote = replicate (unat quote_size) 0 in
           andthen (extend_report_data report_data) (\<lambda>sgx_report_data.
           andthen (res_context ''failed at generate_quote()''
             (res_kind SgxDcapAttesterGenerateQuoteFailed (lift_ext (dcap_generate_quote D sgx_report_data)))) (\<lambda>written.
           andthen (write_ptr occlum_quote written) (\<lambda>occlum_quote.
           sgx_new_from_checked occlum_quote))))))
      else Panic)"

subsection \<open>verifier.rs\<close>

definition sgx_verify_evidence :: "dcap_layout \<Rightarrow> qvl \<Rightarrow> sgx_dcap_evidence \<Rightarrow> bytes \<Rightarrow> unit res" where
  "sgx_verify_evidence L Q evidence report_data =
     andthen (res_context ''Evidence's identity verification error.''
       (ecdsa_quote_verification SgxDcapVerifierGetSupplementalDataFailed SgxDcapVerifierVerifyQuoteFailed
          Q (sgx_data evidence))) (\<lambda>_.
     andthen (sgx_as_quote L evidence) (\<lambda>quote.
     andthen (extend_report_data report_data) (\<lambda>extended.
     if get_field quote (q3_report_data L) \<noteq> extended
     then Err (kind_with_msg SgxDcapVerifierReportDataMismatch ''report data mismatch'')
     else Ok ())))"

subsection \<open>The invariant and the laws\<close>

definition sgx_checked :: "dcap_layout \<Rightarrow> bytes \<Rightarrow> bool" where
  "sgx_checked L data \<longleftrightarrow>
     sz_quote4_header L \<le> length data \<and> sgx_supported_header L (slice 0 (sz_quote4_header L) data) \<and>
     sz_quote3 L \<le> length data \<and>
     length data = sz_quote3 L + field_nat (slice 0 (sz_quote3 L) data) (q3_signature_data_len L)"

lemma sgx_new_from_unchecked_eq_Ok:
  "sgx_new_from_unchecked L data = Ok e \<longleftrightarrow> sgx_checked L data \<and> e = \<lparr>sgx_data = data\<rparr>"
  by (auto simp: sgx_new_from_unchecked_def sgx_checked_def Let_def deref_eq_Ok)

lemma sgx_new_from_unchecked_total:
  "sgx_new_from_unchecked L data \<noteq> UB" "sgx_new_from_unchecked L data \<noteq> Panic"
  by (auto simp: sgx_new_from_unchecked_def Let_def)

lemma sgx_new_from_unchecked_kinds:
  "sgx_new_from_unchecked L data = Err e \<Longrightarrow>
   err_kind e = SgxDcapMulformedQuote \<or> err_kind e = SgxDcapUnsupportedEvidenceType"
  by (auto simp: sgx_new_from_unchecked_def Let_def split: if_splits)

lemma sgx_as_quote_checked [simp]:
  "sgx_checked L (sgx_data e) \<Longrightarrow> sgx_as_quote L e = Ok (slice 0 (sz_quote3 L) (sgx_data e))"
  by (simp add: sgx_as_quote_def sgx_checked_def)

lemma sgx_get_claims_checked:
  assumes "sgx_checked L (sgx_data e)"
  shows "sgx_get_claims L e =
    Ok ((BUILT_IN_CLAIM_COMMON_QUOTE, sgx_data e) # (BUILT_IN_CLAIM_COMMON_QUOTE_TYPE, bytes_of ''sgx_dcap'') #
        map (\<lambda>(name, f). (name, as_slice L name (get_field (slice 0 (sz_quote3 L) (sgx_data e)) f))) (sgx_claim_fields L))"
proof -
  let ?q = "slice 0 (sz_quote3 L) (sgx_data e)"
  let ?fs = "map (\<lambda>(name, f). (name, as_slice L name (get_field ?q f))) (sgx_claim_fields L)"
  let ?common = "[(BUILT_IN_CLAIM_COMMON_QUOTE, sgx_data e), (BUILT_IN_CLAIM_COMMON_QUOTE_TYPE, bytes_of ''sgx_dcap'')]"
  have len: "sz_quote3 L \<le> length (sgx_data e)"
    "sz_quote3 L + field_nat ?q (q3_signature_data_len L) = length (sgx_data e)"
    using assms by (simp_all add: sgx_checked_def)
  have two: "claims_insert (claims_insert [] BUILT_IN_CLAIM_COMMON_QUOTE (sgx_data e))
      BUILT_IN_CLAIM_COMMON_QUOTE_TYPE (bytes_of ''sgx_dcap'') = ?common"
    by (simp add: claims_insert_def BUILT_IN_CLAIM_COMMON_QUOTE_def BUILT_IN_CLAIM_COMMON_QUOTE_TYPE_def)
  have "claims_inserts ?common ?fs = ?common @ ?fs"
    by (rule claims_inserts_new)
       (simp add: sgx_claim_fields_def BUILT_IN_CLAIM_COMMON_QUOTE_def BUILT_IN_CLAIM_COMMON_QUOTE_TYPE_def)
  with len two assms show ?thesis
    by (simp add: sgx_get_claims_def sgx_gen_claims_from_quote_def Let_def)
qed

lemma sgx_get_evidence_Ok:
  "sgx_get_evidence f D rd = Ok e \<Longrightarrow> length rd \<le> 64 \<and> f"
  by (simp add: sgx_get_evidence_def split: if_splits)

lemma sgx_verify_evidence_checked:
  assumes "sgx_checked L (sgx_data e)"
  shows "sgx_verify_evidence L Q e rd =
    andthen (res_context ''Evidence's identity verification error.''
       (ecdsa_quote_verification SgxDcapVerifierGetSupplementalDataFailed SgxDcapVerifierVerifyQuoteFailed Q (sgx_data e)))
    (\<lambda>_. andthen (extend_report_data rd) (\<lambda>extended.
       if get_field (slice 0 (sz_quote3 L) (sgx_data e)) (q3_report_data L) \<noteq> extended
       then Err (kind_with_msg SgxDcapVerifierReportDataMismatch ''report data mismatch'') else Ok ()))"
  using assms by (simp add: sgx_verify_evidence_def)

interpretation sgx: generic_evidence
  sgx_get_dice_cbor_tag sgx_get_dice_raw_evidence sgx_get_tee_type "sgx_get_claims L"
  "sgx_create_evidence_from_dice L" "\<lambda>e. sgx_checked L (sgx_data e)" quote_type_name
  for L :: dcap_layout
proof unfold_locales
  fix e :: sgx_dcap_evidence
  assume ok: "sgx_checked L (sgx_data e)"
  then show "sgx_create_evidence_from_dice L (sgx_get_dice_cbor_tag e) (sgx_get_dice_raw_evidence e) = Some (Ok e)"
    by (simp add: sgx_create_evidence_from_dice_def sgx_get_dice_cbor_tag_def sgx_get_dice_raw_evidence_def
        sgx_new_from_unchecked_eq_Ok)
  show "\<exists>cl. sgx_get_claims L e = Ok cl \<and> claims_wf cl \<and>
      claims_get cl BUILT_IN_CLAIM_COMMON_QUOTE = Some (sgx_get_dice_raw_evidence e) \<and>
      claims_get cl BUILT_IN_CLAIM_COMMON_QUOTE_TYPE = Some (bytes_of (quote_type_name (sgx_get_tee_type e)))"
    using sgx_get_claims_checked [OF ok]
    by (simp add: claims_wf_def claims_get_def sgx_claim_fields_def sgx_get_dice_raw_evidence_def sgx_get_tee_type_def
        BUILT_IN_CLAIM_COMMON_QUOTE_def BUILT_IN_CLAIM_COMMON_QUOTE_TYPE_def)
next
  fix tag raw and e :: sgx_dcap_evidence
  assume "sgx_create_evidence_from_dice L tag raw = Some (Ok e)"
  then show "sgx_checked L (sgx_data e) \<and> sgx_get_dice_cbor_tag e = tag \<and> sgx_get_dice_raw_evidence e = raw"
    by (auto simp: sgx_create_evidence_from_dice_def sgx_new_from_unchecked_eq_Ok sgx_get_dice_cbor_tag_def
        sgx_get_dice_raw_evidence_def split: if_splits)
next
  fix tag raw
  show "sgx_create_evidence_from_dice L tag raw \<noteq> Some Panic \<and> sgx_create_evidence_from_dice L tag raw \<noteq> Some UB"
    by (simp add: sgx_create_evidence_from_dice_def sgx_new_from_unchecked_total)
qed

interpretation sgx_verifier: generic_verifier
  "sgx_verify_evidence L Q" "\<lambda>e. sgx_checked L (sgx_data e)" "\<lambda>e. chain_trusted Q (sgx_data e)"
  "\<lambda>e. get_field (slice 0 (sz_quote3 L) (sgx_data e)) (q3_report_data L)"
  for L :: dcap_layout and Q :: qvl
proof unfold_locales
  fix e :: sgx_dcap_evidence and rd :: bytes
  assume ok: "sgx_checked L (sgx_data e)"
  show "sgx_verify_evidence L Q e rd = Ok () \<longleftrightarrow> chain_trusted Q (sgx_data e) \<and> length rd \<le> 64 \<and>
      get_field (slice 0 (sz_quote3 L) (sgx_data e)) (q3_report_data L) = rd @ replicate (64 - length rd) 0"
    by (auto simp: sgx_verify_evidence_checked [OF ok] ecdsa_quote_verification_eq_Ok extend_report_data_eq_Ok)
  show "sgx_verify_evidence L Q e rd \<noteq> UB"
    by (auto simp: sgx_verify_evidence_checked [OF ok] andthen_inv ecdsa_quote_verification_cases)
  show "sgx_verify_evidence L Q e rd \<noteq> Panic" if "length rd \<le> 64"
    using that by (auto simp: sgx_verify_evidence_checked [OF ok] andthen_inv ecdsa_quote_verification_cases
        extend_report_data_def)
qed

subsection \<open>Properties\<close>

text \<open>A version 3 quote with an empty signature that carries \<open>rd\<close>, at the layout of the Intel headers.\<close>

definition sample_sgx_quote :: "bytes \<Rightarrow> bytes" where
  "sample_sgx_quote rd = [3, 0, 2, 0, 0, 0, 0, 0] @ replicate 360 0 @ (rd @ replicate (64 - length rd) 0) @ [0, 0, 0, 0]"

lemma sample_sgx_quote_checked:
  assumes "length rd \<le> 64"
  shows "sgx_checked intel_layout (sample_sgx_quote rd)"
  using assms
  by (simp add: sgx_checked_def sgx_supported_header_def sample_sgx_quote_def intel_layout_def field_nat_def
      get_field_def slice_def)

lemma sample_sgx_quote_report_data:
  assumes "length rd \<le> 64"
  shows "get_field (slice 0 (sz_quote3 intel_layout) (sample_sgx_quote rd)) (q3_report_data intel_layout) =
    rd @ replicate (64 - length rd) 0"
  using assms by (simp add: sample_sgx_quote_def intel_layout_def get_field_def slice_def)

text \<open>
  C25. Validation of an untrusted SGX quote. For every byte string, \<open>new_from_unchecked\<close> never reads outside the
  bytes and never panics, and what it accepts it keeps unchanged: a byte string of exactly the size of the quote
  struct plus its \<open>signature_data_len\<close>. A header of version 3, the version the type is for, is accepted exactly
  when its attestation key type is 2 or 3 and the length is this one; another key type gives the kind
  \<open>SgxDcapUnsupportedEvidenceType\<close>, another length, also one too short for the header, \<open>SgxDcapMulformedQuote\<close>. No
  header with a TEE type other than 0 is accepted under another version, so never the quote of a TD.
\<close>

theorem sgx_new_from_unchecked_exact:
  "let header = slice 0 (sz_quote4_header L) data; quote = slice 0 (sz_quote3 L) data;
       version = field_nat header (hd_version L); key_type = field_nat header (hd_att_key_type L);
       whole = (sz_quote3 L \<le> length data \<and> length data = sz_quote3 L + field_nat quote (q3_signature_data_len L));
       r = sgx_new_from_unchecked L data
   in r \<noteq> UB \<and> r \<noteq> Panic \<and>
      (\<forall>e. r = Ok e \<longrightarrow> e = \<lparr>sgx_data = data\<rparr> \<and> sz_quote4_header L \<le> length data \<and> whole) \<and>
      (length data < sz_quote4_header L \<longrightarrow> fails_with r SgxDcapMulformedQuote) \<and>
      (sz_quote4_header L \<le> length data \<and> version = 3 \<longrightarrow>
         (r = Ok \<lparr>sgx_data = data\<rparr> \<longleftrightarrow> key_type \<in> {2, 3} \<and> whole) \<and>
         (fails_with r SgxDcapUnsupportedEvidenceType \<longleftrightarrow> key_type \<notin> {2, 3}) \<and>
         (fails_with r SgxDcapMulformedQuote \<longleftrightarrow> key_type \<in> {2, 3} \<and> \<not> whole)) \<and>
      (\<forall>e. r = Ok e \<and> version \<noteq> 3 \<longrightarrow> field_nat header (hd_tee_type L) = 0)"
proof -
  let ?header = "slice 0 (sz_quote4_header L) data" and ?quote = "slice 0 (sz_quote3 L) data"
  let ?key = "field_nat ?header (hd_att_key_type L)"
  let ?whole = "sz_quote3 L \<le> length data \<and> length data = sz_quote3 L + field_nat ?quote (q3_signature_data_len L)"
  have any: "e = \<lparr>sgx_data = data\<rparr> \<and> sz_quote4_header L \<le> length data \<and> ?whole" "sgx_supported_header L ?header"
    if "sgx_new_from_unchecked L data = Ok e" for e
    using that by (simp_all add: sgx_new_from_unchecked_eq_Ok sgx_checked_def)
  have short: "fails_with (sgx_new_from_unchecked L data) SgxDcapMulformedQuote" if "length data < sz_quote4_header L"
    using that by (simp add: sgx_new_from_unchecked_def)
  have three: "(sgx_new_from_unchecked L data = Ok \<lparr>sgx_data = data\<rparr> \<longleftrightarrow> ?key \<in> {2, 3} \<and> ?whole) \<and>
      (fails_with (sgx_new_from_unchecked L data) SgxDcapUnsupportedEvidenceType \<longleftrightarrow> ?key \<notin> {2, 3}) \<and>
      (fails_with (sgx_new_from_unchecked L data) SgxDcapMulformedQuote \<longleftrightarrow> ?key \<in> {2, 3} \<and> \<not> ?whole)"
    if "sz_quote4_header L \<le> length data" "field_nat ?header (hd_version L) = 3"
  proof -
    have header: "sgx_supported_header L ?header \<longleftrightarrow> ?key \<in> {2, 3}" using that(2) by (simp add: sgx_supported_header_def)
    show ?thesis
    proof (cases "?key \<in> {2, 3}")
      case True
      with header that(1) show ?thesis by (cases ?whole) (auto simp: sgx_new_from_unchecked_def Let_def)
    next
      case False
      with header that(1) show ?thesis by (auto simp: sgx_new_from_unchecked_def)
    qed
  qed
  have "field_nat ?header (hd_tee_type L) = 0" if "sgx_new_from_unchecked L data = Ok e" "field_nat ?header (hd_version L) \<noteq> 3" for e
    using any(2) [OF that(1)] that(2) by (auto simp: sgx_supported_header_def)
  with any(1) short three sgx_new_from_unchecked_total [of L data] show ?thesis unfolding Let_def by blast
qed

theorem sgx_new_from_unchecked_exact_witness:
  "sgx_new_from_unchecked intel_layout (sample_sgx_quote [7, 8]) = Ok \<lparr>sgx_data = sample_sgx_quote [7, 8]\<rparr> \<and>
   fails_with (sgx_new_from_unchecked intel_layout (sample_sgx_quote [7, 8] @ [0])) SgxDcapMulformedQuote \<and>
   fails_with (sgx_new_from_unchecked intel_layout [3, 0, 2, 0]) SgxDcapMulformedQuote"
proof -
  let ?good = "sample_sgx_quote [7, 8]"
  note layout = intel_layout_def [THEN arg_cong [where f = sz_quote4_header], simplified]
    intel_layout_def [THEN arg_cong [where f = sz_quote3], simplified] intel_layout_def [THEN arg_cong [where f = hd_version], simplified]
    intel_layout_def [THEN arg_cong [where f = hd_att_key_type], simplified]
    intel_layout_def [THEN arg_cong [where f = q3_signature_data_len], simplified]
  have fields: "field_nat (slice 0 48 ?good) (0, 2) = 3" "field_nat (slice 0 48 ?good) (2, 2) = 2"
    "field_nat (slice 0 436 ?good) (432, 4) = 0" "length ?good = 436" by code_simp+
  have prefix: "slice 0 48 (?good @ [0]) = slice 0 48 ?good" "slice 0 436 (?good @ [0]) = slice 0 436 ?good"
    using fields(4) by (simp_all add: slice_def)
  note exact = sgx_new_from_unchecked_exact [of intel_layout, unfolded Let_def layout]
  note three = exact [THEN conjunct2, THEN conjunct2, THEN conjunct2, THEN conjunct2, THEN conjunct1, THEN mp]
  have "48 \<le> length ?good \<and> field_nat (slice 0 48 ?good) (0, 2) = 3" using fields by simp
  from conjunct1 [OF three [OF this], unfolded fields] have "sgx_new_from_unchecked intel_layout ?good = Ok \<lparr>sgx_data = ?good\<rparr>"
    by simp
  moreover have "48 \<le> length (?good @ [0]) \<and> field_nat (slice 0 48 (?good @ [0])) (0, 2) = 3"
    unfolding prefix using fields by simp
  from conjunct2 [OF conjunct2 [OF three [OF this]], unfolded prefix fields length_append]
  have "fails_with (sgx_new_from_unchecked intel_layout (?good @ [0])) SgxDcapMulformedQuote" by simp
  moreover have "fails_with (sgx_new_from_unchecked intel_layout [3, 0, 2, 0]) SgxDcapMulformedQuote"
    by (rule exact [of "[3, 0, 2, 0]", THEN conjunct2, THEN conjunct2, THEN conjunct2, THEN conjunct1, rule_format]) simp
  ultimately show ?thesis by blast
qed



text \<open>
  C15. Verification of an SGX evidence built from a certificate against a report data succeeds exactly
  when the quote library answers a non-terminal result for its bytes, the report data has at most 64
  bytes, and the quote's report data field is the report data padded with zeros to 64 bytes. It
  touches no byte outside the evidence, and panics only for a report data of more than 64 bytes.
\<close>

theorem sgx_verify_exact:
  assumes "sgx_create_evidence_from_dice L tag raw = Some (Ok e)"
  shows "(sgx_verify_evidence L Q e rd = Ok () \<longleftrightarrow>
      chain_trusted Q raw \<and> length rd \<le> 64 \<and>
      get_field (slice 0 (sz_quote3 L) raw) (q3_report_data L) = rd @ replicate (64 - length rd) 0) \<and>
    sgx_verify_evidence L Q e rd \<noteq> UB \<and>
    (sgx_verify_evidence L Q e rd = Panic \<longleftrightarrow> chain_trusted Q raw \<and> 64 < length rd)"
proof -
  have ok: "sgx_checked L (sgx_data e)" and raw: "sgx_data e = raw"
    using sgx.create_checked [OF assms] by (auto simp: sgx_get_dice_raw_evidence_def)
  have "sgx_verify_evidence L Q e rd = Panic \<longleftrightarrow> chain_trusted Q raw \<and> 64 < length rd"
    unfolding sgx_verify_evidence_checked [OF ok]
    by (auto simp: andthen_inv ecdsa_quote_verification_cases ecdsa_quote_verification_eq_Ok raw extend_report_data_def)
  with sgx_verifier.verify_exact [OF ok, of Q rd] sgx_verifier.verify_sound_memory [OF ok, of Q rd] raw
  show ?thesis by simp
qed

theorem sgx_verify_exact_witness:
  "sgx_verify_evidence intel_layout trusting_qvl \<lparr>sgx_data = sample_sgx_quote [7, 8]\<rparr> [7, 8] = Ok () \<and>
   sgx_verify_evidence intel_layout trusting_qvl \<lparr>sgx_data = sample_sgx_quote [7, 8]\<rparr> [7, 9] \<noteq> Ok () \<and>
   sgx_verify_evidence intel_layout distrusting_qvl \<lparr>sgx_data = sample_sgx_quote [7, 8]\<rparr> [7, 8] \<noteq> Ok () \<and>
   sgx_verify_evidence intel_layout trusting_qvl \<lparr>sgx_data = sample_sgx_quote [7, 8]\<rparr> (replicate 65 0) = Panic"
proof -
  have mk: "sgx_create_evidence_from_dice intel_layout OCBR_TAG_EVIDENCE_INTEL_TEE_QUOTE (sample_sgx_quote [7, 8]) =
      Some (Ok \<lparr>sgx_data = sample_sgx_quote [7, 8]\<rparr>)"
    by (simp add: sgx_create_evidence_from_dice_def sgx_new_from_unchecked_eq_Ok sample_sgx_quote_checked)
  show ?thesis
    using sgx_verify_exact [OF mk, of trusting_qvl "[7, 8]"] sgx_verify_exact [OF mk, of trusting_qvl "[7, 9]"]
      sgx_verify_exact [OF mk, of distrusting_qvl "[7, 8]"] sgx_verify_exact [OF mk, of trusting_qvl "replicate 65 0"]
    by (simp add: sample_sgx_quote_report_data)
qed

end
