(* ===== verification/Tdx.thy ===== *)
theory Tdx
  imports Dcap
begin

text \<open>
  \<^verbatim>\<open>rats-rs/src/tee/tdx/\<close>: the environment probe, the TDX evidence of quote version 4 and version 5
  (TDX 1.0 and TDX 1.5 bodies) with its validation (\<^verbatim>\<open>evidence.rs\<close>), its claims (\<^verbatim>\<open>claims.rs\<close>), the
  attester on \<open>tdx_attest_rs\<close> (\<^verbatim>\<open>attester.rs\<close>, the library call is a parameter) and the verifier
  (\<^verbatim>\<open>verifier.rs\<close>). \<open>TdxEvidence\<close> keeps its bytes in \<open>tdx_data\<close>; \<open>tdx_checked\<close> is the invariant
  of \<open>new_from_unchecked\<close>, under which every unsafe read of the module stays inside the bytes.
\<close>

definition tdx_detect_env :: "bool \<Rightarrow> (string \<Rightarrow> bool) \<Rightarrow> bool" where
  "tdx_detect_env feature_attester_tdx path_exists =
     (feature_attester_tdx \<and>
      (path_exists ''/dev/tdx-attest'' \<or> path_exists ''/dev/tdx-guest'' \<or> path_exists ''/dev/tdx_guest''))"

subsection \<open>evidence.rs\<close>

record tdx_evidence =
  tdx_data :: bytes

text \<open>A reference to a struct is the bytes of the struct.\<close>

datatype quote =
    Quote4 bytes
  | Quote5Tdx10 bytes bytes
  | Quote5Tdx15 bytes bytes

definition tdx_new_from_checked :: "bytes \<Rightarrow> tdx_evidence res" where
  "tdx_new_from_checked checked_quote = Ok \<lparr>tdx_data = checked_quote\<rparr>"

text \<open>
  The condition on a version 5 quote with a body of \<open>body_size\<close> bytes: the three disjuncts in their
  order, the third of which reads the \<open>u32\<close> behind the body.
\<close>

definition tdx_check_quote5_body :: "dcap_layout \<Rightarrow> nat \<Rightarrow> string \<Rightarrow> bytes \<Rightarrow> bytes \<Rightarrow> unit res" where
  "tdx_check_quote5_body L body_size msg quote unchecked_quote =
     (if body_size \<noteq> field_nat quote (q5_size L) then Err (kind_with_msg TdxMulformedQuote msg)
      else if length unchecked_quote < q5_body_at L + body_size + 4 then Err (kind_with_msg TdxMulformedQuote msg)
      else andthen (deref unchecked_quote (q5_body_at L + body_size) 4) (\<lambda>signature_data_len.
        if length unchecked_quote \<noteq> q5_body_at L + body_size + 4 + le_nat signature_data_len
        then Err (kind_with_msg TdxMulformedQuote msg) else Ok ()))"

definition tdx_new_from_unchecked :: "dcap_layout \<Rightarrow> bytes \<Rightarrow> tdx_evidence res" where
  "tdx_new_from_unchecked L unchecked_quote =
     (if length unchecked_quote < sz_quote4_header L
      then Err (kind_with_msg TdxMulformedQuote ''Invalid quote: quote length {} is too short'')
      else andthen (deref unchecked_quote 0 (sz_quote4_header L)) (\<lambda>header.
        let version = field_nat header (hd_version L); tee_type = field_nat header (hd_tee_type L) in
        andthen
          (if version = 4 \<and> tee_type = 0x81 then
             (if length unchecked_quote < sz_quote4 L
              then Err (kind_with_msg TdxMulformedQuote ''Invalid quote: quote length {} is too short'')
              else andthen (deref unchecked_quote 0 (sz_quote4 L)) (\<lambda>quote.
                let expected_quote_len = sz_quote4 L + field_nat quote (q4_signature_data_len L)
                in if length unchecked_quote \<noteq> expected_quote_len
                   then Err (kind_with_msg TdxMulformedQuote
                     ''Invalid TDX quote version 4: quote length mismatch and probably got truncated'')
                   else Ok ()))
           else if version = 5 \<and> tee_type = 0x81 then
             (if length unchecked_quote < sz_quote5 L
              then Err (kind_with_msg TdxMulformedQuote ''Invalid TDX quote version 5: quote length {} is too short'')
              else andthen (deref unchecked_quote 0 (sz_quote5 L)) (\<lambda>quote.
                let tee_report_type = field_nat quote (q5_type L)
                in if tee_report_type = 2 then
                     tdx_check_quote5_body L (r2_size (report2 L))
                       ''Invalid TDX 1.0 quote version 5: quote length mismatch and probably got truncated''
                       quote unchecked_quote
                   else if tee_report_type = 3 then
                     tdx_check_quote5_body L (r2_size (report2_v1_5 L))
                       ''Invalid TDX 1.5 quote version 5: quote length mismatch and probably got truncated''
                       quote unchecked_quote
                   else Err (kind_with_msg TdxUnsupportedEvidenceType ''unsupoorted quote body type {tee_report_type}'')))
           else Err (kind_with_msg TdxUnsupportedEvidenceType
             ''Unsupported quote type, version: {:02x}, att_key_type: {:02x}, tee_type: {:02x}''))
        (\<lambda>_. Ok \<lparr>tdx_data = unchecked_quote\<rparr>)))"

definition tdx_as_quote :: "dcap_layout \<Rightarrow> tdx_evidence \<Rightarrow> quote res" where
  "tdx_as_quote L e =
     andthen (deref (tdx_data e) 0 (sz_quote4_header L)) (\<lambda>quote_header.
       if field_nat quote_header (hd_version L) = 4 then
         andthen (deref (tdx_data e) 0 (sz_quote4 L)) (\<lambda>quote. Ok (Quote4 quote))
       else if field_nat quote_header (hd_version L) = 5 then
         andthen (deref (tdx_data e) 0 (sz_quote5 L)) (\<lambda>quote.
           let tee_report_type = field_nat quote (q5_type L)
           in if tee_report_type = 2 then
                andthen (deref (tdx_data e) (q5_body_at L) (r2_size (report2 L))) (\<lambda>report_body.
                  Ok (Quote5Tdx10 quote report_body))
              else if tee_report_type = 3 then
                andthen (deref (tdx_data e) (q5_body_at L) (r2_size (report2_v1_5 L))) (\<lambda>report_body.
                  Ok (Quote5Tdx15 quote report_body))
              else Err (kind_with_msg TdxUnsupportedEvidenceType ''unsupoorted quote body type {tee_report_type}''))
       else Err (kind_with_msg TdxUnsupportedEvidenceType ''unsupoorted quote version {version}''))"

text \<open>\<open>quote.report_body\<close> of a version 4 quote.\<close>

definition quote4_report_body :: "dcap_layout \<Rightarrow> bytes \<Rightarrow> bytes" where
  "quote4_report_body L quote = slice (q4_report_body_at L) (r2_size (report2 L)) quote"

definition tdx_get_report_data_field :: "dcap_layout \<Rightarrow> tdx_evidence \<Rightarrow> bytes res" where
  "tdx_get_report_data_field L e =
     andthen (tdx_as_quote L e) (\<lambda>quote. Ok (case quote of
         Quote4 quote \<Rightarrow> get_field (quote4_report_body L quote) (r2_report_data (report2 L))
       | Quote5Tdx10 _ report_body \<Rightarrow> get_field report_body (r2_report_data (report2 L))
       | Quote5Tdx15 _ report_body \<Rightarrow> get_field report_body (r2_report_data (report2_v1_5 L))))"

definition tdx_get_dice_raw_evidence :: "tdx_evidence \<Rightarrow> bytes" where
  "tdx_get_dice_raw_evidence e = tdx_data e"

definition tdx_get_dice_cbor_tag :: "tdx_evidence \<Rightarrow> u64" where
  "tdx_get_dice_cbor_tag e = OCBR_TAG_EVIDENCE_INTEL_TEE_QUOTE"

definition tdx_get_tee_type :: "tdx_evidence \<Rightarrow> tee_type" where
  "tdx_get_tee_type e = TdxTee"

definition tdx_create_evidence_from_dice :: "dcap_layout \<Rightarrow> u64 \<Rightarrow> bytes \<Rightarrow> tdx_evidence res option" where
  "tdx_create_evidence_from_dice L cbor_tag raw_evidence =
     (if cbor_tag = OCBR_TAG_EVIDENCE_INTEL_TEE_QUOTE then Some (tdx_new_from_unchecked L raw_evidence)
      else if cbor_tag = OCBR_TAG_EVIDENCE_INTEL_TEE_REPORT then
        Some (Err (kind_with_msg TdxUnsupportedEvidenceType
          ''Unsupported evidence type: Intel TEE report (TDX report or SGX report type 2)''))
      else None)"

subsection \<open>claims.rs\<close>

definition report2_claim_fields :: "'a report2_layout_scheme \<Rightarrow> (string \<times> field) list" where
  "report2_claim_fields R =
     [(''tdx_tee_tcb_svn'', r2_tee_tcb_svn R), (''tdx_mr_seam'', r2_mr_seam R),
      (''tdx_mrsigner_seam'', r2_mrsigner_seam R), (''tdx_seam_attributes'', r2_seam_attributes R),
      (''tdx_td_attributes'', r2_td_attributes R), (''tdx_xfam'', r2_xfam R), (''tdx_mr_td'', r2_mr_td R),
      (''tdx_mr_config_id'', r2_mr_config_id R), (''tdx_mr_owner'', r2_mr_owner R),
      (''tdx_mr_owner_config'', r2_mr_owner_config R), (''tdx_rt_mr0'', r2_rt_mr R 0),
      (''tdx_rt_mr1'', r2_rt_mr R 1), (''tdx_rt_mr2'', r2_rt_mr R 2), (''tdx_rt_mr3'', r2_rt_mr R 3)]"

definition append_claims_sgx_report2_body_t :: "dcap_layout \<Rightarrow> claims \<Rightarrow> bytes \<Rightarrow> claims" where
  "append_claims_sgx_report2_body_t L claims report_body =
     claims_inserts claims (map (\<lambda>(name, f). (name, as_slice L name (get_field report_body f))) (report2_claim_fields (report2 L)))"

definition append_claims_sgx_report2_body_v1_5_t :: "dcap_layout \<Rightarrow> claims \<Rightarrow> bytes \<Rightarrow> claims" where
  "append_claims_sgx_report2_body_v1_5_t L claims report_body =
     claims_inserts claims (map (\<lambda>(name, f). (name, as_slice L name (get_field report_body f)))
       (report2_claim_fields (report2_v1_5 L) @
        [(''tdx_tee_tcb_svn2'', r2_tee_tcb_svn2 (report2_v1_5 L)),
         (''tdx_mr_servicetd'', r2_mr_servicetd (report2_v1_5 L))]))"

definition tdx_gen_claims_from_quote :: "dcap_layout \<Rightarrow> tdx_evidence \<Rightarrow> claims res" where
  "tdx_gen_claims_from_quote L e =
     (let claims = claims_insert [] BUILT_IN_CLAIM_COMMON_QUOTE (tdx_data e);
          claims = claims_insert claims BUILT_IN_CLAIM_COMMON_QUOTE_TYPE (bytes_of ''tdx'')
      in andthen (tdx_as_quote L e) (\<lambda>quote. Ok (case quote of
           Quote4 quote \<Rightarrow> append_claims_sgx_report2_body_t L claims (quote4_report_body L quote)
         | Quote5Tdx10 _ report_body \<Rightarrow> append_claims_sgx_report2_body_t L claims report_body
         | Quote5Tdx15 _ report_body \<Rightarrow> append_claims_sgx_report2_body_v1_5_t L claims report_body)))"

definition tdx_get_claims :: "dcap_layout \<Rightarrow> tdx_evidence \<Rightarrow> claims res" where
  "tdx_get_claims L e = tdx_gen_claims_from_quote L e"

subsection \<open>attester.rs\<close>

text \<open>\<open>tdx_att_get_quote\<close> of a 64-byte report data: its status and the quote, if any.\<close>

type_synonym tdx_attest = "bytes \<Rightarrow> u32 \<times> bytes option"

definition TDX_ATTEST_SUCCESS :: u32 where
  "TDX_ATTEST_SUCCESS = 0"

definition tdx_get_evidence :: "tdx_attest \<Rightarrow> bytes \<Rightarrow> tdx_evidence res" where
  "tdx_get_evidence tdx_att_get_quote report_data =
     (if length report_data > 64
      then Err (kind_with_msg InvalidParameter ''report data length too long: {} > 64'')
      else andthen (extend_report_data report_data) (\<lambda>tdx_report_data.
        case tdx_att_get_quote tdx_report_data of (result, quote) \<Rightarrow>
          (if result \<noteq> TDX_ATTEST_SUCCESS
           then Err (kind_with_msg TdxAttesterGenerateQuoteFailed ''tdx_attest_rs::tdx_att_get_quote failed: {:#04x}'')
           else (case quote of None \<Rightarrow> Panic | Some q \<Rightarrow> tdx_new_from_checked q))))"

subsection \<open>verifier.rs\<close>

definition tdx_ecdsa_quote_verification :: "qvl \<Rightarrow> bytes \<Rightarrow> unit res" where
  "tdx_ecdsa_quote_verification =
     ecdsa_quote_verification TdxVerifierGetSupplementalDataFailed TdxVerifierVerifyQuoteFailed"

definition tdx_verify_evidence :: "dcap_layout \<Rightarrow> qvl \<Rightarrow> tdx_evidence \<Rightarrow> bytes \<Rightarrow> unit res" where
  "tdx_verify_evidence L Q evidence report_data =
     andthen (res_context ''Evidence's identity verification error.''
       (tdx_ecdsa_quote_verification Q (tdx_data evidence))) (\<lambda>_.
     andthen (extend_report_data report_data) (\<lambda>extended.
     andthen (tdx_get_report_data_field L evidence) (\<lambda>report_data_from_quote.
     if report_data_from_quote \<noteq> extended
     then Err (kind_with_msg TdxVerifierReportDataMismatch ''report data mismatch'')
     else Ok ())))"

subsection \<open>The invariant and the laws\<close>

definition tdx_quote5_ok :: "dcap_layout \<Rightarrow> nat \<Rightarrow> bytes \<Rightarrow> bool" where
  "tdx_quote5_ok L n data \<longleftrightarrow>
     field_nat (slice 0 (sz_quote5 L) data) (q5_size L) = n \<and> q5_body_at L + n + 4 \<le> length data \<and>
     length data = q5_body_at L + n + 4 + le_nat (slice (q5_body_at L + n) 4 data)"

definition tdx_checked :: "dcap_layout \<Rightarrow> bytes \<Rightarrow> bool" where
  "tdx_checked L data \<longleftrightarrow>
     sz_quote4_header L \<le> length data \<and>
     field_nat (slice 0 (sz_quote4_header L) data) (hd_tee_type L) = 0x81 \<and>
     (field_nat (slice 0 (sz_quote4_header L) data) (hd_version L) = 4 \<and> sz_quote4 L \<le> length data \<and>
        length data = sz_quote4 L + field_nat (slice 0 (sz_quote4 L) data) (q4_signature_data_len L) \<or>
      field_nat (slice 0 (sz_quote4_header L) data) (hd_version L) = 5 \<and> sz_quote5 L \<le> length data \<and>
        (field_nat (slice 0 (sz_quote5 L) data) (q5_type L) = 2 \<and> tdx_quote5_ok L (r2_size (report2 L)) data \<or>
         field_nat (slice 0 (sz_quote5 L) data) (q5_type L) = 3 \<and> tdx_quote5_ok L (r2_size (report2_v1_5 L)) data))"

lemma tdx_check_quote5_body_eq_Ok:
  "tdx_check_quote5_body L n m (slice 0 (sz_quote5 L) data) data = Ok u \<longleftrightarrow> tdx_quote5_ok L n data"
  by (auto simp: tdx_check_quote5_body_def tdx_quote5_ok_def)

lemma tdx_check_quote5_body_total:
  "tdx_check_quote5_body L n m q data \<noteq> UB" "tdx_check_quote5_body L n m q data \<noteq> Panic"
  by (auto simp: tdx_check_quote5_body_def)

lemma tdx_new_from_unchecked_eq_Ok:
  "tdx_new_from_unchecked L data = Ok e \<longleftrightarrow> tdx_checked L data \<and> e = \<lparr>tdx_data = data\<rparr>"
  unfolding tdx_new_from_unchecked_def tdx_checked_def Let_def
  by (auto simp: deref_eq_Ok tdx_check_quote5_body_eq_Ok)

lemma tdx_new_from_unchecked_total:
  "tdx_new_from_unchecked L data \<noteq> UB" "tdx_new_from_unchecked L data \<noteq> Panic"
  by (auto simp: tdx_new_from_unchecked_def Let_def andthen_inv tdx_check_quote5_body_total)

lemma tdx_as_quote_checked:
  assumes "tdx_checked L (tdx_data e)"
  obtains (v4) q where "tdx_as_quote L e = Ok (Quote4 q)" "q = slice 0 (sz_quote4 L) (tdx_data e)"
      "field_nat (slice 0 (sz_quote4_header L) (tdx_data e)) (hd_version L) = 4"
  | (v5_10) q b where "tdx_as_quote L e = Ok (Quote5Tdx10 q b)" "q = slice 0 (sz_quote5 L) (tdx_data e)"
      "b = slice (q5_body_at L) (r2_size (report2 L)) (tdx_data e)"
      "field_nat (slice 0 (sz_quote4_header L) (tdx_data e)) (hd_version L) = 5" "field_nat q (q5_type L) = 2"
  | (v5_15) q b where "tdx_as_quote L e = Ok (Quote5Tdx15 q b)" "q = slice 0 (sz_quote5 L) (tdx_data e)"
      "b = slice (q5_body_at L) (r2_size (report2_v1_5 L)) (tdx_data e)"
      "field_nat (slice 0 (sz_quote4_header L) (tdx_data e)) (hd_version L) = 5" "field_nat q (q5_type L) = 3"
  using assms unfolding tdx_checked_def tdx_quote5_ok_def by (auto simp: tdx_as_quote_def)

lemma report2_claim_names:
  "map fst (report2_claim_fields R) =
     [''tdx_tee_tcb_svn'', ''tdx_mr_seam'', ''tdx_mrsigner_seam'', ''tdx_seam_attributes'', ''tdx_td_attributes'',
      ''tdx_xfam'', ''tdx_mr_td'', ''tdx_mr_config_id'', ''tdx_mr_owner'', ''tdx_mr_owner_config'',
      ''tdx_rt_mr0'', ''tdx_rt_mr1'', ''tdx_rt_mr2'', ''tdx_rt_mr3'']"
  by (simp add: report2_claim_fields_def)

lemma map_fst_fields: "map fst (map (\<lambda>(name, f). (name, g name f)) fs) = map fst fs"
  by (induction fs) auto

definition tdx_common_claims :: "bytes \<Rightarrow> claims" where
  "tdx_common_claims data =
     [(BUILT_IN_CLAIM_COMMON_QUOTE, data), (BUILT_IN_CLAIM_COMMON_QUOTE_TYPE, bytes_of ''tdx'')]"

lemma tdx_common_claims_inserts:
  "claims_insert (claims_insert [] BUILT_IN_CLAIM_COMMON_QUOTE data) BUILT_IN_CLAIM_COMMON_QUOTE_TYPE (bytes_of ''tdx'')
   = tdx_common_claims data"
  by (simp add: claims_insert_def tdx_common_claims_def BUILT_IN_CLAIM_COMMON_QUOTE_def
      BUILT_IN_CLAIM_COMMON_QUOTE_TYPE_def)

lemma append_report2:
  "append_claims_sgx_report2_body_t L (tdx_common_claims data) b =
   tdx_common_claims data @ map (\<lambda>(name, f). (name, as_slice L name (get_field b f))) (report2_claim_fields (report2 L))"
  unfolding append_claims_sgx_report2_body_t_def
  by (rule claims_inserts_new)
     (simp only: map_append map_fst_fields report2_claim_names,
      simp add: tdx_common_claims_def BUILT_IN_CLAIM_COMMON_QUOTE_def BUILT_IN_CLAIM_COMMON_QUOTE_TYPE_def)

lemma append_report2_v1_5:
  "append_claims_sgx_report2_body_v1_5_t L (tdx_common_claims data) b =
   tdx_common_claims data @ map (\<lambda>(name, f). (name, as_slice L name (get_field b f)))
     (report2_claim_fields (report2_v1_5 L) @ [(''tdx_tee_tcb_svn2'', r2_tee_tcb_svn2 (report2_v1_5 L)),
        (''tdx_mr_servicetd'', r2_mr_servicetd (report2_v1_5 L))])"
  unfolding append_claims_sgx_report2_body_v1_5_t_def
  by (rule claims_inserts_new)
     (simp only: map_append map_fst_fields report2_claim_names,
      simp add: tdx_common_claims_def BUILT_IN_CLAIM_COMMON_QUOTE_def BUILT_IN_CLAIM_COMMON_QUOTE_TYPE_def)

lemma tdx_common_claims_append:
  assumes "distinct (map fst (tdx_common_claims data @ cl))"
  shows "claims_wf (tdx_common_claims data @ cl)"
    and "claims_get (tdx_common_claims data @ cl) BUILT_IN_CLAIM_COMMON_QUOTE = Some data"
    and "claims_get (tdx_common_claims data @ cl) BUILT_IN_CLAIM_COMMON_QUOTE_TYPE = Some (bytes_of ''tdx'')"
  using assms
  by (simp_all add: claims_wf_def claims_get_def tdx_common_claims_def BUILT_IN_CLAIM_COMMON_QUOTE_def
      BUILT_IN_CLAIM_COMMON_QUOTE_TYPE_def)

lemma tdx_claim_names_distinct:
  "distinct (map fst (tdx_common_claims data @ map (\<lambda>(name, f). (name, as_slice L name (get_field b f))) (report2_claim_fields R)))"
  "distinct (map fst (tdx_common_claims data @ map (\<lambda>(name, f). (name, as_slice L name (get_field b f)))
     (report2_claim_fields R @ [(''tdx_tee_tcb_svn2'', f1), (''tdx_mr_servicetd'', f2)])))"
  by (simp_all only: map_append map_fst_fields report2_claim_names)
     (simp_all add: tdx_common_claims_def BUILT_IN_CLAIM_COMMON_QUOTE_def BUILT_IN_CLAIM_COMMON_QUOTE_TYPE_def)

lemma tdx_get_claims_checked:
  assumes "tdx_checked L (tdx_data e)"
  shows "\<exists>cl. tdx_get_claims L e = Ok (tdx_common_claims (tdx_data e) @ cl) \<and>
    distinct (map fst (tdx_common_claims (tdx_data e) @ cl))"
  using assms
proof (cases rule: tdx_as_quote_checked)
  case (v4 q)
  have "tdx_get_claims L e = Ok (tdx_common_claims (tdx_data e) @
      map (\<lambda>(name, f). (name, as_slice L name (get_field (quote4_report_body L q) f))) (report2_claim_fields (report2 L)))"
    unfolding tdx_get_claims_def tdx_gen_claims_from_quote_def tdx_common_claims_inserts Let_def v4(1)
    by (simp only: andthen_simps quote.case append_report2)
  then show ?thesis by (intro exI conjI, assumption) (rule tdx_claim_names_distinct(1))
next
  case (v5_10 q b)
  have "tdx_get_claims L e = Ok (tdx_common_claims (tdx_data e) @
      map (\<lambda>(name, f). (name, as_slice L name (get_field b f))) (report2_claim_fields (report2 L)))"
    unfolding tdx_get_claims_def tdx_gen_claims_from_quote_def tdx_common_claims_inserts Let_def v5_10(1)
    by (simp only: andthen_simps quote.case append_report2)
  then show ?thesis by (intro exI conjI, assumption) (rule tdx_claim_names_distinct(1))
next
  case (v5_15 q b)
  have "tdx_get_claims L e = Ok (tdx_common_claims (tdx_data e) @
      map (\<lambda>(name, f). (name, as_slice L name (get_field b f))) (report2_claim_fields (report2_v1_5 L) @
        [(''tdx_tee_tcb_svn2'', r2_tee_tcb_svn2 (report2_v1_5 L)), (''tdx_mr_servicetd'', r2_mr_servicetd (report2_v1_5 L))]))"
    unfolding tdx_get_claims_def tdx_gen_claims_from_quote_def tdx_common_claims_inserts Let_def v5_15(1)
    by (simp only: andthen_simps quote.case append_report2_v1_5)
  then show ?thesis by (intro exI conjI, assumption) (rule tdx_claim_names_distinct(2))
qed

lemma tdx_get_report_data_field_checked:
  assumes "tdx_checked L (tdx_data e)"
  shows "\<exists>d. tdx_get_report_data_field L e = Ok d"
  using assms by (cases rule: tdx_as_quote_checked) (simp_all add: tdx_get_report_data_field_def)

text \<open>The report data of a quote, whichever its version.\<close>

definition tdx_bound_data :: "dcap_layout \<Rightarrow> tdx_evidence \<Rightarrow> bytes" where
  "tdx_bound_data L e = (case tdx_get_report_data_field L e of Ok d \<Rightarrow> d | _ \<Rightarrow> [])"

lemma tdx_bound_data_checked:
  "tdx_checked L (tdx_data e) \<Longrightarrow> tdx_get_report_data_field L e = Ok (tdx_bound_data L e)"
  using tdx_get_report_data_field_checked [of L e] by (auto simp: tdx_bound_data_def)

interpretation tdx: generic_evidence
  tdx_get_dice_cbor_tag tdx_get_dice_raw_evidence tdx_get_tee_type "tdx_get_claims L"
  "tdx_create_evidence_from_dice L" "\<lambda>e. tdx_checked L (tdx_data e)" quote_type_name
  for L :: dcap_layout
proof unfold_locales
  fix e :: tdx_evidence
  assume ok: "tdx_checked L (tdx_data e)"
  then show "tdx_create_evidence_from_dice L (tdx_get_dice_cbor_tag e) (tdx_get_dice_raw_evidence e) = Some (Ok e)"
    by (simp add: tdx_create_evidence_from_dice_def tdx_get_dice_cbor_tag_def tdx_get_dice_raw_evidence_def
        tdx_new_from_unchecked_eq_Ok)
  obtain cl where cl: "tdx_get_claims L e = Ok (tdx_common_claims (tdx_data e) @ cl)"
      "distinct (map fst (tdx_common_claims (tdx_data e) @ cl))"
    using tdx_get_claims_checked [OF ok] by blast
  show "\<exists>cl. tdx_get_claims L e = Ok cl \<and> claims_wf cl \<and>
      claims_get cl BUILT_IN_CLAIM_COMMON_QUOTE = Some (tdx_get_dice_raw_evidence e) \<and>
      claims_get cl BUILT_IN_CLAIM_COMMON_QUOTE_TYPE = Some (bytes_of (quote_type_name (tdx_get_tee_type e)))"
    using cl(1) tdx_common_claims_append [OF cl(2)]
    by (simp add: tdx_get_dice_raw_evidence_def tdx_get_tee_type_def)
next
  fix tag raw and e :: tdx_evidence
  assume "tdx_create_evidence_from_dice L tag raw = Some (Ok e)"
  then show "tdx_checked L (tdx_data e) \<and> tdx_get_dice_cbor_tag e = tag \<and> tdx_get_dice_raw_evidence e = raw"
    by (auto simp: tdx_create_evidence_from_dice_def tdx_new_from_unchecked_eq_Ok tdx_get_dice_cbor_tag_def
        tdx_get_dice_raw_evidence_def split: if_splits)
next
  fix tag raw
  show "tdx_create_evidence_from_dice L tag raw \<noteq> Some Panic \<and> tdx_create_evidence_from_dice L tag raw \<noteq> Some UB"
    by (simp add: tdx_create_evidence_from_dice_def tdx_new_from_unchecked_total)
qed

interpretation tdx_verifier: generic_verifier
  "tdx_verify_evidence L Q" "\<lambda>e. tdx_checked L (tdx_data e)" "\<lambda>e. chain_trusted Q (tdx_data e)" "tdx_bound_data L"
  for L :: dcap_layout and Q :: qvl
proof unfold_locales
  fix e :: tdx_evidence and rd :: bytes
  assume "tdx_checked L (tdx_data e)"
  note ok = tdx_bound_data_checked [OF this]
  show "tdx_verify_evidence L Q e rd = Ok () \<longleftrightarrow> chain_trusted Q (tdx_data e) \<and> length rd \<le> 64 \<and>
      tdx_bound_data L e = rd @ replicate (64 - length rd) 0"
    by (auto simp: tdx_verify_evidence_def tdx_ecdsa_quote_verification_def ok ecdsa_quote_verification_eq_Ok
        extend_report_data_eq_Ok)
  show "tdx_verify_evidence L Q e rd \<noteq> UB"
    by (auto simp: tdx_verify_evidence_def tdx_ecdsa_quote_verification_def ok andthen_inv ecdsa_quote_verification_cases)
  show "tdx_verify_evidence L Q e rd \<noteq> Panic" if "length rd \<le> 64"
    using that
    by (auto simp: tdx_verify_evidence_def tdx_ecdsa_quote_verification_def ok andthen_inv ecdsa_quote_verification_cases
        extend_report_data_def)
qed

subsection \<open>Properties\<close>

text \<open>A version 4 TDX quote with an empty signature that carries \<open>rd\<close>, at the layout of the Intel headers.\<close>

definition sample_tdx_quote :: "bytes \<Rightarrow> bytes" where
  "sample_tdx_quote rd = [4, 0, 2, 0, 0x81, 0, 0, 0] @ replicate 560 1 @ (rd @ replicate (64 - length rd) 0) @ [0, 0, 0, 0]"

text \<open>A version 5 quote with a TDX 1.5 body and a signature of three bytes.\<close>

definition sample_tdx15_quote :: "bytes \<Rightarrow> bytes" where
  "sample_tdx15_quote rd = [5, 0, 2, 0, 0x81, 0, 0, 0] @ replicate 40 0 @ [3, 0, 136, 2, 0, 0] @
     replicate 520 1 @ (rd @ replicate (64 - length rd) 0) @ replicate 64 2 @ [3, 0, 0, 0] @ [9, 9, 9]"

lemma sample_tdx_quote_checked:
  assumes "length rd \<le> 64"
  shows "tdx_checked intel_layout (sample_tdx_quote rd)"
  using assms
  by (simp add: tdx_checked_def sample_tdx_quote_def intel_layout_def field_nat_def get_field_def slice_def)

lemma sample_tdx15_quote_checked:
  assumes "length rd \<le> 64"
  shows "tdx_checked intel_layout (sample_tdx15_quote rd)"
  using assms
  by (simp add: tdx_checked_def tdx_quote5_ok_def sample_tdx15_quote_def intel_layout_defs field_nat_def get_field_def slice_def)

lemma sample_tdx_quote_bound:
  assumes "length rd \<le> 64"
  shows "tdx_bound_data intel_layout \<lparr>tdx_data = sample_tdx_quote rd\<rparr> = rd @ replicate (64 - length rd) 0"
  using assms
  by (simp add: tdx_bound_data_def tdx_get_report_data_field_def tdx_as_quote_def quote4_report_body_def
      sample_tdx_quote_def intel_layout_defs field_nat_def get_field_def slice_def)

lemma sample_tdx15_quote_bound:
  assumes "length rd \<le> 64"
  shows "tdx_bound_data intel_layout \<lparr>tdx_data = sample_tdx15_quote rd\<rparr> = rd @ replicate (64 - length rd) 0"
  using assms
  by (simp add: tdx_bound_data_def tdx_get_report_data_field_def tdx_as_quote_def
      sample_tdx15_quote_def intel_layout_defs field_nat_def get_field_def slice_def)

text \<open>
  C26. Validation of an untrusted TDX quote: for every byte string, \<open>new_from_unchecked\<close> never reads
  outside the bytes and never panics. It accepts exactly the quotes of TEE type \<open>0x81\<close> of version 4
  whose length is the struct plus \<open>signature_data_len\<close>, or of version 5 with body type 2 or 3, the
  body's exact size, and a signature length behind the body that fits the length; and on an accepted
  quote the later unsafe reads of \<open>as_quote\<close> and \<open>get_report_data_field\<close> are defined as well.
\<close>

theorem tdx_new_from_unchecked_exact:
  "tdx_new_from_unchecked L data \<noteq> UB \<and> tdx_new_from_unchecked L data \<noteq> Panic \<and>
   (\<forall>e. tdx_new_from_unchecked L data = Ok e \<longleftrightarrow> tdx_checked L data \<and> e = \<lparr>tdx_data = data\<rparr>) \<and>
   (tdx_checked L data \<longrightarrow>
      (\<exists>q d. tdx_as_quote L \<lparr>tdx_data = data\<rparr> = Ok q \<and> tdx_get_report_data_field L \<lparr>tdx_data = data\<rparr> = Ok d))"
proof (intro conjI allI impI)
  assume "tdx_checked L data"
  then have "tdx_get_report_data_field L \<lparr>tdx_data = data\<rparr> = Ok (tdx_bound_data L \<lparr>tdx_data = data\<rparr>)"
    by (simp add: tdx_bound_data_checked)
  then show "\<exists>q d. tdx_as_quote L \<lparr>tdx_data = data\<rparr> = Ok q \<and> tdx_get_report_data_field L \<lparr>tdx_data = data\<rparr> = Ok d"
    by (auto simp: tdx_get_report_data_field_def)
qed (simp_all add: tdx_new_from_unchecked_total tdx_new_from_unchecked_eq_Ok)

theorem tdx_new_from_unchecked_exact_witness:
  "tdx_new_from_unchecked intel_layout (sample_tdx_quote [1, 2]) = Ok \<lparr>tdx_data = sample_tdx_quote [1, 2]\<rparr> \<and>
   tdx_new_from_unchecked intel_layout (sample_tdx15_quote [1, 2]) = Ok \<lparr>tdx_data = sample_tdx15_quote [1, 2]\<rparr> \<and>
   (\<exists>q d. tdx_as_quote intel_layout \<lparr>tdx_data = sample_tdx15_quote [1, 2]\<rparr> = Ok q \<and>
          tdx_get_report_data_field intel_layout \<lparr>tdx_data = sample_tdx15_quote [1, 2]\<rparr> = Ok d)"
  using tdx_new_from_unchecked_exact [of intel_layout "sample_tdx_quote [1, 2]"]
    tdx_new_from_unchecked_exact [of intel_layout "sample_tdx15_quote [1, 2]"]
    sample_tdx_quote_checked [of "[1, 2]"] sample_tdx15_quote_checked [of "[1, 2]"]
  by simp



text \<open>
  C16. Verification of a TDX evidence built from a certificate against a report data succeeds exactly
  when the quote library answers a non-terminal result for its bytes, the report data has at most 64
  bytes, and the report data field of the quote's own body is the report data padded with zeros: for a version 4
  quote this field of the report body inside the struct, for version 5 that of the TDX 1.0 or of the TDX 1.5 body,
  as the body type says. It touches no byte outside the evidence, and panics only for a report data of more than
  64 bytes.
\<close>

theorem tdx_verify_exact:
  assumes "tdx_create_evidence_from_dice L tag raw = Some (Ok e)"
  shows "\<exists>body at.
    (field_nat (slice 0 (sz_quote4_header L) raw) (hd_version L) = 4 \<and>
       body = slice (q4_report_body_at L) (r2_size (report2 L)) (slice 0 (sz_quote4 L) raw) \<and> at = r2_report_data (report2 L) \<or>
     field_nat (slice 0 (sz_quote4_header L) raw) (hd_version L) = 5 \<and> field_nat (slice 0 (sz_quote5 L) raw) (q5_type L) = 2 \<and>
       body = slice (q5_body_at L) (r2_size (report2 L)) raw \<and> at = r2_report_data (report2 L) \<or>
     field_nat (slice 0 (sz_quote4_header L) raw) (hd_version L) = 5 \<and> field_nat (slice 0 (sz_quote5 L) raw) (q5_type L) = 3 \<and>
       body = slice (q5_body_at L) (r2_size (report2_v1_5 L)) raw \<and> at = r2_report_data (report2_v1_5 L)) \<and>
    (tdx_verify_evidence L Q e rd = Ok () \<longleftrightarrow>
      chain_trusted Q raw \<and> length rd \<le> 64 \<and> get_field body at = rd @ replicate (64 - length rd) 0) \<and>
    tdx_verify_evidence L Q e rd \<noteq> UB \<and>
    (tdx_verify_evidence L Q e rd = Panic \<longleftrightarrow> chain_trusted Q raw \<and> 64 < length rd)"
proof -
  have ok: "tdx_checked L (tdx_data e)" and raw: "raw = tdx_data e"
    using tdx.create_checked [OF assms] by (auto simp: tdx_get_dice_raw_evidence_def)
  have panic: "tdx_verify_evidence L Q e rd = Panic \<longleftrightarrow> chain_trusted Q raw \<and> 64 < length rd"
    unfolding tdx_verify_evidence_def tdx_ecdsa_quote_verification_def
    by (auto simp: andthen_inv ecdsa_quote_verification_cases ecdsa_quote_verification_eq_Ok raw extend_report_data_def
        tdx_bound_data_checked [OF ok])
  note rest = tdx_verifier.verify_exact [OF ok, of Q rd, folded raw] tdx_verifier.verify_sound_memory [OF ok, of Q rd] panic
  have bound: "tdx_get_report_data_field L e = Ok d \<Longrightarrow> tdx_bound_data L e = d" for d by (simp add: tdx_bound_data_def)
  from ok show ?thesis
  proof (cases rule: tdx_as_quote_checked)
    case (v4 q)
    have "tdx_bound_data L e = get_field (slice (q4_report_body_at L) (r2_size (report2 L)) (slice 0 (sz_quote4 L) raw)) (r2_report_data (report2 L))"
      by (rule bound) (simp add: tdx_get_report_data_field_def v4(1,2) quote4_report_body_def raw)
    with rest v4(3) [folded raw] show ?thesis by auto
  next
    case (v5_10 q b)
    have "tdx_bound_data L e = get_field (slice (q5_body_at L) (r2_size (report2 L)) raw) (r2_report_data (report2 L))"
      by (rule bound) (simp add: tdx_get_report_data_field_def v5_10(1,3) raw)
    with rest v5_10(4) [folded raw] v5_10(5) [unfolded v5_10(2), folded raw] show ?thesis by auto
  next
    case (v5_15 q b)
    have "tdx_bound_data L e = get_field (slice (q5_body_at L) (r2_size (report2_v1_5 L)) raw) (r2_report_data (report2_v1_5 L))"
      by (rule bound) (simp add: tdx_get_report_data_field_def v5_15(1,3) raw)
    with rest v5_15(4) [folded raw] v5_15(5) [unfolded v5_15(2), folded raw] show ?thesis by auto
  qed
qed

theorem tdx_verify_exact_witness:
  "tdx_verify_evidence intel_layout trusting_qvl \<lparr>tdx_data = sample_tdx15_quote [7, 8]\<rparr> [7, 8] = Ok () \<and>
   tdx_verify_evidence intel_layout trusting_qvl \<lparr>tdx_data = sample_tdx15_quote [7, 8]\<rparr> [7, 9] \<noteq> Ok () \<and>
   tdx_verify_evidence intel_layout distrusting_qvl \<lparr>tdx_data = sample_tdx15_quote [7, 8]\<rparr> [7, 8] \<noteq> Ok () \<and>
   tdx_verify_evidence intel_layout trusting_qvl \<lparr>tdx_data = sample_tdx_quote [7, 8]\<rparr> [7, 8] = Ok ()"
proof -
  have mk: "tdx_create_evidence_from_dice intel_layout OCBR_TAG_EVIDENCE_INTEL_TEE_QUOTE (sample_tdx15_quote [7, 8]) =
      Some (Ok \<lparr>tdx_data = sample_tdx15_quote [7, 8]\<rparr>)"
    "tdx_create_evidence_from_dice intel_layout OCBR_TAG_EVIDENCE_INTEL_TEE_QUOTE (sample_tdx_quote [7, 8]) =
      Some (Ok \<lparr>tdx_data = sample_tdx_quote [7, 8]\<rparr>)"
    by (simp_all add: tdx_create_evidence_from_dice_def tdx_new_from_unchecked_eq_Ok sample_tdx15_quote_checked sample_tdx_quote_checked)
  have v5: "field_nat (slice 0 (sz_quote4_header intel_layout) (sample_tdx15_quote [7, 8])) (hd_version intel_layout) = 5"
    "field_nat (slice 0 (sz_quote5 intel_layout) (sample_tdx15_quote [7, 8])) (q5_type intel_layout) = 3"
    "get_field (slice (q5_body_at intel_layout) (r2_size (report2_v1_5 intel_layout)) (sample_tdx15_quote [7, 8]))
       (r2_report_data (report2_v1_5 intel_layout)) = [7, 8] @ replicate 62 0"
    by (simp_all add: sample_tdx15_quote_def intel_layout_defs field_nat_def get_field_def slice_def)
  have v4: "field_nat (slice 0 (sz_quote4_header intel_layout) (sample_tdx_quote [7, 8])) (hd_version intel_layout) = 4"
    "get_field (slice (q4_report_body_at intel_layout) (r2_size (report2 intel_layout)) (slice 0 (sz_quote4 intel_layout)
       (sample_tdx_quote [7, 8]))) (r2_report_data (report2 intel_layout)) = [7, 8] @ replicate 62 0"
    by (simp_all add: sample_tdx_quote_def intel_layout_defs field_nat_def get_field_def slice_def)
  have "tdx_verify_evidence intel_layout trusting_qvl \<lparr>tdx_data = sample_tdx15_quote [7, 8]\<rparr> [7, 8] = Ok ()"
    using tdx_verify_exact [OF mk(1), of trusting_qvl "[7, 8]"] v5 by auto
  moreover have "tdx_verify_evidence intel_layout trusting_qvl \<lparr>tdx_data = sample_tdx15_quote [7, 8]\<rparr> [7, 9] \<noteq> Ok ()"
    using tdx_verify_exact [OF mk(1), of trusting_qvl "[7, 9]"] v5 by auto
  moreover have "tdx_verify_evidence intel_layout distrusting_qvl \<lparr>tdx_data = sample_tdx15_quote [7, 8]\<rparr> [7, 8] \<noteq> Ok ()"
    using tdx_verify_exact [OF mk(1), of distrusting_qvl "[7, 8]"] v5 by auto
  moreover have "tdx_verify_evidence intel_layout trusting_qvl \<lparr>tdx_data = sample_tdx_quote [7, 8]\<rparr> [7, 8] = Ok ()"
    using tdx_verify_exact [OF mk(2), of trusting_qvl "[7, 8]"] v4 by auto
  ultimately show ?thesis by blast
qed

end
