(* ===== verification/Tee.thy ===== *)
theory Tee
  imports SgxDcap Tdx
begin

text \<open>
  \<^verbatim>\<open>rats-rs/src/tee/mod.rs\<close>: \<open>TeeType::detect_env\<close>, \<open>AutoEvidence\<close>, \<open>AutoAttester\<close> and \<open>AutoVerifier\<close>.
  \<open>Box<dyn GenericEvidence>\<close> holds one of the two evidence types of the crate, so it is the sum
  \<open>auto_evidence\<close>. The cargo features that \<open>cfg\<close> tests are the record \<open>features\<close>; a branch that the
  features remove is a branch that its flag guards. What the host provides is the record \<open>platform\<close>.
\<close>

record features =
  attester_sgx_dcap :: bool
  attester_sgx_dcap_occlum :: bool
  verifier_sgx_dcap :: bool
  attester_tdx :: bool
  verifier_tdx :: bool

record platform =
  env_var :: "string \<Rightarrow> string option"
  path_exists :: "string \<Rightarrow> bool"
  occlum_device :: occlum_dcap
  tdx_device :: tdx_attest

definition detect_env :: "features \<Rightarrow> platform \<Rightarrow> tee_type option" where
  "detect_env F P =
     (if attester_sgx_dcap F \<and> sgx_detect_env (attester_sgx_dcap_occlum F) (env_var P) then Some SgxDcapTee
      else if attester_tdx F \<and> tdx_detect_env (attester_tdx F) (path_exists P) then Some TdxTee
      else None)"

datatype auto_evidence = SgxEv sgx_dcap_evidence | TdxEv tdx_evidence

fun auto_get_dice_cbor_tag :: "auto_evidence \<Rightarrow> u64" where
  "auto_get_dice_cbor_tag (SgxEv e) = sgx_get_dice_cbor_tag e"
| "auto_get_dice_cbor_tag (TdxEv e) = tdx_get_dice_cbor_tag e"

fun auto_get_dice_raw_evidence :: "auto_evidence \<Rightarrow> bytes" where
  "auto_get_dice_raw_evidence (SgxEv e) = sgx_get_dice_raw_evidence e"
| "auto_get_dice_raw_evidence (TdxEv e) = tdx_get_dice_raw_evidence e"

fun auto_get_tee_type :: "auto_evidence \<Rightarrow> tee_type" where
  "auto_get_tee_type (SgxEv e) = sgx_get_tee_type e"
| "auto_get_tee_type (TdxEv e) = tdx_get_tee_type e"

fun auto_get_claims :: "dcap_layout \<Rightarrow> auto_evidence \<Rightarrow> claims res" where
  "auto_get_claims L (SgxEv e) = sgx_get_claims L e"
| "auto_get_claims L (TdxEv e) = tdx_get_claims L e"

text \<open>\<open>if let Some(Ok(res)) = call { return Ok(wrap(res)) }\<close> followed by \<open>rest\<close>.\<close>

definition if_let_some_ok :: "'e res option \<Rightarrow> ('e \<Rightarrow> 'a) \<Rightarrow> 'a res \<Rightarrow> 'a res" where
  "if_let_some_ok call wrap rest =
     (case call of
        Some (Ok r) \<Rightarrow> Ok (wrap r)
      | Some Panic \<Rightarrow> Panic
      | Some UB \<Rightarrow> UB
      | _ \<Rightarrow> rest)"

definition auto_create_evidence_from_dice :: "features \<Rightarrow> dcap_layout \<Rightarrow> u64 \<Rightarrow> bytes \<Rightarrow> auto_evidence res" where
  "auto_create_evidence_from_dice F L cbor_tag raw_evidence =
     if_let_some_ok
       (if attester_sgx_dcap F \<or> verifier_sgx_dcap F
        then sgx_create_evidence_from_dice L cbor_tag raw_evidence else None) SgxEv
     (if_let_some_ok
       (if attester_tdx F \<or> verifier_tdx F
        then tdx_create_evidence_from_dice L cbor_tag raw_evidence else None) TdxEv
     (Err (kind_with_msg UnrecognizedEvidenceType
        ''Unrecognized evidence type, cbor_tag: {:#x?}, raw_evidence: {:02x?}'')))"

definition map_res :: "('a \<Rightarrow> 'b) \<Rightarrow> 'a res \<Rightarrow> 'b res" where
  "map_res f r = andthen r (\<lambda>x. Ok (f x))"

definition auto_get_evidence :: "features \<Rightarrow> platform \<Rightarrow> bytes \<Rightarrow> auto_evidence res" where
  "auto_get_evidence F P report_data =
     (case detect_env F P of
        Some tee_type \<Rightarrow>
          (if tee_type = SgxDcapTee \<and> attester_sgx_dcap F then
             map_res SgxEv (sgx_get_evidence (attester_sgx_dcap_occlum F) (occlum_device P) report_data)
           else if tee_type = TdxTee \<and> attester_tdx F then
             map_res TdxEv (tdx_get_evidence (tdx_device P) report_data)
           else Err (kind_with_msg UnsupportedTeeType
             ''No attester for TEE type {tee_type:?}, the corresponding features (like `attester-*`) may be missing.''))
      | None \<Rightarrow> Err (kind_with_msg UnsupportedTeeType
          ''No TEE was detected on this environment, or the corresponding features (like `attester-*`) may be missing.''))"

definition auto_verify_evidence :: "features \<Rightarrow> dcap_layout \<Rightarrow> qvl \<Rightarrow> auto_evidence \<Rightarrow> bytes \<Rightarrow> unit res" where
  "auto_verify_evidence F L Q evidence report_data =
     (let tee_type = auto_get_tee_type evidence
      in if tee_type = SgxDcapTee \<and> verifier_sgx_dcap F then
           (case evidence of SgxEv ev \<Rightarrow> sgx_verify_evidence L Q ev report_data | _ \<Rightarrow> Panic)
         else if tee_type = TdxTee \<and> verifier_tdx F then
           (case evidence of TdxEv ev \<Rightarrow> tdx_verify_evidence L Q ev report_data | _ \<Rightarrow> Panic)
         else Err (kind_with_msg UnsupportedTeeType
           ''no verifier for tee type {tee_type:?}, the corresponding features (like `verifier-*`) may be missing.''))"

subsection \<open>The two evidence formats exclude each other\<close>

lemma checked_disjoint: "sgx_checked L data \<Longrightarrow> tdx_checked L data \<Longrightarrow> False"
  by (auto simp: sgx_checked_def tdx_checked_def sgx_supported_header_def)

text \<open>The invariant of an \<open>AutoEvidence\<close> that a build with the features \<open>F\<close> creates from a certificate.\<close>

fun auto_checked :: "features \<Rightarrow> dcap_layout \<Rightarrow> auto_evidence \<Rightarrow> bool" where
  "auto_checked F L (SgxEv e) = ((attester_sgx_dcap F \<or> verifier_sgx_dcap F) \<and> sgx_checked L (sgx_data e))"
| "auto_checked F L (TdxEv e) = ((attester_tdx F \<or> verifier_tdx F) \<and> tdx_checked L (tdx_data e))"

fun auto_bound_data :: "dcap_layout \<Rightarrow> auto_evidence \<Rightarrow> bytes" where
  "auto_bound_data L (SgxEv e) = get_field (slice 0 (sz_quote3 L) (sgx_data e)) (q3_report_data L)"
| "auto_bound_data L (TdxEv e) = tdx_bound_data L e"

fun verifier_enabled :: "features \<Rightarrow> auto_evidence \<Rightarrow> bool" where
  "verifier_enabled F (SgxEv e) = verifier_sgx_dcap F"
| "verifier_enabled F (TdxEv e) = verifier_tdx F"

definition auto_trusted :: "features \<Rightarrow> qvl \<Rightarrow> auto_evidence \<Rightarrow> bool" where
  "auto_trusted F Q e = (verifier_enabled F e \<and> chain_trusted Q (auto_get_dice_raw_evidence e))"

lemma if_let_some_ok_simps [simp]:
  "if_let_some_ok None w r = r" "if_let_some_ok (Some (Ok x)) w r = Ok (w x)"
  "if_let_some_ok (Some (Err e)) w r = r" "if_let_some_ok (Some Panic) w r = Panic"
  "if_let_some_ok (Some UB) w r = UB"
  by (simp_all add: if_let_some_ok_def)

lemma sgx_create_cases:
  obtains (none) "sgx_create_evidence_from_dice L tag raw = None" "tag \<noteq> OCBR_TAG_EVIDENCE_INTEL_TEE_QUOTE"
  | (accept) "sgx_create_evidence_from_dice L tag raw = Some (Ok \<lparr>sgx_data = raw\<rparr>)"
      "tag = OCBR_TAG_EVIDENCE_INTEL_TEE_QUOTE" "sgx_checked L raw"
  | (refuse) e where "sgx_create_evidence_from_dice L tag raw = Some (Err e)"
      "tag = OCBR_TAG_EVIDENCE_INTEL_TEE_QUOTE \<Longrightarrow> \<not> sgx_checked L raw"
proof (cases "sgx_create_evidence_from_dice L tag raw")
  case None
  then show ?thesis by (intro none) (auto simp: sgx_create_evidence_from_dice_def)
next
  case (Some r)
  show ?thesis
  proof (cases r)
    case (Ok e)
    with Some sgx.create_checked [of L tag raw e] show ?thesis
      by (intro accept) (auto simp: sgx_create_evidence_from_dice_def sgx_new_from_unchecked_eq_Ok split: if_splits)
  next
    case (Err e)
    with Some show ?thesis
    proof (intro refuse [of e])
      assume "tag = OCBR_TAG_EVIDENCE_INTEL_TEE_QUOTE"
      with Some Err have "sgx_new_from_unchecked L raw = Err e" by (simp add: sgx_create_evidence_from_dice_def)
      then show "\<not> sgx_checked L raw" using sgx_new_from_unchecked_eq_Ok [of L raw "\<lparr>sgx_data = raw\<rparr>"] by auto
    qed simp
  qed (use Some sgx.create_safe [of L tag raw] in auto)
qed

lemma tdx_create_cases:
  obtains (none) "tdx_create_evidence_from_dice L tag raw = None" "tag \<noteq> OCBR_TAG_EVIDENCE_INTEL_TEE_QUOTE"
  | (accept) "tdx_create_evidence_from_dice L tag raw = Some (Ok \<lparr>tdx_data = raw\<rparr>)"
      "tag = OCBR_TAG_EVIDENCE_INTEL_TEE_QUOTE" "tdx_checked L raw"
  | (refuse) e where "tdx_create_evidence_from_dice L tag raw = Some (Err e)"
      "tag = OCBR_TAG_EVIDENCE_INTEL_TEE_QUOTE \<Longrightarrow> \<not> tdx_checked L raw"
proof (cases "tdx_create_evidence_from_dice L tag raw")
  case None
  then show ?thesis by (intro none) (auto simp: tdx_create_evidence_from_dice_def)
next
  case (Some r)
  show ?thesis
  proof (cases r)
    case (Ok e)
    with Some tdx.create_checked [of L tag raw e] show ?thesis
      by (intro accept) (auto simp: tdx_create_evidence_from_dice_def tdx_new_from_unchecked_eq_Ok split: if_splits)
  next
    case (Err e)
    with Some show ?thesis
    proof (intro refuse [of e])
      assume "tag = OCBR_TAG_EVIDENCE_INTEL_TEE_QUOTE"
      with Some Err have "tdx_new_from_unchecked L raw = Err e" by (simp add: tdx_create_evidence_from_dice_def)
      then show "\<not> tdx_checked L raw" using tdx_new_from_unchecked_eq_Ok [of L raw "\<lparr>tdx_data = raw\<rparr>"] by auto
    qed simp
  qed (use Some tdx.create_safe [of L tag raw] in auto)
qed

text \<open>The result of \<open>create_evidence_from_dice\<close> in closed form.\<close>

lemma auto_create_alt:
  "auto_create_evidence_from_dice F L tag raw =
     (if tag = OCBR_TAG_EVIDENCE_INTEL_TEE_QUOTE \<and> (attester_sgx_dcap F \<or> verifier_sgx_dcap F) \<and> sgx_checked L raw
      then Ok (SgxEv \<lparr>sgx_data = raw\<rparr>)
      else if tag = OCBR_TAG_EVIDENCE_INTEL_TEE_QUOTE \<and> (attester_tdx F \<or> verifier_tdx F) \<and> tdx_checked L raw
      then Ok (TdxEv \<lparr>tdx_data = raw\<rparr>)
      else Err (kind_with_msg UnrecognizedEvidenceType
        ''Unrecognized evidence type, cbor_tag: {:#x?}, raw_evidence: {:02x?}''))"
proof -
  have sgx: "if_let_some_ok (sgx_create_evidence_from_dice L tag raw) SgxEv r =
      (if tag = OCBR_TAG_EVIDENCE_INTEL_TEE_QUOTE \<and> sgx_checked L raw then Ok (SgxEv \<lparr>sgx_data = raw\<rparr>) else r)" for r
    by (rule sgx_create_cases [of L tag raw]) auto
  have tdx: "if_let_some_ok (tdx_create_evidence_from_dice L tag raw) TdxEv r =
      (if tag = OCBR_TAG_EVIDENCE_INTEL_TEE_QUOTE \<and> tdx_checked L raw then Ok (TdxEv \<lparr>tdx_data = raw\<rparr>) else r)" for r
    by (rule tdx_create_cases [of L tag raw]) auto
  show ?thesis
    by (cases "attester_sgx_dcap F \<or> verifier_sgx_dcap F"; cases "attester_tdx F \<or> verifier_tdx F")
       (simp_all only: auto_create_evidence_from_dice_def sgx tdx if_True if_False if_let_some_ok_simps simp_thms)
qed

lemma auto_create_total:
  "auto_create_evidence_from_dice F L tag raw \<noteq> Panic" "auto_create_evidence_from_dice F L tag raw \<noteq> UB"
  by (simp_all add: auto_create_alt)

interpretation auto_ev: generic_evidence
  auto_get_dice_cbor_tag auto_get_dice_raw_evidence auto_get_tee_type "auto_get_claims L"
  "\<lambda>tag raw. Some (auto_create_evidence_from_dice F L tag raw)" "auto_checked F L" quote_type_name
  for L :: dcap_layout and F :: features
proof unfold_locales
  fix e :: auto_evidence
  assume ok: "auto_checked F L e"
  then show "Some (auto_create_evidence_from_dice F L (auto_get_dice_cbor_tag e) (auto_get_dice_raw_evidence e)) = Some (Ok e)"
    using checked_disjoint [of L]
    by (cases e) (auto simp: auto_create_alt sgx_get_dice_cbor_tag_def tdx_get_dice_cbor_tag_def
        sgx_get_dice_raw_evidence_def tdx_get_dice_raw_evidence_def)
  show "\<exists>cl. auto_get_claims L e = Ok cl \<and> claims_wf cl \<and>
      claims_get cl BUILT_IN_CLAIM_COMMON_QUOTE = Some (auto_get_dice_raw_evidence e) \<and>
      claims_get cl BUILT_IN_CLAIM_COMMON_QUOTE_TYPE = Some (bytes_of (quote_type_name (auto_get_tee_type e)))"
  proof (cases e)
    case (SgxEv s)
    with ok sgx.claims_of_checked [of L s] show ?thesis by simp
  next
    case (TdxEv t)
    with ok tdx.claims_of_checked [of L t] show ?thesis by simp
  qed
next
  fix tag raw e
  assume "Some (auto_create_evidence_from_dice F L tag raw) = Some (Ok e)"
  then show "auto_checked F L e \<and> auto_get_dice_cbor_tag e = tag \<and> auto_get_dice_raw_evidence e = raw"
    by (auto simp: auto_create_alt sgx_get_dice_cbor_tag_def tdx_get_dice_cbor_tag_def
        sgx_get_dice_raw_evidence_def tdx_get_dice_raw_evidence_def split: if_splits)
qed (simp add: auto_create_total)

interpretation auto_verifier: generic_verifier
  "auto_verify_evidence F L Q" "auto_checked F L" "auto_trusted F Q" "auto_bound_data L"
  for L :: dcap_layout and F :: features and Q :: qvl
proof unfold_locales
  fix e :: auto_evidence and rd :: bytes
  assume ok: "auto_checked F L e"
  show "auto_verify_evidence F L Q e rd = Ok () \<longleftrightarrow> auto_trusted F Q e \<and> length rd \<le> 64 \<and>
      auto_bound_data L e = rd @ replicate (64 - length rd) 0"
    using ok by (cases e) (auto simp: auto_verify_evidence_def auto_trusted_def sgx_get_tee_type_def tdx_get_tee_type_def
        sgx_verifier.verify_exact tdx_verifier.verify_exact sgx_get_dice_raw_evidence_def tdx_get_dice_raw_evidence_def)
  show "auto_verify_evidence F L Q e rd \<noteq> UB"
    using ok by (cases e) (auto simp: auto_verify_evidence_def sgx_get_tee_type_def tdx_get_tee_type_def
        sgx_verifier.verify_sound_memory tdx_verifier.verify_sound_memory)
  show "auto_verify_evidence F L Q e rd \<noteq> Panic" if "length rd \<le> 64"
    using ok that by (cases e) (auto simp: auto_verify_evidence_def sgx_get_tee_type_def tdx_get_tee_type_def
        sgx_verifier.verify_safe tdx_verifier.verify_safe)
qed

subsection \<open>Properties\<close>

definition all_features :: features where
  "all_features = \<lparr>attester_sgx_dcap = True, attester_sgx_dcap_occlum = True, verifier_sgx_dcap = True,
     attester_tdx = True, verifier_tdx = True\<rparr>"

text \<open>A TDX guest whose device answers with the sample quote of the given report data.\<close>

definition sample_platform :: platform where
  "sample_platform = \<lparr>env_var = (\<lambda>_. None), path_exists = (\<lambda>p. p = ''/dev/tdx_guest''),
     occlum_device = \<lparr>dcap_quote_new = Inl ''no device'', dcap_get_quote_size = Inl ''no device'',
       dcap_generate_quote = (\<lambda>_. Inl ''no device'')\<rparr>,
     tdx_device = (\<lambda>rd. (0, Some (sample_tdx_quote rd)))\<rparr>"

text \<open>
  C27. From a certificate's tag and raw evidence \<open>AutoEvidence::create_evidence_from_dice\<close> makes an SGX
  evidence exactly when the tag is the TEE quote tag, an SGX feature is on and the bytes are a valid SGX
  quote, a TDX evidence exactly when the tag is that tag, a TDX feature is on and the bytes are a valid
  TDX quote (no byte string is both, so the order of the two attempts does not matter), and fails with
  the kind \<open>UnrecognizedEvidenceType\<close> in every other case; it never panics and reads no foreign byte.
\<close>

theorem auto_create_classifies:
  "(auto_create_evidence_from_dice F L tag raw = Ok (SgxEv s) \<longleftrightarrow>
      tag = 60000 \<and> (attester_sgx_dcap F \<or> verifier_sgx_dcap F) \<and> sgx_checked L raw \<and> s = \<lparr>sgx_data = raw\<rparr>) \<and>
   (auto_create_evidence_from_dice F L tag raw = Ok (TdxEv t) \<longleftrightarrow>
      tag = 60000 \<and> (attester_tdx F \<or> verifier_tdx F) \<and> tdx_checked L raw \<and> t = \<lparr>tdx_data = raw\<rparr>) \<and>
   \<not> (sgx_checked L raw \<and> tdx_checked L raw) \<and>
   ((\<exists>e. auto_create_evidence_from_dice F L tag raw = Ok e) \<or>
    fails_with (auto_create_evidence_from_dice F L tag raw) UnrecognizedEvidenceType)"
  using checked_disjoint [of L raw]
  by (auto simp: auto_create_alt OCBR_TAG_EVIDENCE_INTEL_TEE_QUOTE_def)

text \<open>
  C14. Verification of an \<open>AutoEvidence\<close> built from a certificate, for every build: it succeeds exactly
  when the verifier of the evidence's TEE type is compiled in, the quote library trusts the raw
  evidence, and the report data has at most 64 bytes and is the one in the quote. Without that verifier
  the error is \<open>UnsupportedTeeType\<close>. For a report data of at most 64 bytes it always returns (the
  \<open>unreachable!\<close> of the two downcasts is not reached), and one evidence never verifies for two
  different report data of the same length.
\<close>

theorem auto_verify_exact:
  assumes "auto_create_evidence_from_dice F L tag raw = Ok e"
  shows "(auto_verify_evidence F L Q e rd = Ok () \<longleftrightarrow>
      verifier_enabled F e \<and> chain_trusted Q raw \<and> length rd \<le> 64 \<and>
      auto_bound_data L e = rd @ replicate (64 - length rd) 0) \<and>
    (\<not> verifier_enabled F e \<longrightarrow> fails_with (auto_verify_evidence F L Q e rd) UnsupportedTeeType) \<and>
    (length rd \<le> 64 \<longrightarrow>
      auto_verify_evidence F L Q e rd = Ok () \<or> (\<exists>err. auto_verify_evidence F L Q e rd = Err err)) \<and>
    (auto_verify_evidence F L Q e rd = Ok () \<and> auto_verify_evidence F L Q e rd' = Ok () \<and>
      length rd' = length rd \<longrightarrow> rd' = rd)"
proof -
  have made: "Some (auto_create_evidence_from_dice F L tag raw) = Some (Ok e)" using assms by simp
  have ok: "auto_checked F L e" and raw: "auto_get_dice_raw_evidence e = raw"
    using auto_ev.create_checked [OF made] by simp_all
  have "\<not> verifier_enabled F e \<longrightarrow> fails_with (auto_verify_evidence F L Q e rd) UnsupportedTeeType"
    by (cases e) (simp_all add: auto_verify_evidence_def sgx_get_tee_type_def tdx_get_tee_type_def)
  with auto_verifier.verify_exact [OF ok, of Q rd] auto_verifier.verify_decides [OF ok, of rd Q]
    auto_verifier.verify_binds [OF ok, of Q rd rd']
  show ?thesis by (auto simp: auto_trusted_def raw)
qed

theorem auto_verify_exact_witness:
  "auto_verify_evidence all_features intel_layout trusting_qvl (TdxEv \<lparr>tdx_data = sample_tdx_quote [7, 8]\<rparr>) [7, 8] = Ok () \<and>
   auto_verify_evidence all_features intel_layout distrusting_qvl (TdxEv \<lparr>tdx_data = sample_tdx_quote [7, 8]\<rparr>) [7, 8] \<noteq> Ok ()"
proof -
  have mk: "auto_create_evidence_from_dice all_features intel_layout 60000 (sample_tdx_quote [7, 8]) =
      Ok (TdxEv \<lparr>tdx_data = sample_tdx_quote [7, 8]\<rparr>)"
    using sample_tdx_quote_checked [of "[7, 8]"] checked_disjoint [of intel_layout "sample_tdx_quote [7, 8]"]
    by (auto simp: auto_create_alt OCBR_TAG_EVIDENCE_INTEL_TEE_QUOTE_def all_features_def)
  show ?thesis
    using auto_verify_exact [OF mk, of trusting_qvl "[7, 8]" "[]"] auto_verify_exact [OF mk, of distrusting_qvl "[7, 8]" "[]"]
    by (simp add: all_features_def sample_tdx_quote_bound)
qed

text \<open>
  \<open>AutoAttester::get_evidence\<close>: it succeeds only on a detected TEE whose attester is compiled in
  and for a report data of at most 64 bytes, and what it returns is an evidence of the detected type.
  Where no TEE is detected the error is \<open>UnsupportedTeeType\<close>, and on a detected TEE a longer report
  data is refused with \<open>InvalidParameter\<close> before the device is asked; the fallback branch for a TEE
  type without an attester is never taken.
\<close>

theorem auto_attester_exact:
  "(auto_get_evidence F P rd = Ok e \<longrightarrow> length rd \<le> 64 \<and> detect_env F P = Some (auto_get_tee_type e)) \<and>
   (fails_with (auto_get_evidence F P rd) UnsupportedTeeType \<longleftrightarrow> detect_env F P = None) \<and>
   (64 < length rd \<and> detect_env F P \<noteq> None \<longrightarrow> fails_with (auto_get_evidence F P rd) InvalidParameter)"
proof -
  have sgx_on: "detect_env F P = Some SgxDcapTee \<Longrightarrow> attester_sgx_dcap F \<and> attester_sgx_dcap_occlum F"
    and tdx_on: "detect_env F P = Some TdxTee \<Longrightarrow> attester_tdx F"
    by (auto simp: detect_env_def sgx_detect_env_def split: if_splits)
  have kind_sgx: "\<not> fails_with (map_res SgxEv (sgx_get_evidence f D rd)) UnsupportedTeeType" for f D
    by (auto simp: map_res_def fails_with_def andthen_eq_Err sgx_get_evidence_def Let_def extend_report_data_def
        write_ptr_def sgx_new_from_checked_def res_kind_def res_context_def map_err_eq_Err lift_ext_def error_from_def
        with_kind_def with_msg_def kind_with_msg_def split: res.splits sum.splits option.splits if_splits)
  have kind_tdx: "\<not> fails_with (map_res TdxEv (tdx_get_evidence D rd)) UnsupportedTeeType" for D
    by (auto simp: map_res_def fails_with_def andthen_eq_Err tdx_get_evidence_def extend_report_data_def
        tdx_new_from_checked_def split: res.splits option.splits if_splits prod.splits)
  show ?thesis
  proof (cases "detect_env F P")
    case None
    then show ?thesis by (simp add: auto_get_evidence_def)
  next
    case (Some t)
    show ?thesis
    proof (cases t)
      case SgxDcapTee
      with Some have get: "auto_get_evidence F P rd = map_res SgxEv (sgx_get_evidence True (occlum_device P) rd)"
        using sgx_on by (simp add: auto_get_evidence_def)
      have long: "64 < length rd \<Longrightarrow> fails_with (map_res SgxEv (sgx_get_evidence True (occlum_device P) rd)) InvalidParameter"
        by (simp add: map_res_def sgx_get_evidence_def)
      have short: "map_res SgxEv (sgx_get_evidence True (occlum_device P) rd) = Ok e \<Longrightarrow> length rd \<le> 64 \<and> (\<exists>x. e = SgxEv x)"
        by (auto simp: map_res_def dest: sgx_get_evidence_Ok)
      show ?thesis
        using Some SgxDcapTee kind_sgx long short unfolding get by (auto simp: sgx_get_tee_type_def)
    next
      case TdxTee
      with Some have get: "auto_get_evidence F P rd = map_res TdxEv (tdx_get_evidence (tdx_device P) rd)"
        using tdx_on by (simp add: auto_get_evidence_def)
      have long: "64 < length rd \<Longrightarrow> fails_with (map_res TdxEv (tdx_get_evidence (tdx_device P) rd)) InvalidParameter"
        by (simp add: map_res_def tdx_get_evidence_def)
      have short: "map_res TdxEv (tdx_get_evidence (tdx_device P) rd) = Ok e \<Longrightarrow> length rd \<le> 64 \<and> (\<exists>x. e = TdxEv x)"
        by (auto simp: map_res_def tdx_get_evidence_def split: if_splits)
      show ?thesis
        using Some TdxTee kind_tdx long short unfolding get by (auto simp: tdx_get_tee_type_def)
    qed
  qed
qed

theorem auto_attester_exact_witness:
  "detect_env all_features sample_platform = Some TdxTee \<and>
   auto_get_evidence all_features sample_platform [7, 8] =
     Ok (TdxEv \<lparr>tdx_data = sample_tdx_quote ([7, 8] @ replicate 62 0)\<rparr>) \<and>
   fails_with (auto_get_evidence all_features sample_platform (replicate 65 1)) InvalidParameter"
proof -
  have env: "detect_env all_features sample_platform = Some TdxTee"
    by (simp add: detect_env_def sgx_detect_env_def tdx_detect_env_def all_features_def sample_platform_def)
  moreover have "auto_get_evidence all_features sample_platform [7, 8] =
     Ok (TdxEv \<lparr>tdx_data = sample_tdx_quote ([7, 8] @ replicate 62 0)\<rparr>)"
    using env
    by (simp add: auto_get_evidence_def map_res_def tdx_get_evidence_def extend_report_data_def blit_def
        sample_platform_def all_features_def TDX_ATTEST_SUCCESS_def tdx_new_from_checked_def)
  ultimately show ?thesis
    using auto_attester_exact [of all_features sample_platform "replicate 65 1" "TdxEv \<lparr>tdx_data = []\<rparr>"] by simp
qed

end
