(* ===== verification/CertCreate.thy ===== *)
theory CertCreate
  imports Dice Tee
begin

text \<open>
  \<^verbatim>\<open>rats-rs/src/cert/create.rs\<close>: \<open>CertBuilder\<close> and \<open>CertBundle\<close>. The third-party libraries and the
  build's configuration that the certificate layer uses are gathered in the record \<open>deps\<close>. An attester
  is its \<open>get_evidence\<close> with the two accessors of its evidence type that the builder calls, so that
  \<open>CertBuilder\<close> is generic in the attester as the code's is; \<open>auto_attester\<close> is the instance the
  program uses.
\<close>

record deps =
  lib_crypto :: crypto_lib
  lib_cbor :: cbor_lib
  lib_x509 :: x509_lib
  build_features :: features
  dcap :: dcap_layout
  quote_lib :: qvl

record 'e attester =
  get_evidence :: "bytes \<Rightarrow> 'e res"
  evidence_tag :: "'e \<Rightarrow> u64"
  evidence_raw :: "'e \<Rightarrow> bytes"

definition auto_attester :: "features \<Rightarrow> platform \<Rightarrow> auto_evidence attester" where
  "auto_attester F P = \<lparr>get_evidence = auto_get_evidence F P, evidence_tag = auto_get_dice_cbor_tag,
     evidence_raw = auto_get_dice_raw_evidence\<rparr>"

record 'e cert_bundle =
  bundle_private_key :: asymmetric_private_key
  bundle_cert :: certificate
  bundle_evidence :: 'e

definition cert_to_pem :: "deps \<Rightarrow> 'e cert_bundle \<Rightarrow> string res" where
  "cert_to_pem D b = gen_cert_step ''failed to encode certificate as pem'' (cert_to_pem_lib (lib_x509 D) (bundle_cert b))"

definition cert_to_der :: "deps \<Rightarrow> 'e cert_bundle \<Rightarrow> bytes res" where
  "cert_to_der D b = gen_cert_step ''failed to encode certificate as der'' (cert_to_der_lib (lib_x509 D) (bundle_cert b))"

record 'e cert_builder =
  cb_attester :: "'e attester"
  cb_claims :: "claims option"
  cb_subject :: string
  cb_hash_algo :: hash_algo

definition cert_builder_new :: "'e attester \<Rightarrow> hash_algo \<Rightarrow> 'e cert_builder" where
  "cert_builder_new attester hash_algo =
     \<lparr>cb_attester = attester, cb_claims = None, cb_subject = ''CN=rats-rs,O=Inclavare Containers'',
      cb_hash_algo = hash_algo\<rparr>"

definition with_claims :: "'e cert_builder \<Rightarrow> claims \<Rightarrow> 'e cert_builder" where
  "with_claims b claims = b\<lparr>cb_claims := Some claims\<rparr>"

definition with_subject :: "'e cert_builder \<Rightarrow> string \<Rightarrow> 'e cert_builder" where
  "with_subject b subject = b\<lparr>cb_subject := subject\<rparr>"

definition build_with_private_key_inner ::
    "deps \<Rightarrow> 'e cert_builder \<Rightarrow> asymmetric_private_key \<Rightarrow> (certificate \<times> 'e) res" where
  "build_with_private_key_inner D b key =
     andthen (hash_of_private_key (lib_crypto D) (cb_hash_algo b) key) (\<lambda>pubkey_hash.
     andthen (generate_pubkey_hash_value_buffer (lib_cbor D) (cb_hash_algo b) pubkey_hash) (\<lambda>pubkey_hash_value_buffer.
     let claims = (case cb_claims b of Some claims \<Rightarrow> claims | None \<Rightarrow> []);
         claims = claims_insert claims CLAIM_NAME_PUBLIC_KEY_HASH pubkey_hash_value_buffer
     in andthen (generate_claims_buffer (lib_cbor D) claims) (\<lambda>claims_buffer.
     let claims_buffer_hash = hash (lib_crypto D) Sha256 claims_buffer
     in andthen (get_evidence (cb_attester b) claims_buffer_hash) (\<lambda>evidence.
     andthen (generate_evidence_buffer_with_tag (lib_cbor D) (evidence_tag (cb_attester b) evidence)
       (evidence_raw (cb_attester b) evidence) claims_buffer) (\<lambda>evidence_buffer.
     andthen (generate_and_sign_dice_cert (lib_x509 D) (cb_subject b) (cb_hash_algo b) key evidence_buffer (Some []))
       (\<lambda>cert. Ok (cert, evidence)))))))"

definition build_with_private_key ::
    "deps \<Rightarrow> 'e cert_builder \<Rightarrow> asymmetric_private_key \<Rightarrow> 'e cert_bundle res" where
  "build_with_private_key D b key =
     andthen (build_with_private_key_inner D b key) (\<lambda>(cert, evidence).
       Ok \<lparr>bundle_private_key = key, bundle_cert = cert, bundle_evidence = evidence\<rparr>)"

definition build_cert :: "deps \<Rightarrow> rng \<Rightarrow> 'e cert_builder \<Rightarrow> asymmetric_algo \<Rightarrow> 'e cert_bundle res" where
  "build_cert D g b private_key_algo =
     andthen (gen_private_key (lib_crypto D) g private_key_algo) (\<lambda>key.
     andthen (build_with_private_key_inner D b key) (\<lambda>(cert, evidence).
       Ok \<lparr>bundle_private_key = key, bundle_cert = cert, bundle_evidence = evidence\<rparr>))"

text \<open>The claims that go into the evidence: the caller's, with the public key hash put in.\<close>

definition custom_claims_of :: "'e cert_builder \<Rightarrow> bytes \<Rightarrow> claims" where
  "custom_claims_of b pubkey_hash_value_buffer =
     claims_insert (case cb_claims b of Some claims \<Rightarrow> claims | None \<Rightarrow> []) CLAIM_NAME_PUBLIC_KEY_HASH
       pubkey_hash_value_buffer"

text \<open>What a successful run of \<open>build_with_private_key_inner\<close> did, step by step.\<close>

lemma build_inner_Ok:
  assumes "build_with_private_key_inner D b key = Ok (cert, e)"
  obtains spki_bytes hb cb eb where
    "spki_doc (lib_crypto D) key = Ok spki_bytes"
    "generate_pubkey_hash_value_buffer (lib_cbor D) (cb_hash_algo b) (hash (lib_crypto D) (cb_hash_algo b) spki_bytes) = Ok hb"
    "generate_claims_buffer (lib_cbor D) (custom_claims_of b hb) = Ok cb"
    "get_evidence (cb_attester b) (hash (lib_crypto D) Sha256 cb) = Ok e"
    "generate_evidence_buffer_with_tag (lib_cbor D) (evidence_tag (cb_attester b) e) (evidence_raw (cb_attester b) e) cb = Ok eb"
    "generate_and_sign_dice_cert (lib_x509 D) (cb_subject b) (cb_hash_algo b) key eb (Some []) = Ok cert"
  using assms
  by (auto simp: build_with_private_key_inner_def hash_of_private_key_def custom_claims_of_def Let_def)

lemma build_with_private_key_Ok:
  "build_with_private_key D b key = Ok bd \<longleftrightarrow>
   bundle_private_key bd = key \<and>
   build_with_private_key_inner D b key = Ok (bundle_cert bd, bundle_evidence bd)"
  by (cases bd) (auto simp: build_with_private_key_def)

lemma build_cert_Ok:
  "build_cert D g b a = Ok bd \<longleftrightarrow>
   gen_private_key (lib_crypto D) g a = Ok (bundle_private_key bd) \<and>
   build_with_private_key D b (bundle_private_key bd) = Ok bd"
  by (cases bd) (auto simp: build_cert_def build_with_private_key_def)

lemma spki_doc_total [simp]: "spki_doc C k \<noteq> Panic" "spki_doc C k \<noteq> UB"
  by (cases k; simp)+

lemma build_inner_total:
  "build_with_private_key_inner D b key = Panic \<Longrightarrow> \<exists>rd. get_evidence (cb_attester b) rd = Panic"
  "build_with_private_key_inner D b key = UB \<Longrightarrow> \<exists>rd. get_evidence (cb_attester b) rd = UB"
  by (auto simp: build_with_private_key_inner_def hash_of_private_key_def Let_def andthen_inv
      generate_pubkey_hash_value_buffer_def generate_claims_buffer_def generate_evidence_buffer_with_tag_def
      generate_and_sign_total)

end
