(* ===== verification/CertVerify.thy ===== *)
theory CertVerify
  imports CertCreate
begin

text \<open>
  \<^verbatim>\<open>rats-rs/src/cert/verify.rs\<close>: the verification of a DICE certificate (\<open>verify_cert_der\<close> with its
  helpers) and the claims policy (\<open>CertVerifier\<close>). What an accepted certificate guarantees is
  \<open>cert_accepted\<close>; the theorems show that the code accepts exactly these, and what follows from it.
\<close>

definition rsa_verify_with :: "x509_lib \<Rightarrow> hash_algo \<Rightarrow> spki \<Rightarrow> bytes \<Rightarrow> bytes \<Rightarrow> unit res" where
  "rsa_verify_with X h spki signed_data signature =
     andthen (lift_ext (rsa_public_try_from X spki)) (\<lambda>pub.
     andthen (lift_ext (pkcs1v15_signature_try_from X signature)) (\<lambda>sig.
     lift_ext (pkcs1v15_verify X h pub signed_data sig)))"

definition SHA_256_WITH_RSA_ENCRYPTION :: oid where
  "SHA_256_WITH_RSA_ENCRYPTION = ''1.2.840.113549.1.1.11''"

definition SHA_384_WITH_RSA_ENCRYPTION :: oid where
  "SHA_384_WITH_RSA_ENCRYPTION = ''1.2.840.113549.1.1.12''"

definition SHA_512_WITH_RSA_ENCRYPTION :: oid where
  "SHA_512_WITH_RSA_ENCRYPTION = ''1.2.840.113549.1.1.13''"

definition ECDSA_WITH_SHA_256 :: oid where
  "ECDSA_WITH_SHA_256 = ''1.2.840.10045.4.3.2''"

lemmas sig_oids = SHA_256_WITH_RSA_ENCRYPTION_def SHA_384_WITH_RSA_ENCRYPTION_def
  SHA_512_WITH_RSA_ENCRYPTION_def ECDSA_WITH_SHA_256_def

definition verify_signed_data :: "x509_lib \<Rightarrow> certificate \<Rightarrow> bytes \<Rightarrow> bytes \<Rightarrow> oid \<Rightarrow> unit res" where
  "verify_signed_data X issuer signed_data signature algo_oid =
     (let spki = tbs_spki (tbs issuer)
      in andthen
        (if algo_oid = SHA_256_WITH_RSA_ENCRYPTION then rsa_verify_with X Sha256 spki signed_data signature
         else if algo_oid = SHA_384_WITH_RSA_ENCRYPTION then rsa_verify_with X Sha384 spki signed_data signature
         else if algo_oid = SHA_512_WITH_RSA_ENCRYPTION then rsa_verify_with X Sha512 spki signed_data signature
         else if algo_oid = ECDSA_WITH_SHA_256 then
           andthen (lift_ext (p256_signature_try_from X signature)) (\<lambda>signature.
           andthen (lift_ext (p256_public_try_from X spki)) (\<lambda>pub.
           lift_ext (p256_verify X pub signed_data signature)))
         else Err (error_from ''unknown signature algo {}''))
        (\<lambda>_. Ok ()))"

definition verify_cert_signature :: "x509_lib \<Rightarrow> certificate \<Rightarrow> certificate \<Rightarrow> unit res" where
  "verify_cert_signature X issuer signed_cert =
     (if tbs_subject (tbs issuer) \<noteq> tbs_issuer (tbs signed_cert)
      then Err (error_from ''certificate issuer does not match'')
      else andthen (lift_ext (tbs_to_der X (tbs signed_cert))) (\<lambda>signed_data.
           andthen (case cert_signature signed_cert of
               Some s \<Rightarrow> Ok s
             | None \<Rightarrow> Err (error_from ''could not get cert signature'')) (\<lambda>signature.
           verify_signed_data X issuer signed_data signature (signature_algorithm_oid signed_cert))))"

definition extract_ext_with_oid :: "certificate \<Rightarrow> oid \<Rightarrow> bytes option" where
  "extract_ext_with_oid cert oid =
     (case tbs_extensions (tbs cert) of
        None \<Rightarrow> None
      | Some exts \<Rightarrow>
          (case filter (\<lambda>ext. extn_id ext = oid) exts of
             ext # _ \<Rightarrow> Some (extn_value ext)
           | [] \<Rightarrow> None))"

text \<open>The loop over the custom claims that merges them into the claims of the evidence.\<close>

fun merge_claims :: "claims \<Rightarrow> claims \<Rightarrow> claims" where
  "merge_claims claims [] = claims"
| "merge_claims claims ((k, v) # custom) =
     merge_claims (if contains_key claims k then claims else claims_insert claims k v) custom"

definition verify_cert_der :: "deps \<Rightarrow> bytes \<Rightarrow> claims res" where
  "verify_cert_der D der =
     andthen (res_context ''failed to parse certificate from der''
       (res_kind ParseCertError (lift_ext (cert_from_der (lib_x509 D) der)))) (\<lambda>cert.
     andthen (res_kind CertVerifySignatureFailed (verify_cert_signature (lib_x509 D) cert cert)) (\<lambda>_.
     let evidence_buffer = extract_ext_with_oid cert OID_TCG_DICE_TAGGED_EVIDENCE;
         endorsements_buffer = extract_ext_with_oid cert OID_TCG_DICE_ENDORSEMENT_MANIFEST
     in andthen (case evidence_buffer of
         Some v \<Rightarrow> Ok v
       | None \<Rightarrow> Err (kind_with_msg CertExtractExtensionFailed
           ''failed to extract the evidence extensions from the certificate'')) (\<lambda>evidence_buffer.
     andthen (parse_evidence_buffer_with_tag (lib_cbor D) evidence_buffer) (\<lambda>(tag, raw_evidence, claims_buffer).
     andthen (auto_create_evidence_from_dice (build_features D) (dcap D) tag raw_evidence) (\<lambda>evidence.
     let claims_buffer_hash = hash (lib_crypto D) Sha256 claims_buffer
     in andthen (auto_verify_evidence (build_features D) (dcap D) (quote_lib D) evidence claims_buffer_hash) (\<lambda>_.
     andthen (auto_get_claims (dcap D) evidence) (\<lambda>builtin_claims.
     andthen (parse_claims_buffer (lib_cbor D) claims_buffer) (\<lambda>custom_claims.
     andthen (case claims_get custom_claims CLAIM_NAME_PUBLIC_KEY_HASH of
         Some v \<Rightarrow> Ok v
       | None \<Rightarrow> Err (kind_with_msg CertVerifyPublicKeyHashFailed
           ''failed to find claim with name '{}' from claims list with length {}'')) (\<lambda>pubkey_hash_value_buffer.
     andthen (parse_pubkey_hash_value_buffer (lib_cbor D) pubkey_hash_value_buffer) (\<lambda>(pubkey_hash_algo, pubkey_hash).
     andthen (lift_ext (spki_to_der (lib_x509 D) (tbs_spki (tbs cert)))) (\<lambda>spki_bytes.
     let calculated_pubkey_hash = hash (lib_crypto D) pubkey_hash_algo spki_bytes
     in if pubkey_hash \<noteq> calculated_pubkey_hash
        then Err (kind_with_msg CertVerifyPublicKeyHashFailed ''hash of public key mismatch'')
        else Ok (merge_claims builtin_claims custom_claims))))))))))))"

subsection \<open>CertVerifier\<close>

datatype verify_policy = Contains claims

datatype verify_policy_output = Passed | Failed

record cert_verifier =
  policy :: verify_policy

definition cert_verifier_new :: "verify_policy \<Rightarrow> cert_verifier" where
  "cert_verifier_new p = \<lparr>policy = p\<rparr>"

definition cert_verifier_verify :: "deps \<Rightarrow> cert_verifier \<Rightarrow> bytes \<Rightarrow> verify_policy_output res" where
  "cert_verifier_verify D cv cert =
     andthen (verify_cert_der D cert) (\<lambda>claims.
     let passed = (case policy cv of Contains expected_claims \<Rightarrow>
           list_all (\<lambda>(name, expected_value). case claims_get claims name of
               Some value \<Rightarrow> (if expected_value \<noteq> value then False else True)
             | None \<Rightarrow> False) expected_claims)
     in if passed then Ok Passed else Ok Failed)"

subsection \<open>Signatures\<close>

text \<open>A signature by the given signer on \<open>msg\<close> is accepted under the public key \<open>spki\<close>.\<close>

fun signer_accepts :: "x509_lib \<Rightarrow> signer \<Rightarrow> spki \<Rightarrow> bytes \<Rightarrow> bytes \<Rightarrow> bool" where
  "signer_accepts X (RsaSigner h k) spki msg sig =
     (\<exists>pub s. rsa_public_try_from X spki = Inr pub \<and> pkcs1v15_signature_try_from X sig = Inr s \<and>
        pkcs1v15_verify X h pub msg s = Inr ())"
| "signer_accepts X (P256Signer k) spki msg sig =
     (\<exists>pub s. p256_public_try_from X spki = Inr pub \<and> p256_signature_try_from X sig = Inr s \<and>
        p256_verify X pub msg s = Inr ())"

fun signer_oid :: "signer \<Rightarrow> oid" where
  "signer_oid (RsaSigner Sha256 k) = SHA_256_WITH_RSA_ENCRYPTION"
| "signer_oid (RsaSigner Sha384 k) = SHA_384_WITH_RSA_ENCRYPTION"
| "signer_oid (RsaSigner Sha512 k) = SHA_512_WITH_RSA_ENCRYPTION"
| "signer_oid (P256Signer k) = ECDSA_WITH_SHA_256"

lemma verify_signed_data_eq_Ok:
  "verify_signed_data X issuer msg sig alg = Ok () \<longleftrightarrow>
   (\<exists>s. alg = signer_oid s \<and> signer_accepts X s (tbs_spki (tbs issuer)) msg sig)"
proof
  assume "verify_signed_data X issuer msg sig alg = Ok ()"
  then consider h where "alg = signer_oid (RsaSigner h [])" "rsa_verify_with X h (tbs_spki (tbs issuer)) msg sig = Ok ()"
    | "alg = ECDSA_WITH_SHA_256" "signer_accepts X (P256Signer []) (tbs_spki (tbs issuer)) msg sig"
    by (auto simp: verify_signed_data_def Let_def split: if_splits)
       (metis signer_oid.simps(1), metis signer_oid.simps(2), metis signer_oid.simps(3))
  then show "\<exists>s. alg = signer_oid s \<and> signer_accepts X s (tbs_spki (tbs issuer)) msg sig"
  proof cases
    case (1 h)
    then show ?thesis by (intro exI [of _ "RsaSigner h []"]) (auto simp: rsa_verify_with_def)
  next
    case 2
    then show ?thesis by (intro exI [of _ "P256Signer []"]) simp
  qed
next
  assume "\<exists>s. alg = signer_oid s \<and> signer_accepts X s (tbs_spki (tbs issuer)) msg sig"
  then obtain s where s: "alg = signer_oid s" "signer_accepts X s (tbs_spki (tbs issuer)) msg sig" by blast
  show "verify_signed_data X issuer msg sig alg = Ok ()"
  proof (cases s)
    case (RsaSigner h k)
    with s show ?thesis
      by (cases h) (auto simp: verify_signed_data_def rsa_verify_with_def sig_oids)
  next
    case (P256Signer k)
    with s show ?thesis by (auto simp: verify_signed_data_def sig_oids)
  qed
qed

lemma verify_signed_data_total [simp]:
  "verify_signed_data X i m s a \<noteq> Panic" "verify_signed_data X i m s a \<noteq> UB"
  by (auto simp: verify_signed_data_def rsa_verify_with_def Let_def andthen_inv)

lemma verify_cert_signature_total [simp]:
  "verify_cert_signature X i s \<noteq> Panic" "verify_cert_signature X i s \<noteq> UB"
  by (auto simp: verify_cert_signature_def andthen_inv split: option.split)

text \<open>A certificate signed by the holder of its own key.\<close>

definition self_signed :: "x509_lib \<Rightarrow> certificate \<Rightarrow> bool" where
  "self_signed X cert \<longleftrightarrow>
     tbs_subject (tbs cert) = tbs_issuer (tbs cert) \<and>
     (\<exists>msg sig s. tbs_to_der X (tbs cert) = Inr msg \<and> cert_signature cert = Some sig \<and>
        signature_algorithm_oid cert = signer_oid s \<and> signer_accepts X s (tbs_spki (tbs cert)) msg sig)"

lemma verify_cert_signature_self: "verify_cert_signature X cert cert = Ok () \<longleftrightarrow> self_signed X cert"
  by (auto simp: verify_cert_signature_def self_signed_def verify_signed_data_eq_Ok split: option.splits)

subsection \<open>Merging claims\<close>

lemma merge_claims_wf: "claims_wf b \<Longrightarrow> claims_wf (merge_claims b c)"
  by (induction b c rule: merge_claims.induct) simp_all

lemma merge_claims_get:
  "claims_get (merge_claims b c) k = (case claims_get b k of Some v \<Rightarrow> Some v | None \<Rightarrow> claims_get c k)"
proof (induction b c rule: merge_claims.induct)
  case (1 b)
  show ?case by (simp split: option.split)
next
  case (2 b k' v c)
  show ?case
    by (subst merge_claims.simps, subst 2)
       (auto simp: contains_key_get claims_get_def [of "(k', v) # c"] claims_get_def [of c] split: option.splits)
qed

lemma merge_claims_order:
  "distinct (map fst c) \<Longrightarrow> merge_claims b c = b @ filter (\<lambda>(k, v). claims_get b k = None) c"
proof (induction b c rule: merge_claims.induct)
  case (1 b)
  show ?case by simp
next
  case (2 b k v c)
  show ?case
  proof (cases "claims_get b k = None")
    case True
    have "filter (\<lambda>(k', w). claims_get (claims_insert b k v) k' = None) c = filter (\<lambda>(k', w). claims_get b k' = None) c"
      using 2(2) by (intro filter_cong) (auto simp: image_iff)
    with True 2 show ?thesis by (simp add: contains_key_get claims_insert_fresh)
  qed (use 2 in \<open>simp add: contains_key_get\<close>)
qed

subsection \<open>What an accepted certificate is\<close>

text \<open>
  The certificate is self signed, its first evidence extension is the tagged message of a quote that
  the quote library trusts and whose report data is the SHA-256 of the claims buffer, and the claims
  buffer names the hash of the certificate's own public key.
\<close>

definition cert_accepted :: "deps \<Rightarrow> certificate \<Rightarrow> u64 \<Rightarrow> bytes \<Rightarrow> bytes \<Rightarrow> auto_evidence \<Rightarrow> claims \<Rightarrow> bool" where
  "cert_accepted D cert tag raw claims_buffer e custom \<longleftrightarrow>
     self_signed (lib_x509 D) cert \<and>
     (\<exists>buf. extract_ext_with_oid cert OID_TCG_DICE_TAGGED_EVIDENCE = Some buf \<and>
        parse_evidence_buffer_with_tag (lib_cbor D) buf = Ok (tag, raw, claims_buffer)) \<and>
     auto_create_evidence_from_dice (build_features D) (dcap D) tag raw = Ok e \<and>
     verifier_enabled (build_features D) e \<and> chain_trusted (quote_lib D) raw \<and>
     length (hash (lib_crypto D) Sha256 claims_buffer) \<le> 64 \<and>
     auto_bound_data (dcap D) e =
       hash (lib_crypto D) Sha256 claims_buffer @ replicate (64 - length (hash (lib_crypto D) Sha256 claims_buffer)) 0 \<and>
     parse_claims_buffer (lib_cbor D) claims_buffer = Ok custom \<and>
     (\<exists>hb a spki_bytes. claims_get custom CLAIM_NAME_PUBLIC_KEY_HASH = Some hb \<and>
        spki_to_der (lib_x509 D) (tbs_spki (tbs cert)) = Inr spki_bytes \<and>
        parse_pubkey_hash_value_buffer (lib_cbor D) hb = Ok (a, hash (lib_crypto D) a spki_bytes))"

lemma verify_evidence_created:
  assumes "auto_create_evidence_from_dice F L tag raw = Ok e"
  shows "auto_verify_evidence F L Q e rd = Ok () \<longleftrightarrow>
      verifier_enabled F e \<and> chain_trusted Q raw \<and> length rd \<le> 64 \<and>
      auto_bound_data L e = rd @ replicate (64 - length rd) 0"
proof -
  have "Some (auto_create_evidence_from_dice F L tag raw) = Some (Ok e)" using assms by simp
  from auto_ev.create_checked [OF this] show ?thesis
    by (simp add: auto_verifier.verify_exact auto_trusted_def)
qed

lemma get_claims_created:
  assumes "auto_create_evidence_from_dice F L tag raw = Ok e"
  shows "\<exists>cl. auto_get_claims L e = Ok cl \<and> claims_wf cl \<and>
    claims_get cl BUILT_IN_CLAIM_COMMON_QUOTE = Some raw \<and>
    claims_get cl BUILT_IN_CLAIM_COMMON_QUOTE_TYPE = Some (bytes_of (quote_type_name (auto_get_tee_type e)))"
proof -
  have "Some (auto_create_evidence_from_dice F L tag raw) = Some (Ok e)" using assms by simp
  from auto_ev.create_checked [OF this] auto_ev.claims_of_checked [of F L e] show ?thesis by auto
qed

lemma verify_cert_der_eq_Ok:
  "verify_cert_der D der = Ok claims \<longleftrightarrow>
   (\<exists>cert tag raw cb e custom builtin. cert_from_der (lib_x509 D) der = Inr cert \<and>
      cert_accepted D cert tag raw cb e custom \<and> auto_get_claims (dcap D) e = Ok builtin \<and>
      claims = merge_claims builtin custom)"
  (is "?l \<longleftrightarrow> ?r")
proof
  assume ?l
  then show ?r
    by (auto simp: verify_cert_der_def Let_def cert_accepted_def verify_cert_signature_self verify_evidence_created
        split: option.splits if_splits)
next
  assume ?r
  then show ?l
    by (auto simp: verify_cert_der_def Let_def cert_accepted_def verify_cert_signature_self verify_evidence_created)
qed

subsection \<open>What the end-to-end properties rely on\<close>

fun signer_spki :: "x509_lib \<Rightarrow> signer \<Rightarrow> string + spki" where
  "signer_spki X (RsaSigner h k) = spki_from_rsa X k"
| "signer_spki X (P256Signer k) = spki_from_p256 X k"

text \<open>
  The certificate a builder signs names the signer's algorithm, and its signature over the encoded
  body is one that the public key of the signer accepts.
\<close>

definition signing_ok :: "x509_lib \<Rightarrow> bool" where
  "signing_ok X \<longleftrightarrow>
     (\<forall>req cert. builder_build X req = Inr cert \<longrightarrow> signer_spki X (req_signer req) = Inr (req_spki req) \<longrightarrow>
        signature_algorithm_oid cert = signer_oid (req_signer req) \<and>
        (\<exists>msg sig. tbs_to_der X (tbs cert) = Inr msg \<and> cert_signature cert = Some sig \<and>
           signer_accepts X (req_signer req) (req_spki req) msg sig))"

text \<open>A SubjectPublicKeyInfo made from a key encodes to the key's public key document.\<close>

definition spki_ok :: "x509_lib \<Rightarrow> crypto_lib \<Rightarrow> bool" where
  "spki_ok X C \<longleftrightarrow>
     (\<forall>k s. spki_from_rsa X k = Inr s \<longrightarrow> spki_to_der X s = rsa_public_der C k) \<and>
     (\<forall>k s. spki_from_p256 X k = Inr s \<longrightarrow> spki_to_der X s = p256_public_der C k)"

text \<open>A certificate that was encoded decodes to itself.\<close>

definition cert_der_ok :: "x509_lib \<Rightarrow> bool" where
  "cert_der_ok X \<longleftrightarrow> (\<forall>cert der. cert_to_der_lib X cert = Inr der \<longrightarrow> cert_from_der X der = Inr cert)"

text \<open>
  An honest attester: for a report data that fits it answers with a quote that this build recognises,
  that the quote library trusts and that carries the report data.
\<close>

definition attester_ok :: "deps \<Rightarrow> 'e attester \<Rightarrow> bool" where
  "attester_ok D A \<longleftrightarrow>
     (\<forall>rd ev. get_evidence A rd = Ok ev \<longrightarrow> length rd \<le> 64 \<longrightarrow>
        (\<exists>e. auto_create_evidence_from_dice (build_features D) (dcap D) (evidence_tag A ev) (evidence_raw A ev) = Ok e \<and>
           verifier_enabled (build_features D) e \<and> chain_trusted (quote_lib D) (evidence_raw A ev) \<and>
           auto_bound_data (dcap D) e = rd @ replicate (64 - length rd) 0))"

definition libs_ok :: "deps \<Rightarrow> bool" where
  "libs_ok D \<longleftrightarrow> cbor_ok (lib_cbor D) \<and> sha2_ok (lib_crypto D) \<and> builder_ok (lib_x509 D) \<and> signing_ok (lib_x509 D) \<and>
     spki_ok (lib_x509 D) (lib_crypto D) \<and> cert_der_ok (lib_x509 D)"

lemma signer_spki_of [simp]: "signer_spki X (signer_of h k) = spki_from_key X k"
  by (cases k) simp_all

lemma spki_ok_key: "spki_ok X C \<Longrightarrow> spki_from_key X k = Inr s \<Longrightarrow> spki_doc C k = lift_ext (spki_to_der X s)"
  by (cases k) (simp_all add: spki_ok_def)

lemma builder_ok_build:
  "builder_ok X \<Longrightarrow> builder_build X req = Inr cert \<Longrightarrow> req_profile req = ProfileManual None \<Longrightarrow>
   tbs_subject (tbs cert) = req_subject req \<and> tbs_issuer (tbs cert) = req_subject req \<and> tbs_spki (tbs cert) = req_spki req \<and>
   (\<exists>exts. tbs_extensions (tbs cert) = Some exts \<and> list_all2 ext_written (req_extensions req) exts)"
  unfolding builder_ok_def by fastforce

lemma dice_exts_extract:
  assumes "list_all2 ext_written (dice_exts ski ev en) exts" and "tbs_extensions (tbs cert) = Some exts"
  shows "extract_ext_with_oid cert OID_TCG_DICE_TAGGED_EVIDENCE = Some ev"
  using assms
  by (auto simp: dice_exts_def extract_ext_with_oid_def list_all2_Cons1 list_all2_append1
      OID_TCG_DICE_TAGGED_EVIDENCE_def OID_TCG_DICE_ENDORSEMENT_MANIFEST_def split: option.splits)

lemma dice_exts_extract_endorsement:
  assumes "list_all2 ext_written (dice_exts ski ev en) exts" and "tbs_extensions (tbs cert) = Some exts"
  shows "extract_ext_with_oid cert OID_TCG_DICE_ENDORSEMENT_MANIFEST = en"
  using assms
  by (cases en) (auto simp: dice_exts_def extract_ext_with_oid_def list_all2_Cons1
      OID_TCG_DICE_TAGGED_EVIDENCE_def OID_TCG_DICE_ENDORSEMENT_MANIFEST_def)

text \<open>The certificate that \<open>generate_and_sign_dice_cert\<close> returns is self signed over the key and carries the evidence.\<close>

lemma generated_cert:
  assumes "builder_ok X" and "signing_ok X" and "generate_and_sign_dice_cert X subject h k ev en = Ok cert"
  shows "self_signed X cert" and "spki_from_key X k = Inr (tbs_spki (tbs cert))"
    and "extract_ext_with_oid cert OID_TCG_DICE_TAGGED_EVIDENCE = Some ev"
    and "extract_ext_with_oid cert OID_TCG_DICE_ENDORSEMENT_MANIFEST = en"
proof -
  from generate_and_sign_Ok [OF assms(1,3)] obtain v n s ski where
    s: "spki_from_key X k = Inr s" and
    b: "builder_build X \<lparr>req_profile = ProfileManual None, req_serial = 42, req_validity = v, req_subject = n,
        req_spki = s, req_signer = signer_of h k, req_extensions = dice_exts ski ev en\<rparr> = Inr cert" (is "builder_build X ?req = _")
    by blast
  from builder_ok_build [OF assms(1) b] obtain exts where
    c: "tbs_subject (tbs cert) = n" "tbs_issuer (tbs cert) = n" "tbs_spki (tbs cert) = s"
      "tbs_extensions (tbs cert) = Some exts" "list_all2 ext_written (dice_exts ski ev en) exts"
    by auto
  from assms(2) b s have "signature_algorithm_oid cert = signer_oid (signer_of h k) \<and>
      (\<exists>msg sig. tbs_to_der X (tbs cert) = Inr msg \<and> cert_signature cert = Some sig \<and>
        signer_accepts X (signer_of h k) s msg sig)"
    unfolding signing_ok_def by (elim allE [of _ ?req] allE [of _ cert]) simp
  with c show "self_signed X cert" unfolding self_signed_def by metis
  show "spki_from_key X k = Inr (tbs_spki (tbs cert))" using s c by simp
  show "extract_ext_with_oid cert OID_TCG_DICE_TAGGED_EVIDENCE = Some ev"
    by (rule dice_exts_extract [OF c(5,4)])
  show "extract_ext_with_oid cert OID_TCG_DICE_ENDORSEMENT_MANIFEST = en"
    by (rule dice_exts_extract_endorsement [OF c(5,4)])
qed

lemma custom_claims_of_wf:
  "(\<forall>cl. cb_claims b = Some cl \<longrightarrow> claims_wf cl) \<Longrightarrow> claims_wf (custom_claims_of b hb)"
  by (auto simp: custom_claims_of_def split: option.split)

text \<open>Completeness: the verifier accepts what the builder made from an honest attester.\<close>

lemma built_cert_accepted:
  assumes libs: "libs_ok D" and att: "attester_ok D (cb_attester b)"
    and wf: "\<forall>cl. cb_claims b = Some cl \<longrightarrow> claims_wf cl"
    and build: "build_with_private_key_inner D b key = Ok (cert, ev)"
  shows "\<exists>cb hb e. cert_accepted D cert (evidence_tag (cb_attester b) ev) (evidence_raw (cb_attester b) ev) cb e
    (custom_claims_of b hb)"
proof -
  have ok: "cbor_ok (lib_cbor D)" "sha2_ok (lib_crypto D)" "builder_ok (lib_x509 D)" "signing_ok (lib_x509 D)"
    "spki_ok (lib_x509 D) (lib_crypto D)"
    using libs by (simp_all add: libs_ok_def)
  from build obtain sb hb cb eb where
    sb: "spki_doc (lib_crypto D) key = Ok sb" and
    hb: "generate_pubkey_hash_value_buffer (lib_cbor D) (cb_hash_algo b) (hash (lib_crypto D) (cb_hash_algo b) sb) = Ok hb" and
    cb: "generate_claims_buffer (lib_cbor D) (custom_claims_of b hb) = Ok cb" and
    ev: "get_evidence (cb_attester b) (hash (lib_crypto D) Sha256 cb) = Ok ev" and
    eb: "generate_evidence_buffer_with_tag (lib_cbor D) (evidence_tag (cb_attester b) ev) (evidence_raw (cb_attester b) ev) cb = Ok eb" and
    cert: "generate_and_sign_dice_cert (lib_x509 D) (cb_subject b) (cb_hash_algo b) key eb (Some []) = Ok cert"
    by (rule build_inner_Ok)
  note gen = generated_cert [OF ok(3,4) cert]
  have len: "length (hash (lib_crypto D) Sha256 cb) = 32" using ok(2) by (simp add: sha2_ok_def)
  with att ev obtain e where
    e: "auto_create_evidence_from_dice (build_features D) (dcap D) (evidence_tag (cb_attester b) ev) (evidence_raw (cb_attester b) ev) = Ok e"
      "verifier_enabled (build_features D) e" "chain_trusted (quote_lib D) (evidence_raw (cb_attester b) ev)"
      "auto_bound_data (dcap D) e = hash (lib_crypto D) Sha256 cb @ replicate (64 - 32) 0"
    unfolding attester_ok_def by fastforce
  have tag: "evidence_tag (cb_attester b) ev \<notin> {2, 3}"
    using e(1) by (auto simp: auto_create_alt OCBR_TAG_EVIDENCE_INTEL_TEE_QUOTE_def split: if_splits)
  have parse: "parse_evidence_buffer_with_tag (lib_cbor D) eb =
      Ok (evidence_tag (cb_attester b) ev, evidence_raw (cb_attester b) ev, cb)"
    by (rule parse_evidence_read_back [OF ok(1) tag eb])
  have claims: "parse_claims_buffer (lib_cbor D) cb = Ok (custom_claims_of b hb)"
    by (rule parse_claims_read_back [OF ok(1) custom_claims_of_wf [OF wf] cb])
  have key: "claims_get (custom_claims_of b hb) CLAIM_NAME_PUBLIC_KEY_HASH = Some hb"
    by (simp add: custom_claims_of_def)
  have spki: "spki_to_der (lib_x509 D) (tbs_spki (tbs cert)) = Inr sb"
    using spki_ok_key [OF ok(5) gen(2)] sb lift_ext_eq_Ok by metis
  have pk: "parse_pubkey_hash_value_buffer (lib_cbor D) hb = Ok (cb_hash_algo b, hash (lib_crypto D) (cb_hash_algo b) sb)"
    by (rule parse_pubkey_hash_read_back [OF ok(1) hb])
  have "cert_accepted D cert (evidence_tag (cb_attester b) ev) (evidence_raw (cb_attester b) ev) cb e (custom_claims_of b hb)"
    unfolding cert_accepted_def using gen parse e len claims key spki pk by simp
  then show ?thesis by blast
qed

lemma built_cert_verify_Ok:
  assumes "libs_ok D" and "attester_ok D (cb_attester b)" and "\<forall>cl. cb_claims b = Some cl \<longrightarrow> claims_wf cl"
    and "build_with_private_key D b key = Ok bd" and "cert_to_der D bd = Ok der"
  shows "\<exists>claims. verify_cert_der D der = Ok claims"
proof -
  have inner: "build_with_private_key_inner D b key = Ok (bundle_cert bd, bundle_evidence bd)"
    using assms(4) by (auto simp: build_with_private_key_def)
  from built_cert_accepted [OF assms(1-3) inner] obtain cb hb e where
    acc: "cert_accepted D (bundle_cert bd) (evidence_tag (cb_attester b) (bundle_evidence bd))
       (evidence_raw (cb_attester b) (bundle_evidence bd)) cb e (custom_claims_of b hb)" by blast
  have parse: "cert_from_der (lib_x509 D) der = Inr (bundle_cert bd)"
    using assms(1,5) by (auto simp: libs_ok_def cert_der_ok_def cert_to_der_def)
  have "auto_create_evidence_from_dice (build_features D) (dcap D) (evidence_tag (cb_attester b) (bundle_evidence bd))
      (evidence_raw (cb_attester b) (bundle_evidence bd)) = Ok e"
    using acc by (simp add: cert_accepted_def)
  from get_claims_created [OF this] obtain builtin where "auto_get_claims (dcap D) e = Ok builtin" by blast
  with parse acc show ?thesis unfolding verify_cert_der_eq_Ok by blast
qed

text \<open>A certificate that \<open>verify_cert_der\<close> accepts and whose public key is that of the private key.\<close>

definition certifies :: "deps \<Rightarrow> bytes \<Rightarrow> asymmetric_private_key \<Rightarrow> bool" where
  "certifies D der key \<longleftrightarrow> (\<exists>cert claims. cert_from_der (lib_x509 D) der = Inr cert \<and>
     spki_from_key (lib_x509 D) key = Inr (tbs_spki (tbs cert)) \<and> verify_cert_der D der = Ok claims)"

lemma built_certifies:
  assumes "libs_ok D" and "attester_ok D (cb_attester b)" and "\<forall>cl. cb_claims b = Some cl \<longrightarrow> claims_wf cl"
    and "build_with_private_key D b key = Ok bd" and "cert_to_der D bd = Ok der"
  shows "certifies D der key"
proof -
  have inner: "build_with_private_key_inner D b key = Ok (bundle_cert bd, bundle_evidence bd)"
    using assms(4) by (auto simp: build_with_private_key_def)
  then obtain eb where cert: "generate_and_sign_dice_cert (lib_x509 D) (cb_subject b) (cb_hash_algo b) key eb (Some []) = Ok (bundle_cert bd)"
    by (rule build_inner_Ok)
  have "builder_ok (lib_x509 D)" "signing_ok (lib_x509 D)" using assms(1) by (simp_all add: libs_ok_def)
  note spki = generated_cert(2) [OF this cert]
  have "cert_from_der (lib_x509 D) der = Inr (bundle_cert bd)"
    using assms(1,5) by (auto simp: libs_ok_def cert_der_ok_def cert_to_der_def)
  with spki built_cert_verify_Ok [OF assms] show ?thesis unfolding certifies_def by blast
qed

end
