(* ===== verification/CborRef.thy ===== *)
theory CborRef
  imports Cbor
begin

text \<open>
  A definite-length CBOR codec (RFC 8949) at which the parameter \<open>cbor_lib\<close> is instantiated in the
  witnesses: integers, byte and text strings, arrays, maps and tags; floats and simple values are
  refused. It satisfies \<open>cbor_ok\<close> and reproduces the byte strings of the repository's own unit
  tests. The decoder is fuelled by twice the input length, which \<open>decode_encode\<close> shows to be enough
  for everything the encoder writes. Below it, the properties of \<open>Cbor\<close>.
\<close>

definition be_bytes :: "nat \<Rightarrow> nat \<Rightarrow> bytes" where
  "be_bytes k n = rev (nat_le k n)"

definition head_byte :: "nat \<Rightarrow> nat \<Rightarrow> u8" where
  "head_byte m i = word_of_nat (32 * m + i)"

definition cbor_head :: "nat \<Rightarrow> nat \<Rightarrow> bytes" where
  "cbor_head m n =
     (if n < 24 then [head_byte m n]
      else if n < 256 then head_byte m 24 # be_bytes 1 n
      else if n < 65536 then head_byte m 25 # be_bytes 2 n
      else if n < 4294967296 then head_byte m 26 # be_bytes 4 n
      else head_byte m 27 # be_bytes 8 n)"

definition read_be :: "nat \<Rightarrow> nat \<Rightarrow> bytes \<Rightarrow> (nat \<times> nat \<times> bytes) option" where
  "read_be m k bs = (if length bs < k then None else Some (m, le_nat (rev (take k bs)), drop k bs))"

fun decode_head :: "bytes \<Rightarrow> (nat \<times> nat \<times> bytes) option" where
  "decode_head [] = None"
| "decode_head (b # bs) =
     (let m = unat b div 32; i = unat b mod 32 in
      if i < 24 then Some (m, i, bs)
      else if i = 24 then read_be m 1 bs
      else if i = 25 then read_be m 2 bs
      else if i = 26 then read_be m 4 bs
      else if i = 27 then read_be m 8 bs
      else None)"

lemma read_be_bytes: "n < 256 ^ k \<Longrightarrow> read_be m k (be_bytes k n @ rest) = Some (m, n, rest)"
  by (simp add: read_be_def be_bytes_def le_nat_nat_le)

lemma unat_head_byte: "m < 8 \<Longrightarrow> i < 32 \<Longrightarrow> unat (head_byte m i) = 32 * m + i"
  unfolding head_byte_def by (simp only: unat_of_nat) simp

lemma decode_head_byte:
  assumes "m < 8" and "i < 32"
  shows "decode_head (head_byte m i # bs) =
     (if i < 24 then Some (m, i, bs)
      else if i = 24 then read_be m 1 bs
      else if i = 25 then read_be m 2 bs
      else if i = 26 then read_be m 4 bs
      else if i = 27 then read_be m 8 bs
      else None)"
proof -
  have "unat (head_byte m i) div 32 = m" and "unat (head_byte m i) mod 32 = i"
    using assms by (simp_all add: unat_head_byte)
  then show ?thesis by (simp only: decode_head.simps Let_def)
qed

lemma decode_head_cbor_head:
  assumes "m < 8" and "n < 18446744073709551616"
  shows "decode_head (cbor_head m n @ rest) = Some (m, n, rest)"
proof -
  note step = decode_head_byte [OF assms(1)] read_be_bytes
  consider "n < 24" | "24 \<le> n" "n < 256" | "256 \<le> n" "n < 65536"
    | "65536 \<le> n" "n < 4294967296" | "4294967296 \<le> n" by linarith
  then show ?thesis
  proof cases
    case 1
    then show ?thesis by (simp add: cbor_head_def step del: decode_head.simps)
  next
    case 2
    then show ?thesis by (simp add: cbor_head_def step del: decode_head.simps)
  next
    case 3
    then show ?thesis by (simp add: cbor_head_def step del: decode_head.simps)
  next
    case 4
    then show ?thesis by (simp add: cbor_head_def step del: decode_head.simps)
  next
    case 5
    with assms(2) show ?thesis by (simp add: cbor_head_def step del: decode_head.simps)
  qed
qed

lemma cbor_head_nonempty: "1 \<le> length (cbor_head m n)"
  by (simp add: cbor_head_def)

subsection \<open>Encoder\<close>

fun encode :: "cbor_value \<Rightarrow> bytes" where
  "encode (CInteger i) = (if 0 \<le> i then cbor_head 0 (nat i) else cbor_head 1 (nat (- 1 - i)))"
| "encode (CBytes bs) = cbor_head 2 (length bs) @ bs"
| "encode (CText s) = cbor_head 3 (length s) @ bytes_of s"
| "encode (CArray vs) = cbor_head 4 (length vs) @ concat (map encode vs)"
| "encode (CMap kvs) = cbor_head 5 (length kvs) @ concat (map (\<lambda>(k, v). encode k @ encode v) kvs)"
| "encode (CTag t v) = cbor_head 6 (unat t) @ encode v"
| "encode (CFloat w) = []"
| "encode (CBool b) = []"
| "encode CNull = []"

fun fits :: "cbor_value \<Rightarrow> bool" where
  "fits (CInteger i) = (- 18446744073709551616 \<le> i \<and> i < 18446744073709551616)"
| "fits (CBytes bs) = (length bs < 18446744073709551616)"
| "fits (CText s) = (length s < 18446744073709551616)"
| "fits (CArray vs) = (length vs < 18446744073709551616 \<and> (\<forall>v \<in> set vs. fits v))"
| "fits (CMap kvs) = (length kvs < 9223372036854775808 \<and> (\<forall>(k, v) \<in> set kvs. fits k \<and> fits v))"
| "fits (CTag t v) = fits v"
| "fits _ = False"

subsection \<open>Decoder\<close>

fun pairs :: "'a list \<Rightarrow> ('a \<times> 'a) list" where
  "pairs (a # b # xs) = (a, b) # pairs xs"
| "pairs _ = []"

fun decode :: "nat \<Rightarrow> bytes \<Rightarrow> (cbor_value \<times> bytes) option"
and decode_seq :: "nat \<Rightarrow> nat \<Rightarrow> bytes \<Rightarrow> (cbor_value list \<times> bytes) option" where
  "decode 0 bs = None"
| "decode (Suc f) bs = (case decode_head bs of
      None \<Rightarrow> None
    | Some (m, n, r) \<Rightarrow>
        if m = 0 then Some (CInteger (int n), r)
        else if m = 1 then Some (CInteger (- 1 - int n), r)
        else if m = 2 then (if length r < n then None else Some (CBytes (take n r), drop n r))
        else if m = 3 then (if length r < n then None else Some (CText (chars_of (take n r)), drop n r))
        else if m = 4 then map_option (\<lambda>(vs, r'). (CArray vs, r')) (decode_seq f n r)
        else if m = 5 then map_option (\<lambda>(vs, r'). (CMap (pairs vs), r')) (decode_seq f (2 * n) r)
        else if m = 6 then map_option (\<lambda>(v, r'). (CTag (word_of_nat n) v, r')) (decode f r)
        else None)"
| "decode_seq f 0 bs = Some ([], bs)"
| "decode_seq 0 (Suc n) bs = None"
| "decode_seq (Suc f) (Suc n) bs = (case decode f bs of
      None \<Rightarrow> None
    | Some (v, r) \<Rightarrow> map_option (\<lambda>(vs, r'). (v # vs, r')) (decode_seq f n r))"

text \<open>The fuel a value needs.\<close>

fun fuel_of :: "cbor_value \<Rightarrow> nat" where
  "fuel_of (CArray vs) = Suc (sum_list (map (\<lambda>v. Suc (fuel_of v)) vs))"
| "fuel_of (CMap kvs) = Suc (sum_list (map (\<lambda>(k, v). 2 + fuel_of k + fuel_of v) kvs))"
| "fuel_of (CTag t v) = Suc (fuel_of v)"
| "fuel_of _ = 1"

definition seq_fuel :: "cbor_value list \<Rightarrow> nat" where
  "seq_fuel vs = sum_list (map (\<lambda>v. Suc (fuel_of v)) vs)"

definition flat :: "('a \<times> 'a) list \<Rightarrow> 'a list" where
  "flat kvs = concat (map (\<lambda>(k, v). [k, v]) kvs)"

lemma flat_simps [simp]: "flat [] = []" "flat ((k, v) # kvs) = k # v # flat kvs"
  by (simp_all add: flat_def)

lemma length_flat [simp]: "length (flat kvs) = 2 * length kvs"
  by (induction kvs) auto

lemma pairs_flat [simp]: "pairs (flat kvs) = kvs"
  by (induction kvs) auto

lemma seq_fuel_flat: "seq_fuel (flat kvs) = sum_list (map (\<lambda>(k, v). 2 + fuel_of k + fuel_of v) kvs)"
  by (induction kvs) (auto simp: seq_fuel_def)

lemma concat_flat: "concat (map encode (flat kvs)) = concat (map (\<lambda>(k, v). encode k @ encode v) kvs)"
  by (induction kvs) auto

lemma set_flat: "set (flat kvs) = (\<Union>(k, v) \<in> set kvs. {k, v})"
  by (induction kvs) auto

lemma chars_of_bytes_of [simp]: "chars_of (bytes_of s) = s"
proof -
  have "char_of (unat (word_of_nat (of_char c) :: u8)) = c" for c :: char
    by (simp add: unat_of_nat)
  then show ?thesis by (simp add: chars_of_def bytes_of_def comp_def map_idI)
qed

lemma length_bytes_of [simp]: "length (bytes_of s) = length s"
  by (simp add: bytes_of_def)

lemma decode_seq_encode:
  assumes "\<And>v f rest. v \<in> set vs \<Longrightarrow> fuel_of v \<le> f \<Longrightarrow> decode f (encode v @ rest) = Some (v, rest)"
  shows "seq_fuel vs \<le> f \<Longrightarrow> decode_seq f (length vs) (concat (map encode vs) @ rest) = Some (vs, rest)"
  using assms
proof (induction vs arbitrary: f)
  case Nil
  show ?case by simp
next
  case (Cons v vs)
  then obtain f' where f: "f = Suc f'" by (cases f) (auto simp: seq_fuel_def)
  with Cons.prems(1) have "fuel_of v \<le> f'" and "seq_fuel vs \<le> f'" by (auto simp: seq_fuel_def)
  with Cons f show ?case by simp
qed

lemma decode_encode: "fits v \<Longrightarrow> fuel_of v \<le> f \<Longrightarrow> decode f (encode v @ rest) = Some (v, rest)"
proof (induction v arbitrary: f rest)
  case (CInteger i)
  then show ?case by (cases f) (auto simp: decode_head_cbor_head)
next
  case (CBytes bs)
  then show ?case by (cases f) (auto simp: decode_head_cbor_head)
next
  case (CText s)
  then show ?case by (cases f) (auto simp: decode_head_cbor_head)
next
  case (CArray vs)
  then obtain f' where f: "f = Suc f'" by (cases f) auto
  with CArray.prems have "seq_fuel vs \<le> f'" by (simp add: seq_fuel_def)
  then have "decode_seq f' (length vs) (concat (map encode vs) @ rest) = Some (vs, rest)"
    using CArray by (intro decode_seq_encode) auto
  with CArray.prems f show ?case by (simp add: decode_head_cbor_head)
next
  case (CMap kvs)
  then obtain f' where f: "f = Suc f'" by (cases f) auto
  with CMap.prems have "seq_fuel (flat kvs) \<le> f'" by (simp add: seq_fuel_flat)
  then have "decode_seq f' (length (flat kvs)) (concat (map encode (flat kvs)) @ rest) = Some (flat kvs, rest)"
    using CMap by (intro decode_seq_encode) (fastforce simp: set_flat)+
  with CMap.prems f show ?case by (simp add: decode_head_cbor_head concat_flat)
next
  case (CTag t v)
  then obtain f' where f: "f = Suc f'" by (cases f) auto
  have "unat t < 18446744073709551616" using unsigned_less [of t] by simp
  with CTag f show ?case by (simp add: decode_head_cbor_head)
qed simp_all

lemma fuel_of_bound: "fits v \<Longrightarrow> Suc (fuel_of v) \<le> 2 * length (encode v)"
proof (induction v)
  case (CArray vs)
  then have "sum_list (map (\<lambda>v. Suc (fuel_of v)) vs) \<le> 2 * length (concat (map encode vs))"
    by (induction vs) (fastforce simp: algebra_simps)+
  with cbor_head_nonempty [of 4 "length vs"] show ?case by simp
next
  case (CMap kvs)
  then have "sum_list (map (\<lambda>(k, v). 2 + fuel_of k + fuel_of v) kvs) \<le>
      2 * length (concat (map (\<lambda>(k, v). encode k @ encode v) kvs))"
    by (induction kvs) (fastforce simp: algebra_simps)+
  with cbor_head_nonempty [of 5 "length kvs"] show ?case by simp
next
  case (CTag t v)
  with cbor_head_nonempty [of 6 "unat t"] show ?case by simp
next
  case (CInteger i)
  show ?case using cbor_head_nonempty [of 0 "nat i"] cbor_head_nonempty [of 1 "nat (- 1 - i)"] by simp
next
  case (CBytes bs)
  show ?case using cbor_head_nonempty [of 2 "length bs"] by simp
next
  case (CText s)
  show ?case using cbor_head_nonempty [of 3 "length s"] by simp
qed simp_all

subsection \<open>The instance\<close>

definition ref_write :: "cbor_value \<Rightarrow> string + bytes" where
  "ref_write v = (if fits v then Inr (encode v) else Inl ''unsupported value'')"

definition ref_read :: "bytes \<Rightarrow> string + cbor_value" where
  "ref_read bs = (case decode (2 * length bs) bs of Some (v, _) \<Rightarrow> Inr v | None \<Rightarrow> Inl ''malformed'')"

text \<open>The typed readers: a text-to-bytes map (a repeated key keeps its last value), and \<open>[u8, bytes]\<close>.\<close>

fun text_bytes_entries :: "(cbor_value \<times> cbor_value) list \<Rightarrow> (string \<times> bytes) list option" where
  "text_bytes_entries [] = Some []"
| "text_bytes_entries ((CText k, CBytes v) # kvs) = map_option (\<lambda>es. (k, v) # es) (text_bytes_entries kvs)"
| "text_bytes_entries _ = None"

definition ref_read_claims :: "bytes \<Rightarrow> string + claims" where
  "ref_read_claims bs = (case ref_read bs of
      Inr (CMap kvs) \<Rightarrow> (case text_bytes_entries kvs of Some es \<Rightarrow> Inr (claims_inserts [] es) | None \<Rightarrow> Inl ''invalid type'')
    | _ \<Rightarrow> Inl ''invalid type'')"

definition ref_write_pair :: "u8 \<times> bytes \<Rightarrow> string + bytes" where
  "ref_write_pair p = ref_write (CArray [CInteger (uint (fst p)), CBytes (snd p)])"

definition ref_read_pair :: "bytes \<Rightarrow> string + u8 \<times> bytes" where
  "ref_read_pair bs = (case ref_read bs of
      Inr (CArray [CInteger i, CBytes h]) \<Rightarrow> (if 0 \<le> i \<and> i < 256 then Inr (word_of_int i, h) else Inl ''out of range'')
    | _ \<Rightarrow> Inl ''invalid type'')"

definition ref_cbor :: cbor_lib where
  "ref_cbor = \<lparr>into_writer = ref_write, from_reader = ref_read, claims_from_reader = ref_read_claims,
     u8_bytes_into_writer = ref_write_pair, u8_bytes_from_reader = ref_read_pair\<rparr>"

lemma ref_read_write: "ref_write v = Inr buf \<Longrightarrow> ref_read buf = Inr v"
  using decode_encode [of v "2 * length (encode v)" "[]"] fuel_of_bound [of v]
  by (auto simp: ref_write_def ref_read_def split: if_splits)

lemma text_bytes_entries_claims:
  "text_bytes_entries (map (\<lambda>(k, v). (CText k, CBytes v)) cl) = Some cl"
  by (induction cl) auto

lemma ref_read_claims_write:
  "distinct (map fst cl) \<Longrightarrow> ref_write (claims_value cl) = Inr buf \<Longrightarrow> ref_read_claims buf = Inr cl"
  by (drule ref_read_write)
     (simp add: ref_read_claims_def claims_value_def text_bytes_entries_claims claims_inserts_new)

lemma ref_read_claims_distinct:
  assumes "ref_read_claims buf = Inr cl"
  shows "distinct (map fst cl)"
proof -
  from assms obtain es where "cl = claims_inserts [] es"
    by (auto simp: ref_read_claims_def split: sum.splits cbor_value.splits option.splits)
  then show ?thesis using claims_wf_inserts [of "[]" es] by (simp add: claims_wf_def)
qed

lemma ref_read_write_pair: "ref_write_pair p = Inr buf \<Longrightarrow> ref_read_pair buf = Inr p"
  using uint_bounded [of "fst p"] unfolding ref_write_pair_def
  by (drule_tac ref_read_write) (simp add: ref_read_pair_def)

lemma ref_cbor_ok: "cbor_ok ref_cbor"
  unfolding cbor_ok_def ref_cbor_def cbor_lib.simps
  using ref_read_write ref_read_claims_write [unfolded claims_value_def] ref_read_claims_distinct
    ref_read_write_pair by blast

text \<open>Evaluation of the codec by the simplifier.\<close>

lemmas ref_eval = ref_cbor_def ref_write_def ref_write_pair_def cbor_head_def head_byte_def be_bytes_def bytes_of_def nat_le_numeral

text \<open>The byte strings of the unit tests in \<^verbatim>\<open>cbor.rs\<close>.\<close>

lemma test_evidence_buffer:
  "generate_evidence_buffer_with_tag ref_cbor OCBR_TAG_EVIDENCE_INTEL_TEE_QUOTE [1, 2, 3, 4] [5, 6, 7, 8] =
     Ok [0xd9, 0xea, 0x60, 0x82, 0x44, 1, 2, 3, 4, 0x44, 5, 6, 7, 8]"
  by (simp add: generate_evidence_buffer_with_tag_def evidence_value_def
      OCBR_TAG_EVIDENCE_INTEL_TEE_QUOTE_def ref_eval)

lemma test_claims_buffer:
  "generate_claims_buffer ref_cbor [(''key1'', bytes_of ''value1''), (''key2'', bytes_of ''value2'')] =
     Ok [0xa2, 0x64, 0x6b, 0x65, 0x79, 0x31, 0x46, 0x76, 0x61, 0x6c, 0x75, 0x65, 0x31,
         0x64, 0x6b, 0x65, 0x79, 0x32, 0x46, 0x76, 0x61, 0x6c, 0x75, 0x65, 0x32]"
  by (simp add: generate_claims_buffer_def claims_value_def ref_eval)

lemma test_pubkey_hash_buffer:
  "generate_pubkey_hash_value_buffer ref_cbor Sha256 [0, 1, 2, 3] = Ok [0x82, 0x01, 0x44, 0, 1, 2, 3]"
  by (simp add: generate_pubkey_hash_value_buffer_def ref_eval)

subsection \<open>Properties of the CBOR messages\<close>

text \<open>
  The evidence buffer is a faithful carrier: whatever evidence and claims buffer the certificate
  builder writes under a tag is what the verifier parses, and two different triples are never written
  as the same bytes. (CBOR reserves tags 2 and 3 for big numbers.)
\<close>
theorem evidence_buffer_roundtrip:
  assumes "cbor_ok B" and "tag \<notin> {2, 3}" and "tag' \<notin> {2, 3}"
    and "generate_evidence_buffer_with_tag B tag e c = Ok buf"
  shows "parse_evidence_buffer_with_tag B buf = Ok (tag, e, c) \<and>
    (generate_evidence_buffer_with_tag B tag' e' c' = Ok buf \<longrightarrow> (tag', e', c') = (tag, e, c))"
  using parse_evidence_read_back [OF assms(1,2,4)] parse_evidence_read_back [OF assms(1,3)]
  by (metis res.inject(1))

theorem evidence_buffer_roundtrip_witness:
  "parse_evidence_buffer_with_tag ref_cbor [0xd9, 0xea, 0x60, 0x82, 0x44, 1, 2, 3, 4, 0x44, 5, 6, 7, 8] =
     Ok (60000, [1, 2, 3, 4], [5, 6, 7, 8])"
  using evidence_buffer_roundtrip [OF ref_cbor_ok _ _
      test_evidence_buffer [unfolded OCBR_TAG_EVIDENCE_INTEL_TEE_QUOTE_def], of 0]
  by simp

text \<open>
  The evidence parser accepts exactly one shape: it succeeds if and only if the CBOR value read is
  a tag around an array of exactly two byte strings, and then returns exactly these; on any other value
  and on malformed CBOR it returns an \<open>Err\<close> (of kind \<open>Unknown\<close>), never a panic.
\<close>
theorem parse_evidence_buffer_exact:
  "(parse_evidence_buffer_with_tag B buf = Ok (tag, e, c) \<longleftrightarrow>
      from_reader B buf = Inr (CTag tag (CArray [CBytes e, CBytes c]))) \<and>
   ((\<exists>r. parse_evidence_buffer_with_tag B buf = Ok r) \<or>
     fails_with (parse_evidence_buffer_with_tag B buf) Unknown)"
proof (cases "from_reader B buf")
  case (Inl e)
  then show ?thesis by (simp add: parse_evidence_buffer_with_tag_def error_from_def)
next
  case (Inr v)
  then show ?thesis
    by (cases "evidence_of_value v")
       (auto simp: parse_evidence_buffer_with_tag_def error_from_def
          evidence_of_value_eq_Inr [unfolded evidence_value_def, symmetric])
qed

text \<open>
  Custom claims survive the claims buffer with names, values and order, and whatever the parser
  returns, also for a hostile buffer, names no claim twice.
\<close>
theorem claims_buffer_roundtrip:
  assumes "cbor_ok B" and "claims_wf cl" and "generate_claims_buffer B cl = Ok buf"
  shows "parse_claims_buffer B buf = Ok cl \<and> (\<forall>buf' cl'. parse_claims_buffer B buf' = Ok cl' \<longrightarrow> claims_wf cl')"
  using assms parse_claims_read_back parse_claims_wf by blast

theorem claims_buffer_roundtrip_witness:
  "parse_claims_buffer ref_cbor [0xa2, 0x64, 0x6b, 0x65, 0x79, 0x31, 0x46, 0x76, 0x61, 0x6c, 0x75, 0x65, 0x31,
         0x64, 0x6b, 0x65, 0x79, 0x32, 0x46, 0x76, 0x61, 0x6c, 0x75, 0x65, 0x32] =
   Ok [(''key1'', bytes_of ''value1''), (''key2'', bytes_of ''value2'')]"
  using claims_buffer_roundtrip [OF ref_cbor_ok _ test_claims_buffer] by (simp add: claims_wf_def)

text \<open>
  The public key hash claim round-trips with its algorithm, and the identifier is decoded
  strictly: a buffer whose identifier is not 1, 7 or 8 is refused with \<open>UnsupportedHashAlgo\<close>
  whatever the hash is.
\<close>
theorem pubkey_hash_buffer_roundtrip:
  assumes "cbor_ok B"
    and "generate_pubkey_hash_value_buffer B a h = Ok buf"
    and "u8_bytes_from_reader B buf' = Inr (i, h')" and "i \<notin> {1, 7, 8}"
  shows "parse_pubkey_hash_value_buffer B buf = Ok (a, h) \<and>
    fails_with (parse_pubkey_hash_value_buffer B buf') UnsupportedHashAlgo"
  using parse_pubkey_hash_read_back [OF assms(1,2)] assms(3,4)
  by (simp add: parse_pubkey_hash_value_buffer_def hash_algo_try_from_def)

theorem pubkey_hash_buffer_roundtrip_witness:
  "parse_pubkey_hash_value_buffer ref_cbor [0x82, 0x01, 0x44, 0, 1, 2, 3] = Ok (Sha256, [0, 1, 2, 3]) \<and>
   fails_with (parse_pubkey_hash_value_buffer ref_cbor [0x82, 0x02, 0x44, 0, 1, 2, 3]) UnsupportedHashAlgo"
proof -
  have "u8_bytes_from_reader ref_cbor [0x82, 0x02, 0x44, 0, 1, 2, 3] = Inr (2, [0, 1, 2, 3])"
  proof -
    have "ref_write (CArray [CInteger 2, CBytes [0, 1, 2, 3]]) = Inr [0x82, 0x02, 0x44, 0, 1, 2, 3]"
      by (simp add: ref_eval)
    from ref_read_write [OF this] show ?thesis by (simp add: ref_cbor_def ref_read_pair_def)
  qed
  then show ?thesis
    by (rule pubkey_hash_buffer_roundtrip [OF ref_cbor_ok test_pubkey_hash_buffer]) simp
qed

end
