(* ===== verification/X509Ref.thy ===== *)
theory X509Ref
  imports CertVerify CborRef
begin

text \<open>
  A reference instance of the certificate libraries, at which the properties of the certificate layer
  are witnessed: certificates are CBOR documents of the reference codec, and a signature is the public
  key followed by the signed message.
\<close>

definition ext_value :: "x509_extension \<Rightarrow> cbor_value" where
  "ext_value e = CArray [CText (extn_id e), CInteger (if critical e then 1 else 0), CBytes (extn_value e)]"

definition ext_of_value :: "cbor_value \<Rightarrow> x509_extension option" where
  "ext_of_value v = (case v of CArray [CText i, CInteger c, CBytes x] \<Rightarrow> Some \<lparr>extn_id = i, critical = (c \<noteq> 0), extn_value = x\<rparr>
     | _ \<Rightarrow> None)"

fun exts_of_values :: "cbor_value list \<Rightarrow> x509_extension list option" where
  "exts_of_values [] = Some []"
| "exts_of_values (v # vs) = (case ext_of_value v of None \<Rightarrow> None | Some e \<Rightarrow> map_option (\<lambda>es. e # es) (exts_of_values vs))"

definition opt_exts_value :: "x509_extension list option \<Rightarrow> cbor_value" where
  "opt_exts_value x = (case x of None \<Rightarrow> CInteger 0 | Some es \<Rightarrow> CArray (map ext_value es))"

definition opt_exts_of_value :: "cbor_value \<Rightarrow> x509_extension list option option" where
  "opt_exts_of_value v = (case v of CInteger _ \<Rightarrow> Some None | CArray vs \<Rightarrow> map_option Some (exts_of_values vs) | _ \<Rightarrow> None)"

definition tbs_value :: "tbs_certificate \<Rightarrow> cbor_value" where
  "tbs_value t = CArray [CText (tbs_signature_oid t), CBytes (tbs_issuer t), CBytes (tbs_subject t), CBytes (tbs_spki t),
     opt_exts_value (tbs_extensions t), CBytes (tbs_rest t)]"

definition tbs_of_value :: "cbor_value \<Rightarrow> tbs_certificate option" where
  "tbs_of_value v = (case v of CArray [CText o1, CBytes i, CBytes s, CBytes k, x, CBytes r] \<Rightarrow>
       (case opt_exts_of_value x of None \<Rightarrow> None
        | Some es \<Rightarrow> Some \<lparr>tbs_signature_oid = o1, tbs_issuer = i, tbs_subject = s, tbs_spki = k, tbs_extensions = es, tbs_rest = r\<rparr>)
     | _ \<Rightarrow> None)"

definition cert_value :: "certificate \<Rightarrow> cbor_value" where
  "cert_value c = CArray [tbs_value (tbs c), CText (signature_algorithm_oid c),
     (case cert_signature c of None \<Rightarrow> CInteger 0 | Some s \<Rightarrow> CBytes s)]"

definition cert_of_value :: "cbor_value \<Rightarrow> certificate option" where
  "cert_of_value v = (case v of CArray [t, CText o1, s] \<Rightarrow>
       (case tbs_of_value t of None \<Rightarrow> None
        | Some t \<Rightarrow> (case s of CInteger _ \<Rightarrow> Some \<lparr>tbs = t, signature_algorithm_oid = o1, cert_signature = None\<rparr>
             | CBytes b \<Rightarrow> Some \<lparr>tbs = t, signature_algorithm_oid = o1, cert_signature = Some b\<rparr>
             | _ \<Rightarrow> None))
     | _ \<Rightarrow> None)"

lemma exts_of_ext_values: "exts_of_values (map ext_value es) = Some es"
  by (induction es) (simp_all add: ext_value_def ext_of_value_def)

lemma opt_exts_back: "opt_exts_of_value (opt_exts_value x) = Some x"
  by (cases x) (simp_all add: opt_exts_value_def opt_exts_of_value_def exts_of_ext_values)

lemma tbs_back: "tbs_of_value (tbs_value t) = Some t"
  by (simp add: tbs_value_def tbs_of_value_def opt_exts_back)

lemma cert_back: "cert_of_value (cert_value c) = Some c"
  by (cases "cert_signature c") (simp_all add: cert_value_def cert_of_value_def tbs_back)

fun ref_ext :: "ext_obj \<Rightarrow> x509_extension" where
  "ref_ext (LibExt l) = \<lparr>extn_id = lib_ext_oid l, critical = True, extn_value = []\<rparr>"
| "ref_ext (OwnExt e) = e"

fun ref_signer_key :: "signer \<Rightarrow> spki" where
  "ref_signer_key (RsaSigner h k) = 0x31 # k"
| "ref_signer_key (P256Signer k) = 0x33 # k"

definition ref_tbs :: "cert_request \<Rightarrow> tbs_certificate" where
  "ref_tbs req = \<lparr>tbs_signature_oid = signer_oid (req_signer req),
     tbs_issuer = (case req_profile req of ProfileManual i \<Rightarrow> (case i of None \<Rightarrow> req_subject req | Some n \<Rightarrow> n)),
     tbs_subject = req_subject req, tbs_spki = req_spki req,
     tbs_extensions = Some (map ref_ext (req_extensions req)), tbs_rest = req_validity req\<rparr>"

definition ref_build :: "cert_request \<Rightarrow> string + certificate" where
  "ref_build req = (case ref_write (tbs_value (ref_tbs req)) of
       Inl e \<Rightarrow> Inl e
     | Inr der \<Rightarrow> Inr \<lparr>tbs = ref_tbs req, signature_algorithm_oid = signer_oid (req_signer req),
         cert_signature = Some (ref_signer_key (req_signer req) @ der)\<rparr>)"

definition ref_cert_from_der :: "bytes \<Rightarrow> string + certificate" where
  "ref_cert_from_der der = (case ref_read der of
       Inl e \<Rightarrow> Inl e
     | Inr v \<Rightarrow> (case cert_of_value v of None \<Rightarrow> Inl ''not a certificate'' | Some c \<Rightarrow> Inr c))"

definition ref_x509 :: x509_lib where
  "ref_x509 = \<lparr>cert_from_der = ref_cert_from_der, cert_to_der_lib = (\<lambda>c. ref_write (cert_value c)),
     cert_to_pem_lib = (\<lambda>c. case ref_write (cert_value c) of Inl e \<Rightarrow> Inl e | Inr b \<Rightarrow> Inr (chars_of b)),
     tbs_to_der = (\<lambda>t. ref_write (tbs_value t)), spki_to_der = Inr, validity_from_now = (\<lambda>s. Inr [word_of_nat s]),
     name_from_str = (\<lambda>s. Inr (bytes_of s)), spki_from_rsa = (\<lambda>k. Inr (0x31 # k)), spki_from_p256 = (\<lambda>k. Inr (0x33 # k)),
     ski_try_from = Inr, octet_string_new = Inr, builder_new = (\<lambda>_. Inr ()), builder_add_extension = (\<lambda>_. Inr ()),
     builder_build = ref_build, rsa_public_try_from = Inr, pkcs1v15_signature_try_from = Inr,
     pkcs1v15_verify = (\<lambda>h pub msg sig. if sig = pub @ msg then Inr () else Inl ''bad signature''),
     p256_signature_try_from = Inr, p256_public_try_from = Inr,
     p256_verify = (\<lambda>pub msg sig. if sig = pub @ msg then Inr () else Inl ''bad signature'')\<rparr>"

lemma ref_builder_ok: "builder_ok ref_x509"
proof -
  have "list_all2 ext_written xs (map ref_ext xs)" for xs
  proof (induction xs)
    case (Cons x xs)
    then show ?case by (cases x) simp_all
  qed simp
  then show ?thesis
    by (auto simp: builder_ok_def ref_x509_def ref_build_def ref_tbs_def split: sum.splits)
qed

lemma ref_signing_ok: "signing_ok ref_x509"
  unfolding signing_ok_def
proof (intro allI impI)
  fix req cert
  assume b: "builder_build ref_x509 req = Inr cert" and s: "signer_spki ref_x509 (req_signer req) = Inr (req_spki req)"
  from b obtain der where der: "ref_write (tbs_value (ref_tbs req)) = Inr der"
    and cert: "cert = \<lparr>tbs = ref_tbs req, signature_algorithm_oid = signer_oid (req_signer req),
         cert_signature = Some (ref_signer_key (req_signer req) @ der)\<rparr>"
    by (auto simp: ref_x509_def ref_build_def split: sum.splits)
  have "ref_signer_key (req_signer req) = req_spki req"
    using s by (cases "req_signer req") (simp_all add: ref_x509_def)
  moreover have "signer_accepts ref_x509 (req_signer req) (req_spki req) der (req_spki req @ der)"
    by (cases "req_signer req") (simp_all add: ref_x509_def)
  moreover have "tbs_to_der ref_x509 (tbs cert) = Inr der"
    using der cert by (simp add: ref_x509_def)
  ultimately show "signature_algorithm_oid cert = signer_oid (req_signer req) \<and>
      (\<exists>msg sig. tbs_to_der ref_x509 (tbs cert) = Inr msg \<and> cert_signature cert = Some sig \<and>
        signer_accepts ref_x509 (req_signer req) (req_spki req) msg sig)"
    using cert by auto
qed

lemma ref_cert_der_ok: "cert_der_ok ref_x509"
  by (auto simp: cert_der_ok_def ref_x509_def ref_cert_from_der_def cert_back dest!: ref_read_write)

lemma ref_spki_ok: "spki_ok ref_x509 sample_crypto"
  by (simp add: spki_ok_def ref_x509_def sample_crypto_def)

definition ref_deps :: deps where
  "ref_deps = \<lparr>lib_crypto = sample_crypto, lib_cbor = ref_cbor, lib_x509 = ref_x509, build_features = all_features,
     dcap = intel_layout, quote_lib = trusting_qvl\<rparr>"

lemma ref_libs_ok: "libs_ok ref_deps"
  by (simp add: libs_ok_def ref_deps_def ref_cbor_ok sample_sha2_ok ref_builder_ok ref_signing_ok ref_spki_ok ref_cert_der_ok)

text \<open>The sample TDX guest is an honest attester.\<close>

lemma sample_attester_evidence:
  "length rd \<le> 64 \<Longrightarrow> auto_get_evidence all_features sample_platform rd =
     Ok (TdxEv \<lparr>tdx_data = sample_tdx_quote (rd @ replicate (64 - length rd) 0)\<rparr>)"
  by (simp add: auto_get_evidence_def map_res_def tdx_get_evidence_def extend_report_data_def blit_def
      detect_env_def sgx_detect_env_def tdx_detect_env_def
      sample_platform_def all_features_def TDX_ATTEST_SUCCESS_def tdx_new_from_checked_def)

lemma sample_tdx_created:
  "length rd \<le> 64 \<Longrightarrow> auto_create_evidence_from_dice all_features intel_layout OCBR_TAG_EVIDENCE_INTEL_TEE_QUOTE
     (sample_tdx_quote rd) = Ok (TdxEv \<lparr>tdx_data = sample_tdx_quote rd\<rparr>)"
  using sample_tdx_quote_checked [of rd] checked_disjoint [of intel_layout "sample_tdx_quote rd"]
  by (auto simp: auto_create_alt all_features_def)

lemma sample_attester_ok: "attester_ok ref_deps (auto_attester all_features sample_platform)"
  unfolding attester_ok_def
proof (intro allI impI)
  fix rd ev
  assume ev: "get_evidence (auto_attester all_features sample_platform) rd = Ok ev" and len: "length rd \<le> 64"
  let ?rd = "rd @ replicate (64 - length rd) 0"
  have "ev = TdxEv \<lparr>tdx_data = sample_tdx_quote ?rd\<rparr>"
    using ev sample_attester_evidence [OF len] by (simp add: auto_attester_def)
  moreover have "length ?rd = 64" using len by simp
  ultimately show "\<exists>e. auto_create_evidence_from_dice (build_features ref_deps) (dcap ref_deps)
        (evidence_tag (auto_attester all_features sample_platform) ev)
        (evidence_raw (auto_attester all_features sample_platform) ev) = Ok e \<and>
      verifier_enabled (build_features ref_deps) e \<and>
      chain_trusted (quote_lib ref_deps) (evidence_raw (auto_attester all_features sample_platform) ev) \<and>
      auto_bound_data (dcap ref_deps) e = ?rd"
    using sample_tdx_created [of ?rd] sample_tdx_quote_bound [of ?rd]
    by (simp add: auto_attester_def ref_deps_def tdx_get_dice_cbor_tag_def tdx_get_dice_raw_evidence_def all_features_def)
qed

end
