(* ===== verification/CertTheorems.thy ===== *)
theory CertTheorems
  imports X509Ref
begin

text \<open>
  The properties of the certificate layer: what \<open>verify_cert_der\<close> accepts, what the claims it returns
  mean, the policy of \<open>CertVerifier\<close>, and the end-to-end statements over \<open>CertBuilder\<close> and the
  verifier. The sample certificate of the witnesses is built by the model of \<open>CertBuilder\<close> itself on
  the reference libraries, for the sample TDX guest.
\<close>

subsection \<open>The sample certificate\<close>

fun enc_bound :: "cbor_value \<Rightarrow> nat" where
  "enc_bound (CBytes bs) = 9 + length bs"
| "enc_bound (CText s) = 9 + length s"
| "enc_bound (CArray vs) = 9 + sum_list (map enc_bound vs)"
| "enc_bound (CMap kvs) = 9 + sum_list (map (\<lambda>(k, v). enc_bound k + enc_bound v) kvs)"
| "enc_bound (CTag t v) = 9 + enc_bound v"
| "enc_bound _ = 9"

lemma length_cbor_head: "length (cbor_head m n) \<le> 9"
  by (simp add: cbor_head_def be_bytes_def)

lemma length_encode: "length (encode v) \<le> enc_bound v"
proof (induction v)
  case (CInteger i)
  then show ?case using length_cbor_head by simp
next
  case (CBytes bs)
  then show ?case using length_cbor_head [of 2 "length bs"] by simp
next
  case (CText s)
  then show ?case using length_cbor_head [of 3 "length s"] by simp
next
  case (CTag t v)
  then show ?case using length_cbor_head [of 6 "unat t"] by simp
next
  case (CArray vs)
  then have "length (concat (map encode vs)) \<le> sum_list (map enc_bound vs)"
    by (induction vs) (auto intro: add_mono)
  then show ?case using length_cbor_head [of 4 "length vs"] by simp
next
  case (CMap kvs)
  then have "length (concat (map (\<lambda>(k, v). encode k @ encode v) kvs)) \<le> sum_list (map (\<lambda>(k, v). enc_bound k + enc_bound v) kvs)"
    by (induction kvs) (force simp: add_mono)+
  then show ?case using length_cbor_head [of 5 "length kvs"] by simp
qed (simp_all add: length_cbor_head)

lemma ref_write_fits: "fits v \<Longrightarrow> ref_write v = Inr (encode v)"
  by (simp add: ref_write_def)

definition sample_builder :: "auto_evidence cert_builder" where
  "sample_builder = with_claims (cert_builder_new (auto_attester all_features sample_platform) Sha384)
     [(''key1'', bytes_of ''value1''), (''common_quote_type'', bytes_of ''fake'')]"

text \<open>For every subject the build succeeds, and the evidence extension does not depend on the subject.\<close>

text \<open>The evidence of the sample guest for a claims buffer, and the certificate that carries it.\<close>

lemma sample_evidence_for:
  fixes cb :: bytes
  assumes "length cb \<le> 300"
  defines "q \<equiv> sample_tdx_quote (sample_digest 32 cb @ replicate 32 0)"
  shows "auto_get_evidence all_features sample_platform (sample_digest 32 cb) = Ok (TdxEv \<lparr>tdx_data = q\<rparr>)"
    and "generate_evidence_buffer_with_tag ref_cbor 60000 q cb = Ok (encode (evidence_value 60000 q cb))"
    and "length (encode (evidence_value 60000 q cb)) \<le> 1000"
proof -
  show "auto_get_evidence all_features sample_platform (sample_digest 32 cb) = Ok (TdxEv \<lparr>tdx_data = q\<rparr>)"
    using sample_attester_evidence [of "sample_digest 32 cb"] by (simp add: q_def)
  have len_q: "length q = 636" by (simp add: q_def sample_tdx_quote_def)
  show "generate_evidence_buffer_with_tag ref_cbor 60000 q cb = Ok (encode (evidence_value 60000 q cb))"
    using assms(1) len_q by (simp add: generate_evidence_buffer_with_tag_def ref_cbor_def evidence_value_def ref_write_fits del: encode.simps)
  show "length (encode (evidence_value 60000 q cb)) \<le> 1000"
    using length_encode [of "evidence_value 60000 q cb"] assms(1) len_q by (simp add: evidence_value_def del: encode.simps)
qed

lemma sample_claims_for:
  assumes "length hb \<le> 75"
  shows "generate_claims_buffer ref_cbor [(''pubkey-hash'', hb)] = Ok (encode (claims_value [(''pubkey-hash'', hb)]))"
    and "length (encode (claims_value [(''pubkey-hash'', hb)])) \<le> 300"
    and "generate_claims_buffer ref_cbor [(''key1'', bytes_of ''value1''), (''common_quote_type'', bytes_of ''fake''), (''pubkey-hash'', hb)] =
      Ok (encode (claims_value [(''key1'', bytes_of ''value1''), (''common_quote_type'', bytes_of ''fake''), (''pubkey-hash'', hb)]))"
    and "length (encode (claims_value [(''key1'', bytes_of ''value1''), (''common_quote_type'', bytes_of ''fake''), (''pubkey-hash'', hb)])) \<le> 300"
  using assms length_encode [of "claims_value [(''pubkey-hash'', hb)]"]
    length_encode [of "claims_value [(''key1'', bytes_of ''value1''), (''common_quote_type'', bytes_of ''fake''), (''pubkey-hash'', hb)]"]
  by (simp_all add: generate_claims_buffer_def ref_cbor_def claims_value_def ref_write_fits del: encode.simps)

lemma sample_hash_for:
  fixes h :: hash_algo and x :: bytes
  assumes "n \<le> 48"
  defines "v \<equiv> CArray [CInteger (uint (hash_algo_into h)), CBytes (sample_digest n x)]"
  shows "generate_pubkey_hash_value_buffer ref_cbor h (sample_digest n x) = Ok (encode v)" and "length (encode v) \<le> 75"
proof -
  have "fits v" using assms(1) by (cases h) (simp_all add: v_def)
  then show "generate_pubkey_hash_value_buffer ref_cbor h (sample_digest n x) = Ok (encode v)"
    by (simp add: generate_pubkey_hash_value_buffer_def ref_cbor_def ref_write_pair_def ref_write_fits v_def del: encode.simps)
  show "length (encode v) \<le> 75" using length_encode [of v] assms(1) by (simp add: v_def)
qed

definition sample_cert :: "string \<Rightarrow> hash_algo \<Rightarrow> asymmetric_private_key \<Rightarrow> spki \<Rightarrow> bytes \<Rightarrow> certificate" where
  "sample_cert subject h key spki eb =
     (let t = ref_tbs \<lparr>req_profile = ProfileManual None, req_serial = 42, req_validity = [60], req_subject = bytes_of subject,
         req_spki = spki, req_signer = signer_of h key, req_extensions = dice_exts spki eb (Some [])\<rparr>
      in \<lparr>tbs = t, signature_algorithm_oid = signer_oid (signer_of h key), cert_signature = Some (spki @ encode (tbs_value t))\<rparr>)"

lemma sample_cert_for:
  assumes spki: "spki_doc sample_crypto key = Ok spki" and len: "length spki \<le> 100" "length eb \<le> 1000" "length subject \<le> 1000"
  shows "generate_and_sign_dice_cert ref_x509 subject h key eb (Some []) = Ok (sample_cert subject h key spki eb)"
    and "cert_to_der_lib ref_x509 (sample_cert subject h key spki eb) = Inr (encode (cert_value (sample_cert subject h key spki eb)))"
    and "length (encode (cert_value (sample_cert subject h key spki eb))) < 65536"
    and "tbs_subject (tbs (sample_cert subject h key spki eb)) = bytes_of subject" "tbs_spki (tbs (sample_cert subject h key spki eb)) = spki"
    and "extract_ext_with_oid (sample_cert subject h key spki eb) OID_TCG_DICE_TAGGED_EVIDENCE = Some eb"
proof -
  let ?req = "\<lparr>req_profile = ProfileManual None, req_serial = 42, req_validity = [60], req_subject = bytes_of subject,
     req_spki = spki, req_signer = signer_of h key, req_extensions = dice_exts spki eb (Some [])\<rparr>"
  note tbs_simps = ref_tbs_def tbs_value_def opt_exts_value_def dice_exts_def ext_value_def
    OID_TCG_DICE_TAGGED_EVIDENCE_def OID_TCG_DICE_ENDORSEMENT_MANIFEST_def
  have oid: "length (signer_oid (signer_of h key)) \<le> 30" by (cases key; cases h) (simp_all add: sig_oids)
  have signer: "ref_signer_key (signer_of h key) = spki" using spki by (cases key) (simp_all add: sample_crypto_def)
  have fits_tbs: "fits (tbs_value (ref_tbs ?req))" using len oid by (simp add: tbs_simps bytes_of_def del: encode.simps)
  have cert_def: "sample_cert subject h key spki eb = \<lparr>tbs = ref_tbs ?req, signature_algorithm_oid = signer_oid (signer_of h key),
      cert_signature = Some (spki @ encode (tbs_value (ref_tbs ?req)))\<rparr>" by (simp only: sample_cert_def Let_def)
  have "ref_build ?req = Inr (sample_cert subject h key spki eb)"
    unfolding ref_build_def ref_write_fits [OF fits_tbs] cert_def by (simp add: signer del: encode.simps)
  then show "generate_and_sign_dice_cert ref_x509 subject h key eb (Some []) = Ok (sample_cert subject h key spki eb)"
    using spki
    by (cases key) (simp_all add: generate_and_sign_dice_cert_def build_with_signer_def add_extension_def own_ext_def gen_cert_step_def
        dice_evidence_to_extension_def dice_endorsement_to_extension_def ref_x509_def dice_exts_def sample_crypto_def del: encode.simps)
  have len_tbs: "length (encode (tbs_value (ref_tbs ?req))) \<le> 6000"
    using length_encode [of "tbs_value (ref_tbs ?req)"] len oid by (simp add: tbs_simps bytes_of_def del: encode.simps)
  have "fits (cert_value (sample_cert subject h key spki eb))"
    using fits_tbs len_tbs oid len by (simp add: cert_def cert_value_def del: encode.simps)
  from ref_write_fits [OF this] show "cert_to_der_lib ref_x509 (sample_cert subject h key spki eb) =
      Inr (encode (cert_value (sample_cert subject h key spki eb)))" by (simp add: ref_x509_def)
  show "length (encode (cert_value (sample_cert subject h key spki eb))) < 65536"
    using length_encode [of "cert_value (sample_cert subject h key spki eb)"] length_encode [of "tbs_value (ref_tbs ?req)"] len_tbs len oid
    by (simp add: cert_def cert_value_def tbs_simps bytes_of_def del: encode.simps)
  show "tbs_subject (tbs (sample_cert subject h key spki eb)) = bytes_of subject" "tbs_spki (tbs (sample_cert subject h key spki eb)) = spki"
    "extract_ext_with_oid (sample_cert subject h key spki eb) OID_TCG_DICE_TAGGED_EVIDENCE = Some eb"
    by (simp_all add: cert_def extract_ext_with_oid_def tbs_simps del: encode.simps)
qed

lemma sample_build_for:
  "\<exists>ev eb. \<forall>subject. length subject \<le> 1000 \<longrightarrow>
     (\<exists>cert der. build_with_private_key_inner ref_deps (with_subject sample_builder subject) (P256 [9]) = Ok (cert, ev) \<and>
        cert_to_der_lib ref_x509 cert = Inr der \<and> tbs_subject (tbs cert) = bytes_of subject \<and>
        tbs_spki (tbs cert) = [0x33, 9] \<and>
        extract_ext_with_oid cert OID_TCG_DICE_TAGGED_EVIDENCE = Some eb \<and> length der < 65536)"
proof -
  let ?d = "sample_digest 48 [0x33, 9]"
  let ?hb = "encode (CArray [CInteger 7, CBytes ?d])"
  have hb: "generate_pubkey_hash_value_buffer ref_cbor Sha384 ?d = Ok ?hb" "length ?hb \<le> 75"
    using sample_hash_for [of 48 Sha384 "[0x33, 9]"] by (simp_all del: encode.simps)
  let ?cl = "[(''key1'', bytes_of ''value1''), (''common_quote_type'', bytes_of ''fake''), (''pubkey-hash'', ?hb)]"
  let ?cb = "encode (claims_value ?cl)"
  note cb = sample_claims_for(3,4) [OF hb(2)]
  note ev = sample_evidence_for [OF cb(2)]
  let ?q = "sample_tdx_quote (sample_digest 32 ?cb @ replicate 32 0)"
  let ?eb = "encode (evidence_value 60000 ?q ?cb)"
  have spki: "spki_doc sample_crypto (P256 [9]) = Ok [0x33, 9]" by (simp add: sample_crypto_def)
  have "build_with_private_key_inner ref_deps (with_subject sample_builder subject) (P256 [9]) =
      Ok (sample_cert subject Sha384 (P256 [9]) [0x33, 9] ?eb, TdxEv \<lparr>tdx_data = ?q\<rparr>)" if "length subject \<le> 1000" for subject
    using hb(1) cb(1) ev(1,2) sample_cert_for(1) [OF spki _ ev(3) that]
    by (simp add: build_with_private_key_inner_def sample_builder_def with_claims_def with_subject_def cert_builder_new_def
        hash_of_private_key_def ref_deps_def sample_crypto_def claims_insert_def CLAIM_NAME_PUBLIC_KEY_HASH_def
        auto_attester_def tdx_get_dice_cbor_tag_def tdx_get_dice_raw_evidence_def OCBR_TAG_EVIDENCE_INTEL_TEE_QUOTE_def
        del: encode.simps)
  with sample_cert_for [OF spki _ ev(3), where h = Sha384] show ?thesis
    by (intro exI [of _ "TdxEv \<lparr>tdx_data = ?q\<rparr>"] exI [of _ ?eb]) (simp del: encode.simps)
qed

lemma sample_builder_subject: "with_subject sample_builder (cb_subject sample_builder) = sample_builder"
  by (simp add: with_subject_def)

lemma sample_build:
  "\<exists>bd der. build_with_private_key ref_deps sample_builder (P256 [9]) = Ok bd \<and> cert_to_der ref_deps bd = Ok der \<and>
     length der < 65536"
proof -
  have "length (cb_subject sample_builder) \<le> 1000"
    by (simp add: sample_builder_def with_claims_def cert_builder_new_def)
  with sample_build_for obtain cert ev der where
    "build_with_private_key_inner ref_deps sample_builder (P256 [9]) = Ok (cert, ev)" "cert_to_der_lib ref_x509 cert = Inr der"
    "length der < 65536"
    using sample_builder_subject by metis
  then show ?thesis by (simp add: build_with_private_key_def cert_to_der_def ref_deps_def)
qed

lemma sample_builder_claims_wf: "\<forall>cl. cb_claims (with_subject sample_builder s) = Some cl \<longrightarrow> claims_wf cl"
  by (simp add: with_subject_def sample_builder_def with_claims_def cert_builder_new_def claims_wf_def)

lemma sample_builder_attester: "attester_ok ref_deps (cb_attester (with_subject sample_builder s))"
  using sample_attester_ok by (simp add: with_subject_def sample_builder_def with_claims_def cert_builder_new_def)

subsection \<open>Built-in claim names\<close>

definition builtin_claim_names :: "string list" where
  "builtin_claim_names = [''common_quote'', ''common_quote_type'',
     ''sgx_cpu_svn'', ''sgx_isv_ext_prod_id'', ''sgx_attributes'', ''sgx_mr_enclave'', ''sgx_mr_signer'',
     ''sgx_config_id'', ''sgx_isv_prod_id'', ''sgx_isv_svn'', ''sgx_config_svn'', ''sgx_isv_family_id'',
     ''tdx_tee_tcb_svn'', ''tdx_mr_seam'', ''tdx_mrsigner_seam'', ''tdx_seam_attributes'', ''tdx_td_attributes'',
     ''tdx_xfam'', ''tdx_mr_td'', ''tdx_mr_config_id'', ''tdx_mr_owner'', ''tdx_mr_owner_config'',
     ''tdx_rt_mr0'', ''tdx_rt_mr1'', ''tdx_rt_mr2'', ''tdx_rt_mr3'', ''tdx_tee_tcb_svn2'', ''tdx_mr_servicetd'']"

lemma claims_get_names: "claims_get cl n = Some v \<Longrightarrow> n \<in> set (map fst cl)"
  by (force simp: claims_get_def dest: map_of_SomeD)

lemma sgx_claim_names: "set (map fst (sgx_claim_fields L)) \<subseteq> set builtin_claim_names"
  by (simp add: sgx_claim_fields_def builtin_claim_names_def)

lemma tdx_claim_names:
  assumes "tdx_checked L (tdx_data e)" and "tdx_get_claims L e = Ok cl"
  shows "set (map fst cl) \<subseteq> set builtin_claim_names"
proof -
  note unf = tdx_get_claims_def tdx_gen_claims_from_quote_def tdx_common_claims_inserts Let_def
  have common: "set (map fst (tdx_common_claims d)) \<subseteq> set builtin_claim_names" for d
    by (simp add: tdx_common_claims_def builtin_claim_names_def BUILT_IN_CLAIM_COMMON_QUOTE_def
        BUILT_IN_CLAIM_COMMON_QUOTE_TYPE_def)
  have own: "set (map fst (report2_claim_fields R)) \<subseteq> set builtin_claim_names" for R :: "'z report2_layout_scheme"
    unfolding report2_claim_names by (simp add: builtin_claim_names_def)
  have more: "''tdx_tee_tcb_svn2'' \<in> set builtin_claim_names" "''tdx_mr_servicetd'' \<in> set builtin_claim_names"
    by (simp_all add: builtin_claim_names_def)
  from assms(1) show ?thesis
  proof (cases rule: tdx_as_quote_checked)
    case (v4 q)
    with assms(2) have "cl = tdx_common_claims (tdx_data e) @
        map (\<lambda>(name, f). (name, as_slice L name (get_field (quote4_report_body L q) f))) (report2_claim_fields (report2 L))"
      by (simp add: unf append_report2)
    then show ?thesis using common own by (simp only: map_append map_fst_fields set_append Un_subset_iff) blast
  next
    case (v5_10 q b)
    with assms(2) have "cl = tdx_common_claims (tdx_data e) @
        map (\<lambda>(name, f). (name, as_slice L name (get_field b f))) (report2_claim_fields (report2 L))"
      by (simp add: unf append_report2)
    then show ?thesis using common own by (simp only: map_append map_fst_fields set_append Un_subset_iff) blast
  next
    case (v5_15 q b)
    with assms(2) have "cl = tdx_common_claims (tdx_data e) @ map (\<lambda>(name, f). (name, as_slice L name (get_field b f)))
         (report2_claim_fields (report2_v1_5 L) @ [(''tdx_tee_tcb_svn2'', r2_tee_tcb_svn2 (report2_v1_5 L)),
            (''tdx_mr_servicetd'', r2_mr_servicetd (report2_v1_5 L))])"
      by (simp only: unf append_report2_v1_5 andthen_simps quote.case res.inject)
    then show ?thesis using common own more
      by (simp only: map_append map_fst_fields set_append Un_subset_iff list.map fst_conv) simp
  qed
qed

text \<open>The evidence of a certificate has no claim under any other name.\<close>

lemma auto_claim_names:
  assumes "auto_create_evidence_from_dice F L tag raw = Ok e" and "auto_get_claims L e = Ok cl"
    and "claims_get cl n \<noteq> None"
  shows "n \<in> set builtin_claim_names"
proof -
  have "Some (auto_create_evidence_from_dice F L tag raw) = Some (Ok e)" using assms(1) by simp
  from auto_ev.create_checked [OF this] have ok: "auto_checked F L e" by simp
  have "set (map fst cl) \<subseteq> set builtin_claim_names"
  proof (cases e)
    case (SgxEv s)
    with ok assms(2) have "cl = (BUILT_IN_CLAIM_COMMON_QUOTE, sgx_data s) # (BUILT_IN_CLAIM_COMMON_QUOTE_TYPE, bytes_of ''sgx_dcap'') #
        map (\<lambda>(name, f). (name, as_slice L name (get_field (slice 0 (sz_quote3 L) (sgx_data s)) f))) (sgx_claim_fields L)"
      by (simp add: sgx_get_claims_checked)
    then have "map fst cl = BUILT_IN_CLAIM_COMMON_QUOTE # BUILT_IN_CLAIM_COMMON_QUOTE_TYPE # map fst (sgx_claim_fields L)"
      by (simp only: list.map map_fst_fields fst_conv)
    with sgx_claim_names [of L] show ?thesis
      by (simp add: BUILT_IN_CLAIM_COMMON_QUOTE_def BUILT_IN_CLAIM_COMMON_QUOTE_TYPE_def) (simp add: builtin_claim_names_def)
  next
    case (TdxEv t)
    with ok assms(2) show ?thesis using tdx_claim_names [of L t cl] by simp
  qed
  with assms(3) show ?thesis using claims_get_names [of cl n] by auto
qed

text \<open>The verifier accepts the sample certificate of every subject, with the same quote.\<close>

lemma sample_verified:
  "\<exists>raw eb. \<forall>subject. length subject \<le> 1000 \<longrightarrow>
     (\<exists>cert der claims. tbs_subject (tbs cert) = bytes_of subject \<and> tbs_spki (tbs cert) = [0x33, 9] \<and>
        extract_ext_with_oid cert OID_TCG_DICE_TAGGED_EVIDENCE = Some eb \<and>
        cert_from_der ref_x509 der = Inr cert \<and> verify_cert_der ref_deps der = Ok claims \<and>
        claims_get claims ''common_quote'' = Some raw)"
proof -
  obtain ev eb where all: "\<forall>subject. length subject \<le> 1000 \<longrightarrow>
     (\<exists>cert der. build_with_private_key_inner ref_deps (with_subject sample_builder subject) (P256 [9]) = Ok (cert, ev) \<and>
        cert_to_der_lib ref_x509 cert = Inr der \<and> tbs_subject (tbs cert) = bytes_of subject \<and>
        tbs_spki (tbs cert) = [0x33, 9] \<and>
        extract_ext_with_oid cert OID_TCG_DICE_TAGGED_EVIDENCE = Some eb)"
    using sample_build_for by blast
  have "\<exists>cert der claims. tbs_subject (tbs cert) = bytes_of subject \<and> tbs_spki (tbs cert) = [0x33, 9] \<and>
      extract_ext_with_oid cert OID_TCG_DICE_TAGGED_EVIDENCE = Some eb \<and>
      cert_from_der ref_x509 der = Inr cert \<and> verify_cert_der ref_deps der = Ok claims \<and>
      claims_get claims ''common_quote'' = Some (auto_get_dice_raw_evidence ev)"
    if len: "length subject \<le> 1000" for subject
  proof -
    let ?A = "cb_attester (with_subject sample_builder subject)"
    from all len obtain cert der where
      b: "build_with_private_key_inner ref_deps (with_subject sample_builder subject) (P256 [9]) = Ok (cert, ev)"
      and d: "cert_to_der_lib ref_x509 cert = Inr der" and s: "tbs_subject (tbs cert) = bytes_of subject"
      and k: "tbs_spki (tbs cert) = [0x33, 9]" and x: "extract_ext_with_oid cert OID_TCG_DICE_TAGGED_EVIDENCE = Some eb"
      by blast
    from built_cert_accepted [OF ref_libs_ok sample_builder_attester sample_builder_claims_wf b] obtain cb hb e where
      acc: "cert_accepted ref_deps cert (evidence_tag ?A ev) (evidence_raw ?A ev) cb e
        (custom_claims_of (with_subject sample_builder subject) hb)" by blast
    have p: "cert_from_der ref_x509 der = Inr cert" using ref_cert_der_ok d by (simp add: cert_der_ok_def)
    then have p': "cert_from_der (lib_x509 ref_deps) der = Inr cert" by (simp add: ref_deps_def)
    from acc have "auto_create_evidence_from_dice (build_features ref_deps) (dcap ref_deps)
        (evidence_tag ?A ev) (evidence_raw ?A ev) = Ok e"
      by (simp add: cert_accepted_def)
    from get_claims_created [OF this] obtain builtin where builtin: "auto_get_claims (dcap ref_deps) e = Ok builtin"
      "claims_get builtin ''common_quote'' = Some (auto_get_dice_raw_evidence ev)"
      by (auto simp: BUILT_IN_CLAIM_COMMON_QUOTE_def with_subject_def sample_builder_def with_claims_def
          cert_builder_new_def auto_attester_def)
    have "verify_cert_der ref_deps der = Ok (merge_claims builtin (custom_claims_of (with_subject sample_builder subject) hb))"
      unfolding verify_cert_der_eq_Ok using p' acc builtin(1) by blast
    moreover have "claims_get (merge_claims builtin (custom_claims_of (with_subject sample_builder subject) hb)) ''common_quote'' =
        Some (auto_get_dice_raw_evidence ev)"
      using builtin(2) by (simp add: merge_claims_get)
    ultimately show ?thesis using p s k x by blast
  qed
  then show ?thesis by blast
qed

subsection \<open>Properties\<close>

text \<open>
  The certificate that \<open>generate_and_sign_dice_cert\<close> returns, for every hash algorithm and key type,
  passes the verifier's check of a self-signed certificate, carries the public half of the signing key,
  and its DICE evidence extension and its endorsement extension are the given buffers as they are (no
  endorsement extension when none is given).
\<close>

theorem dice_cert_contents:
  assumes "builder_ok X" and "signing_ok X"
    and "generate_and_sign_dice_cert X subject h key evidence_buffer endorsements_buffer = Ok cert"
  shows "verify_cert_signature X cert cert = Ok () \<and>
    spki_from_key X key = Inr (tbs_spki (tbs cert)) \<and>
    extract_ext_with_oid cert OID_TCG_DICE_TAGGED_EVIDENCE = Some evidence_buffer \<and>
    extract_ext_with_oid cert OID_TCG_DICE_ENDORSEMENT_MANIFEST = endorsements_buffer"
  using generated_cert [OF assms] by (simp add: verify_cert_signature_self)

lemma sample_signed:
  "\<exists>cert. generate_and_sign_dice_cert ref_x509 ''CN=x'' Sha512 (Rsa2048 [8, 1]) [1, 2, 3, 4] None = Ok cert"
proof -
  let ?req = "\<lparr>req_profile = ProfileManual None, req_serial = 42, req_validity = [60], req_subject = bytes_of ''CN=x'',
     req_spki = [0x31, 8, 1], req_signer = RsaSigner Sha512 [8, 1], req_extensions = dice_exts [0x31, 8, 1] [1, 2, 3, 4] None\<rparr>"
  have "fits (tbs_value (ref_tbs ?req))"
    by (simp add: ref_tbs_def tbs_value_def opt_exts_value_def dice_exts_def ext_value_def sig_oids
        OID_TCG_DICE_TAGGED_EVIDENCE_def)
  then have "\<exists>cert. ref_build ?req = Inr cert" unfolding ref_build_def by (simp add: ref_write_fits del: encode.simps)
  then show ?thesis
    by (simp add: generate_and_sign_dice_cert_def build_with_signer_def add_extension_def own_ext_def gen_cert_step_def
        dice_evidence_to_extension_def ref_x509_def dice_exts_def)
qed

theorem dice_cert_contents_witness:
  "\<exists>cert. generate_and_sign_dice_cert ref_x509 ''CN=x'' Sha512 (Rsa2048 [8, 1]) [1, 2, 3, 4] None = Ok cert \<and>
     verify_cert_signature ref_x509 cert cert = Ok () \<and> tbs_spki (tbs cert) = [0x31, 8, 1] \<and>
     extract_ext_with_oid cert OID_TCG_DICE_TAGGED_EVIDENCE = Some [1, 2, 3, 4] \<and>
     extract_ext_with_oid cert OID_TCG_DICE_ENDORSEMENT_MANIFEST = None"
proof -
  obtain cert where g: "generate_and_sign_dice_cert ref_x509 ''CN=x'' Sha512 (Rsa2048 [8, 1]) [1, 2, 3, 4] None = Ok cert"
    using sample_signed by blast
  have "spki_from_key ref_x509 (Rsa2048 [8, 1]) = Inr [0x31, 8, 1]" by (simp add: ref_x509_def)
  with g dice_cert_contents [OF ref_builder_ok ref_signing_ok g] show ?thesis by auto
qed

text \<open>
  C1. \<open>verify_cert_der\<close> accepts a certificate exactly when it parses, is signed by the key it carries,
  its first DICE evidence extension is a tagged message of a quote that this build recognises and has
  a verifier for, the quote library trusts the quote, the quote's report data is the zero padded
  SHA-256 of the claims buffer, and the claims buffer holds a \<open>pubkey-hash\<close> claim with the hash of
  the certificate's own public key under the algorithm the claim names. The result is then the claims
  of the quote merged with the custom claims.
\<close>

theorem verify_cert_der_exact:
  "verify_cert_der D der = Ok claims \<longleftrightarrow>
   (\<exists>cert tag raw claims_buffer e custom builtin.
      cert_from_der (lib_x509 D) der = Inr cert \<and>
      self_signed (lib_x509 D) cert \<and>
      (\<exists>buf. extract_ext_with_oid cert OID_TCG_DICE_TAGGED_EVIDENCE = Some buf \<and>
         parse_evidence_buffer_with_tag (lib_cbor D) buf = Ok (tag, raw, claims_buffer)) \<and>
      auto_create_evidence_from_dice (build_features D) (dcap D) tag raw = Ok e \<and>
      verifier_enabled (build_features D) e \<and> chain_trusted (quote_lib D) raw \<and>
      length (hash (lib_crypto D) Sha256 claims_buffer) \<le> 64 \<and>
      auto_bound_data (dcap D) e =
        hash (lib_crypto D) Sha256 claims_buffer @ replicate (64 - length (hash (lib_crypto D) Sha256 claims_buffer)) 0 \<and>
      parse_claims_buffer (lib_cbor D) claims_buffer = Ok custom \<and>
      (\<exists>hb a spki_bytes. claims_get custom CLAIM_NAME_PUBLIC_KEY_HASH = Some hb \<and>
         spki_to_der (lib_x509 D) (tbs_spki (tbs cert)) = Inr spki_bytes \<and>
         parse_pubkey_hash_value_buffer (lib_cbor D) hb = Ok (a, hash (lib_crypto D) a spki_bytes)) \<and>
      auto_get_claims (dcap D) e = Ok builtin \<and> claims = merge_claims builtin custom)"
  unfolding verify_cert_der_eq_Ok cert_accepted_def by (simp only: conj_assoc)

text \<open>
  C2. The claims that \<open>verify_cert_der\<close> returns cannot be forged by custom claims: every claim of the
  quote keeps its value, in particular \<open>common_quote\<close> is the trusted raw quote itself and
  \<open>common_quote_type\<close> the type of the evidence, and a custom claim appears only under a name the quote
  has no claim for, with the value in the claims buffer that the quote's report data binds. No name
  occurs twice.
\<close>

theorem builtin_claims_protected:
  assumes "verify_cert_der D der = Ok claims"
  shows "\<exists>cert tag raw cb e custom builtin. cert_accepted D cert tag raw cb e custom \<and>
    auto_get_claims (dcap D) e = Ok builtin \<and> claims_wf claims \<and>
    claims_get claims ''common_quote'' = Some raw \<and>
    claims_get claims ''common_quote_type'' = Some (bytes_of (quote_type_name (auto_get_tee_type e))) \<and>
    (\<forall>n v. claims_get builtin n = Some v \<longrightarrow> claims_get claims n = Some v) \<and>
    (\<forall>n. claims_get builtin n = None \<longrightarrow> claims_get claims n = claims_get custom n)"
proof -
  from assms obtain cert tag raw cb e custom builtin where
    acc: "cert_accepted D cert tag raw cb e custom" and b: "auto_get_claims (dcap D) e = Ok builtin"
    and claims: "claims = merge_claims builtin custom"
    unfolding verify_cert_der_eq_Ok by blast
  have "auto_create_evidence_from_dice (build_features D) (dcap D) tag raw = Ok e"
    using acc by (simp add: cert_accepted_def)
  from get_claims_created [OF this] b have "claims_wf builtin"
    "claims_get builtin ''common_quote'' = Some raw"
    "claims_get builtin ''common_quote_type'' = Some (bytes_of (quote_type_name (auto_get_tee_type e)))"
    by (simp_all add: BUILT_IN_CLAIM_COMMON_QUOTE_def BUILT_IN_CLAIM_COMMON_QUOTE_TYPE_def)
  then show ?thesis
    using acc b
    by (intro exI [of _ cert] exI [of _ tag] exI [of _ raw] exI [of _ cb] exI [of _ e] exI [of _ custom] exI [of _ builtin])
       (simp add: claims merge_claims_wf merge_claims_get)
qed

theorem builtin_claims_protected_witness:
  "\<exists>der claims cert tag raw cb e custom builtin. verify_cert_der ref_deps der = Ok claims \<and>
    cert_accepted ref_deps cert tag raw cb e custom \<and> auto_get_claims (dcap ref_deps) e = Ok builtin \<and>
    claims_get claims ''common_quote'' = Some raw \<and>
    (\<forall>n v. claims_get builtin n = Some v \<longrightarrow> claims_get claims n = Some v)"
proof -
  have "length ''CN=a'' \<le> 1000" by simp
  with sample_verified obtain der claims where v: "verify_cert_der ref_deps der = Ok claims" by metis
  from builtin_claims_protected [OF v] v show ?thesis by blast
qed

text \<open>
  The policy of \<open>CertVerifier\<close>: it answers \<open>Passed\<close> exactly when the certificate verifies and every
  expected claim is there with the expected value, \<open>Failed\<close> exactly when the certificate verifies and
  some expected claim is missing or differs, and fails with the verification's own error otherwise.
\<close>

theorem cert_verifier_policy:
  "(cert_verifier_verify D (cert_verifier_new (Contains expected)) der = Ok Passed \<longleftrightarrow>
      (\<exists>claims. verify_cert_der D der = Ok claims \<and> list_all (\<lambda>(n, v). claims_get claims n = Some v) expected)) \<and>
   (cert_verifier_verify D (cert_verifier_new (Contains expected)) der = Ok Failed \<longleftrightarrow>
      (\<exists>claims. verify_cert_der D der = Ok claims \<and> list_ex (\<lambda>(n, v). claims_get claims n \<noteq> Some v) expected)) \<and>
   (cert_verifier_verify D (cert_verifier_new (Contains expected)) der = Err err \<longleftrightarrow> verify_cert_der D der = Err err)"
proof -
  have "list_all (\<lambda>(name, expected_value). case claims_get claims name of
          Some value \<Rightarrow> (if expected_value \<noteq> value then False else True) | None \<Rightarrow> False) expected \<longleftrightarrow>
        list_all (\<lambda>(n, v). claims_get claims n = Some v) expected" for claims
    by (auto simp: list_all_iff split: option.splits if_splits)
  moreover have "list_ex (\<lambda>(n, v). claims_get claims n \<noteq> Some v) expected \<longleftrightarrow>
      \<not> list_all (\<lambda>(n, v). claims_get claims n = Some v) expected" for claims
    by (auto simp: list_all_iff list_ex_iff)
  ultimately show ?thesis
    by (cases "verify_cert_der D der")
       (auto simp: cert_verifier_verify_def cert_verifier_new_def Let_def)
qed

text \<open>
  C29. Verification of an arbitrary byte string never panics, and the first checks have kinds of their own: bytes
  that do not parse fail with \<open>ParseCertError\<close>, a certificate that is not self signed with
  \<open>CertVerifySignatureFailed\<close>, and one without a DICE evidence extension with \<open>CertExtractExtensionFailed\<close>. The
  parsers of the quote in the evidence, which work on raw pointers, read nothing outside it, whatever it holds.
\<close>

theorem verify_cert_der_total:
  assumes "sha2_ok (lib_crypto D)"
  shows "verify_cert_der D der \<noteq> Panic \<and>
    (\<forall>tag raw. auto_create_evidence_from_dice (build_features D) (dcap D) tag raw \<noteq> UB) \<and>
    (case cert_from_der (lib_x509 D) der of
       Inl e \<Rightarrow> fails_with (verify_cert_der D der) ParseCertError
     | Inr cert \<Rightarrow>
         if \<not> self_signed (lib_x509 D) cert then fails_with (verify_cert_der D der) CertVerifySignatureFailed
         else extract_ext_with_oid cert OID_TCG_DICE_TAGGED_EVIDENCE = None \<longrightarrow>
           fails_with (verify_cert_der D der) CertExtractExtensionFailed)"
proof -
  have verify: "auto_verify_evidence F L Q e (sha2_256 (lib_crypto D) cb) \<noteq> Panic \<and>
      auto_verify_evidence F L Q e (sha2_256 (lib_crypto D) cb) \<noteq> UB \<and> auto_get_claims L e \<noteq> Panic \<and> auto_get_claims L e \<noteq> UB"
    if "auto_create_evidence_from_dice F L tag raw = Ok e" for F L Q e cb tag raw
  proof -
    have "Some (auto_create_evidence_from_dice F L tag raw) = Some (Ok e)" using that by simp
    from auto_ev.create_checked [OF this] have ok: "auto_checked F L e" by simp
    have "length (sha2_256 (lib_crypto D) cb) \<le> 64" using assms by (simp add: sha2_ok_def)
    with auto_verifier.verify_safe [OF ok] auto_verifier.verify_sound_memory [OF ok] get_claims_created [OF that]
    show ?thesis by auto
  qed
  have "verify_cert_der D der \<noteq> Panic \<and> verify_cert_der D der \<noteq> UB"
    by (auto simp: verify_cert_der_def Let_def andthen_inv auto_create_total parse_pubkey_hash_total
        parse_evidence_buffer_with_tag_def parse_claims_buffer_def dest!: verify split: option.splits if_splits)
  moreover have "case cert_from_der (lib_x509 D) der of
       Inl e \<Rightarrow> fails_with (verify_cert_der D der) ParseCertError
     | Inr cert \<Rightarrow>
         if \<not> self_signed (lib_x509 D) cert then fails_with (verify_cert_der D der) CertVerifySignatureFailed
         else extract_ext_with_oid cert OID_TCG_DICE_TAGGED_EVIDENCE = None \<longrightarrow>
           fails_with (verify_cert_der D der) CertExtractExtensionFailed"
  proof (cases "cert_from_der (lib_x509 D) der")
    case (Inl x)
    then show ?thesis by (simp add: verify_cert_der_def res_context_Err with_msg_def with_kind_def)
  next
    case (Inr cert)
    then show ?thesis
      by (cases "verify_cert_signature (lib_x509 D) cert cert")
         (simp_all add: verify_cert_der_def verify_cert_signature_self [symmetric] with_kind_def)
  qed
  ultimately show ?thesis using auto_create_total by blast
qed

theorem verify_cert_der_total_witness:
  "verify_cert_der ref_deps [] \<noteq> Panic \<and> fails_with (verify_cert_der ref_deps []) ParseCertError"
proof -
  have "sha2_ok (lib_crypto ref_deps)" by (simp add: ref_deps_def sample_sha2_ok)
  moreover have "cert_from_der (lib_x509 ref_deps) [] = Inl ''malformed''"
    by (simp add: ref_deps_def ref_x509_def ref_cert_from_der_def ref_read_def)
  ultimately show ?thesis using verify_cert_der_total [of ref_deps "[]"] by simp
qed

text \<open>
  C3. End to end: a certificate that \<open>CertBuilder\<close> builds with an honest attester, encoded as DER, is
  accepted by \<open>verify_cert_der\<close> of a build that recognises the attester's quotes. Its claims are those
  of the attester's quote, and every claim of the caller under a name that is neither \<open>pubkey-hash\<close> nor
  a claim of the quote; so the policy that expects any of these claims passes.
\<close>

theorem built_cert_verifies:
  assumes "libs_ok D" and "attester_ok D (cb_attester b)"
    and "\<forall>cl. cb_claims b = Some cl \<longrightarrow> claims_wf cl"
    and "build_with_private_key D b key = Ok bd" and "cert_to_der D bd = Ok der"
  shows "\<exists>claims e builtin. verify_cert_der D der = Ok claims \<and>
    auto_create_evidence_from_dice (build_features D) (dcap D) (evidence_tag (cb_attester b) (bundle_evidence bd))
      (evidence_raw (cb_attester b) (bundle_evidence bd)) = Ok e \<and> auto_get_claims (dcap D) e = Ok builtin \<and>
    (\<forall>n. n \<noteq> ''pubkey-hash'' \<longrightarrow> claims_get claims n =
       (case claims_get builtin n of Some v \<Rightarrow> Some v
        | None \<Rightarrow> claims_get (case cb_claims b of Some cl \<Rightarrow> cl | None \<Rightarrow> []) n)) \<and>
    (\<forall>expected. (\<forall>(n, v) \<in> set expected. n \<noteq> ''pubkey-hash'' \<and> claims_get builtin n = None \<and>
         claims_get (case cb_claims b of Some cl \<Rightarrow> cl | None \<Rightarrow> []) n = Some v) \<longrightarrow>
       cert_verifier_verify D (cert_verifier_new (Contains expected)) der = Ok Passed)"
proof -
  have inner: "build_with_private_key_inner D b key = Ok (bundle_cert bd, bundle_evidence bd)"
    using assms(4) by (simp add: build_with_private_key_Ok)
  from built_cert_accepted [OF assms(1-3) inner] obtain cb hb e where
    acc: "cert_accepted D (bundle_cert bd) (evidence_tag (cb_attester b) (bundle_evidence bd))
       (evidence_raw (cb_attester b) (bundle_evidence bd)) cb e (custom_claims_of b hb)" by blast
  have parse: "cert_from_der (lib_x509 D) der = Inr (bundle_cert bd)"
    using assms(1,5) by (auto simp: libs_ok_def cert_der_ok_def cert_to_der_def)
  have e: "auto_create_evidence_from_dice (build_features D) (dcap D) (evidence_tag (cb_attester b) (bundle_evidence bd))
      (evidence_raw (cb_attester b) (bundle_evidence bd)) = Ok e"
    using acc by (simp add: cert_accepted_def)
  from get_claims_created [OF e] obtain builtin where builtin: "auto_get_claims (dcap D) e = Ok builtin" by blast
  let ?claims = "merge_claims builtin (custom_claims_of b hb)"
  have ok: "verify_cert_der D der = Ok ?claims"
    unfolding verify_cert_der_eq_Ok using parse acc builtin by blast
  have get: "n \<noteq> ''pubkey-hash'' \<Longrightarrow> claims_get ?claims n =
       (case claims_get builtin n of Some v \<Rightarrow> Some v
        | None \<Rightarrow> claims_get (case cb_claims b of Some cl \<Rightarrow> cl | None \<Rightarrow> []) n)" for n
    by (cases "claims_get builtin n") (simp_all add: merge_claims_get custom_claims_of_def CLAIM_NAME_PUBLIC_KEY_HASH_def)
  have passed: "cert_verifier_verify D (cert_verifier_new (Contains expected)) der = Ok Passed"
    if "\<forall>(n, v) \<in> set expected. n \<noteq> ''pubkey-hash'' \<and> claims_get builtin n = None \<and>
         claims_get (case cb_claims b of Some cl \<Rightarrow> cl | None \<Rightarrow> []) n = Some v" for expected
    using that get by (force simp: cert_verifier_verify_def cert_verifier_new_def ok list_all_iff)
  show ?thesis using ok e builtin get passed by blast
qed

text \<open>
  The sample guest's certificate verifies, keeps the caller's \<open>key1\<close>, passes a policy on it, and shows
  the true quote type although the caller claimed another one.
\<close>

theorem built_cert_verifies_witness:
  "\<exists>der claims. verify_cert_der ref_deps der = Ok claims \<and> claims_get claims ''key1'' = Some (bytes_of ''value1'') \<and>
     claims_get claims ''common_quote_type'' = Some (bytes_of ''tdx'') \<and>
     cert_verifier_verify ref_deps (cert_verifier_new (Contains [(''key1'', bytes_of ''value1'')])) der = Ok Passed"
proof -
  obtain bd der where b: "build_with_private_key ref_deps sample_builder (P256 [9]) = Ok bd"
      "cert_to_der ref_deps bd = Ok der"
    using sample_build by blast
  note hyps = ref_libs_ok sample_builder_attester [of "cb_subject sample_builder", unfolded sample_builder_subject]
    sample_builder_claims_wf [of "cb_subject sample_builder", unfolded sample_builder_subject]
  from built_cert_verifies [OF hyps b] obtain claims e builtin where v: "verify_cert_der ref_deps der = Ok claims"
    and e: "auto_create_evidence_from_dice (build_features ref_deps) (dcap ref_deps)
      (evidence_tag (cb_attester sample_builder) (bundle_evidence bd)) (evidence_raw (cb_attester sample_builder) (bundle_evidence bd)) = Ok e"
    and builtin: "auto_get_claims (dcap ref_deps) e = Ok builtin"
    and get: "\<forall>n. n \<noteq> ''pubkey-hash'' \<longrightarrow> claims_get claims n = (case claims_get builtin n of Some v \<Rightarrow> Some v
        | None \<Rightarrow> claims_get (case cb_claims sample_builder of Some cl \<Rightarrow> cl | None \<Rightarrow> []) n)"
    and pol: "\<forall>expected. (\<forall>(n, v) \<in> set expected. n \<noteq> ''pubkey-hash'' \<and> claims_get builtin n = None \<and>
         claims_get (case cb_claims sample_builder of Some cl \<Rightarrow> cl | None \<Rightarrow> []) n = Some v) \<longrightarrow>
       cert_verifier_verify ref_deps (cert_verifier_new (Contains expected)) der = Ok Passed"
    by blast
  have none: "claims_get builtin ''key1'' = None"
  proof (rule ccontr)
    assume "claims_get builtin ''key1'' \<noteq> None"
    from auto_claim_names [OF e builtin this] show False by (simp add: builtin_claim_names_def)
  qed
  have caller: "claims_get (case cb_claims sample_builder of Some cl \<Rightarrow> cl | None \<Rightarrow> []) ''key1'' = Some (bytes_of ''value1'')"
    by (simp add: sample_builder_def with_claims_def claims_get_def)
  have tdx: "auto_get_tee_type e = TdxTee"
  proof -
    have "build_with_private_key_inner ref_deps sample_builder (P256 [9]) = Ok (bundle_cert bd, bundle_evidence bd)"
      using b(1) by (simp add: build_with_private_key_Ok)
    then obtain cb where "get_evidence (cb_attester sample_builder) (hash (lib_crypto ref_deps) Sha256 cb) = Ok (bundle_evidence bd)"
      by (rule build_inner_Ok)
    then have "bundle_evidence bd = TdxEv \<lparr>tdx_data = sample_tdx_quote (sample_digest 32 cb @ replicate 32 0)\<rparr>"
      using sample_attester_evidence [of "sample_digest 32 cb"]
      by (simp add: sample_builder_def with_claims_def cert_builder_new_def auto_attester_def ref_deps_def sample_crypto_def)
    with e show ?thesis
      using sample_tdx_created [of "sample_digest 32 cb @ replicate 32 0"]
      by (simp add: sample_builder_def with_claims_def cert_builder_new_def auto_attester_def ref_deps_def
          tdx_get_dice_cbor_tag_def tdx_get_dice_raw_evidence_def)
         (metis auto_get_tee_type.simps(2) tdx_get_tee_type_def)
  qed
  have "claims_get builtin ''common_quote_type'' = Some (bytes_of ''tdx'')"
    using get_claims_created [OF e] builtin tdx by (simp add: BUILT_IN_CLAIM_COMMON_QUOTE_TYPE_def)
  with get have "claims_get claims ''common_quote_type'' = Some (bytes_of ''tdx'')" by simp
  moreover have "claims_get claims ''key1'' = Some (bytes_of ''value1'')"
    using get none caller by simp
  moreover have "cert_verifier_verify ref_deps (cert_verifier_new (Contains [(''key1'', bytes_of ''value1'')])) der = Ok Passed"
    using pol none caller by simp
  ultimately show ?thesis using v by blast
qed

text \<open>The tag, raw evidence and claims buffer in a certificate.\<close>

definition evidence_parts :: "deps \<Rightarrow> certificate \<Rightarrow> (u64 \<times> bytes \<times> bytes) res" where
  "evidence_parts D cert = (case extract_ext_with_oid cert OID_TCG_DICE_TAGGED_EVIDENCE of
       Some buf \<Rightarrow> parse_evidence_buffer_with_tag (lib_cbor D) buf
     | None \<Rightarrow> Err (error_of_kind CertExtractExtensionFailed))"

lemma cert_accepted_parts: "cert_accepted D cert tag raw cb e custom \<Longrightarrow> evidence_parts D cert = Ok (tag, raw, cb)"
  by (auto simp: cert_accepted_def evidence_parts_def)

text \<open>
  C4. A quote cannot be reused for other claims or another key: if two certificates verify and show the
  same \<open>common_quote\<close>, then they give the same claims and carry the same public key, unless their two
  claims buffers collide under SHA-256 or their two encoded public keys under the claimed hash.
\<close>

theorem quote_binds_claims_and_key:
  assumes "sha2_ok (lib_crypto D)"
    and "verify_cert_der D der = Ok claims" and "verify_cert_der D der' = Ok claims'"
    and "claims_get claims ''common_quote'' = claims_get claims' ''common_quote''"
    and "cert_from_der (lib_x509 D) der = Inr cert" and "cert_from_der (lib_x509 D) der' = Inr cert'"
    and "\<forall>t r cb t' r' cb'. evidence_parts D cert = Ok (t, r, cb) \<longrightarrow> evidence_parts D cert' = Ok (t', r', cb') \<longrightarrow>
       hash (lib_crypto D) Sha256 cb = hash (lib_crypto D) Sha256 cb' \<longrightarrow> cb = cb'"
    and "\<forall>a s s'. spki_to_der (lib_x509 D) (tbs_spki (tbs cert)) = Inr s \<longrightarrow>
       spki_to_der (lib_x509 D) (tbs_spki (tbs cert')) = Inr s' \<longrightarrow>
       hash (lib_crypto D) a s = hash (lib_crypto D) a s' \<longrightarrow> s = s'"
  shows "claims = claims' \<and>
    spki_to_der (lib_x509 D) (tbs_spki (tbs cert)) = spki_to_der (lib_x509 D) (tbs_spki (tbs cert'))"
proof -
  from assms(2,5) obtain tag raw cb e custom builtin where
    acc: "cert_accepted D cert tag raw cb e custom" and b: "auto_get_claims (dcap D) e = Ok builtin"
    and c: "claims = merge_claims builtin custom" unfolding verify_cert_der_eq_Ok by auto
  from assms(3,6) obtain tag' raw' cb' e' custom' builtin' where
    acc': "cert_accepted D cert' tag' raw' cb' e' custom'" and b': "auto_get_claims (dcap D) e' = Ok builtin'"
    and c': "claims' = merge_claims builtin' custom'" unfolding verify_cert_der_eq_Ok by auto
  have e: "auto_create_evidence_from_dice (build_features D) (dcap D) tag raw = Ok e"
    and e': "auto_create_evidence_from_dice (build_features D) (dcap D) tag' raw' = Ok e'"
    using acc acc' by (simp_all add: cert_accepted_def)
  have quote: "claims_get builtin ''common_quote'' = Some raw" "claims_get builtin' ''common_quote'' = Some raw'"
    using get_claims_created [OF e] get_claims_created [OF e'] b b' by (simp_all add: BUILT_IN_CLAIM_COMMON_QUOTE_def)
  with assms(4) have raw: "raw' = raw" by (simp add: c c' merge_claims_get)
  have "tag' = tag" using e e' by (auto simp: auto_create_alt split: if_splits)
  with e e' raw have ev: "e' = e" by simp
  have len: "length (hash (lib_crypto D) Sha256 x) = 32" for x
    using assms(1) by (simp add: sha2_ok_def)
  have "hash (lib_crypto D) Sha256 cb = hash (lib_crypto D) Sha256 cb'"
    using acc acc' ev len by (auto simp: cert_accepted_def)
  with assms(7) cert_accepted_parts [OF acc] cert_accepted_parts [OF acc'] have cb: "cb' = cb" by metis
  then have custom: "custom' = custom" using acc acc' by (simp add: cert_accepted_def)
  have "claims = claims'" using c c' custom b b' ev by simp
  moreover have "spki_to_der (lib_x509 D) (tbs_spki (tbs cert)) = spki_to_der (lib_x509 D) (tbs_spki (tbs cert'))"
    using acc acc' custom assms(8) by (auto simp: cert_accepted_def)
  ultimately show ?thesis by simp
qed

text \<open>Two certificates of the sample guest for different subjects and the same key.\<close>

theorem quote_binds_claims_and_key_witness:
  "\<exists>cert cert' der der' claims. tbs_subject (tbs cert) \<noteq> tbs_subject (tbs cert') \<and>
     cert_from_der ref_x509 der = Inr cert \<and> cert_from_der ref_x509 der' = Inr cert' \<and>
     verify_cert_der ref_deps der = Ok claims \<and> verify_cert_der ref_deps der' = Ok claims"
proof -
  obtain raw eb where all: "\<forall>subject. length subject \<le> 1000 \<longrightarrow>
     (\<exists>cert der claims. tbs_subject (tbs cert) = bytes_of subject \<and> tbs_spki (tbs cert) = [0x33, 9] \<and>
        extract_ext_with_oid cert OID_TCG_DICE_TAGGED_EVIDENCE = Some eb \<and>
        cert_from_der ref_x509 der = Inr cert \<and> verify_cert_der ref_deps der = Ok claims \<and>
        claims_get claims ''common_quote'' = Some raw)"
    using sample_verified by blast
  have "length ''CN=a'' \<le> 1000" "length ''CN=b'' \<le> 1000" by simp_all
  with all obtain cert der claims cert' der' claims' where
    1: "tbs_subject (tbs cert) = bytes_of ''CN=a''" "tbs_spki (tbs cert) = [0x33, 9]"
      "extract_ext_with_oid cert OID_TCG_DICE_TAGGED_EVIDENCE = Some eb" "cert_from_der ref_x509 der = Inr cert"
      "verify_cert_der ref_deps der = Ok claims" "claims_get claims ''common_quote'' = Some raw" and
    2: "tbs_subject (tbs cert') = bytes_of ''CN=b''" "tbs_spki (tbs cert') = [0x33, 9]"
      "extract_ext_with_oid cert' OID_TCG_DICE_TAGGED_EVIDENCE = Some eb" "cert_from_der ref_x509 der' = Inr cert'"
      "verify_cert_der ref_deps der' = Ok claims'" "claims_get claims' ''common_quote'' = Some raw"
    by metis
  have x509: "lib_x509 ref_deps = ref_x509" and sha2: "sha2_ok (lib_crypto ref_deps)"
    by (simp_all add: ref_deps_def sample_sha2_ok)
  have "claims = claims' \<and> spki_to_der (lib_x509 ref_deps) (tbs_spki (tbs cert)) = spki_to_der (lib_x509 ref_deps) (tbs_spki (tbs cert'))"
    by (rule quote_binds_claims_and_key [OF sha2 1(5) 2(5)])
       (simp_all add: x509 1 2 evidence_parts_def)
  moreover have "bytes_of ''CN=a'' \<noteq> bytes_of ''CN=b''" by (simp add: bytes_of_def)
  ultimately show ?thesis using 1 2 by metis
qed

end
