(* ===== verification/FramedStream.thy ===== *)
theory FramedStream
  imports Prelude
begin

text \<open>
  \<^verbatim>\<open>rats-rs/src/transport/spdm/io/framed_stream.rs\<close>: packets over a byte stream, each behind a four byte
  header with its length. The \<open>codec\<close> crate's integers are the parameter \<open>codec_lib\<close>.

  The stream is what it will deliver and what it was given: \<open>incoming\<close> is the sequence of results of
  the coming \<open>read\<close> calls (a chunk is handed out in several reads when it does not fit the caller's
  buffer; after the last event the stream is at its end and every read returns 0), \<open>outgoing\<close> the bytes
  written so far, and \<open>write_faults\<close> the outcome of the coming \<open>write_all\<close>, \<open>flush\<close> and \<open>shutdown\<close>
  calls: \<open>None\<close> for success, \<open>Some k\<close> for a failure after \<open>k\<close> bytes; no entry means success. Once
  the write side is shut down (\<open>write_open\<close> is false) every \<open>write_all\<close> of a byte fails without
  writing it; \<open>write_all\<close> of no bytes makes no call at all.
\<close>

datatype read_event = Chunk bytes | ReadError

record stream =
  incoming :: "read_event list"
  outgoing :: bytes
  write_faults :: "nat option list"
  write_open :: bool

text \<open>\<open>Codec\<close> for \<open>u8\<close> and \<open>u32\<close>: writing into a writer with so much room left, and reading.\<close>

record codec_lib =
  u8_encode :: "nat \<Rightarrow> u8 \<Rightarrow> bytes option"
  u8_read :: "bytes \<Rightarrow> u8 option"
  u32_encode :: "nat \<Rightarrow> u32 \<Rightarrow> bytes option"
  u32_read :: "bytes \<Rightarrow> u32 option"

definition codec_ok :: "codec_lib \<Rightarrow> bool" where
  "codec_ok K \<longleftrightarrow>
     (\<forall>room w. u8_encode K room w = (if 1 \<le> room then Some [w] else None)) \<and>
     (\<forall>bs. u8_read K bs = (case bs of [] \<Rightarrow> None | b # _ \<Rightarrow> Some b)) \<and>
     (\<forall>room w. 4 \<le> room \<longrightarrow> u32_encode K room w = u32_encode K 4 w) \<and>
     (\<forall>room w. 4 \<le> room \<longrightarrow> (\<exists>bs. u32_encode K room w = Some bs \<and> length bs = 4 \<and> (\<forall>r. u32_read K (bs @ r) = Some w))) \<and>
     (\<forall>bs. 4 \<le> length bs \<longrightarrow> (\<exists>w. u32_read K bs = Some w))"

subsection \<open>The frame header\<close>

text \<open>\<open>u32::to_be\<close> on a little endian target: the bytes in reverse order.\<close>

definition to_be :: "u32 \<Rightarrow> u32" where
  "to_be w = word_of_nat (le_nat (rev (nat_le 4 (unat w))))"

lemma nat_le_le_nat: "nat_le (length bs) (le_nat bs) = bs"
proof (induction bs)
  case (Cons b bs)
  have "unat b < 256" using unsigned_less [of b] by simp
  then have "(unat b + 256 * le_nat bs) mod 256 = unat b" "(unat b + 256 * le_nat bs) div 256 = le_nat bs"
    by simp_all
  with Cons show ?case by simp
qed simp

lemma to_be_to_be [simp]: "to_be (to_be w) = w"
proof -
  let ?bs = "nat_le 4 (unat w)"
  have "le_nat (rev ?bs) < 256 ^ 4" using le_nat_bound [of "rev ?bs"] by simp
  then have "unat (to_be w) = le_nat (rev ?bs)"
    by (simp add: to_be_def unat_of_nat)
  moreover have "nat_le 4 (le_nat (rev ?bs)) = rev ?bs" using nat_le_le_nat [of "rev ?bs"] by simp
  ultimately have eq: "to_be (to_be w) = word_of_nat (le_nat ?bs)" by (simp add: to_be_def [of "to_be w"])
  have "unat w < 4294967296" using unsigned_less [of w] by simp
  then have "le_nat ?bs = unat w" by (simp add: le_nat_nat_le)
  with eq show ?thesis by simp
qed

record frame_header =
  payload_size :: u32

definition FRAME_HEADER_SIZE :: nat where
  "FRAME_HEADER_SIZE = 4"

definition frame_header_encode :: "codec_lib \<Rightarrow> nat \<Rightarrow> frame_header \<Rightarrow> bytes option" where
  "frame_header_encode K room h = u32_encode K room (payload_size h)"

definition frame_header_read :: "codec_lib \<Rightarrow> bytes \<Rightarrow> frame_header option" where
  "frame_header_read K bs = (case u32_read K bs of None \<Rightarrow> None | Some w \<Rightarrow> Some \<lparr>payload_size = w\<rparr>)"

subsection \<open>FramedStream\<close>

record framed_stream =
  stream :: stream
  read_buffer :: bytes
  read_remain :: nat

text \<open>\<open>config::RECEIVER_BUFFER_SIZE\<close> and \<open>config::SENDER_BUFFER_SIZE\<close> of \<open>spdmlib\<close>.\<close>

record io_config =
  RECEIVER_BUFFER_SIZE :: nat
  SENDER_BUFFER_SIZE :: nat

definition framed_stream_new :: "io_config \<Rightarrow> stream \<Rightarrow> framed_stream" where
  "framed_stream_new cfg s =
     \<lparr>stream = s, read_buffer = replicate (FRAME_HEADER_SIZE + RECEIVER_BUFFER_SIZE cfg) 0, read_remain = 0\<rparr>"

text \<open>
  \<open>stream.read(&mut buf[..room])\<close> for \<open>room > 0\<close>: \<open>None\<close> is an error, \<open>Some []\<close> the end of the stream.
\<close>

definition stream_read :: "nat \<Rightarrow> read_event list \<Rightarrow> bytes option \<times> read_event list" where
  "stream_read room evs = (case evs of
       [] \<Rightarrow> (Some [], [])
     | ReadError # evs' \<Rightarrow> (None, evs')
     | Chunk bs # evs' \<Rightarrow>
         (Some (take room bs), if drop room bs = [] then evs' else Chunk (drop room bs) # evs'))"

lemma stream_read_room: "stream_read room evs = (Some bs, evs') \<Longrightarrow> length bs \<le> room"
  by (auto simp: stream_read_def split: list.splits read_event.splits)

text \<open>How the loop of \<open>receive\<close> ends: \<open>unwrap\<close> of a header that does not read is a panic.\<close>

datatype loop_end = Enough bytes nat nat "read_event list" | GiveUp bytes nat nat "read_event list" | LoopPanic

text \<open>The expected size, updated at the head of an iteration.\<close>

definition update_expected :: "codec_lib \<Rightarrow> bytes \<Rightarrow> nat \<Rightarrow> nat \<Rightarrow> nat option" where
  "update_expected K buf buffer_size expected_size =
     (if expected_size = 0 \<and> FRAME_HEADER_SIZE \<le> buffer_size then
        (case frame_header_read K (take FRAME_HEADER_SIZE buf) of
           None \<Rightarrow> None
         | Some socket_header \<Rightarrow> Some (unat (to_be (payload_size socket_header)) + FRAME_HEADER_SIZE))
      else Some expected_size)"

function recv_loop :: "codec_lib \<Rightarrow> bytes \<Rightarrow> nat \<Rightarrow> nat \<Rightarrow> read_event list \<Rightarrow> loop_end" where
  "recv_loop K buf buffer_size expected_size evs =
     (case update_expected K buf buffer_size expected_size of
        None \<Rightarrow> LoopPanic
      | Some expected_size \<Rightarrow>
          (if expected_size \<noteq> 0 \<and> expected_size \<le> buffer_size then Enough buf buffer_size expected_size evs
           else if length buf \<le> buffer_size then GiveUp buf buffer_size expected_size evs
           else (case stream_read (length buf - buffer_size) evs of
               (None, evs') \<Rightarrow> GiveUp buf buffer_size expected_size evs'
             | (Some s, evs') \<Rightarrow>
                 (if s = [] then GiveUp buf buffer_size expected_size evs'
                  else recv_loop K (blit buf buffer_size s) (buffer_size + length s) expected_size evs'))))"
  by pat_completeness auto
termination
  apply (relation "measure (\<lambda>(K, buf, n, x, evs). length buf - n)")
   apply simp
  apply clarsimp
  subgoal for K buf n x evs x' evs' s
    using stream_read_room [of "length buf - n" evs s evs'] by (cases s) (auto simp: length_blit)
  done

declare recv_loop.simps [simp del]

text \<open>
  \<open>receive\<close> into a caller's buffer of the given contents: \<open>None\<close> is a panic, otherwise the new state, the
  caller's buffer afterwards, and the \<open>Result<usize, usize>\<close>.
\<close>

definition copy_within :: "bytes \<Rightarrow> nat \<Rightarrow> nat \<Rightarrow> bytes" where
  "copy_within buf lo hi = blit buf 0 (slice lo (hi - lo) buf)"

definition fs_receive :: "codec_lib \<Rightarrow> framed_stream \<Rightarrow> bytes \<Rightarrow> (framed_stream \<times> bytes \<times> (nat + nat)) option" where
  "fs_receive K fs out =
     (case recv_loop K (read_buffer fs) (read_remain fs) 0 (incoming (stream fs)) of
        LoopPanic \<Rightarrow> None
      | Enough buf buffer_size expected_size evs \<Rightarrow>
          (let used = expected_size - FRAME_HEADER_SIZE
           in if used > length out then None
              else Some (fs\<lparr>stream := (stream fs)\<lparr>incoming := evs\<rparr>,
                            read_buffer := copy_within buf expected_size buffer_size,
                            read_remain := buffer_size - expected_size\<rparr>,
                         blit out 0 (slice FRAME_HEADER_SIZE used buf), Inr used))
      | GiveUp buf buffer_size expected_size evs \<Rightarrow>
          Some (fs\<lparr>stream := (stream fs)\<lparr>incoming := evs\<rparr>, read_buffer := buf, read_remain := buffer_size\<rparr>, out, Inl 0))"

text \<open>
  \<open>write_all\<close>, \<open>flush\<close> and \<open>shutdown(Shutdown::Write)\<close> of the stream: the outcome is the next entry of
  \<open>write_faults\<close>.
\<close>

definition write_some :: "stream \<Rightarrow> bytes \<Rightarrow> stream \<times> bool" where
  "write_some s bs = (case write_faults s of
       [] \<Rightarrow> (s\<lparr>outgoing := outgoing s @ bs\<rparr>, True)
     | None # fs \<Rightarrow> (s\<lparr>outgoing := outgoing s @ bs, write_faults := fs\<rparr>, True)
     | Some k # fs \<Rightarrow> (s\<lparr>outgoing := outgoing s @ take k bs, write_faults := fs\<rparr>, False))"

definition write_all :: "stream \<Rightarrow> bytes \<Rightarrow> stream \<times> bool" where
  "write_all s bs = (if bs = [] then (s, True) else if write_open s then write_some s bs else (s, False))"

definition flush :: "stream \<Rightarrow> stream \<times> bool" where
  "flush s = write_some s []"

definition shutdown_write :: "stream \<Rightarrow> stream \<times> bool" where
  "shutdown_write s = (case write_some s [] of
       (s, True) \<Rightarrow> (s\<lparr>write_open := False\<rparr>, True)
     | (s, False) \<Rightarrow> (s, False))"

datatype spdm_status =
    SPDM_STATUS_SEND_FAIL
  | SPDM_STATUS_ENCAP_FAIL
  | SPDM_STATUS_DECAP_FAIL
  | SPDM_STATUS_ENCAP_APP_FAIL
  | SPDM_STATUS_DECAP_APP_FAIL
  | SPDM_STATUS_INVALID_CERT
  | SPDM_STATUS_OTHER u32

definition fs_send :: "codec_lib \<Rightarrow> io_config \<Rightarrow> framed_stream \<Rightarrow> bytes \<Rightarrow> (framed_stream \<times> (spdm_status + unit)) option" where
  "fs_send K cfg fs payload =
     (let header = \<lparr>payload_size = to_be (word_of_nat (length payload))\<rparr>
      in case frame_header_encode K (FRAME_HEADER_SIZE + SENDER_BUFFER_SIZE cfg) header of
           None \<Rightarrow> None
         | Some buffer \<Rightarrow>
             (if length buffer \<noteq> FRAME_HEADER_SIZE then None
              else case write_all (stream fs) buffer of
                (s, False) \<Rightarrow> Some (fs\<lparr>stream := s\<rparr>, Inl SPDM_STATUS_SEND_FAIL)
              | (s, True) \<Rightarrow>
                  (case write_all s payload of
                     (s, False) \<Rightarrow> Some (fs\<lparr>stream := s\<rparr>, Inl SPDM_STATUS_SEND_FAIL)
                   | (s, True) \<Rightarrow>
                       (case flush s of
                          (s, False) \<Rightarrow> Some (fs\<lparr>stream := s\<rparr>, Inl SPDM_STATUS_SEND_FAIL)
                        | (s, True) \<Rightarrow> Some (fs\<lparr>stream := s\<rparr>, Inr ())))))"

definition fs_flush_all :: "framed_stream \<Rightarrow> framed_stream \<times> (spdm_status + unit)" where
  "fs_flush_all fs = (case flush (stream fs) of
       (s, ok) \<Rightarrow> (fs\<lparr>stream := s\<rparr>, if ok then Inr () else Inl SPDM_STATUS_SEND_FAIL))"

subsection \<open>The abstract view\<close>

text \<open>
  What is still to be received: the bytes kept from earlier reads and the chunks to come. A stream
  without errors and empty chunks delivers them in any segmentation.
\<close>

fun chunks_ok :: "read_event list \<Rightarrow> bool" where
  "chunks_ok [] = True"
| "chunks_ok (Chunk bs # evs) = (bs \<noteq> [] \<and> chunks_ok evs)"
| "chunks_ok (ReadError # evs) = False"

fun bytes_of_chunks :: "read_event list \<Rightarrow> bytes" where
  "bytes_of_chunks [] = []"
| "bytes_of_chunks (Chunk bs # evs) = bs @ bytes_of_chunks evs"
| "bytes_of_chunks (ReadError # evs) = bytes_of_chunks evs"

definition pending :: "framed_stream \<Rightarrow> bytes" where
  "pending fs = take (read_remain fs) (read_buffer fs) @ bytes_of_chunks (incoming (stream fs))"

definition fs_wf :: "io_config \<Rightarrow> framed_stream \<Rightarrow> bool" where
  "fs_wf cfg fs \<longleftrightarrow> length (read_buffer fs) = FRAME_HEADER_SIZE + RECEIVER_BUFFER_SIZE cfg \<and>
     read_remain fs \<le> length (read_buffer fs) \<and> chunks_ok (incoming (stream fs))"

text \<open>The four bytes that announce a payload of length \<open>n\<close>, and a framed payload.\<close>

definition header_bytes :: "codec_lib \<Rightarrow> nat \<Rightarrow> bytes" where
  "header_bytes K n = the (u32_encode K 4 (to_be (word_of_nat n)))"

definition frame :: "codec_lib \<Rightarrow> bytes \<Rightarrow> bytes" where
  "frame K p = header_bytes K (length p) @ p"

lemma stream_read_chunks:
  assumes "chunks_ok evs" and "0 < room"
  obtains (eof) "evs = []" "stream_read room evs = (Some [], [])"
  | (data) s evs' where "stream_read room evs = (Some s, evs')" "s \<noteq> []" "chunks_ok evs'" "length s \<le> room"
      "bytes_of_chunks evs = s @ bytes_of_chunks evs'"
proof (cases evs)
  case Nil
  then show ?thesis by (intro eof) (simp_all add: stream_read_def)
next
  case (Cons ev evs')
  with assms obtain bs where ev: "ev = Chunk bs" "bs \<noteq> []" "chunks_ok evs'"
    by (cases ev) auto
  show ?thesis
    by (rule data [of "take room bs" "if drop room bs = [] then evs' else Chunk (drop room bs) # evs'"])
       (use ev Cons assms(2) in \<open>auto simp: stream_read_def\<close>)
qed

text \<open>The size of a frame, header included, that the first four bytes announce.\<close>

definition announced :: "codec_lib \<Rightarrow> bytes \<Rightarrow> nat" where
  "announced K bs = unat (to_be (the (u32_read K (take FRAME_HEADER_SIZE bs)))) + FRAME_HEADER_SIZE"

text \<open>Whether the whole first frame is in \<open>bs\<close> and fits a buffer of \<open>cap\<close> bytes.\<close>

definition frame_ready :: "codec_lib \<Rightarrow> nat \<Rightarrow> bytes \<Rightarrow> bool" where
  "frame_ready K cap bs \<longleftrightarrow> FRAME_HEADER_SIZE \<le> length bs \<and> announced K bs \<le> length bs \<and> announced K bs \<le> cap"

lemma announced_ge: "4 \<le> announced K bs"
  by (simp add: announced_def FRAME_HEADER_SIZE_def)

lemma announced_take: "4 \<le> n \<Longrightarrow> announced K (take n bs) = announced K bs"
  by (simp add: announced_def FRAME_HEADER_SIZE_def)

lemma announced_append: "4 \<le> length bs \<Longrightarrow> announced K (bs @ r) = announced K bs"
  by (simp add: announced_def FRAME_HEADER_SIZE_def)

lemma update_expected_spec:
  assumes "codec_ok K" and "n \<le> length buf" and "x = 0 \<or> 4 \<le> n \<and> x = announced K (take n buf)"
  shows "update_expected K buf n x = Some (if n < 4 then 0 else announced K (take n buf))"
proof (cases "x = 0 \<and> 4 \<le> n")
  case True
  with assms(2) have "4 \<le> length (take 4 buf)" by simp
  with assms(1) obtain w where "u32_read K (take 4 buf) = Some w"
    unfolding codec_ok_def by blast
  with True show ?thesis
    by (simp add: update_expected_def frame_header_read_def FRAME_HEADER_SIZE_def announced_def)
next
  case False
  with assms(3) announced_ge show ?thesis by (auto simp: update_expected_def FRAME_HEADER_SIZE_def)
qed

lemma recv_loop_spec:
  assumes "codec_ok K" and "chunks_ok evs" and "n \<le> length buf" and "4 \<le> length buf"
    and "x = 0 \<or> 4 \<le> n \<and> x = announced K (take n buf)"
  shows "\<exists>buf' n' evs'. length buf' = length buf \<and> n' \<le> length buf \<and> chunks_ok evs' \<and>
      take n' buf' @ bytes_of_chunks evs' = take n buf @ bytes_of_chunks evs \<and>
      (if frame_ready K (length buf) (take n buf @ bytes_of_chunks evs)
       then announced K (take n buf @ bytes_of_chunks evs) \<le> n' \<and>
         recv_loop K buf n x evs = Enough buf' n' (announced K (take n buf @ bytes_of_chunks evs)) evs'
       else (\<exists>x'. recv_loop K buf n x evs = GiveUp buf' n' x' evs') \<and> (n' = length buf \<or> evs' = []))"
  using assms
proof (induction K buf n x evs rule: recv_loop.induct)
  case (1 K buf n x evs)
  let ?x = "if n < 4 then 0 else announced K (take n buf)"
  let ?all = "take n buf @ bytes_of_chunks evs"
  have upd: "update_expected K buf n x = Some ?x"
    by (rule update_expected_spec [OF 1(2) 1(4) 1(6)])
  have ann: "4 \<le> n \<Longrightarrow> announced K ?all = announced K (take n buf)"
    using 1(4) by (intro announced_append) simp
  show ?case
  proof (cases "4 \<le> n \<and> announced K (take n buf) \<le> n")
    case True
    then have "recv_loop K buf n x evs = Enough buf n (announced K ?all) evs"
      using announced_ge [of K "take n buf"] ann by (subst recv_loop.simps) (simp add: upd)
    moreover have "frame_ready K (length buf) ?all"
      using True ann 1(4) by (auto simp: frame_ready_def FRAME_HEADER_SIZE_def)
    ultimately show ?thesis using True ann 1(3,4) by (intro exI [of _ buf] exI [of _ n] exI [of _ evs]) auto
  next
    case False
    then have more: "\<not> (?x \<noteq> 0 \<and> ?x \<le> n)" by auto
    show ?thesis
    proof (cases "length buf \<le> n")
      case True
      with 1(4) have n: "n = length buf" by simp
      have "recv_loop K buf n x evs = GiveUp buf n ?x evs"
        by (subst recv_loop.simps) (simp only: upd option.case more True if_True if_False)
      moreover have "\<not> frame_ready K (length buf) ?all"
        using False ann n 1(5) by (auto simp: frame_ready_def)
      ultimately show ?thesis using n 1(3) by (intro exI [of _ buf] exI [of _ n] exI [of _ evs]) auto
    next
      case room: False
      then have "0 < length buf - n" by simp
      with 1(3) show ?thesis
      proof (cases rule: stream_read_chunks)
        case eof
        with more room have "recv_loop K buf n x evs = GiveUp buf n ?x []"
          by (subst recv_loop.simps) (simp add: upd)
        moreover have "\<not> frame_ready K (length buf) ?all"
          using False eof(1) room by (auto simp: frame_ready_def FRAME_HEADER_SIZE_def)
        ultimately show ?thesis
          using eof(1) room by (intro exI [of _ buf] exI [of _ n] exI [of _ "[]"]) auto
      next
        case (data s evs')
        let ?buf = "blit buf n s" and ?n = "n + length s"
        have fit: "?n \<le> length buf" and len: "length ?buf = length buf"
          using data(4) room by (auto simp: length_blit)
        have take: "take ?n ?buf = take n buf @ s" using room by (simp add: take_blit)
        have all: "take ?n ?buf @ bytes_of_chunks evs' = ?all" by (simp add: take data(5))
        have x': "?x = 0 \<or> 4 \<le> ?n \<and> ?x = announced K (take ?n ?buf)"
          using 1(4) by (auto simp: take announced_append)
        have step: "recv_loop K buf n x evs = recv_loop K ?buf ?n ?x evs'"
          by (subst recv_loop.simps)
             (simp only: upd option.case prod.case data(1) data(2) more room if_True if_False)
        have fit': "?n \<le> length ?buf" "4 \<le> length ?buf" using fit len 1(5) by simp_all
        from 1(1) [OF upd more room data(1) [symmetric] refl data(2) 1(2) data(3) fit' x']
        show ?thesis unfolding all len step .
      qed
    qed
  qed
qed

subsection \<open>receive and send in closed form\<close>

lemma fs_receive_spec:
  assumes "codec_ok K" and "fs_wf cfg fs" and "RECEIVER_BUFFER_SIZE cfg \<le> length out"
  shows "\<exists>fs'. fs_wf cfg fs' \<and> outgoing (stream fs') = outgoing (stream fs) \<and>
    write_faults (stream fs') = write_faults (stream fs) \<and>
    (if frame_ready K (FRAME_HEADER_SIZE + RECEIVER_BUFFER_SIZE cfg) (pending fs)
     then fs_receive K fs out = Some (fs', slice 4 (announced K (pending fs) - 4) (pending fs) @
            drop (announced K (pending fs) - 4) out, Inr (announced K (pending fs) - 4)) \<and>
          pending fs' = drop (announced K (pending fs)) (pending fs)
     else fs_receive K fs out = Some (fs', out, Inl 0) \<and> pending fs' = pending fs)"
proof -
  let ?cap = "FRAME_HEADER_SIZE + RECEIVER_BUFFER_SIZE cfg" and ?all = "pending fs"
  let ?a = "announced K ?all"
  have cap: "length (read_buffer fs) = ?cap" and rem: "read_remain fs \<le> length (read_buffer fs)"
    and chunks: "chunks_ok (incoming (stream fs))"
    using assms(2) by (simp_all add: fs_wf_def)
  have four: "4 \<le> length (read_buffer fs)" using cap by (simp add: FRAME_HEADER_SIZE_def)
  from recv_loop_spec [OF assms(1) chunks rem four, of 0] obtain buf' n' evs' where
    spec: "length buf' = length (read_buffer fs)" "n' \<le> length (read_buffer fs)" "chunks_ok evs'"
      "take n' buf' @ bytes_of_chunks evs' = ?all"
    and result: "if frame_ready K ?cap ?all
       then ?a \<le> n' \<and> recv_loop K (read_buffer fs) (read_remain fs) 0 (incoming (stream fs)) = Enough buf' n' ?a evs'
       else (\<exists>x'. recv_loop K (read_buffer fs) (read_remain fs) 0 (incoming (stream fs)) = GiveUp buf' n' x' evs') \<and>
         (n' = length (read_buffer fs) \<or> evs' = [])"
    unfolding pending_def [symmetric] cap by auto
  show ?thesis
  proof (cases "frame_ready K ?cap ?all")
    case True
    with result have a: "?a \<le> n'" and
      loop: "recv_loop K (read_buffer fs) (read_remain fs) 0 (incoming (stream fs)) = Enough buf' n' ?a evs'" by simp_all
    have ge: "4 \<le> ?a" by (rule announced_ge)
    have used: "?a - 4 \<le> length out"
      using True assms(3) by (auto simp: frame_ready_def FRAME_HEADER_SIZE_def)
    have n': "n' \<le> length buf'" using spec(1,2) by simp
    let ?rest = "slice ?a (n' - ?a) buf'"
    have rest: "?rest = drop ?a (take n' buf')" by (simp add: slice_def drop_take)
    have len: "length ?rest = n' - ?a" using a n' by (simp add: slice_def)
    have keep: "take (n' - ?a) (copy_within buf' ?a n') = ?rest"
      using take_blit0 [of ?rest buf'] len by (simp add: copy_within_def)
    have buf_len: "length (copy_within buf' ?a n') = ?cap"
      using len a n' spec(1) cap by (simp add: copy_within_def length_blit)
    have payload: "slice 4 (?a - 4) buf' = slice 4 (?a - 4) ?all"
    proof -
      have "take k (take n' buf' @ bytes_of_chunks evs') = take k buf'" if "k \<le> n'" for k
        using that n' by simp
      from this [OF a] have "take ?a ?all = take ?a buf'" by (simp only: spec(4))
      then have "drop 4 (take ?a ?all) = drop 4 (take ?a buf')" by simp
      then show ?thesis by (simp add: slice_def drop_take)
    qed
    have plen: "length (slice 4 (?a - 4) ?all) = ?a - 4"
      using True ge by (auto simp: slice_def frame_ready_def min_def)
    have "drop k (take n' buf') @ bytes_of_chunks evs' = drop k (take n' buf' @ bytes_of_chunks evs')" if "k \<le> n'" for k
      using that n' by simp
    from this [OF a] have drop_all: "?rest @ bytes_of_chunks evs' = drop ?a ?all" by (simp only: rest spec(4))
    let ?fs = "fs\<lparr>stream := (stream fs)\<lparr>incoming := evs'\<rparr>, read_buffer := copy_within buf' ?a n', read_remain := n' - ?a\<rparr>"
    have "fs_receive K fs out = Some (?fs, slice 4 (?a - 4) ?all @ drop (?a - 4) out, Inr (?a - 4))"
      using loop used plen by (simp add: fs_receive_def FRAME_HEADER_SIZE_def payload blit_def Let_def)
    moreover have "pending ?fs = drop ?a ?all" using keep drop_all by (simp add: pending_def)
    moreover have "fs_wf cfg ?fs" using buf_len spec(1,2,3) cap by (simp add: fs_wf_def)
    ultimately show ?thesis using True by (intro exI [of _ ?fs]) simp
  next
    case False
    with result obtain x' where
      loop: "recv_loop K (read_buffer fs) (read_remain fs) 0 (incoming (stream fs)) = GiveUp buf' n' x' evs'" by auto
    let ?fs = "fs\<lparr>stream := (stream fs)\<lparr>incoming := evs'\<rparr>, read_buffer := buf', read_remain := n'\<rparr>"
    have "fs_receive K fs out = Some (?fs, out, Inl 0)" by (simp add: fs_receive_def loop)
    moreover have "pending ?fs = ?all" using spec(4) by (simp add: pending_def)
    moreover have "fs_wf cfg ?fs" using spec(1,2,3) cap by (simp add: fs_wf_def)
    ultimately show ?thesis using False by (intro exI [of _ ?fs]) simp
  qed
qed

text \<open>The frame of a payload announces its own length.\<close>

lemma u32_encode_room:
  assumes "codec_ok K" and "4 \<le> room"
  shows "\<exists>bs. u32_encode K room w = Some bs \<and> length bs = 4 \<and> (\<forall>r. u32_read K (bs @ r) = Some w)"
  using assms unfolding codec_ok_def by blast

lemma header_bytes_spec:
  assumes "codec_ok K"
  shows "length (header_bytes K n) = 4" and "u32_read K (header_bytes K n) = Some (to_be (word_of_nat n))"
proof -
  from u32_encode_room [OF assms order_refl, of "to_be (word_of_nat n)"] obtain bs where
    "u32_encode K 4 (to_be (word_of_nat n)) = Some bs" "length bs = 4" "u32_read K bs = Some (to_be (word_of_nat n))"
    by (metis append_Nil2)
  then show "length (header_bytes K n) = 4" "u32_read K (header_bytes K n) = Some (to_be (word_of_nat n))"
    by (simp_all add: header_bytes_def)
qed

lemma announced_header:
  assumes "codec_ok K"
  shows "announced K (header_bytes K n @ r) = n mod 4294967296 + 4"
  using header_bytes_spec [OF assms, of n] by (simp add: announced_def FRAME_HEADER_SIZE_def unat_of_nat)

text \<open>A packet that both ends can take: its length is a \<open>u32\<close> and fits the receive buffer.\<close>

definition packet_ok :: "io_config \<Rightarrow> bytes \<Rightarrow> bool" where
  "packet_ok cfg p \<longleftrightarrow> length p \<le> RECEIVER_BUFFER_SIZE cfg \<and> length p < 4294967296"

lemma frame_ready_frame:
  assumes "codec_ok K" and "packet_ok cfg p"
  shows "frame_ready K (FRAME_HEADER_SIZE + RECEIVER_BUFFER_SIZE cfg) (frame K p @ rest)"
    and "announced K (frame K p @ rest) = length p + 4"
    and "slice 4 (length p) (frame K p @ rest) = p"
    and "drop (length p + 4) (frame K p @ rest) = rest"
proof -
  note h = header_bytes_spec(1) [OF assms(1), of "length p"]
  show a: "announced K (frame K p @ rest) = length p + 4"
    using announced_header [OF assms(1), of "length p" "p @ rest"] assms(2) by (simp add: frame_def packet_ok_def)
  show "frame_ready K (FRAME_HEADER_SIZE + RECEIVER_BUFFER_SIZE cfg) (frame K p @ rest)"
    using assms(2) h unfolding frame_ready_def a by (simp add: frame_def FRAME_HEADER_SIZE_def packet_ok_def)
  show "slice 4 (length p) (frame K p @ rest) = p" "drop (length p + 4) (frame K p @ rest) = rest"
    using h by (simp_all add: frame_def slice_def)
qed

lemma frame_ready_Nil: "\<not> frame_ready K cap []"
  by (simp add: frame_ready_def FRAME_HEADER_SIZE_def)

text \<open>Sending: every fault-free call appends exactly the frame.\<close>

lemma fs_send_ok:
  assumes "codec_ok K" and "write_faults (stream fs) = []" and "write_open (stream fs)"
  shows "fs_send K cfg fs p = Some (fs\<lparr>stream := (stream fs)\<lparr>outgoing := outgoing (stream fs) @ frame K p\<rparr>\<rparr>, Inr ())"
proof -
  have "4 \<le> 4 + SENDER_BUFFER_SIZE cfg" by simp
  with assms(1) have same: "u32_encode K (4 + SENDER_BUFFER_SIZE cfg) w = u32_encode K 4 w" for w
    unfolding codec_ok_def by blast
  from u32_encode_room [OF assms(1) order_refl] obtain bs where
    "u32_encode K 4 (to_be (word_of_nat (length p))) = Some bs" "length bs = 4" by blast
  with assms(2,3) show ?thesis
    by (simp add: fs_send_def frame_header_encode_def FRAME_HEADER_SIZE_def write_all_def write_some_def flush_def same frame_def header_bytes_def)
qed

subsection \<open>The device interface\<close>

text \<open>
  \<open>n\<close> receive calls on a device, each into a fresh buffer of \<open>cap\<close> zeros; a packet is the used part of
  the buffer, \<open>None\<close> stands for an error result.
\<close>

fun receive_many :: "('d \<Rightarrow> bytes \<Rightarrow> ('d \<times> bytes \<times> (nat + nat)) option) \<Rightarrow> nat \<Rightarrow> nat \<Rightarrow> 'd \<Rightarrow> ('d \<times> bytes option list) option" where
  "receive_many recv cap 0 d = Some (d, [])"
| "receive_many recv cap (Suc n) d = (case recv d (replicate cap 0) of
     None \<Rightarrow> None
   | Some (d', out, r) \<Rightarrow>
       (case receive_many recv cap n d' of
          None \<Rightarrow> None
        | Some (d'', ps) \<Rightarrow> Some (d'', (case r of Inr used \<Rightarrow> Some (take used out) | Inl _ \<Rightarrow> None) # ps)))"

text \<open>
  \<open>SpdmDeviceIo::receive\<close> as its callers in \<open>spdmlib\<close> and \<^verbatim>\<open>half.rs\<close> use it: \<open>queued d ps\<close> says that the
  packets \<open>ps\<close> and nothing else are on their way. A receive takes the first one into the caller's
  buffer and leaves the rest of the buffer as it is; with nothing on its way it fails without change.
\<close>

locale packet_device =
  fixes receive :: "'d \<Rightarrow> bytes \<Rightarrow> ('d \<times> bytes \<times> (nat + nat)) option"
    and queued :: "'d \<Rightarrow> bytes list \<Rightarrow> bool"
    and cap :: nat
  assumes receive_packet: "queued d (p # ps) \<Longrightarrow> cap \<le> length out \<Longrightarrow>
      \<exists>d'. receive d out = Some (d', p @ drop (length p) out, Inr (length p)) \<and> queued d' ps"
    and receive_nothing: "queued d [] \<Longrightarrow> cap \<le> length out \<Longrightarrow>
      \<exists>d' r. receive d out = Some (d', out, Inl r) \<and> queued d' []"
begin

lemma receive_queued:
  "queued d ps \<Longrightarrow> \<exists>d'. receive_many receive cap (length ps) d = Some (d', map Some ps) \<and> queued d' []"
proof (induction ps arbitrary: d)
  case (Cons p ps)
  from receive_packet [OF Cons.prems, of "replicate cap 0"] obtain d' where
    r: "receive d (replicate cap 0) = Some (d', p @ drop (length p) (replicate cap 0), Inr (length p))" "queued d' ps"
    by auto
  from Cons.IH [OF r(2)] obtain d'' where "receive_many receive cap (length ps) d' = Some (d'', map Some ps)" "queued d'' []"
    by blast
  with r(1) show ?case by simp
qed simp

lemma receive_drained:
  "queued d [] \<Longrightarrow> \<exists>d'. receive_many receive cap n d = Some (d', replicate n None) \<and> queued d' []"
proof (induction n arbitrary: d)
  case (Suc n)
  from receive_nothing [OF Suc.prems, of "replicate cap 0"] obtain d' r where
    r: "receive d (replicate cap 0) = Some (d', replicate cap 0, Inl r)" "queued d' []" by auto
  from Suc.IH [OF r(2)] obtain d'' where "receive_many receive cap n d' = Some (d'', replicate n None)" "queued d'' []"
    by blast
  with r(1) show ?case by simp
qed simp

end

text \<open>The packets \<open>ps\<close> are on their way in a framed stream, in whatever segmentation.\<close>

definition fs_queued :: "codec_lib \<Rightarrow> io_config \<Rightarrow> framed_stream \<Rightarrow> bytes list \<Rightarrow> bool" where
  "fs_queued K cfg fs ps \<longleftrightarrow> codec_ok K \<and> fs_wf cfg fs \<and> (\<forall>p \<in> set ps. packet_ok cfg p) \<and>
     pending fs = concat (map (frame K) ps)"

interpretation fs: packet_device "fs_receive K" "fs_queued K cfg" "RECEIVER_BUFFER_SIZE cfg"
  for K :: codec_lib and cfg :: io_config
proof unfold_locales
  fix fs :: framed_stream and p out :: bytes and ps :: "bytes list"
  assume q: "fs_queued K cfg fs (p # ps)" and out: "RECEIVER_BUFFER_SIZE cfg \<le> length out"
  then have ok: "codec_ok K" "fs_wf cfg fs" "packet_ok cfg p" and all: "pending fs = frame K p @ concat (map (frame K) ps)"
    by (auto simp: fs_queued_def)
  note f = frame_ready_frame [OF ok(1,3), of "concat (map (frame K) ps)"]
  from fs_receive_spec [OF ok(1,2) out] obtain fs' where "fs_wf cfg fs'"
    "fs_receive K fs out = Some (fs', p @ drop (length p) out, Inr (length p))"
    "pending fs' = concat (map (frame K) ps)"
    unfolding all using f by auto
  with q show "\<exists>fs'. fs_receive K fs out = Some (fs', p @ drop (length p) out, Inr (length p)) \<and> fs_queued K cfg fs' ps"
    by (auto simp: fs_queued_def)
next
  fix fs :: framed_stream and out :: bytes
  assume q: "fs_queued K cfg fs []" and out: "RECEIVER_BUFFER_SIZE cfg \<le> length out"
  then have "codec_ok K" "fs_wf cfg fs" "pending fs = []" by (auto simp: fs_queued_def)
  with fs_receive_spec [OF _ _ out, of K fs] obtain fs' where "fs_wf cfg fs'"
    "fs_receive K fs out = Some (fs', out, Inl 0)" "pending fs' = []"
    using frame_ready_Nil by auto
  with q show "\<exists>fs' r. fs_receive K fs out = Some (fs', out, Inl r) \<and> fs_queued K cfg fs' []"
    by (auto simp: fs_queued_def)
qed

text \<open>A sequence of sends.\<close>

fun send_many :: "codec_lib \<Rightarrow> io_config \<Rightarrow> framed_stream \<Rightarrow> bytes list \<Rightarrow> framed_stream option" where
  "send_many K cfg fs [] = Some fs"
| "send_many K cfg fs (p # ps) = (case fs_send K cfg fs p of
     Some (fs', Inr _) \<Rightarrow> send_many K cfg fs' ps
   | _ \<Rightarrow> None)"

lemma send_many_ok:
  "codec_ok K \<Longrightarrow> write_faults (stream fs) = [] \<Longrightarrow> write_open (stream fs) \<Longrightarrow>
   send_many K cfg fs ps =
     Some (fs\<lparr>stream := (stream fs)\<lparr>outgoing := outgoing (stream fs) @ concat (map (frame K) ps)\<rparr>\<rparr>)"
proof (induction ps arbitrary: fs)
  case (Cons p ps)
  then show ?case by (simp add: fs_send_ok)
qed simp

lemma fs_wf_new:
  "chunks_ok (incoming s) \<Longrightarrow> fs_wf cfg (framed_stream_new cfg s)"
  "pending (framed_stream_new cfg s) = bytes_of_chunks (incoming s)"
  by (simp_all add: fs_wf_def framed_stream_new_def pending_def)

subsection \<open>Properties\<close>

text \<open>Little endian integers on a small configuration, for the witnesses.\<close>

definition le_codec :: codec_lib where
  "le_codec = \<lparr>u8_encode = (\<lambda>room w. if 1 \<le> room then Some [w] else None),
     u8_read = (\<lambda>bs. case bs of [] \<Rightarrow> None | b # _ \<Rightarrow> Some b),
     u32_encode = (\<lambda>room w. if 4 \<le> room then Some (nat_le 4 (unat w)) else None),
     u32_read = (\<lambda>bs. if 4 \<le> length bs then Some (word_of_nat (le_nat (take 4 bs))) else None)\<rparr>"

lemma le_codec_ok: "codec_ok le_codec"
proof -
  have "word_of_nat (le_nat (nat_le 4 (unat w))) = w" for w :: u32
  proof -
    have "unat w < 4294967296" using unsigned_less [of w] by simp
    then have "le_nat (nat_le 4 (unat w)) = unat w" by (simp add: le_nat_nat_le)
    then show ?thesis by simp
  qed
  then show ?thesis by (simp add: codec_ok_def le_codec_def)
qed

definition small_config :: io_config where
  "small_config = \<lparr>RECEIVER_BUFFER_SIZE = 16, SENDER_BUFFER_SIZE = 16\<rparr>"

definition stream_of :: "read_event list \<Rightarrow> stream" where
  "stream_of evs = \<lparr>incoming = evs, outgoing = [], write_faults = [], write_open = True\<rparr>"

text \<open>
  C28. \<open>receive\<close> in closed form, for every state of the buffer and every way in which the stream cuts its
  bytes: it never panics (the caller's buffer being as large as the configured receive buffer). If the
  bytes on their way hold a whole first frame that fits the receive buffer, it returns exactly that
  frame's payload length, puts the payload at the front of the caller's buffer and leaves the rest
  untouched, and removes exactly that frame; otherwise it returns \<open>Err(0)\<close> and loses nothing.
\<close>

theorem receive_exact:
  assumes "codec_ok K" and "fs_wf cfg fs" and "RECEIVER_BUFFER_SIZE cfg \<le> length out"
  shows "\<exists>fs'. fs_wf cfg fs' \<and> outgoing (stream fs') = outgoing (stream fs) \<and>
    (if FRAME_HEADER_SIZE \<le> length (pending fs) \<and> announced K (pending fs) \<le> length (pending fs) \<and>
        announced K (pending fs) \<le> FRAME_HEADER_SIZE + RECEIVER_BUFFER_SIZE cfg
     then fs_receive K fs out = Some (fs', slice 4 (announced K (pending fs) - 4) (pending fs) @
            drop (announced K (pending fs) - 4) out, Inr (announced K (pending fs) - 4)) \<and>
          pending fs' = drop (announced K (pending fs)) (pending fs)
     else fs_receive K fs out = Some (fs', out, Inl 0) \<and> pending fs' = pending fs)"
  using fs_receive_spec [OF assms] unfolding frame_ready_def by blast

theorem receive_exact_witness:
  "\<exists>fs'. fs_receive le_codec (framed_stream_new small_config (stream_of [Chunk [0, 0], Chunk [0, 2, 7], Chunk [8, 0, 0]]))
     (replicate 16 0) = Some (fs', [7, 8] @ replicate 14 0, Inr 2) \<and> pending fs' = [0, 0]"
proof -
  let ?fs = "framed_stream_new small_config (stream_of [Chunk [0, 0], Chunk [0, 2, 7], Chunk [8, 0, 0]])"
  have wf: "fs_wf small_config ?fs" and p: "pending ?fs = [0, 0, 0, 2, 7, 8, 0, 0]"
    by (simp_all add: fs_wf_new stream_of_def)
  have cap: "RECEIVER_BUFFER_SIZE small_config = 16" by (simp add: small_config_def)
  have a: "announced le_codec [0, 0, 0, 2, 7, 8, 0, 0] = 6"
    by (simp add: announced_def FRAME_HEADER_SIZE_def le_codec_def to_be_def nat_le_numeral)
  have "RECEIVER_BUFFER_SIZE small_config \<le> length (replicate 16 (0 :: u8))" by (simp add: cap)
  from receive_exact [OF le_codec_ok wf this] show ?thesis
    unfolding p a cap FRAME_HEADER_SIZE_def by (auto simp: slice_def drop_replicate)
qed

text \<open>
  C5. The framing is transparent: whatever packets are sent over one end (each as long as a \<open>u32\<close> can say
  and as the receive buffer can hold), and however the stream cuts the written bytes into reads, the
  other end's receive calls return exactly these packets in this order, and further calls fail without
  a packet.
\<close>

theorem framing_transparent:
  assumes "codec_ok K" and "\<forall>p \<in> set ps. packet_ok cfg p"
    and "send_many K cfg (framed_stream_new cfg (stream_of [])) ps = Some sender"
    and "bytes_of_chunks evs = outgoing (stream sender)" and "chunks_ok evs"
  shows "\<exists>fs fs'. receive_many (fs_receive K) (RECEIVER_BUFFER_SIZE cfg) (length ps)
      (framed_stream_new cfg (stream_of evs)) = Some (fs, map Some ps) \<and>
    receive_many (fs_receive K) (RECEIVER_BUFFER_SIZE cfg) n fs = Some (fs', replicate n None)"
proof -
  have "outgoing (stream sender) = concat (map (frame K) ps)"
    using assms(1,3) by (auto simp: send_many_ok framed_stream_new_def stream_of_def)
  with assms have "fs_queued K cfg (framed_stream_new cfg (stream_of evs)) ps"
    by (simp add: fs_queued_def fs_wf_new stream_of_def)
  from fs.receive_queued [OF this] obtain fs where
    "receive_many (fs_receive K) (RECEIVER_BUFFER_SIZE cfg) (length ps) (framed_stream_new cfg (stream_of evs)) =
       Some (fs, map Some ps)" "fs_queued K cfg fs []" by blast
  with fs.receive_drained [of K cfg fs n] show ?thesis by blast
qed

theorem framing_transparent_witness:
  "\<exists>fs fs'. receive_many (fs_receive le_codec) 16 3
      (framed_stream_new small_config (stream_of [Chunk [0], Chunk [0, 0, 2, 7], Chunk [8, 0, 0, 0, 0, 0, 0, 0, 1, 9]])) =
     Some (fs, [Some [7, 8], Some [], Some [9]]) \<and>
    receive_many (fs_receive le_codec) 16 2 fs = Some (fs', [None, None])"
proof -
  let ?ps = "[[7, 8], [], [9]] :: bytes list"
  have frames: "concat (map (frame le_codec) ?ps) = [0, 0, 0, 2, 7, 8, 0, 0, 0, 0, 0, 0, 0, 1, 9]"
    by (simp add: frame_def header_bytes_def le_codec_def to_be_def nat_le_numeral)
  obtain sender where send: "send_many le_codec small_config (framed_stream_new small_config (stream_of [])) ?ps = Some sender"
    and out: "outgoing (stream sender) = concat (map (frame le_codec) ?ps)"
    using send_many_ok [OF le_codec_ok, of "framed_stream_new small_config (stream_of [])" small_config ?ps]
    by (auto simp: framed_stream_new_def stream_of_def)
  have ok: "\<forall>p \<in> set ?ps. packet_ok small_config p" by (simp add: packet_ok_def small_config_def)
  have cap: "RECEIVER_BUFFER_SIZE small_config = 16" by (simp add: small_config_def)
  have evs: "bytes_of_chunks [Chunk [0], Chunk [0, 0, 2, 7], Chunk [8, 0, 0, 0, 0, 0, 0, 0, 1, 9]] = outgoing (stream sender)"
    "chunks_ok [Chunk [0], Chunk [0, 0, 2, 7], Chunk [8, 0, 0, 0, 0, 0, 0, 0, 1, 9]]"
    unfolding out frames by simp_all
  have "length ?ps = 3" "replicate 2 (None :: bytes option) = [None, None]" "map Some ?ps = [Some [7, 8], Some [], Some [9]]"
    by (simp_all add: numeral_2_eq_2)
  with framing_transparent [OF le_codec_ok ok send evs, of 2] show ?thesis unfolding cap by (simp only:)
qed

text \<open>
  A frame that announces more than the receive buffer can hold blocks the stream for good: every
  later receive call fails, no packet behind it is ever delivered.
\<close>

theorem oversize_frame_blocks:
  assumes "codec_ok K" and "fs_wf cfg fs" and "pending fs = header_bytes K len @ rest"
    and "len < 4294967296" and "RECEIVER_BUFFER_SIZE cfg < len"
  shows "\<exists>fs'. receive_many (fs_receive K) (RECEIVER_BUFFER_SIZE cfg) n fs = Some (fs', replicate n None) \<and>
    pending fs' = pending fs"
  using assms(2,3)
proof (induction n arbitrary: fs)
  case 0
  then show ?case by simp
next
  case (Suc n)
  have "announced K (pending fs) = len + 4"
    using announced_header [OF assms(1)] Suc.prems(2) assms(4) by simp
  with assms(5) have not: "\<not> frame_ready K (FRAME_HEADER_SIZE + RECEIVER_BUFFER_SIZE cfg) (pending fs)"
    by (simp add: frame_ready_def FRAME_HEADER_SIZE_def)
  from fs_receive_spec [OF assms(1) Suc.prems(1), of "replicate (RECEIVER_BUFFER_SIZE cfg) 0"] not obtain fs' where
    r: "fs_wf cfg fs'" "fs_receive K fs (replicate (RECEIVER_BUFFER_SIZE cfg) 0) =
        Some (fs', replicate (RECEIVER_BUFFER_SIZE cfg) 0, Inl 0)" "pending fs' = pending fs" by auto
  from Suc.IH [OF r(1)] r(3) Suc.prems(2) obtain fs'' where
    "receive_many (fs_receive K) (RECEIVER_BUFFER_SIZE cfg) n fs' = Some (fs'', replicate n None)" "pending fs'' = pending fs'"
    by auto
  with r(2,3) show ?case by auto
qed

theorem oversize_frame_blocks_witness:
  "\<exists>fs'. receive_many (fs_receive le_codec) 16 3
     (framed_stream_new small_config (stream_of [Chunk ([0, 0, 0, 17] @ replicate 17 5), Chunk [0, 0, 0, 1, 9]])) =
     Some (fs', [None, None, None])"
proof -
  let ?fs = "framed_stream_new small_config (stream_of [Chunk ([0, 0, 0, 17] @ replicate 17 5), Chunk [0, 0, 0, 1, 9]])"
  have wf: "fs_wf small_config ?fs" by (simp add: fs_wf_new stream_of_def)
  have "header_bytes le_codec 17 = [0, 0, 0, 17]"
    by (simp add: header_bytes_def le_codec_def to_be_def nat_le_numeral)
  then have p: "pending ?fs = header_bytes le_codec 17 @ replicate 17 5 @ [0, 0, 0, 1, 9]"
    by (simp add: fs_wf_new stream_of_def)
  have "RECEIVER_BUFFER_SIZE small_config = 16" by (simp add: small_config_def)
  with oversize_frame_blocks [OF le_codec_ok wf p, of 3] show ?thesis by (auto simp: numeral_3_eq_3)
qed

end
