(* ===== verification/TransportEncap.thy ===== *)
theory TransportEncap
  imports FramedStream
begin

text \<open>
  \<^verbatim>\<open>rats-rs/src/transport/spdm/transport.rs\<close>: the one byte message header and the four operations of
  \<open>SimpleTransportEncap\<close>. Each takes the caller's output buffer and returns it as it leaves it, also
  when it fails, with the \<open>SpdmResult\<close>. \<open>enum_builder!\<close> of the \<open>codec\<close> crate adds the constructor
  \<open>SimpleUnknown\<close> for the bytes without a name.
\<close>

datatype simple_transport_message_type =
    SimpleSpdm
  | SimpleSecured
  | SimpleApp
  | SimpleUnknown u8

fun message_type_byte :: "simple_transport_message_type \<Rightarrow> u8" where
  "message_type_byte SimpleSpdm = 0x00"
| "message_type_byte SimpleSecured = 0x01"
| "message_type_byte SimpleApp = 0x02"
| "message_type_byte (SimpleUnknown b) = b"

definition message_type_of_byte :: "u8 \<Rightarrow> simple_transport_message_type" where
  "message_type_of_byte b =
     (if b = 0x00 then SimpleSpdm else if b = 0x01 then SimpleSecured else if b = 0x02 then SimpleApp
      else SimpleUnknown b)"

record simple_transport_message_header =
  msg_type :: simple_transport_message_type

text \<open>\<open>encode\<close> into the front of a buffer: the buffer afterwards and the bytes used.\<close>

definition message_header_encode :: "codec_lib \<Rightarrow> bytes \<Rightarrow> simple_transport_message_header \<Rightarrow> (bytes \<times> nat) option" where
  "message_header_encode K buf h =
     (case u8_encode K (length buf) (message_type_byte (msg_type h)) of
        None \<Rightarrow> None
      | Some bs \<Rightarrow> Some (blit buf 0 bs, length bs))"

text \<open>\<open>read\<close> from the front of a buffer: the header and the bytes used.\<close>

definition message_header_read :: "codec_lib \<Rightarrow> bytes \<Rightarrow> (simple_transport_message_header \<times> nat) option" where
  "message_header_read K bs =
     (case u8_read K bs of None \<Rightarrow> None | Some b \<Rightarrow> Some (\<lparr>msg_type = message_type_of_byte b\<rparr>, 1))"

definition encap :: "codec_lib \<Rightarrow> bytes \<Rightarrow> bytes \<Rightarrow> bool \<Rightarrow> bytes \<times> (spdm_status + nat)" where
  "encap K spdm_buffer transport_buffer secured_message =
     (let payload_len = length spdm_buffer;
          mctp_header = \<lparr>msg_type = (if secured_message then SimpleSecured else SimpleSpdm)\<rparr>
      in case message_header_encode K transport_buffer mctp_header of
           None \<Rightarrow> (transport_buffer, Inl SPDM_STATUS_ENCAP_FAIL)
         | Some (transport_buffer, header_size) \<Rightarrow>
             (if length transport_buffer < header_size + payload_len
              then (transport_buffer, Inl SPDM_STATUS_ENCAP_FAIL)
              else (blit transport_buffer header_size spdm_buffer, Inr (header_size + payload_len))))"

definition decap :: "codec_lib \<Rightarrow> bytes \<Rightarrow> bytes \<Rightarrow> bytes \<times> (spdm_status + nat \<times> bool)" where
  "decap K transport_buffer spdm_buffer =
     (case message_header_read K transport_buffer of
        None \<Rightarrow> (spdm_buffer, Inl SPDM_STATUS_DECAP_FAIL)
      | Some (mctp_header, header_size) \<Rightarrow>
          (case (case msg_type mctp_header of
              SimpleSpdm \<Rightarrow> Some False
            | SimpleSecured \<Rightarrow> Some True
            | v \<Rightarrow> None) of
             None \<Rightarrow> (spdm_buffer, Inl SPDM_STATUS_DECAP_FAIL)
           | Some secured_message \<Rightarrow>
               (let payload_size = length transport_buffer - header_size
                in if length spdm_buffer < payload_size then (spdm_buffer, Inl SPDM_STATUS_DECAP_FAIL)
                   else (blit spdm_buffer 0 (drop header_size transport_buffer), Inr (payload_size, secured_message)))))"

definition encap_app :: "codec_lib \<Rightarrow> bytes \<Rightarrow> bytes \<Rightarrow> bool \<Rightarrow> bytes \<times> (spdm_status + nat)" where
  "encap_app K spdm_buffer app_buffer is_app_message =
     (let payload_len = length spdm_buffer;
          mctp_header = (if is_app_message then \<lparr>msg_type = SimpleApp\<rparr> else \<lparr>msg_type = SimpleSpdm\<rparr>)
      in case message_header_encode K app_buffer mctp_header of
           None \<Rightarrow> (app_buffer, Inl SPDM_STATUS_ENCAP_APP_FAIL)
         | Some (app_buffer, header_size) \<Rightarrow>
             (if length app_buffer < header_size + payload_len
              then (app_buffer, Inl SPDM_STATUS_ENCAP_APP_FAIL)
              else (blit app_buffer header_size spdm_buffer, Inr (header_size + payload_len))))"

definition decap_app :: "codec_lib \<Rightarrow> bytes \<Rightarrow> bytes \<Rightarrow> bytes \<times> (spdm_status + nat \<times> bool)" where
  "decap_app K app_buffer spdm_buffer =
     (case message_header_read K app_buffer of
        None \<Rightarrow> (spdm_buffer, Inl SPDM_STATUS_DECAP_APP_FAIL)
      | Some (mctp_header, header_size) \<Rightarrow>
          (case (case msg_type mctp_header of
              SimpleSpdm \<Rightarrow> Some False
            | SimpleApp \<Rightarrow> Some True
            | v \<Rightarrow> None) of
             None \<Rightarrow> (spdm_buffer, Inl SPDM_STATUS_DECAP_APP_FAIL)
           | Some is_app_mesaage \<Rightarrow>
               (let payload_size = length app_buffer - header_size
                in if length spdm_buffer < payload_size then (spdm_buffer, Inl SPDM_STATUS_DECAP_APP_FAIL)
                   else (blit spdm_buffer 0 (drop header_size app_buffer), Inr (payload_size, is_app_mesaage)))))"

definition get_sequence_number_count :: u8 where
  "get_sequence_number_count = 2"

definition get_max_random_count :: u16 where
  "get_max_random_count = 32"

subsection \<open>Closed forms\<close>

text \<open>
  Both layers do the same with different tags: the packet of a payload is the tag and the payload.
\<close>

definition encap_tag :: "bool \<Rightarrow> u8" where
  "encap_tag secured = (if secured then 1 else 0)"

definition app_tag :: "bool \<Rightarrow> u8" where
  "app_tag is_app = (if is_app then 2 else 0)"

definition tagged_write :: "u8 \<Rightarrow> spdm_status \<Rightarrow> bytes \<Rightarrow> bytes \<Rightarrow> bytes \<times> (spdm_status + nat)" where
  "tagged_write tag fail payload buf =
     (if buf = [] then (buf, Inl fail)
      else if length buf < 1 + length payload then (tag # tl buf, Inl fail)
      else (tag # payload @ drop (1 + length payload) buf, Inr (1 + length payload)))"

definition tagged_read :: "(u8 \<Rightarrow> bool option) \<Rightarrow> spdm_status \<Rightarrow> bytes \<Rightarrow> bytes \<Rightarrow> bytes \<times> (spdm_status + nat \<times> bool)" where
  "tagged_read flag fail packet out =
     (case packet of
        [] \<Rightarrow> (out, Inl fail)
      | b # payload \<Rightarrow>
          (case flag b of
             None \<Rightarrow> (out, Inl fail)
           | Some f \<Rightarrow>
               (if length out < length payload then (out, Inl fail)
                else (payload @ drop (length payload) out, Inr (length payload, f)))))"

definition encap_flag :: "u8 \<Rightarrow> bool option" where
  "encap_flag b = (if b = 0 then Some False else if b = 1 then Some True else None)"

definition app_flag :: "u8 \<Rightarrow> bool option" where
  "app_flag b = (if b = 0 then Some False else if b = 2 then Some True else None)"

lemma codec_ok_u8:
  assumes "codec_ok K"
  shows "u8_encode K room w = (if 1 \<le> room then Some [w] else None)" "u8_read K (b # bs) = Some b" "u8_read K [] = None"
  using assms unfolding codec_ok_def by simp_all

lemma message_header_encode_eq:
  "codec_ok K \<Longrightarrow> message_header_encode K buf h =
     (if buf = [] then None else Some (message_type_byte (msg_type h) # tl buf, 1))"
  by (cases buf) (simp_all add: message_header_encode_def codec_ok_u8 blit_def)

lemma message_header_read_eq:
  "codec_ok K \<Longrightarrow> message_header_read K bs =
     (case bs of [] \<Rightarrow> None | b # _ \<Rightarrow> Some (\<lparr>msg_type = message_type_of_byte b\<rparr>, 1))"
  by (cases bs) (simp_all add: message_header_read_def codec_ok_u8)

lemma encap_eq: "codec_ok K \<Longrightarrow> encap K p buf s = tagged_write (encap_tag s) SPDM_STATUS_ENCAP_FAIL p buf"
  by (cases buf) (auto simp: encap_def message_header_encode_eq tagged_write_def encap_tag_def Let_def blit_def)

lemma encap_app_eq: "codec_ok K \<Longrightarrow> encap_app K p buf a = tagged_write (app_tag a) SPDM_STATUS_ENCAP_APP_FAIL p buf"
  by (cases buf) (auto simp: encap_app_def message_header_encode_eq tagged_write_def app_tag_def Let_def blit_def)

lemma decap_eq: "codec_ok K \<Longrightarrow> decap K pkt out = tagged_read encap_flag SPDM_STATUS_DECAP_FAIL pkt out"
  by (cases pkt) (auto simp: decap_def message_header_read_eq tagged_read_def encap_flag_def message_type_of_byte_def
      Let_def blit_def)

lemma decap_app_eq: "codec_ok K \<Longrightarrow> decap_app K pkt out = tagged_read app_flag SPDM_STATUS_DECAP_APP_FAIL pkt out"
  by (cases pkt) (auto simp: decap_app_def message_header_read_eq tagged_read_def app_flag_def message_type_of_byte_def
      Let_def blit_def)

subsection \<open>The encapsulation interface\<close>

text \<open>
  \<open>SpdmTransportEncap\<close> as \<open>spdmlib\<close> uses one of its layers: what is put into a packet with a flag comes
  out of the used part of the buffer with the same flag.
\<close>

locale transport_layer =
  fixes put :: "bytes \<Rightarrow> bytes \<Rightarrow> bool \<Rightarrow> bytes \<times> (spdm_status + nat)"
    and get :: "bytes \<Rightarrow> bytes \<Rightarrow> bytes \<times> (spdm_status + nat \<times> bool)"
    and ok :: bool
  assumes put_fits: "ok \<Longrightarrow> length payload < length buf \<Longrightarrow>
      \<exists>buf'. put payload buf flag = (buf', Inr (1 + length payload)) \<and> length buf' = length buf"
    and get_put: "ok \<Longrightarrow> put payload buf flag = (buf', Inr used) \<Longrightarrow> length payload \<le> length out \<Longrightarrow>
      get (take used buf') out = (payload @ drop (length payload) out, Inr (length payload, flag))"
begin

lemma put_inj:
  assumes "ok" and "put p bufp f = (buf1, Inr n)" and "put q bufq g = (buf2, Inr m)" and "take n buf1 = take m buf2"
  shows "p = q \<and> f = g"
proof -
  let ?out = "replicate (length p + length q) 0 :: bytes"
  have "get (take n buf1) ?out = (p @ drop (length p) ?out, Inr (length p, f))"
    by (rule get_put [OF assms(1,2)]) simp
  moreover have "get (take m buf2) ?out = (q @ drop (length q) ?out, Inr (length q, g))"
    by (rule get_put [OF assms(1,3)]) simp
  ultimately have "p @ drop (length p) ?out = q @ drop (length q) ?out" "length p = length q" "f = g"
    using assms(4) by simp_all
  then show ?thesis by simp
qed

end

lemma tagged_write_fits:
  "length p < length buf \<Longrightarrow>
   tagged_write t e p buf = (t # p @ drop (1 + length p) buf, Inr (1 + length p))"
  by (cases buf) (auto simp: tagged_write_def)

lemma tagged_write_Inr:
  "tagged_write t e p buf = (buf', Inr used) \<Longrightarrow> take used buf' = t # p \<and> used = 1 + length p"
  by (auto simp: tagged_write_def split: if_splits)

lemma tagged_read_write:
  "flag t = Some f \<Longrightarrow> length p \<le> length out \<Longrightarrow>
   tagged_read flag e (t # p) out = (p @ drop (length p) out, Inr (length p, f))"
  by (simp add: tagged_read_def)

interpretation encap_layer: transport_layer "encap K" "decap K" "codec_ok K" for K :: codec_lib
proof unfold_locales
  fix payload buf :: bytes and flag assume "codec_ok K" "length payload < length buf"
  then show "\<exists>buf'. encap K payload buf flag = (buf', Inr (1 + length payload)) \<and> length buf' = length buf"
    by (simp add: encap_eq tagged_write_fits)
next
  fix payload buf buf' out :: bytes and flag used
  assume "codec_ok K" "encap K payload buf flag = (buf', Inr used)" "length payload \<le> length out"
  then show "decap K (take used buf') out = (payload @ drop (length payload) out, Inr (length payload, flag))"
    by (auto simp: encap_eq decap_eq encap_flag_def encap_tag_def tagged_read_write dest!: tagged_write_Inr)
qed

interpretation app_layer: transport_layer "encap_app K" "decap_app K" "codec_ok K" for K :: codec_lib
proof unfold_locales
  fix payload buf :: bytes and flag assume "codec_ok K" "length payload < length buf"
  then show "\<exists>buf'. encap_app K payload buf flag = (buf', Inr (1 + length payload)) \<and> length buf' = length buf"
    by (simp add: encap_app_eq tagged_write_fits)
next
  fix payload buf buf' out :: bytes and flag used
  assume "codec_ok K" "encap_app K payload buf flag = (buf', Inr used)" "length payload \<le> length out"
  then show "decap_app K (take used buf') out = (payload @ drop (length payload) out, Inr (length payload, flag))"
    by (auto simp: encap_app_eq decap_app_eq app_flag_def app_tag_def tagged_read_write dest!: tagged_write_Inr)
qed

subsection \<open>Properties\<close>

text \<open>
  C30. Round trip of the transport message: \<open>encap\<close> succeeds exactly when the buffer has a byte more than
  the payload; decapsulating the used part gives the payload and the secured flag back, and equal
  packets come from equal payloads and flags. The same holds for the application layer.
\<close>

theorem encap_roundtrip:
  assumes "codec_ok K"
  shows "((\<exists>buf' n. encap K p buf s = (buf', Inr n)) \<longleftrightarrow> length p < length buf) \<and>
    ((\<exists>buf' n. encap_app K p buf s = (buf', Inr n)) \<longleftrightarrow> length p < length buf) \<and>
    (encap K p buf s = (buf', Inr n) \<and> length p \<le> length out \<longrightarrow>
       decap K (take n buf') out = (p @ drop (length p) out, Inr (length p, s)) \<and>
       (\<forall>q t bufq buf2 m. encap K q bufq t = (buf2, Inr m) \<and> take n buf' = take m buf2 \<longrightarrow> p = q \<and> s = t)) \<and>
    (encap_app K p buf s = (buf', Inr n) \<and> length p \<le> length out \<longrightarrow>
       decap_app K (take n buf') out = (p @ drop (length p) out, Inr (length p, s)) \<and>
       (\<forall>q t bufq buf2 m. encap_app K q bufq t = (buf2, Inr m) \<and> take n buf' = take m buf2 \<longrightarrow> p = q \<and> s = t))"
proof (intro conjI)
  have "(\<exists>buf' n. tagged_write t e p buf = (buf', Inr n)) \<longleftrightarrow> length p < length buf" for t e
    by (cases buf) (auto simp: tagged_write_def)
  then show "(\<exists>buf' n. encap K p buf s = (buf', Inr n)) \<longleftrightarrow> length p < length buf"
    "(\<exists>buf' n. encap_app K p buf s = (buf', Inr n)) \<longleftrightarrow> length p < length buf"
    by (simp_all add: encap_eq encap_app_eq assms)
next
  show "encap K p buf s = (buf', Inr n) \<and> length p \<le> length out \<longrightarrow>
       decap K (take n buf') out = (p @ drop (length p) out, Inr (length p, s)) \<and>
       (\<forall>q t bufq buf2 m. encap K q bufq t = (buf2, Inr m) \<and> take n buf' = take m buf2 \<longrightarrow> p = q \<and> s = t)"
    using encap_layer.get_put [OF assms, of p buf s buf' n out] encap_layer.put_inj [OF assms, of p buf s buf' n] by meson
  show "encap_app K p buf s = (buf', Inr n) \<and> length p \<le> length out \<longrightarrow>
       decap_app K (take n buf') out = (p @ drop (length p) out, Inr (length p, s)) \<and>
       (\<forall>q t bufq buf2 m. encap_app K q bufq t = (buf2, Inr m) \<and> take n buf' = take m buf2 \<longrightarrow> p = q \<and> s = t)"
    using app_layer.get_put [OF assms, of p buf s buf' n out] app_layer.put_inj [OF assms, of p buf s buf' n] by meson
qed

theorem encap_roundtrip_witness:
  "encap le_codec [5, 6] [9, 9, 9, 9] True = ([1, 5, 6, 9], Inr 3) \<and>
   decap le_codec [1, 5, 6] [0, 0, 0] = ([5, 6, 0], Inr (2, True)) \<and>
   encap_app le_codec [5, 6] [9, 9, 9] True = ([2, 5, 6], Inr 3) \<and>
   decap_app le_codec [2, 5, 6] [0, 0, 0] = ([5, 6, 0], Inr (2, True))"
proof -
  have "encap le_codec [5, 6] [9, 9, 9, 9] True = ([1, 5, 6, 9], Inr 3)"
    "encap_app le_codec [5, 6] [9, 9, 9] True = ([2, 5, 6], Inr 3)"
    by (simp_all add: encap_eq encap_app_eq le_codec_ok tagged_write_def encap_tag_def app_tag_def)
  then show ?thesis
    using encap_roundtrip [OF le_codec_ok, of "[5, 6]" "[9, 9, 9, 9]" True "[1, 5, 6, 9]" 3 "[0, 0, 0]"]
      encap_roundtrip [OF le_codec_ok, of "[5, 6]" "[9, 9, 9]" True "[2, 5, 6]" 3 "[0, 0, 0]"]
    by simp
qed

text \<open>
  Decapsulation of an arbitrary packet: \<open>decap\<close> accepts exactly a first byte 0 (plain) or 1 (secured)
  with a payload that fits the caller's buffer, \<open>decap_app\<close> exactly 0 (SPDM) or 2 (application); in every
  other case, the empty packet included, it fails with the layer's own status and leaves the caller's
  buffer as it was. So a secured packet is never taken for an application message, nor the other way.
\<close>

theorem decap_exact:
  assumes "codec_ok K"
  shows "(decap K pkt out = (out', Inr (n, secured)) \<longleftrightarrow>
      (\<exists>payload. pkt = (if secured then 1 else 0) # payload \<and> length payload \<le> length out \<and>
         n = length payload \<and> out' = payload @ drop n out)) \<and>
    (decap_app K pkt out = (out', Inr (n, is_app)) \<longleftrightarrow>
      (\<exists>payload. pkt = (if is_app then 2 else 0) # payload \<and> length payload \<le> length out \<and>
         n = length payload \<and> out' = payload @ drop n out)) \<and>
    (decap K pkt out = (out', Inl e) \<longrightarrow> e = SPDM_STATUS_DECAP_FAIL \<and> out' = out) \<and>
    (decap_app K pkt out = (out', Inl e) \<longrightarrow> e = SPDM_STATUS_DECAP_APP_FAIL \<and> out' = out) \<and>
    \<not> (\<exists>x y m k. decap K pkt out = (x, Inr (m, True)) \<and> decap_app K pkt out = (y, Inr k)) \<and>
    \<not> (\<exists>x y m k. decap_app K pkt out = (x, Inr (m, True)) \<and> decap K pkt out = (y, Inr k))"
  by (cases pkt)
     (auto simp: decap_eq [OF assms] decap_app_eq [OF assms] tagged_read_def encap_flag_def app_flag_def
       split: option.splits if_splits)

theorem decap_exact_witness:
  "decap le_codec [1, 7] [0] = ([7], Inr (1, True)) \<and> (\<forall>out. snd (decap le_codec [2, 7] [0]) \<noteq> Inr out)"
proof -
  have "decap le_codec [1, 7] [0] = ([7], Inr (1, True))"
    using decap_exact [OF le_codec_ok, of "[1, 7]" "[0]" "[7]" 1 True] by simp
  moreover have "decap le_codec [2, 7] [0] \<noteq> (x, Inr (n, b))" for x n b
    using decap_exact [OF le_codec_ok, of "[2, 7]" "[0]" x n b] by (cases b) auto
  ultimately show ?thesis by (metis prod.collapse)
qed

end
