(* ===== verification/Halves.thy ===== *)
theory Halves
  imports Errors TransportEncap
begin

text \<open>
  \<^verbatim>\<open>rats-rs/src/transport/spdm/half.rs\<close>: the write half and the read half of a negotiated session. Both
  hold the session's \<open>SpdmContext\<close> behind a mutex (the state \<open>'c\<close>, read and updated by \<open>spdmlib\<close>) and
  a device of their own, always a \<open>FramedStream<TcpStream>\<close> in this program. What \<open>spdmlib\<close> does to the
  context is the parameter \<open>spdm_lib\<close>.
\<close>

text \<open>
  \<open>encode_secured_message\<close> takes the session id, the message, the caller's buffer, \<open>is_requester\<close> and
  \<open>is_app_message\<close>, and returns the context, the buffer and the bytes used or a status;
  \<open>decode_secured_message\<close> returns the message in the caller's buffer, its length and whether it is an
  application message.
\<close>

record 'c spdm_lib =
  rsp_data_transfer_size_sel :: "'c \<Rightarrow> u32"
  rsp_ct_exponent_sel :: "'c \<Rightarrow> u8"
  encode_secured_message :: "'c \<Rightarrow> u32 \<Rightarrow> bytes \<Rightarrow> bytes \<Rightarrow> bool \<Rightarrow> bool \<Rightarrow> 'c \<times> bytes \<times> (spdm_status + nat)"
  decode_secured_message :: "'c \<Rightarrow> u32 \<Rightarrow> bytes \<Rightarrow> bytes \<Rightarrow> bool \<Rightarrow> 'c \<times> bytes \<times> (spdm_status + nat \<times> bool)"

record half =
  is_requester :: bool
  session_id :: u32

text \<open>An \<open>SpdmStatus\<close> and a number used as an \<open>Error\<close>, with their formatted text.\<close>

definition lift_status :: "spdm_status + 'a \<Rightarrow> 'a res" where
  "lift_status r = (case r of Inl s \<Rightarrow> Err (kind_with_msg Unknown ''{:?}'') | Inr x \<Rightarrow> Ok x)"

definition lift_size :: "nat + 'a \<Rightarrow> 'a res" where
  "lift_size r = (case r of Inl n \<Rightarrow> Err (error_from ''{}'') | Inr x \<Rightarrow> Ok x)"

lemma lift_status_simps [simp]:
  "lift_status (Inr x) = Ok x" "lift_status (Inl s) = Err (kind_with_msg Unknown ''{:?}'')"
  "lift_size (Inr x) = Ok x" "lift_size (Inl n) = Err (error_from ''{}'')"
  by (simp_all add: lift_status_def lift_size_def)

text \<open>\<open>send\<close> of the write half: the context, the device and the result.\<close>

definition write_half_send :: "'c spdm_lib \<Rightarrow> codec_lib \<Rightarrow> io_config \<Rightarrow> half \<Rightarrow> 'c \<Rightarrow> framed_stream \<Rightarrow> bytes \<Rightarrow>
    'c \<times> framed_stream \<times> unit res" where
  "write_half_send S K cfg h common device_io msg =
     (let transport_buffer = replicate (SENDER_BUFFER_SIZE cfg) 0
      in if rsp_data_transfer_size_sel S common \<noteq> 0 \<and> length msg > unat (rsp_data_transfer_size_sel S common)
         then (common, device_io, Err (kind_with_msg SpdmSend ''The buffer cannot be longer than {}''))
         else (case encode_secured_message S common (session_id h) msg transport_buffer (is_requester h) True of
           (common, transport_buffer, r) \<Rightarrow>
             (case res_context ''Failed to encode as secured message'' (res_kind SpdmSend (lift_status r)) of
                Ok used \<Rightarrow>
                  (if used > length transport_buffer then (common, device_io, Panic)
                   else (case fs_send K cfg device_io (take used transport_buffer) of
                       None \<Rightarrow> (common, device_io, Panic)
                     | Some (device_io, r) \<Rightarrow> (common, device_io,
                         andthen (res_context ''Failed to send message to device_io'' (res_kind SpdmSend (lift_status r)))
                           (\<lambda>_. Ok ()))))
              | Err e \<Rightarrow> (common, device_io, Err e)
              | Panic \<Rightarrow> (common, device_io, Panic)
              | UB \<Rightarrow> (common, device_io, UB))))"

text \<open>\<open>shutdown\<close>: the device is a framed stream over TCP, so the downcast succeeds.\<close>

definition write_half_shutdown :: "framed_stream \<Rightarrow> framed_stream \<times> unit res" where
  "write_half_shutdown framed_stream =
     (case shutdown_write (stream framed_stream) of
        (s, True) \<Rightarrow> (framed_stream\<lparr>stream := s\<rparr>, Ok ())
      | (s, False) \<Rightarrow> (framed_stream\<lparr>stream := s\<rparr>,
          res_context ''Failed to end session'' (res_kind SpdmShutdown (Err (error_from ''{}'')))))"

text \<open>
  \<open>2 << rsp_ct_exponent_sel\<close> on \<open>usize\<close>: a shift by 64 or more panics when overflow checks are on and is
  taken modulo 64 when they are off.
\<close>

definition receive_timeout :: "bool \<Rightarrow> u8 \<Rightarrow> u64 option" where
  "receive_timeout overflow_checks e =
     (if overflow_checks \<and> 64 \<le> unat e then None else Some (push_bit (unat e mod 64) 2))"

text \<open>
  \<open>receive\<close> of the read half into the caller's buffer: the context, the device, the buffer and the
  result. \<open>FramedStream::receive\<close> ignores the timeout.
\<close>

definition read_half_receive :: "'c spdm_lib \<Rightarrow> codec_lib \<Rightarrow> io_config \<Rightarrow> bool \<Rightarrow> half \<Rightarrow> 'c \<Rightarrow> framed_stream \<Rightarrow> bytes \<Rightarrow>
    'c \<times> framed_stream \<times> bytes \<times> nat res" where
  "read_half_receive S K cfg overflow_checks h common device_io buf =
     (let transport_buffer = replicate (RECEIVER_BUFFER_SIZE cfg) 0
      in case receive_timeout overflow_checks (rsp_ct_exponent_sel S common) of
           None \<Rightarrow> (common, device_io, buf, Panic)
         | Some timeout \<Rightarrow>
             (case fs_receive K device_io transport_buffer of
                None \<Rightarrow> (common, device_io, buf, Panic)
              | Some (device_io, transport_buffer, r) \<Rightarrow>
                  (case res_context ''Failed to receive message from device_io'' (res_kind SpdmReceive (lift_size r)) of
                     Ok used \<Rightarrow>
                       (if used > length transport_buffer then (common, device_io, buf, Panic)
                        else (case decode_secured_message S common (session_id h) (take used transport_buffer) buf
                            (\<not> is_requester h) of
                          (common, buf, r) \<Rightarrow> (common, device_io, buf,
                            andthen (res_context ''Failed to decode as secured message'' (res_kind SpdmReceive (lift_status r)))
                              (\<lambda>(used, is_app_message).
                                 if \<not> is_app_message then Err (kind_with_msg SpdmReceive ''App message is expected'')
                                 else Ok used))))
                   | Err e \<Rightarrow> (common, device_io, buf, Err e)
                   | Panic \<Rightarrow> (common, device_io, buf, Panic)
                   | UB \<Rightarrow> (common, device_io, buf, UB))))"

subsection \<open>The device under the halves\<close>

text \<open>Whatever faults the stream has, a send writes a prefix of the frame, the whole frame when it succeeds.\<close>

lemma write_some_cases:
  obtains (ok) s' where "write_some s bs = (s', True)" "outgoing s' = outgoing s @ bs" "write_open s' = write_open s"
      "incoming s' = incoming s"
  | (fault) s' k where "write_some s bs = (s', False)" "outgoing s' = outgoing s @ take k bs" "write_open s' = write_open s"
      "incoming s' = incoming s"
proof (cases "write_faults s")
  case Nil
  then show ?thesis by (intro ok [of "s\<lparr>outgoing := outgoing s @ bs\<rparr>"]) (simp_all add: write_some_def)
next
  case (Cons f faults)
  show ?thesis
  proof (cases f)
    case None
    with Cons show ?thesis
      by (intro ok [of "s\<lparr>outgoing := outgoing s @ bs, write_faults := faults\<rparr>"]) (simp_all add: write_some_def)
  next
    case (Some k)
    with Cons show ?thesis
      by (intro fault [of "s\<lparr>outgoing := outgoing s @ take k bs, write_faults := faults\<rparr>" k]) (simp_all add: write_some_def)
  qed
qed

lemma write_all_cases:
  obtains (ok) s' where "write_all s bs = (s', True)" "outgoing s' = outgoing s @ bs" "write_open s' = write_open s"
      "incoming s' = incoming s" "write_open s \<or> bs = []"
  | (fault) s' k where "write_all s bs = (s', False)" "outgoing s' = outgoing s @ take k bs" "write_open s' = write_open s"
      "incoming s' = incoming s" "\<not> write_open s \<Longrightarrow> outgoing s' = outgoing s"
proof (cases "bs = [] \<or> \<not> write_open s")
  case True
  then show ?thesis
    by (cases "bs = []") (auto simp: write_all_def intro: ok [of s] fault [of s 0])
next
  case False
  then have eq: "write_all s bs = write_some s bs" by (simp add: write_all_def)
  show ?thesis
    by (cases rule: write_some_cases [of s bs]) (use False eq ok fault in auto)
qed

lemma fs_send_spec:
  assumes "codec_ok K"
  shows "\<exists>s' r n. fs_send K cfg fs p = Some (fs\<lparr>stream := s'\<rparr>, r) \<and> incoming s' = incoming (stream fs) \<and>
    write_open s' = write_open (stream fs) \<and> outgoing s' = outgoing (stream fs) @ take n (frame K p) \<and>
    (r = Inr () \<and> write_open (stream fs) \<and> length (frame K p) \<le> n \<or>
     r = Inl SPDM_STATUS_SEND_FAIL \<and> (\<not> write_open (stream fs) \<longrightarrow> n = 0))"
proof -
  have "4 \<le> 4 + SENDER_BUFFER_SIZE cfg" by simp
  with assms have same: "u32_encode K (4 + SENDER_BUFFER_SIZE cfg) w = u32_encode K 4 w" for w
    unfolding codec_ok_def by blast
  define h where "h = header_bytes K (length p)"
  from u32_encode_room [OF assms order_refl, of "to_be (word_of_nat (length p))"]
  have enc: "frame_header_encode K (FRAME_HEADER_SIZE + SENDER_BUFFER_SIZE cfg) \<lparr>payload_size = to_be (word_of_nat (length p))\<rparr>
      = Some h" and h: "length h = 4" "h \<noteq> []" and hs: "length h = FRAME_HEADER_SIZE"
    by (auto simp: frame_header_encode_def FRAME_HEADER_SIZE_def same h_def header_bytes_def)
  have fr: "frame K p = h @ p" by (simp add: frame_def h_def)
  show ?thesis
  proof (cases rule: write_all_cases [of "stream fs" h])
    case (fault s k)
    then have "fs_send K cfg fs p = Some (fs\<lparr>stream := s\<rparr>, Inl SPDM_STATUS_SEND_FAIL)"
      by (simp add: fs_send_def enc hs Let_def)
    moreover have "outgoing s = outgoing (stream fs) @ take (if write_open (stream fs) then min k 4 else 0) (frame K p)"
      using fault h by (simp add: fr min_def)
    ultimately show ?thesis
      using fault by (intro exI [of _ s] exI [of _ "Inl SPDM_STATUS_SEND_FAIL"]
          exI [of _ "if write_open (stream fs) then min k 4 else 0"]) simp
  next
    case (ok s)
    then have opn: "write_open (stream fs)" using h by simp
    note a = ok
    show ?thesis
    proof (cases rule: write_all_cases [of s p])
      case (fault s' k)
      then have "fs_send K cfg fs p = Some (fs\<lparr>stream := s'\<rparr>, Inl SPDM_STATUS_SEND_FAIL)"
        using a by (simp add: fs_send_def enc hs Let_def)
      moreover have "outgoing s' = outgoing (stream fs) @ take (4 + k) (frame K p)"
        using fault a h by (simp add: fr)
      ultimately show ?thesis using fault a opn by (intro exI [of _ s'] exI) auto
    next
      case (ok s')
      have all: "outgoing s' = outgoing (stream fs) @ take (length (frame K p)) (frame K p)"
        using ok a by (simp add: fr)
      obtain s'' r where fin: "fs_send K cfg fs p = Some (fs\<lparr>stream := s''\<rparr>, r)" "outgoing s'' = outgoing s'"
        "write_open s'' = write_open s'" "incoming s'' = incoming s'" "r = Inr () \<or> r = Inl SPDM_STATUS_SEND_FAIL"
        by (cases rule: write_some_cases [of s' "[]"]) (use a ok hs enc in \<open>simp_all add: fs_send_def Let_def flush_def\<close>)
      then show ?thesis
        using a ok opn all by (intro exI [of _ s''] exI [of _ r] exI [of _ "length (frame K p)"]) auto
    qed
  qed
qed

text \<open>What one receive call can do.\<close>

lemma receive_cases:
  assumes "codec_ok K" and "fs_wf cfg d"
  obtains (panic) "oc" "64 \<le> unat (rsp_ct_exponent_sel S c)" "read_half_receive S K cfg oc h c d buf = (c, d, buf, Panic)"
  | (not_ready) d' r where "\<not> (oc \<and> 64 \<le> unat (rsp_ct_exponent_sel S c))" "\<not> frame_ready K (FRAME_HEADER_SIZE + RECEIVER_BUFFER_SIZE cfg) (pending d)" "fs_wf cfg d'"
      "pending d' = pending d" "read_half_receive S K cfg oc h c d buf = (c, d', buf, r)" "fails_with r SpdmReceive"
  | (packet) d' c' buf' q r where "\<not> (oc \<and> 64 \<le> unat (rsp_ct_exponent_sel S c))" "frame_ready K (FRAME_HEADER_SIZE + RECEIVER_BUFFER_SIZE cfg) (pending d)" "fs_wf cfg d'"
      "pending d' = drop (announced K (pending d)) (pending d)"
      "decode_secured_message S c (session_id h) (slice 4 (announced K (pending d) - 4) (pending d)) buf (\<not> is_requester h) = (c', buf', q)"
      "read_half_receive S K cfg oc h c d buf = (c', d', buf', r)" "fails_with r SpdmReceive \<or> (\<exists>n. r = Ok n)"
      "\<And>n. r = Ok n \<longleftrightarrow> q = Inr (n, True)"
proof (cases "receive_timeout oc (rsp_ct_exponent_sel S c)")
  case None
  then show thesis by (intro panic) (simp_all add: receive_timeout_def read_half_receive_def Let_def split: if_splits)
next
  case (Some timeout)
  then have no: "\<not> (oc \<and> 64 \<le> unat (rsp_ct_exponent_sel S c))" by (simp add: receive_timeout_def split: if_splits)
  let ?out = "replicate (RECEIVER_BUFFER_SIZE cfg) (0 :: u8)" and ?p = "pending d"
  let ?n = "announced K ?p - 4"
  have "RECEIVER_BUFFER_SIZE cfg \<le> length ?out" by simp
  note spec = fs_receive_spec [OF assms this]
  show thesis
  proof (cases "frame_ready K (FRAME_HEADER_SIZE + RECEIVER_BUFFER_SIZE cfg) ?p")
    case True
    with spec obtain fs where fs: "fs_wf cfg fs" "pending fs = drop (announced K ?p) ?p"
      "fs_receive K d ?out = Some (fs, slice 4 ?n ?p @ drop ?n ?out, Inr ?n)" by auto
    have len: "length (slice 4 ?n ?p) = ?n" "?n \<le> RECEIVER_BUFFER_SIZE cfg"
      using True announced_ge [of K ?p] by (auto simp: frame_ready_def FRAME_HEADER_SIZE_def length_slice)
    obtain c1 buf1 q where dec: "decode_secured_message S c (session_id h) (slice 4 ?n ?p) buf (\<not> is_requester h) = (c1, buf1, q)"
      using prod_cases3 by blast
    define r where "r = andthen (res_context ''Failed to decode as secured message''
        (res_kind SpdmReceive (lift_status q))) (\<lambda>(used, is_app_message).
          if \<not> is_app_message then Err (kind_with_msg SpdmReceive ''App message is expected'') else Ok used)"
    have run: "read_half_receive S K cfg oc h c d buf = (c1, fs, buf1, r)"
      using fs(3) len dec by (simp add: read_half_receive_def Some Let_def r_def)
    have "(fails_with r SpdmReceive \<or> (\<exists>n. r = Ok n)) \<and> (\<forall>n. r = Ok n \<longleftrightarrow> q = Inr (n, True))"
      unfolding r_def by (cases q) (auto simp: with_kind_def res_context_Err with_msg_def split: if_splits)
    with packet [OF no True fs(1,2) dec run] show thesis by blast
  next
    case False
    with spec obtain fs where fs: "fs_wf cfg fs" "pending fs = ?p" "fs_receive K d ?out = Some (fs, ?out, Inl 0)" by auto
    obtain c' d' buf' r where run: "read_half_receive S K cfg oc h c d buf = (c', d', buf', r)" using prod_cases4 by blast
    with fs have "c' = c" "d' = fs" "buf' = buf" "fails_with r SpdmReceive"
      by (auto simp: read_half_receive_def Some Let_def res_context_Err with_kind_def with_msg_def)
    with run have "read_half_receive S K cfg oc h c d buf = (c, fs, buf, r)" "fails_with r SpdmReceive" by simp_all
    then show thesis by (rule not_ready [OF no False fs(1,2)])
  qed
qed

subsection \<open>A session over the secured channel\<close>

text \<open>
  What the halves rely on \<open>spdmlib\<close> for: while the contexts of the two ends are \<open>paired\<close>, a message of at
  most \<open>limit\<close> bytes is encoded into the sender buffer, and decoding the used part gives it back as an
  application message and keeps the contexts paired.
\<close>

definition channel_ok :: "'c spdm_lib \<Rightarrow> io_config \<Rightarrow> half \<Rightarrow> half \<Rightarrow> nat \<Rightarrow> ('c \<Rightarrow> 'c \<Rightarrow> bool) \<Rightarrow> bool" where
  "channel_ok S cfg w r limit paired \<longleftrightarrow>
     (\<forall>a b m. paired a b \<longrightarrow> length m \<le> limit \<longrightarrow>
        (\<exists>a' buf used. encode_secured_message S a (session_id w) m (replicate (SENDER_BUFFER_SIZE cfg) 0)
            (is_requester w) True = (a', buf, Inr used) \<and>
          length buf = SENDER_BUFFER_SIZE cfg \<and> used \<le> length buf \<and>
          (\<forall>out. length m \<le> length out \<longrightarrow>
             (\<exists>b'. decode_secured_message S b (session_id r) (take used buf) out (\<not> is_requester r) =
                 (b', m @ drop (length m) out, Inr (length m, True)) \<and> paired a' b'))))"

text \<open>The negotiated parameters let every message through.\<close>

definition negotiated_ok :: "'c spdm_lib \<Rightarrow> nat \<Rightarrow> 'c \<Rightarrow> 'c \<Rightarrow> bool" where
  "negotiated_ok S limit a b \<longleftrightarrow>
     (rsp_data_transfer_size_sel S a = 0 \<or> limit \<le> unat (rsp_data_transfer_size_sel S a)) \<and>
     unat (rsp_ct_exponent_sel S b) < 64"

text \<open>Messages sent one after the other, and received into buffers of \<open>cap\<close> bytes.\<close>

fun send_messages :: "'c spdm_lib \<Rightarrow> codec_lib \<Rightarrow> io_config \<Rightarrow> half \<Rightarrow> 'c \<Rightarrow> framed_stream \<Rightarrow> bytes list \<Rightarrow>
    'c \<times> framed_stream \<times> unit res list" where
  "send_messages S K cfg h c d [] = (c, d, [])"
| "send_messages S K cfg h c d (m # ms) =
     (case write_half_send S K cfg h c d m of
        (c, d, r) \<Rightarrow> (case send_messages S K cfg h c d ms of (c, d, rs) \<Rightarrow> (c, d, r # rs)))"

fun receive_messages :: "'c spdm_lib \<Rightarrow> codec_lib \<Rightarrow> io_config \<Rightarrow> bool \<Rightarrow> half \<Rightarrow> nat \<Rightarrow> nat \<Rightarrow> 'c \<Rightarrow> framed_stream \<Rightarrow>
    'c \<times> framed_stream \<times> bytes res list" where
  "receive_messages S K cfg oc h cap 0 c d = (c, d, [])"
| "receive_messages S K cfg oc h cap (Suc n) c d =
     (case read_half_receive S K cfg oc h c d (replicate cap 0) of
        (c, d, buf, r) \<Rightarrow>
          (case receive_messages S K cfg oc h cap n c d of
             (c, d, rs) \<Rightarrow> (c, d, andthen r (\<lambda>used. Ok (take used buf)) # rs)))"

lemma write_half_send_ok:
  assumes "codec_ok K" and "write_faults (stream d) = []" and "write_open (stream d)"
    and "rsp_data_transfer_size_sel S c = 0 \<or> length m \<le> unat (rsp_data_transfer_size_sel S c)"
    and "encode_secured_message S c (session_id h) m (replicate (SENDER_BUFFER_SIZE cfg) 0) (is_requester h) True =
      (c', buf, Inr used)" and "used \<le> length buf"
  shows "write_half_send S K cfg h c d m =
    (c', d\<lparr>stream := (stream d)\<lparr>outgoing := outgoing (stream d) @ frame K (take used buf)\<rparr>\<rparr>, Ok ())"
proof -
  have "\<not> (rsp_data_transfer_size_sel S c \<noteq> 0 \<and> unat (rsp_data_transfer_size_sel S c) < length m)"
    using assms(4) by auto
  then show ?thesis
    using assms(5,6) by (simp add: write_half_send_def fs_send_ok [OF assms(1-3)])
qed

lemma receive_timeout_Some: "unat e < 64 \<Longrightarrow> receive_timeout oc e = Some (push_bit (unat e) 2)"
  by (simp add: receive_timeout_def)

lemma read_half_receive_packet:
  assumes "fs_queued K cfg d (p # ps)" and "unat (rsp_ct_exponent_sel S c) < 64"
    and "decode_secured_message S c (session_id h) p buf (\<not> is_requester h) = (c', buf', Inr (n, True))"
  shows "\<exists>d'. read_half_receive S K cfg oc h c d buf = (c', d', buf', Ok n) \<and> fs_queued K cfg d' ps"
proof -
  let ?out = "replicate (RECEIVER_BUFFER_SIZE cfg) (0 :: u8)"
  have "RECEIVER_BUFFER_SIZE cfg \<le> length ?out" by simp
  from fs.receive_packet [OF assms(1) this] obtain d' where
    r: "fs_receive K d ?out = Some (d', p @ drop (length p) ?out, Inr (length p))" "fs_queued K cfg d' ps" by blast
  have "length p \<le> RECEIVER_BUFFER_SIZE cfg" using assms(1) by (simp add: fs_queued_def packet_ok_def)
  with r assms(3) show ?thesis
    by (simp add: read_half_receive_def receive_timeout_Some [OF assms(2)] Let_def)
qed

lemma session_messages:
  assumes "codec_ok K" and "channel_ok S cfg w r limit paired" and "\<forall>a b. paired a b \<longrightarrow> negotiated_ok S limit a b"
    and "SENDER_BUFFER_SIZE cfg \<le> RECEIVER_BUFFER_SIZE cfg" and "SENDER_BUFFER_SIZE cfg < 4294967296"
  shows "paired a b \<Longrightarrow> \<forall>m \<in> set ms. length m \<le> limit \<Longrightarrow> write_faults (stream d) = [] \<Longrightarrow> write_open (stream d) \<Longrightarrow>
    \<exists>a' d' ps. send_messages S K cfg w a d ms = (a', d', replicate (length ms) (Ok ())) \<and>
      outgoing (stream d') = outgoing (stream d) @ concat (map (frame K) ps) \<and> (\<forall>p \<in> set ps. packet_ok cfg p) \<and>
      (\<forall>e. fs_queued K cfg e ps \<longrightarrow> (\<exists>b' e'. receive_messages S K cfg oc r limit (length ms) b e = (b', e', map Ok ms) \<and>
         fs_queued K cfg e' [] \<and> paired a' b'))"
proof (induction ms arbitrary: a b d)
  case Nil
  then show ?case by (intro exI [of _ a] exI [of _ d] exI [of _ "[]"]) auto
next
  case (Cons m ms)
  have m: "length m \<le> limit" and ms: "\<forall>m \<in> set ms. length m \<le> limit" using Cons.prems(2) by simp_all
  from assms(2) Cons.prems(1) m obtain a1 buf used where
    enc: "encode_secured_message S a (session_id w) m (replicate (SENDER_BUFFER_SIZE cfg) 0) (is_requester w) True = (a1, buf, Inr used)"
    and len: "length buf = SENDER_BUFFER_SIZE cfg" "used \<le> length buf"
    and dec: "\<And>out. length m \<le> length out \<Longrightarrow> \<exists>b'. decode_secured_message S b (session_id r) (take used buf) out
        (\<not> is_requester r) = (b', m @ drop (length m) out, Inr (length m, True)) \<and> paired a1 b'"
    unfolding channel_ok_def by blast
  let ?p = "take used buf"
  let ?d = "d\<lparr>stream := (stream d)\<lparr>outgoing := outgoing (stream d) @ frame K ?p\<rparr>\<rparr>"
  have neg: "negotiated_ok S limit a b" using assms(3) Cons.prems(1) by blast
  then have "rsp_data_transfer_size_sel S a = 0 \<or> length m \<le> unat (rsp_data_transfer_size_sel S a)"
    using m by (auto simp: negotiated_ok_def)
  note send = write_half_send_ok [OF assms(1) Cons.prems(3,4) this enc len(2)]
  have "length m \<le> length (replicate limit (0 :: u8))" using m by simp
  from dec [OF this] obtain b1 where
    dec1: "decode_secured_message S b (session_id r) ?p (replicate limit 0) (\<not> is_requester r) =
      (b1, m @ drop (length m) (replicate limit 0), Inr (length m, True))" and pair: "paired a1 b1" by blast
  have open1: "write_faults (stream ?d) = []" "write_open (stream ?d)" using Cons.prems(3,4) by simp_all
  from Cons.IH [OF pair ms open1] obtain a' d' ps where
    ih: "send_messages S K cfg w a1 ?d ms = (a', d', replicate (length ms) (Ok ()))"
      "outgoing (stream d') = outgoing (stream ?d) @ concat (map (frame K) ps)" "\<forall>p \<in> set ps. packet_ok cfg p"
    and recv: "\<And>e. fs_queued K cfg e ps \<Longrightarrow> \<exists>b' e'. receive_messages S K cfg oc r limit (length ms) b1 e = (b', e', map Ok ms) \<and>
      fs_queued K cfg e' [] \<and> paired a' b'" by blast
  have ok: "packet_ok cfg ?p" using len assms(4,5) by (simp add: packet_ok_def)
  have "\<exists>b' e'. receive_messages S K cfg oc r limit (length (m # ms)) b e = (b', e', map Ok (m # ms)) \<and>
      fs_queued K cfg e' [] \<and> paired a' b'" if "fs_queued K cfg e (?p # ps)" for e
  proof -
    have "unat (rsp_ct_exponent_sel S b) < 64" using neg by (simp add: negotiated_ok_def)
    from read_half_receive_packet [OF that this dec1, of oc] obtain e1 where
      e1: "read_half_receive S K cfg oc r b e (replicate limit 0) = (b1, e1, m @ drop (length m) (replicate limit 0), Ok (length m))"
      and q: "fs_queued K cfg e1 ps" by blast
    from recv [OF q] show ?thesis using e1 by auto
  qed
  with ih ok send show ?case by (intro exI [of _ a'] exI [of _ d'] exI [of _ "?p # ps"]) simp
qed

subsection \<open>Properties\<close>

text \<open>
  A channel for the witnesses: the context is the sequence number; a packet is the number, the session
  id, the application flag and the message masked with the number.
\<close>

definition sample_lib :: "nat spdm_lib" where
  "sample_lib = \<lparr>rsp_data_transfer_size_sel = (\<lambda>_. 4), rsp_ct_exponent_sel = (\<lambda>_. 3),
     encode_secured_message = (\<lambda>c sid m buf req app.
       if length buf < length m + 3 then (c, buf, Inl (SPDM_STATUS_OTHER 0))
       else (c + 1, blit buf 0 ([of_nat c, of_nat (unat sid), if app then 1 else 0] @ map (\<lambda>x. of_nat c - x) m), Inr (length m + 3))),
     decode_secured_message = (\<lambda>c sid pkt out req. case pkt of
         s # i # f # m \<Rightarrow>
           (if s = of_nat c \<and> i = of_nat (unat sid) \<and> length m \<le> length out
            then (c + 1, blit out 0 (map (\<lambda>x. of_nat c - x) m), Inr (length m, f = 1))
            else (c, out, Inl (SPDM_STATUS_OTHER 0)))
       | _ \<Rightarrow> (c, out, Inl (SPDM_STATUS_OTHER 0)))\<rparr>"

definition requester_half :: half where
  "requester_half = \<lparr>is_requester = True, session_id = 7\<rparr>"

definition responder_half :: half where
  "responder_half = \<lparr>is_requester = False, session_id = 7\<rparr>"

lemma sample_channel_ok: "channel_ok sample_lib small_config requester_half responder_half 4 (=)"
proof -
  have mask: "map (\<lambda>x. k - (k - x)) m = m" for k :: u8 and m by (induction m) simp_all
  have "\<exists>a' buf used. encode_secured_message sample_lib a 7 m (replicate 16 0) True True = (a', buf, Inr used) \<and>
      length buf = 16 \<and> used \<le> length buf \<and>
      (\<forall>out. length m \<le> length out \<longrightarrow> (\<exists>b'. decode_secured_message sample_lib a 7 (take used buf) out True =
         (b', m @ drop (length m) out, Inr (length m, True)) \<and> a' = b'))" if "length m \<le> 4" for a and m :: bytes
  proof -
    let ?pkt = "[of_nat a, of_nat (unat (7 :: u32)), 1] @ map (\<lambda>x. of_nat a - x) m"
    have enc: "encode_secured_message sample_lib a 7 m (replicate 16 0) True True =
        (a + 1, blit (replicate 16 0) 0 ?pkt, Inr (length ?pkt))"
      using that by (simp add: sample_lib_def)
    have "length (blit (replicate 16 0) 0 ?pkt) = 16" using that by (subst length_blit) simp_all
    moreover have pkt: "take (length ?pkt) (blit (replicate 16 0) 0 ?pkt) = ?pkt" by (rule take_blit0)
    moreover have "decode_secured_message sample_lib a 7 ?pkt out True = (a + 1, m @ drop (length m) out, Inr (length m, True))"
      if "length m \<le> length out" for out
      using that by (simp add: sample_lib_def blit_def comp_def mask)
    ultimately show ?thesis unfolding enc using that by (intro exI [of _ "a + 1"] exI) auto
  qed
  then show ?thesis
    by (simp add: channel_ok_def requester_half_def responder_half_def small_config_def)
qed

text \<open>
  C11. A session carries messages: over any secured channel, if one half sends messages within the
  negotiated size on an open stream, every send succeeds; and a read half whose device holds exactly the
  bytes this put on the wire, in any segmentation and partly buffered already, receives exactly these
  messages in this order, and the two contexts stay paired.
\<close>

theorem session_transparent:
  assumes "codec_ok K" and "channel_ok S cfg w r limit paired" and "\<forall>a b. paired a b \<longrightarrow> negotiated_ok S limit a b"
    and "SENDER_BUFFER_SIZE cfg \<le> RECEIVER_BUFFER_SIZE cfg" and "SENDER_BUFFER_SIZE cfg < 4294967296"
    and "paired a b" and "\<forall>m \<in> set ms. length m \<le> limit"
    and "write_faults (stream d) = []" and "write_open (stream d)"
    and "send_messages S K cfg w a d ms = (a', d', rs)"
    and "fs_wf cfg e" and "outgoing (stream d') = outgoing (stream d) @ pending e"
  shows "rs = replicate (length ms) (Ok ()) \<and>
    (\<exists>b' e'. receive_messages S K cfg oc r limit (length ms) b e = (b', e', map Ok ms) \<and> paired a' b' \<and> pending e' = [])"
proof -
  from session_messages [OF assms(1-5) assms(6-9), of oc] assms(10) obtain ps where
    ps: "rs = replicate (length ms) (Ok ())" "outgoing (stream d') = outgoing (stream d) @ concat (map (frame K) ps)"
      "\<forall>p \<in> set ps. packet_ok cfg p"
    and recv: "fs_queued K cfg e ps \<longrightarrow> (\<exists>b' e'. receive_messages S K cfg oc r limit (length ms) b e = (b', e', map Ok ms) \<and>
         fs_queued K cfg e' [] \<and> paired a' b')" by auto
  have "fs_queued K cfg e ps" using ps assms(1,11,12) by (simp add: fs_queued_def)
  with recv ps(1) show ?thesis by (auto simp: fs_queued_def)
qed

theorem session_transparent_witness:
  "\<exists>b' e'. receive_messages sample_lib le_codec small_config True responder_half 4 2 0
     (framed_stream_new small_config (stream_of [Chunk [0, 0, 0, 5, 0], Chunk [7, 1, 251, 250, 0, 0, 0], Chunk [3, 1, 7, 1]])) =
     (b', e', [Ok [5, 6], Ok []]) \<and> b' = 2"
proof -
  let ?e = "framed_stream_new small_config (stream_of [Chunk [0, 0, 0, 5, 0], Chunk [7, 1, 251, 250, 0, 0, 0], Chunk [3, 1, 7, 1]])"
  let ?d = "framed_stream_new small_config (stream_of [])"
  have neg: "\<forall>a b. a = b \<longrightarrow> negotiated_ok sample_lib 4 a b" by (simp add: negotiated_ok_def sample_lib_def)
  have cfg: "SENDER_BUFFER_SIZE small_config \<le> RECEIVER_BUFFER_SIZE small_config" "SENDER_BUFFER_SIZE small_config < 4294967296"
    by (simp_all add: small_config_def)
  have lens: "\<forall>m \<in> set [[5, 6], [] :: bytes]. length m \<le> 4" by simp
  have d: "write_faults (stream ?d) = []" "write_open (stream ?d)" "outgoing (stream ?d) = []"
    by (simp_all add: framed_stream_new_def stream_of_def)
  have frames: "frame le_codec [0, 7, 1, 251, 250] @ frame le_codec [1, 7, 1] = [0, 0, 0, 5, 0, 7, 1, 251, 250, 0, 0, 0, 3, 1, 7, 1]"
    by (simp add: frame_def header_bytes_def le_codec_def to_be_def nat_le_numeral)
  have take5: "take 5 (blit (replicate 16 0) 0 [0, 7, 1, 251, 250]) = ([0, 7, 1, 251, 250] :: bytes)"
    "take 3 (blit (replicate 16 0) 0 [1, 7, 1]) = ([1, 7, 1] :: bytes)"
    by (simp_all add: blit_def)
  obtain d1 where s1: "write_half_send sample_lib le_codec small_config requester_half 0 ?d [5, 6] = (1, d1, Ok ())"
    "stream d1 = (stream ?d)\<lparr>outgoing := frame le_codec [0, 7, 1, 251, 250]\<rparr>"
    using write_half_send_ok [OF le_codec_ok d(1,2), of sample_lib 0 "[5, 6]" requester_half small_config 1
        "blit (replicate 16 0) 0 [0, 7, 1, 251, 250]" 5] d(3) take5
    by (auto simp: sample_lib_def requester_half_def small_config_def blit_def)
  obtain d2 where s2: "write_half_send sample_lib le_codec small_config requester_half 1 d1 [] = (2, d2, Ok ())"
    "outgoing (stream d2) = frame le_codec [0, 7, 1, 251, 250] @ frame le_codec [1, 7, 1]"
    using write_half_send_ok [OF le_codec_ok, of d1 sample_lib 1 "[]" requester_half small_config 2
        "blit (replicate 16 0) 0 [1, 7, 1]" 3] d s1(2) take5
    by (auto simp: sample_lib_def requester_half_def small_config_def blit_def)
  have sends: "send_messages sample_lib le_codec small_config requester_half 0 ?d [[5, 6], []] = (2, d2, [Ok (), Ok ()])"
    using s1 s2 by simp
  have e: "fs_wf small_config ?e" "outgoing (stream d2) = outgoing (stream ?d) @ pending ?e"
    using s2(2) d(3) frames by (simp_all add: fs_wf_new stream_of_def)
  from session_transparent [OF le_codec_ok sample_channel_ok neg cfg refl lens d(1,2) sends e, of True]
  show ?thesis by (auto simp: numeral_2_eq_2 simp del: receive_messages.simps)
qed

text \<open>
  C35. One receive call of the read half, on any device state: the overflow checked shift of the timeout
  is its only panic; without a whole fitting frame it fails and changes neither context nor caller's
  buffer; otherwise it takes exactly the first frame, hands its payload to \<open>decode_secured_message\<close> with
  the session id and the peer's role, and returns what that returns, except that a message which is not
  an application message is refused. Every error has the kind \<open>SpdmReceive\<close>.
\<close>

theorem read_half_receive_exact:
  assumes "codec_ok K" and "fs_wf cfg d" and "read_half_receive S K cfg oc h c d buf = (c', d', buf', r)"
  shows "(fails_with r SpdmReceive \<or> r = Panic \<or> (\<exists>n. r = Ok n)) \<and>
    (r = Panic \<longleftrightarrow> oc \<and> 64 \<le> unat (rsp_ct_exponent_sel S c)) \<and>
    (r \<noteq> Panic \<longrightarrow> fs_wf cfg d' \<and>
      (if frame_ready K (FRAME_HEADER_SIZE + RECEIVER_BUFFER_SIZE cfg) (pending d)
       then pending d' = drop (announced K (pending d)) (pending d) \<and>
         (\<exists>q. decode_secured_message S c (session_id h) (slice 4 (announced K (pending d) - 4) (pending d)) buf
              (\<not> is_requester h) = (c', buf', q) \<and> (\<forall>n. r = Ok n \<longleftrightarrow> q = Inr (n, True)))
       else pending d' = pending d \<and> c' = c \<and> buf' = buf \<and> fails_with r SpdmReceive))"
  using assms(1,2)
proof (cases rule: receive_cases [where oc = oc and S = S and c = c and h = h and buf = buf])
  case panic
  with assms(3) show ?thesis by auto
next
  case (not_ready d1 r1)
  with assms(3) show ?thesis by auto
next
  case (packet d1 c1 buf1 q r1)
  with assms(3) have "d' = d1" "c' = c1" "buf' = buf1" "r = r1" "r \<noteq> Panic" by auto
  with packet show ?thesis by auto
qed

theorem read_half_receive_exact_witness:
  "\<exists>c' d' buf' r. read_half_receive sample_lib le_codec small_config True responder_half 0
      (framed_stream_new small_config (stream_of [Chunk [0, 0, 0, 3, 0, 7, 0]])) [9] = (c', d', buf', r) \<and>
    fails_with r SpdmReceive \<and> pending d' = []"
proof -
  let ?d = "framed_stream_new small_config (stream_of [Chunk [0, 0, 0, 3, 0, 7, 0]])"
  obtain c' d' buf' r where run: "read_half_receive sample_lib le_codec small_config True responder_half 0 ?d [9] = (c', d', buf', r)"
    using prod_cases4 by blast
  have wf: "fs_wf small_config ?d" and p: "pending ?d = [0, 0, 0, 3, 0, 7, 0]" by (simp_all add: fs_wf_new stream_of_def)
  have a: "announced le_codec [0, 0, 0, 3, 0, 7, 0] = 7"
    by (simp add: announced_def FRAME_HEADER_SIZE_def le_codec_def to_be_def nat_le_numeral)
  have ready: "frame_ready le_codec (FRAME_HEADER_SIZE + RECEIVER_BUFFER_SIZE small_config) (pending ?d)"
    by (simp only: frame_ready_def p a) (simp add: FRAME_HEADER_SIZE_def small_config_def)
  have dec: "decode_secured_message sample_lib 0 (session_id responder_half) (slice 4 3 [0, 0, 0, 3, 0, 7, 0]) [9]
      (\<not> is_requester responder_half) = (1, [9], Inr (0, False))"
    by (simp add: sample_lib_def responder_half_def slice_def blit_def)
  from read_half_receive_exact [OF le_codec_ok wf run] ready
  have "fails_with r SpdmReceive" "pending d' = []"
    using dec by (auto simp: p a sample_lib_def)
  with run show ?thesis by blast
qed

text \<open>
  One send call of the write half, whatever faults the stream has: it never panics when
  \<open>encode_secured_message\<close> keeps its promise on the used length. A message over the negotiated size is
  refused with no effect at all; a failed encoding leaves the device alone; otherwise a prefix of the
  frame of the encoded message reaches the wire, and the whole frame when the result is \<open>Ok\<close>. Every
  failure has the kind \<open>SpdmSend\<close>, and after \<open>shutdown\<close> succeeded every send fails without a byte.
\<close>

theorem write_half_send_exact:
  assumes "codec_ok K"
    and enc: "encode_secured_message S c (session_id h) m (replicate (SENDER_BUFFER_SIZE cfg) 0) (is_requester h) True = (c1, pkt, q)"
    and used: "\<forall>n. q = Inr n \<longrightarrow> n \<le> length pkt"
    and send: "write_half_send S K cfg h c d m = (c', d', r)"
  shows "(r = Ok () \<or> fails_with r SpdmSend) \<and>
    (if rsp_data_transfer_size_sel S c \<noteq> 0 \<and> length m > unat (rsp_data_transfer_size_sel S c)
     then c' = c \<and> d' = d \<and> r \<noteq> Ok ()
     else c' = c1 \<and> (case q of
         Inl s \<Rightarrow> d' = d \<and> r \<noteq> Ok ()
       | Inr n \<Rightarrow> (\<exists>k. outgoing (stream d') = outgoing (stream d) @ take k (frame K (take n pkt)) \<and>
           (r = Ok () \<longrightarrow> length (frame K (take n pkt)) \<le> k)))) \<and>
    pending d' = pending d \<and>
    (write_half_shutdown d0 = (d, Ok ()) \<longrightarrow> r \<noteq> Ok () \<and> outgoing (stream d') = outgoing (stream d0))"
proof -
  have shut: "\<not> write_open (stream d) \<and> outgoing (stream d) = outgoing (stream d0)" if "write_half_shutdown d0 = (d, Ok ())"
    using that by (cases rule: write_some_cases [of "stream d0" "[]"])
      (auto simp: write_half_shutdown_def shutdown_write_def res_context_Err with_kind_def)
  show ?thesis
  proof (cases "rsp_data_transfer_size_sel S c \<noteq> 0 \<and> length m > unat (rsp_data_transfer_size_sel S c)")
    case True
    with send have "c' = c" "d' = d" "r = Err (kind_with_msg SpdmSend ''The buffer cannot be longer than {}'')"
      by (simp_all add: write_half_send_def Let_def)
    with True shut show ?thesis by auto
  next
    case fit: False
    show ?thesis
    proof (cases q)
      case (Inl s)
      with send fit enc have "c' = c1" "d' = d" "fails_with r SpdmSend" "r \<noteq> Ok ()"
        by (auto simp: write_half_send_def Let_def with_kind_def res_context_Err with_msg_def)
      with fit Inl shut show ?thesis by auto
    next
      case (Inr n)
      with used have n: "n \<le> length pkt" by simp
      from fs_send_spec [OF assms(1), of cfg d "take n pkt"] obtain s' w k where
        io: "fs_send K cfg d (take n pkt) = Some (d\<lparr>stream := s'\<rparr>, w)" "incoming s' = incoming (stream d)"
          "outgoing s' = outgoing (stream d) @ take k (frame K (take n pkt))"
        and w: "w = Inr () \<and> write_open (stream d) \<and> length (frame K (take n pkt)) \<le> k \<or>
          w = Inl SPDM_STATUS_SEND_FAIL \<and> (\<not> write_open (stream d) \<longrightarrow> k = 0)" by blast
      have r: "c' = c1" "d' = d\<lparr>stream := s'\<rparr>" "r = andthen (res_context ''Failed to send message to device_io''
          (res_kind SpdmSend (lift_status w))) (\<lambda>_. Ok ())"
        using send fit enc Inr n io(1) by (auto simp: write_half_send_def Let_def)
      have out: "r = Ok () \<and> w = Inr () \<or> fails_with r SpdmSend \<and> r \<noteq> Ok () \<and> w \<noteq> Inr ()"
        unfolding r(3) by (cases w) (auto simp: with_kind_def res_context_Err with_msg_def)
      have "pending d' = pending d" using r(2) io(2) by (simp add: pending_def)
      moreover have "outgoing (stream d') = outgoing (stream d) @ take k (frame K (take n pkt))" using r(2) io(3) by simp
      moreover have "write_half_shutdown d0 = (d, Ok ()) \<Longrightarrow> w \<noteq> Inr () \<and> k = 0" using shut w by auto
      ultimately show ?thesis using fit Inr r(1) out w shut by auto
    qed
  qed
qed

theorem write_half_send_exact_witness:
  "\<exists>d d' c' r. write_half_shutdown (framed_stream_new small_config (stream_of [])) = (d, Ok ()) \<and>
     write_half_send sample_lib le_codec small_config requester_half 0 d [5, 6] = (c', d', r) \<and>
     fails_with r SpdmSend \<and> outgoing (stream d') = []"
proof -
  let ?d0 = "framed_stream_new small_config (stream_of [])"
  obtain d where shut: "write_half_shutdown ?d0 = (d, Ok ())"
    by (auto simp: write_half_shutdown_def shutdown_write_def write_some_def framed_stream_new_def stream_of_def)
  obtain c' d' r where send: "write_half_send sample_lib le_codec small_config requester_half 0 d [5, 6] = (c', d', r)"
    using prod_cases3 by blast
  have enc: "encode_secured_message sample_lib 0 (session_id requester_half) [5, 6] (replicate (SENDER_BUFFER_SIZE small_config) 0)
      (is_requester requester_half) True = (1, blit (replicate 16 0) 0 [0, 7, 1, - 5, - 6], Inr 5)"
    by (simp add: sample_lib_def requester_half_def small_config_def)
  have "\<forall>n. (Inr 5 :: spdm_status + nat) = Inr n \<longrightarrow> n \<le> length (blit (replicate 16 0) 0 [0, 7, 1, - 5, - 6 :: u8])"
    by (simp add: blit_def)
  from write_half_send_exact [OF le_codec_ok enc this send, of ?d0] shut
  have "fails_with r SpdmSend" "outgoing (stream d') = []" by (auto simp: framed_stream_new_def stream_of_def)
  with shut send show ?thesis by blast
qed

end
