(* ===== verification/Measurement.thy ===== *)
theory Measurement
  imports CborRef
begin

text \<open>
  \<^verbatim>\<open>rats-rs/src/transport/spdm/secret/measurement.rs\<close>: the measurement providers that answer the SPDM
  measurement messages, one that reports the claims of the own evidence as its single measurement block
  and an empty one. The message types are those of \<open>spdmlib\<close>; its functions are the parameter
  \<open>measurement_lib\<close>. A provider method returns an \<open>Option\<close> or panics, hence \<open>'a option res\<close>.
\<close>

text \<open>The algorithms the source names, and every other bit pattern.\<close>

datatype spdm_measurement_hash_algo =
    MEAS_RAW_BIT_STREAM | MEAS_SHA_256 | MEAS_SHA_384 | MEAS_SHA_512 | MEAS_OTHER u32

datatype spdm_base_hash_algo = BASE_SHA_256 | BASE_SHA_384 | BASE_SHA_512 | BASE_OTHER u32

datatype spdm_measurement_specification = DMTF | OtherSpecification u8

datatype spdm_measurement_summary_hash_type =
    SummaryHashTypeNone | SummaryHashTypeTcb | SummaryHashTypeAll | SummaryHashTypeUnknown u8

datatype measurement_representation = RepresentationDigest | RepresentationRawBit

datatype dmtf_measurement_type = MeasurementManifest | OtherMeasurement u8

record spdm_dmtf_measurement =
  dmtf_type :: dmtf_measurement_type
  representation :: measurement_representation
  value_size :: u16
  dmtf_value :: bytes

record spdm_measurement_block =
  block_index :: u8
  measurement_specification :: spdm_measurement_specification
  measurement_size :: u16
  measurement :: spdm_dmtf_measurement

record spdm_measurement_record =
  number_of_blocks :: u8
  measurement_record_length :: nat
  measurement_record_data :: bytes

record spdm_digest =
  digest_size :: u16
  digest_data :: bytes

text \<open>
  \<open>block_encode room\<close> writes into a writer with so much room; \<open>u24_new\<close> is the number a \<open>u24\<close> made from a
  \<open>u32\<close> holds; \<open>record_default\<close> is \<open>Default::default()\<close>.
\<close>

record measurement_lib =
  MAX_SPDM_MEASUREMENT_VALUE_LEN :: nat
  MAX_SPDM_MEASUREMENT_RECORD_SIZE :: nat
  overflow_checks :: bool
  hash_all :: "spdm_base_hash_algo \<Rightarrow> bytes \<Rightarrow> spdm_digest option"
  block_encode :: "nat \<Rightarrow> spdm_measurement_block \<Rightarrow> bytes option"
  u24_new :: "u32 \<Rightarrow> nat"
  query_total_number :: u8
  request_all :: u8
  record_default :: spdm_measurement_record

definition RATS_MEASUREMENT_BLOCK_INDEX :: u8 where
  "RATS_MEASUREMENT_BLOCK_INDEX = 0x01"

text \<open>\<open>a + b\<close> on \<open>u16\<close>: an overflow panics or wraps, by the build profile.\<close>

definition add_u16 :: "bool \<Rightarrow> u16 \<Rightarrow> u16 \<Rightarrow> u16 res" where
  "add_u16 checks a b = (if checks \<and> 65536 \<le> unat a + unat b then Panic else Ok (a + b))"

text \<open>\<open>dst[..n].copy_from_slice(src)\<close>: the lengths have to agree.\<close>

definition copy_prefix :: "bytes \<Rightarrow> nat \<Rightarrow> bytes \<Rightarrow> bytes res" where
  "copy_prefix dst n src = (if n > length dst \<or> n \<noteq> length src then Panic else Ok (blit dst 0 src))"

text \<open>\<open>r.map_err(..).ok()?\<close> inside a function that returns an \<open>Option\<close>.\<close>

definition ok_then :: "'a res \<Rightarrow> ('a \<Rightarrow> 'b option res) \<Rightarrow> 'b option res" where
  "ok_then r f = (case r of Ok x \<Rightarrow> f x | Err e \<Rightarrow> Ok None | Panic \<Rightarrow> Panic | UB \<Rightarrow> UB)"

subsection \<open>RatsMeasurementProvider\<close>

record rats_measurement_provider =
  claims_buffer :: bytes

definition rats_measurement_new_from_evidence ::
    "cbor_lib \<Rightarrow> ('e \<Rightarrow> claims res) \<Rightarrow> 'e \<Rightarrow> rats_measurement_provider res" where
  "rats_measurement_new_from_evidence B get_claims evidence =
     andthen (get_claims evidence) (\<lambda>claims.
     andthen (generate_claims_buffer B claims) (\<lambda>buffer. Ok \<lparr>claims_buffer = buffer\<rparr>))"

definition create_rats_measurement_block ::
    "measurement_lib \<Rightarrow> rats_measurement_provider \<Rightarrow> spdm_measurement_hash_algo \<Rightarrow> spdm_measurement_block res" where
  "create_rats_measurement_block M self algo =
     (let buf = replicate (MAX_SPDM_MEASUREMENT_VALUE_LEN M) 0
      in if algo = MEAS_RAW_BIT_STREAM then
           (if length (claims_buffer self) > length buf then Panic
            else let size = word_of_nat (length (claims_buffer self))
                 in andthen (copy_prefix buf (unat size) (claims_buffer self)) (\<lambda>buf.
                    andthen (add_u16 (overflow_checks M) size 3) (\<lambda>measurement_size.
                    Ok \<lparr>block_index = RATS_MEASUREMENT_BLOCK_INDEX, measurement_specification = DMTF,
                        measurement_size = measurement_size,
                        measurement = \<lparr>dmtf_type = MeasurementManifest, representation = RepresentationRawBit,
                          value_size = size, dmtf_value = buf\<rparr>\<rparr>)))
         else
           andthen (case algo of
               MEAS_SHA_256 \<Rightarrow> Ok BASE_SHA_256
             | MEAS_SHA_384 \<Rightarrow> Ok BASE_SHA_384
             | MEAS_SHA_512 \<Rightarrow> Ok BASE_SHA_512
             | _ \<Rightarrow> Err (kind_with_msg UnsupportedHashAlgo
                 ''Unsupported measurement hash algo {measurement_hash_algo:?}'')) (\<lambda>hash_algo.
           andthen (case hash_all M hash_algo (claims_buffer self) of
               Some digest \<Rightarrow> Ok digest
             | None \<Rightarrow> Err (kind_with_msg CalculateHashFailed
                 ''The spdmlib failed to calculate hash with algo {hash_algo:?}'')) (\<lambda>digest.
           let size = digest_size digest
           in if unat size > length (digest_data digest) then Panic
              else andthen (copy_prefix buf (unat size) (take (unat size) (digest_data digest))) (\<lambda>buf.
                   andthen (add_u16 (overflow_checks M) size 3) (\<lambda>measurement_size.
                   Ok \<lparr>block_index = RATS_MEASUREMENT_BLOCK_INDEX, measurement_specification = DMTF,
                       measurement_size = measurement_size,
                       measurement = \<lparr>dmtf_type = MeasurementManifest, representation = RepresentationDigest,
                         value_size = size, dmtf_value = buf\<rparr>\<rparr>)))))"

text \<open>The record data and the length used.\<close>

definition create_rats_measurement_block_data ::
    "measurement_lib \<Rightarrow> rats_measurement_provider \<Rightarrow> spdm_measurement_hash_algo \<Rightarrow> (bytes \<times> nat) res" where
  "create_rats_measurement_block_data M self algo =
     andthen (res_context ''Failed to create measurement block'' (create_rats_measurement_block M self algo)) (\<lambda>block.
     let record_data = replicate (MAX_SPDM_MEASUREMENT_RECORD_SIZE M) 0
     in case block_encode M (length record_data) block of
          None \<Rightarrow> Err (kind_with_msg SpdmlibError ''The spdmlib failed to encode measurement block to bytes: {e:?}'')
        | Some bs \<Rightarrow> Ok (blit record_data 0 bs, length bs))"

definition rats_measurement_collection :: "measurement_lib \<Rightarrow> rats_measurement_provider \<Rightarrow>
    spdm_measurement_specification \<Rightarrow> spdm_measurement_hash_algo \<Rightarrow> nat \<Rightarrow> spdm_measurement_record option res" where
  "rats_measurement_collection M self spec algo index =
     (if spec \<noteq> DMTF then Ok None
      else if index = unat (query_total_number M) then Ok (Some ((record_default M)\<lparr>number_of_blocks := 1\<rparr>))
      else if index = unat (request_all M) \<or> index = unat RATS_MEASUREMENT_BLOCK_INDEX then
        ok_then (create_rats_measurement_block_data M self algo) (\<lambda>(record_data, record_length).
          Ok (Some \<lparr>number_of_blocks = 1, measurement_record_length = u24_new M (word_of_nat record_length),
                   measurement_record_data = record_data\<rparr>))
      else Ok None)"

definition rats_measurement_summary_hash :: "measurement_lib \<Rightarrow> rats_measurement_provider \<Rightarrow> spdm_base_hash_algo \<Rightarrow>
    spdm_measurement_hash_algo \<Rightarrow> spdm_measurement_summary_hash_type \<Rightarrow> spdm_digest option res" where
  "rats_measurement_summary_hash M self base algo summary =
     (if summary = SummaryHashTypeAll \<or> summary = SummaryHashTypeTcb then
        ok_then (create_rats_measurement_block_data M self algo) (\<lambda>(record_data, record_length).
          if record_length > length record_data then Panic
          else (case hash_all M base (take record_length record_data) of
              None \<Rightarrow> Ok None
            | Some digest \<Rightarrow> Ok (Some digest)))
      else if summary = SummaryHashTypeNone then Ok None
      else Ok None)"

subsection \<open>EmptyMeasurementProvider\<close>

definition empty_measurement_collection :: "measurement_lib \<Rightarrow> spdm_measurement_specification \<Rightarrow>
    spdm_measurement_hash_algo \<Rightarrow> nat \<Rightarrow> spdm_measurement_record option res" where
  "empty_measurement_collection M spec algo index =
     (if spec \<noteq> DMTF then Ok None
      else if index = unat (query_total_number M) then Ok (Some ((record_default M)\<lparr>number_of_blocks := 0\<rparr>))
      else if index = unat (request_all M) \<or> index = unat RATS_MEASUREMENT_BLOCK_INDEX then
        Ok (Some \<lparr>number_of_blocks = 0, measurement_record_length = u24_new M 0,
                 measurement_record_data = replicate (MAX_SPDM_MEASUREMENT_RECORD_SIZE M) 0\<rparr>)
      else Ok None)"

definition empty_measurement_summary_hash :: "measurement_lib \<Rightarrow> spdm_base_hash_algo \<Rightarrow>
    spdm_measurement_hash_algo \<Rightarrow> spdm_measurement_summary_hash_type \<Rightarrow> spdm_digest option res" where
  "empty_measurement_summary_hash M base algo summary =
     (if summary = SummaryHashTypeAll \<or> summary = SummaryHashTypeTcb then
        (case hash_all M base [] of None \<Rightarrow> Ok None | Some digest \<Rightarrow> Ok (Some digest))
      else if summary = SummaryHashTypeNone then Ok None
      else Ok None)"

text \<open>\<open>Box<dyn MeasurementProvider>\<close>.\<close>

datatype measurement_provider = RatsProvider rats_measurement_provider | EmptyProvider

fun measurement_collection :: "measurement_lib \<Rightarrow> measurement_provider \<Rightarrow> spdm_measurement_specification \<Rightarrow>
    spdm_measurement_hash_algo \<Rightarrow> nat \<Rightarrow> spdm_measurement_record option res" where
  "measurement_collection M (RatsProvider p) spec algo index = rats_measurement_collection M p spec algo index"
| "measurement_collection M EmptyProvider spec algo index = empty_measurement_collection M spec algo index"

fun generate_measurement_summary_hash :: "measurement_lib \<Rightarrow> measurement_provider \<Rightarrow> spdm_base_hash_algo \<Rightarrow>
    spdm_measurement_hash_algo \<Rightarrow> spdm_measurement_summary_hash_type \<Rightarrow> spdm_digest option res" where
  "generate_measurement_summary_hash M (RatsProvider p) base algo summary = rats_measurement_summary_hash M p base algo summary"
| "generate_measurement_summary_hash M EmptyProvider base algo summary = empty_measurement_summary_hash M base algo summary"

subsection \<open>The record in closed form\<close>

text \<open>
  What the provider relies on: the sizes of \<open>spdmlib\<close> fit their integer types, digests fit a block, the
  encoder stays inside its writer, and the operation codes are those of the standard.
\<close>

definition measurement_ok :: "measurement_lib \<Rightarrow> bool" where
  "measurement_ok M \<longleftrightarrow>
     MAX_SPDM_MEASUREMENT_VALUE_LEN M + 3 < 65536 \<and> MAX_SPDM_MEASUREMENT_RECORD_SIZE M < 16777216 \<and>
     (\<forall>a bs d. hash_all M a bs = Some d \<longrightarrow>
        unat (digest_size d) \<le> length (digest_data d) \<and> unat (digest_size d) \<le> MAX_SPDM_MEASUREMENT_VALUE_LEN M) \<and>
     (\<forall>room b bs. block_encode M room b = Some bs \<longrightarrow> length bs \<le> room) \<and>
     (\<forall>w. unat w < 16777216 \<longrightarrow> u24_new M w = unat w) \<and>
     query_total_number M = 0 \<and> request_all M = 0xFF"

text \<open>The bytes a digest stands for.\<close>

definition digest_bytes :: "spdm_digest \<Rightarrow> bytes" where
  "digest_bytes d = take (unat (digest_size d)) (digest_data d)"

text \<open>What the single block reports: the claims buffer itself, or its digest.\<close>

definition reported :: "measurement_lib \<Rightarrow> bytes \<Rightarrow> spdm_measurement_hash_algo \<Rightarrow> (measurement_representation \<times> bytes) option" where
  "reported M cb algo = (case algo of
       MEAS_RAW_BIT_STREAM \<Rightarrow> Some (RepresentationRawBit, cb)
     | MEAS_SHA_256 \<Rightarrow> map_option (\<lambda>d. (RepresentationDigest, digest_bytes d)) (hash_all M BASE_SHA_256 cb)
     | MEAS_SHA_384 \<Rightarrow> map_option (\<lambda>d. (RepresentationDigest, digest_bytes d)) (hash_all M BASE_SHA_384 cb)
     | MEAS_SHA_512 \<Rightarrow> map_option (\<lambda>d. (RepresentationDigest, digest_bytes d)) (hash_all M BASE_SHA_512 cb)
     | MEAS_OTHER _ \<Rightarrow> None)"

text \<open>A manifest block with a given content.\<close>

definition manifest_block :: "measurement_lib \<Rightarrow> measurement_representation \<Rightarrow> bytes \<Rightarrow> spdm_measurement_block" where
  "manifest_block M rep v = \<lparr>block_index = 1, measurement_specification = DMTF, measurement_size = word_of_nat (length v + 3),
     measurement = \<lparr>dmtf_type = MeasurementManifest, representation = rep, value_size = word_of_nat (length v),
       dmtf_value = v @ replicate (MAX_SPDM_MEASUREMENT_VALUE_LEN M - length v) 0\<rparr>\<rparr>"

definition raw_overflow :: "measurement_lib \<Rightarrow> bytes \<Rightarrow> spdm_measurement_hash_algo \<Rightarrow> bool" where
  "raw_overflow M cb algo \<longleftrightarrow> algo = MEAS_RAW_BIT_STREAM \<and> MAX_SPDM_MEASUREMENT_VALUE_LEN M < length cb"

lemma finish_block:
  assumes "measurement_ok M" and "length v \<le> MAX_SPDM_MEASUREMENT_VALUE_LEN M" and "unat n = length v"
  shows "copy_prefix (replicate (MAX_SPDM_MEASUREMENT_VALUE_LEN M) 0) (unat n) v =
      Ok (v @ replicate (MAX_SPDM_MEASUREMENT_VALUE_LEN M - length v) 0)"
    and "add_u16 (overflow_checks M) n 3 = Ok (word_of_nat (length v + 3))"
proof -
  have small: "length v + 3 < 65536" using assms(1,2) by (simp add: measurement_ok_def)
  have "n + 3 = word_of_nat (length v + 3)" by (simp flip: assms(3))
  with small assms show "add_u16 (overflow_checks M) n 3 = Ok (word_of_nat (length v + 3))"
    by (simp add: add_u16_def)
  show "copy_prefix (replicate (MAX_SPDM_MEASUREMENT_VALUE_LEN M) 0) (unat n) v =
      Ok (v @ replicate (MAX_SPDM_MEASUREMENT_VALUE_LEN M - length v) 0)"
    using assms by (simp add: copy_prefix_def blit_def)
qed

lemma create_block_eq:
  assumes "measurement_ok M"
  shows "create_rats_measurement_block M p algo =
    (if raw_overflow M (claims_buffer p) algo then Panic
     else case reported M (claims_buffer p) algo of
       Some (rep, v) \<Rightarrow> Ok (manifest_block M rep v)
     | None \<Rightarrow> Err (if \<exists>w. algo = MEAS_OTHER w
         then kind_with_msg UnsupportedHashAlgo ''Unsupported measurement hash algo {measurement_hash_algo:?}''
         else kind_with_msg CalculateHashFailed ''The spdmlib failed to calculate hash with algo {hash_algo:?}''))"
proof -
  have digest: "(let size = digest_size d in
        if unat size > length (digest_data d) then Panic
        else andthen (copy_prefix (replicate (MAX_SPDM_MEASUREMENT_VALUE_LEN M) 0) (unat size) (take (unat size) (digest_data d))) (\<lambda>buf.
             andthen (add_u16 (overflow_checks M) size 3) (\<lambda>ms.
             Ok \<lparr>block_index = RATS_MEASUREMENT_BLOCK_INDEX, measurement_specification = DMTF, measurement_size = ms,
                 measurement = \<lparr>dmtf_type = MeasurementManifest, representation = RepresentationDigest,
                   value_size = size, dmtf_value = buf\<rparr>\<rparr>))) = Ok (manifest_block M RepresentationDigest (digest_bytes d))"
    if "hash_all M a (claims_buffer p) = Some d" for a d
  proof -
    have le: "unat (digest_size d) \<le> length (digest_data d)" "unat (digest_size d) \<le> MAX_SPDM_MEASUREMENT_VALUE_LEN M"
      using assms that unfolding measurement_ok_def by blast+
    then have len: "unat (digest_size d) = length (digest_bytes d)" by (simp add: digest_bytes_def)
    have eq: "word_of_nat (length (digest_bytes d)) = digest_size d" by (simp flip: len)
    have fits: "length (digest_bytes d) \<le> MAX_SPDM_MEASUREMENT_VALUE_LEN M" using le(2) len by simp
    note fin = finish_block [OF assms fits len]
    from le(1) have "\<not> unat (digest_size d) > length (digest_data d)" by simp
    then show ?thesis
      unfolding Let_def digest_bytes_def [symmetric] fin
      by (simp add: manifest_block_def RATS_MEASUREMENT_BLOCK_INDEX_def eq fin)
  qed
  have raw: "create_rats_measurement_block M p MEAS_RAW_BIT_STREAM = Ok (manifest_block M RepresentationRawBit (claims_buffer p))"
    if "length (claims_buffer p) \<le> MAX_SPDM_MEASUREMENT_VALUE_LEN M"
  proof -
    have "unat (word_of_nat (length (claims_buffer p)) :: u16) = length (claims_buffer p)"
      using that assms by (simp add: unat_of_nat measurement_ok_def)
    note fin = finish_block [OF assms that this]
    from that show ?thesis
      by (simp add: create_rats_measurement_block_def manifest_block_def RATS_MEASUREMENT_BLOCK_INDEX_def Let_def fin)
  qed
  show ?thesis
  proof (cases algo)
    case MEAS_RAW_BIT_STREAM
    with raw show ?thesis
      by (auto simp: reported_def raw_overflow_def) (simp add: create_rats_measurement_block_def)
  qed (use digest in \<open>auto simp: reported_def raw_overflow_def create_rats_measurement_block_def split: option.splits\<close>)
qed

text \<open>The bytes of the attested measurement block, if there are any.\<close>

definition attested_block :: "measurement_lib \<Rightarrow> bytes \<Rightarrow> spdm_measurement_hash_algo \<Rightarrow> bytes option" where
  "attested_block M cb algo = (case reported M cb algo of
       None \<Rightarrow> None
     | Some (rep, v) \<Rightarrow> block_encode M (MAX_SPDM_MEASUREMENT_RECORD_SIZE M) (manifest_block M rep v))"

text \<open>The record of a sequence of encoded blocks.\<close>

definition record_of :: "measurement_lib \<Rightarrow> u8 \<Rightarrow> bytes \<Rightarrow> spdm_measurement_record" where
  "record_of M n bs = \<lparr>number_of_blocks = n, measurement_record_length = length bs,
     measurement_record_data = bs @ replicate (MAX_SPDM_MEASUREMENT_RECORD_SIZE M - length bs) 0\<rparr>"

lemma attested_block_bound:
  "measurement_ok M \<Longrightarrow> attested_block M cb algo = Some bs \<Longrightarrow> length bs \<le> MAX_SPDM_MEASUREMENT_RECORD_SIZE M"
  by (auto simp: attested_block_def measurement_ok_def split: option.splits)

lemma create_data_eq:
  assumes "measurement_ok M"
  shows "ok_then (create_rats_measurement_block_data M p algo) f =
    (if raw_overflow M (claims_buffer p) algo then Panic
     else case attested_block M (claims_buffer p) algo of
       None \<Rightarrow> Ok None
     | Some bs \<Rightarrow> f (bs @ replicate (MAX_SPDM_MEASUREMENT_RECORD_SIZE M - length bs) 0, length bs))"
  using assms
  by (auto simp: create_rats_measurement_block_data_def create_block_eq attested_block_def ok_then_def res_context_def
      blit_def Let_def split: option.splits)

lemma u24_record_length:
  assumes "measurement_ok M" and "n \<le> MAX_SPDM_MEASUREMENT_RECORD_SIZE M"
  shows "u24_new M (word_of_nat n) = n"
proof -
  have "n < 16777216" using assms by (simp add: measurement_ok_def)
  then have "unat (word_of_nat n :: u32) = n" by (simp add: unat_of_nat)
  with \<open>n < 16777216\<close> assms(1) show ?thesis by (simp add: measurement_ok_def)
qed

lemma operation_codes:
  assumes "measurement_ok M"
  shows "unat (query_total_number M) = 0" "unat (request_all M) = 255" "unat RATS_MEASUREMENT_BLOCK_INDEX = 1"
  using assms by (simp_all add: measurement_ok_def RATS_MEASUREMENT_BLOCK_INDEX_def)

lemma rats_collection_eq:
  assumes "measurement_ok M"
  shows "rats_measurement_collection M p DMTF algo i =
    (if i = 0 then Ok (Some ((record_default M)\<lparr>number_of_blocks := 1\<rparr>))
     else if i = 1 \<or> i = 255 then
       (if raw_overflow M (claims_buffer p) algo then Panic
        else Ok (map_option (record_of M 1) (attested_block M (claims_buffer p) algo)))
     else Ok None)"
  using u24_record_length [OF assms attested_block_bound [OF assms]]
  by (auto simp: rats_measurement_collection_def operation_codes [OF assms] create_data_eq [OF assms] record_of_def
      split: option.splits)

lemma rats_summary_eq:
  assumes "measurement_ok M"
  shows "rats_measurement_summary_hash M p base algo t =
    (if t = SummaryHashTypeAll \<or> t = SummaryHashTypeTcb then
       (if raw_overflow M (claims_buffer p) algo then Panic
        else Ok (Option.bind (attested_block M (claims_buffer p) algo) (hash_all M base)))
     else Ok None)"
  by (auto simp: rats_measurement_summary_hash_def create_data_eq [OF assms] split: option.splits)

subsection \<open>The provider interface\<close>

text \<open>
  What \<open>spdmlib\<close> and the peer assume of a \<open>MeasurementProvider\<close>: the announced number of blocks is the
  number delivered, other specifications are refused, and the summary hash of the challenge is the hash
  of the record that the measurement request delivers.
\<close>

locale measurement_source =
  fixes M :: measurement_lib
    and collect :: "spdm_measurement_specification \<Rightarrow> spdm_measurement_hash_algo \<Rightarrow> nat \<Rightarrow> spdm_measurement_record option res"
    and summarise :: "spdm_base_hash_algo \<Rightarrow> spdm_measurement_hash_algo \<Rightarrow> spdm_measurement_summary_hash_type \<Rightarrow> spdm_digest option res"
    and ok :: bool
  assumes total_number: "ok \<Longrightarrow> collect DMTF algo 0 = Ok (Some r) \<Longrightarrow> collect DMTF algo 255 = Ok (Some r') \<Longrightarrow>
      number_of_blocks r = number_of_blocks r'"
    and only_dmtf: "spec \<noteq> DMTF \<Longrightarrow> collect spec algo i = Ok None"
    and summary_is_hash: "ok \<Longrightarrow> t = SummaryHashTypeAll \<or> t = SummaryHashTypeTcb \<Longrightarrow>
      summarise base algo t = andthen (collect DMTF algo 255) (\<lambda>r. case r of
          None \<Rightarrow> Ok None
        | Some r \<Rightarrow> Ok (hash_all M base (take (measurement_record_length r) (measurement_record_data r))))"
    and no_summary: "t \<noteq> SummaryHashTypeAll \<Longrightarrow> t \<noteq> SummaryHashTypeTcb \<Longrightarrow> summarise base algo t = Ok None"
begin

text \<open>A peer that got the record and the summary can check one against the other.\<close>

lemma summary_checks:
  assumes "ok" and "collect DMTF algo 255 = Ok (Some r)" and "summarise base algo t = Ok (Some d)"
  shows "hash_all M base (take (measurement_record_length r) (measurement_record_data r)) = Some d"
proof -
  have "t = SummaryHashTypeAll \<or> t = SummaryHashTypeTcb"
    using assms(3) no_summary [of t base algo] by fastforce
  from summary_is_hash [OF assms(1) this, of base algo] assms(2,3) show ?thesis by simp
qed

end

interpretation provider: measurement_source M "measurement_collection M p" "generate_measurement_summary_hash M p" "measurement_ok M"
  for M p
proof (cases p)
  case (RatsProvider q)
  show "measurement_source M (measurement_collection M p) (generate_measurement_summary_hash M p) (measurement_ok M)"
  proof
    fix algo r r' assume "measurement_ok M" "measurement_collection M p DMTF algo 0 = Ok (Some r)"
      "measurement_collection M p DMTF algo 255 = Ok (Some r')"
    then show "number_of_blocks r = number_of_blocks r'"
      using RatsProvider by (auto simp: rats_collection_eq record_of_def split: if_splits)
  next
    fix spec algo i assume "spec \<noteq> DMTF"
    then show "measurement_collection M p spec algo i = Ok None"
      using RatsProvider by (simp add: rats_measurement_collection_def)
  next
    fix t base algo assume "measurement_ok M" "t = SummaryHashTypeAll \<or> t = SummaryHashTypeTcb"
    then show "generate_measurement_summary_hash M p base algo t = andthen (measurement_collection M p DMTF algo 255)
        (\<lambda>r. case r of None \<Rightarrow> Ok None
         | Some r \<Rightarrow> Ok (hash_all M base (take (measurement_record_length r) (measurement_record_data r))))"
      using RatsProvider
      by (auto simp: rats_collection_eq rats_summary_eq record_of_def split: option.splits)
  next
    fix t base algo assume "t \<noteq> SummaryHashTypeAll" "t \<noteq> SummaryHashTypeTcb"
    then show "generate_measurement_summary_hash M p base algo t = Ok None"
      using RatsProvider by (simp add: rats_measurement_summary_hash_def)
  qed
next
  case EmptyProvider
  show "measurement_source M (measurement_collection M p) (generate_measurement_summary_hash M p) (measurement_ok M)"
    by unfold_locales
       (auto simp: EmptyProvider empty_measurement_collection_def empty_measurement_summary_hash_def operation_codes
         u24_record_length [where n = 0, simplified] split: option.splits if_splits)
qed

subsection \<open>Properties\<close>

text \<open>\<open>SpdmMeasurementBlockStructure::read\<close> reads an encoded manifest block back and says how long it is.\<close>

type_synonym block_reader = "bytes \<Rightarrow> (spdm_measurement_block \<times> nat) option"

definition block_codec_ok :: "measurement_lib \<Rightarrow> block_reader \<Rightarrow> bool" where
  "block_codec_ok M rd \<longleftrightarrow>
     (\<forall>room rep v bs rest. length v \<le> MAX_SPDM_MEASUREMENT_VALUE_LEN M \<longrightarrow>
        block_encode M room (manifest_block M rep v) = Some bs \<longrightarrow>
        rd (bs @ rest) = Some (manifest_block M rep v, length bs))"

lemma manifest_block_fields:
  assumes "measurement_ok M" and "length v \<le> MAX_SPDM_MEASUREMENT_VALUE_LEN M"
  shows "unat (value_size (measurement (manifest_block M rep v))) = length v"
    and "unat (measurement_size (manifest_block M rep v)) = length v + 3"
    and "take (length v) (dmtf_value (measurement (manifest_block M rep v))) = v"
proof -
  have small: "length v + 3 < 65536" using assms by (simp add: measurement_ok_def)
  have "unat (word_of_nat k :: u16) = k" if "k < 65536" for k using that by (simp add: unat_of_nat)
  from this [of "length v"] this [OF small] small show "unat (value_size (measurement (manifest_block M rep v))) = length v"
    "unat (measurement_size (manifest_block M rep v)) = length v + 3"
    by (simp_all add: manifest_block_def del: of_nat_add)
qed (simp add: manifest_block_def)

lemma reported_bound:
  assumes "measurement_ok M" and "\<not> raw_overflow M cb algo" and "reported M cb algo = Some (rep, v)"
  shows "length v \<le> MAX_SPDM_MEASUREMENT_VALUE_LEN M"
proof -
  have "length (digest_bytes d) \<le> MAX_SPDM_MEASUREMENT_VALUE_LEN M" if "hash_all M a cb = Some d" for a d
    using assms(1) that unfolding measurement_ok_def digest_bytes_def by (metis length_take min.coboundedI2)
  then show ?thesis
    using assms(2,3) by (auto simp: reported_def raw_overflow_def split: spdm_measurement_hash_algo.splits)
qed

text \<open>A small message format for the witnesses.\<close>

definition sample_meas_encode :: "nat \<Rightarrow> spdm_measurement_block \<Rightarrow> bytes option" where
  "sample_meas_encode room b =
     (let m = measurement b;
          bs = [block_index b, if representation m = RepresentationRawBit then 1 else 0] @ nat_le 2 (unat (measurement_size b)) @
            nat_le 2 (unat (value_size m)) @ take (unat (value_size m)) (dmtf_value m)
      in if length bs \<le> room then Some bs else None)"

definition sample_meas :: measurement_lib where
  "sample_meas = \<lparr>MAX_SPDM_MEASUREMENT_VALUE_LEN = 32, MAX_SPDM_MEASUREMENT_RECORD_SIZE = 64, overflow_checks = True,
     hash_all = (\<lambda>a bs. case a of BASE_OTHER _ \<Rightarrow> None | _ \<Rightarrow> Some \<lparr>digest_size = 2, digest_data = [word_of_nat (length bs), last (0 # bs), 0, 0]\<rparr>),
     block_encode = sample_meas_encode, u24_new = unat, query_total_number = 0, request_all = 0xFF,
     record_default = \<lparr>number_of_blocks = 0, measurement_record_length = 0, measurement_record_data = []\<rparr>\<rparr>"

definition sample_meas_read :: block_reader where
  "sample_meas_read bs = (case bs of
       i # r # a # b # c # d # rest \<Rightarrow>
         (let n = le_nat [c, d]
          in if length rest < n \<or> n > 32 then None
             else Some (\<lparr>block_index = i, measurement_specification = DMTF, measurement_size = word_of_nat (le_nat [a, b]),
               measurement = \<lparr>dmtf_type = MeasurementManifest,
                 representation = (if r = 1 then RepresentationRawBit else RepresentationDigest),
                 value_size = word_of_nat n, dmtf_value = take n rest @ replicate (32 - n) 0\<rparr>\<rparr>, n + 6))
     | _ \<Rightarrow> None)"

lemma sample_meas_ok: "measurement_ok sample_meas"
  by (auto simp: measurement_ok_def sample_meas_def sample_meas_encode_def Let_def split: spdm_base_hash_algo.splits if_splits)

lemma sample_meas_encode_manifest:
  assumes "length v \<le> 32"
  shows "block_encode sample_meas room (manifest_block sample_meas rep v) =
    (if length v + 6 \<le> room
     then Some ([1, if rep = RepresentationRawBit then 1 else 0, word_of_nat (length v + 3), 0, word_of_nat (length v), 0] @ v)
     else None)"
proof -
  have v: "length v \<le> MAX_SPDM_MEASUREMENT_VALUE_LEN sample_meas" using assms by (simp add: sample_meas_def)
  note f = manifest_block_fields [OF sample_meas_ok v, of rep]
  have n: "length v mod 256 = length v" "length v div 256 = 0" "(length v + 3) mod 256 = length v + 3" "(length v + 3) div 256 = 0"
    using assms by simp_all
  have two: "nat_le 2 k = [word_of_nat (k mod 256), word_of_nat (k div 256 mod 256)]" for k by (simp add: nat_le_numeral)
  have b: "block_index (manifest_block sample_meas rep v) = 1"
    "representation (measurement (manifest_block sample_meas rep v)) = rep"
    by (simp_all add: manifest_block_def)
  have enc: "block_encode sample_meas = sample_meas_encode" by (simp add: sample_meas_def)
  show ?thesis unfolding enc sample_meas_encode_def Let_def f b two n by simp
qed

lemma sample_meas_codec_ok: "block_codec_ok sample_meas sample_meas_read"
  unfolding block_codec_ok_def
proof (intro allI impI)
  fix room rep v bs rest
  assume "length v \<le> MAX_SPDM_MEASUREMENT_VALUE_LEN sample_meas"
    and enc: "block_encode sample_meas room (manifest_block sample_meas rep v) = Some bs"
  then have v: "length v \<le> 32" and max: "MAX_SPDM_MEASUREMENT_VALUE_LEN sample_meas = 32" by (simp_all add: sample_meas_def)
  have bs: "bs = [1, if rep = RepresentationRawBit then 1 else 0, word_of_nat (length v + 3), 0, word_of_nat (length v), 0] @ v"
    using enc unfolding sample_meas_encode_manifest [OF v] by (simp split: if_splits)
  have "unat (word_of_nat k :: u8) = k" if "k < 256" for k using that by (simp add: unat_of_nat)
  from this [of "length v"] this [of "length v + 3"] v
  have u: "le_nat [word_of_nat (length v), 0] = length v" "le_nat [word_of_nat (length v + 3), 0] = length v + 3"
    by (simp_all del: of_nat_add)
  show "sample_meas_read (bs @ rest) = Some (manifest_block sample_meas rep v, length bs)"
    unfolding bs append_Cons append_Nil sample_meas_read_def list.case u Let_def using v max
    by (cases rep) (simp_all add: manifest_block_def)
qed

text \<open>
  C34. The measurement callback of an attesting endpoint, for every request: other specifications get
  nothing; the query of the total number announces one block; the request of all blocks gets one record
  with exactly the encoded block of the claims buffer (raw) or of its digest (SHA-2), and an unknown hash
  algorithm or a block that does not fit gets nothing. There is exactly one individual index: a request of
  it gets what the request of all blocks gets, the block delivered carries it, and a request of any other
  index gets nothing. The only panic is a raw request with a claims buffer longer than a block, and the
  sizes in the block never wrap.
\<close>

theorem measurement_collection_exact:
  assumes "measurement_ok M"
  shows "(spec \<noteq> DMTF \<longrightarrow> measurement_collection M (RatsProvider p) spec algo i = Ok None) \<and>
    measurement_collection M (RatsProvider p) DMTF algo 0 = Ok (Some ((record_default M)\<lparr>number_of_blocks := 1\<rparr>)) \<and>
    measurement_collection M (RatsProvider p) DMTF algo 255 =
      (if algo = MEAS_RAW_BIT_STREAM \<and> MAX_SPDM_MEASUREMENT_VALUE_LEN M < length (claims_buffer p) then Panic
       else Ok (map_option (record_of M 1) (attested_block M (claims_buffer p) algo))) \<and>
    (\<exists>j :: u8. j \<notin> {0, 255} \<and> (\<forall>rep v. block_index (manifest_block M rep v) = j) \<and>
      (\<forall>p algo i. i \<notin> {0, 255} \<longrightarrow> measurement_collection M (RatsProvider p) DMTF algo i =
        (if i = unat j then measurement_collection M (RatsProvider p) DMTF algo 255 else Ok None))) \<and>
    attested_block M (claims_buffer p) (MEAS_OTHER w) = None \<and>
    (reported M (claims_buffer p) algo = Some (rep, v) \<and> length v \<le> MAX_SPDM_MEASUREMENT_VALUE_LEN M \<longrightarrow>
       unat (value_size (measurement (manifest_block M rep v))) = length v \<and>
       unat (measurement_size (manifest_block M rep v)) = length v + 3)"
proof -
  have "\<exists>j :: u8. j \<notin> {0, 255} \<and> (\<forall>rep v. block_index (manifest_block M rep v) = j) \<and>
      (\<forall>p algo i. i \<notin> {0, 255} \<longrightarrow> measurement_collection M (RatsProvider p) DMTF algo i =
        (if i = unat j then measurement_collection M (RatsProvider p) DMTF algo 255 else Ok None))"
    by (rule exI [of _ 1]) (simp add: rats_collection_eq [OF assms] manifest_block_def)
  then show ?thesis
    using manifest_block_fields [OF assms, of v rep] provider.only_dmtf [of spec M "RatsProvider p" algo i]
    by (simp add: rats_collection_eq [OF assms] raw_overflow_def attested_block_def reported_def)
qed

theorem measurement_collection_exact_witness:
  "measurement_collection sample_meas (RatsProvider \<lparr>claims_buffer = replicate 33 7\<rparr>) DMTF MEAS_RAW_BIT_STREAM 255 = Panic \<and>
   measurement_collection sample_meas (RatsProvider \<lparr>claims_buffer = [7, 8]\<rparr>) DMTF MEAS_RAW_BIT_STREAM 255 =
     Ok (Some (record_of sample_meas 1 [1, 1, 5, 0, 2, 0, 7, 8]))"
proof -
  have "attested_block sample_meas [7, 8] MEAS_RAW_BIT_STREAM = Some [1, 1, 5, 0, 2, 0, 7, 8]"
    using sample_meas_encode_manifest [of "[7, 8]" "MAX_SPDM_MEASUREMENT_RECORD_SIZE sample_meas" RepresentationRawBit]
    by (simp add: attested_block_def reported_def) (simp add: sample_meas_def)
  then show ?thesis
    using measurement_collection_exact [OF sample_meas_ok, of DMTF "\<lparr>claims_buffer = replicate 33 7\<rparr>" MEAS_RAW_BIT_STREAM 255]
      measurement_collection_exact [OF sample_meas_ok, of DMTF "\<lparr>claims_buffer = [7, 8]\<rparr>" MEAS_RAW_BIT_STREAM 255]
    by (simp add: sample_meas_def)
qed

lemma reported_block:
  assumes "measurement_ok M" and "block_codec_ok M rd" and "\<not> raw_overflow M cb algo" and "attested_block M cb algo = Some bs"
  obtains rep v where "reported M cb algo = Some (rep, v)" "length v \<le> MAX_SPDM_MEASUREMENT_VALUE_LEN M"
    "\<And>rest. rd (bs @ rest) = Some (manifest_block M rep v, length bs)"
proof -
  from assms(4) obtain rep v where r: "reported M cb algo = Some (rep, v)"
    and e: "block_encode M (MAX_SPDM_MEASUREMENT_RECORD_SIZE M) (manifest_block M rep v) = Some bs"
    by (auto simp: attested_block_def split: option.splits)
  have v: "length v \<le> MAX_SPDM_MEASUREMENT_VALUE_LEN M" by (rule reported_bound [OF assms(1,3) r])
  show ?thesis
  proof (rule that [OF r v])
    show "rd (bs @ rest) = Some (manifest_block M rep v, length bs)" for rest
      using assms(2) v e unfolding block_codec_ok_def by blast
  qed
qed

text \<open>
  C33. Attestation reaches the peer: for a provider made from an evidence, whatever record the measurement
  request delivers reads back as exactly one manifest block with consistent sizes; with raw
  measurements its value parses back to exactly the claims of the evidence; and the summary hash of the
  challenge, when there is one, is the hash of this very record.
\<close>

theorem measurement_delivers_claims:
  assumes "measurement_ok M" and "block_codec_ok M rd" and "cbor_ok B"
    and "get_claims e = Ok cl" and "claims_wf cl" and "rats_measurement_new_from_evidence B get_claims e = Ok p"
    and "measurement_collection M (RatsProvider p) DMTF algo 255 = Ok (Some r)"
  shows "\<exists>b. rd (measurement_record_data r) = Some (b, measurement_record_length r) \<and> number_of_blocks r = 1 \<and> dmtf_type (measurement b) = MeasurementManifest \<and>
    unat (measurement_size b) = unat (value_size (measurement b)) + 3 \<and>
    (algo = MEAS_RAW_BIT_STREAM \<longrightarrow>
       parse_claims_buffer B (take (unat (value_size (measurement b))) (dmtf_value (measurement b))) = Ok cl) \<and>
    (\<forall>base t d. generate_measurement_summary_hash M (RatsProvider p) base algo t = Ok (Some d) \<longrightarrow>
       hash_all M base (take (measurement_record_length r) (measurement_record_data r)) = Some d)"
proof -
  from assms(4,6) have cb: "generate_claims_buffer B cl = Ok (claims_buffer p)"
    by (auto simp: rats_measurement_new_from_evidence_def)
  from assms(7) obtain bs where no: "\<not> raw_overflow M (claims_buffer p) algo"
    and bs: "attested_block M (claims_buffer p) algo = Some bs" and r: "r = record_of M 1 bs"
    by (auto simp: rats_collection_eq [OF assms(1)] split: if_splits)
  from reported_block [OF assms(1,2) no bs] obtain rep v where rv: "reported M (claims_buffer p) algo = Some (rep, v)"
    "length v \<le> MAX_SPDM_MEASUREMENT_VALUE_LEN M" "\<And>rest. rd (bs @ rest) = Some (manifest_block M rep v, length bs)" by blast
  note f = manifest_block_fields [OF assms(1) rv(2), of rep]
  have "algo = MEAS_RAW_BIT_STREAM \<Longrightarrow> v = claims_buffer p" using rv(1) by (simp add: reported_def)
  moreover have "parse_claims_buffer B (claims_buffer p) = Ok cl" by (rule parse_claims_read_back [OF assms(3,5) cb])
  moreover have "hash_all M base (take (measurement_record_length r) (measurement_record_data r)) = Some d"
    if "generate_measurement_summary_hash M (RatsProvider p) base algo t = Ok (Some d)" for base t d
    by (rule provider.summary_checks [OF assms(1,7) that])
  moreover have "dmtf_type (measurement (manifest_block M rep v)) = MeasurementManifest" by (simp add: manifest_block_def)
  moreover have "rd (measurement_record_data r) = Some (manifest_block M rep v, measurement_record_length r)"
    by (simp add: r record_of_def rv(3))
  moreover have "number_of_blocks r = 1" by (simp add: r record_of_def)
  ultimately show ?thesis using f by auto
qed

theorem measurement_delivers_claims_witness:
  "\<exists>p r b. rats_measurement_new_from_evidence ref_cbor (\<lambda>e :: unit. Ok [(''key1'', bytes_of ''value1''), (''key2'', bytes_of ''value2'')]) () = Ok p \<and>
     measurement_collection sample_meas (RatsProvider p) DMTF MEAS_RAW_BIT_STREAM 255 = Ok (Some r) \<and>
     sample_meas_read (measurement_record_data r) = Some (b, measurement_record_length r) \<and>
     parse_claims_buffer ref_cbor (take (unat (value_size (measurement b))) (dmtf_value (measurement b))) =
       Ok [(''key1'', bytes_of ''value1''), (''key2'', bytes_of ''value2'')]"
proof -
  let ?cl = "[(''key1'', bytes_of ''value1''), (''key2'', bytes_of ''value2'')]"
  let ?cb = "[0xa2, 0x64, 0x6b, 0x65, 0x79, 0x31, 0x46, 0x76, 0x61, 0x6c, 0x75, 0x65, 0x31,
         0x64, 0x6b, 0x65, 0x79, 0x32, 0x46, 0x76, 0x61, 0x6c, 0x75, 0x65, 0x32] :: bytes"
  have new: "rats_measurement_new_from_evidence ref_cbor (\<lambda>e :: unit. Ok ?cl) () = Ok \<lparr>claims_buffer = ?cb\<rparr>"
    using test_claims_buffer by (simp add: rats_measurement_new_from_evidence_def)
  have wf: "claims_wf ?cl" by (simp add: claims_wf_def)
  have len: "length ?cb = 25" by simp
  have "length ?cb \<le> 32" unfolding len by simp
  from sample_meas_encode_manifest [OF this, of 64 RepresentationRawBit] obtain bs where
    "block_encode sample_meas 64 (manifest_block sample_meas RepresentationRawBit ?cb) = Some bs"
    unfolding len by auto
  then have "attested_block sample_meas ?cb MEAS_RAW_BIT_STREAM = Some bs"
    by (simp add: attested_block_def reported_def) (simp add: sample_meas_def)
  then have col: "measurement_collection sample_meas (RatsProvider \<lparr>claims_buffer = ?cb\<rparr>) DMTF MEAS_RAW_BIT_STREAM 255 =
      Ok (Some (record_of sample_meas 1 bs))"
    by (simp add: rats_collection_eq [OF sample_meas_ok] raw_overflow_def) (simp add: sample_meas_def)
  from measurement_delivers_claims [OF sample_meas_ok sample_meas_codec_ok ref_cbor_ok refl wf new col]
  show ?thesis using new col by blast
qed

text \<open>
  The summary hash binds the attested claims: two attesting endpoints that answer a challenge with the
  same summary, for the same algorithms, hold the same claims buffer, or one of the hashes involved has a
  collision that they exhibit.
\<close>

theorem summary_binds_claims:
  assumes "measurement_ok M" and "block_codec_ok M rd"
    and "generate_measurement_summary_hash M (RatsProvider p) base algo t = Ok (Some d)"
    and "generate_measurement_summary_hash M (RatsProvider q) base algo t = Ok (Some d)"
  shows "claims_buffer p = claims_buffer q \<or>
    (\<exists>a x y dx dy. x \<noteq> y \<and> hash_all M a x = Some dx \<and> hash_all M a y = Some dy \<and> digest_bytes dx = digest_bytes dy)"
proof (rule disjCI)
  assume no: "\<not> (\<exists>a x y dx dy. x \<noteq> y \<and> hash_all M a x = Some dx \<and> hash_all M a y = Some dy \<and> digest_bytes dx = digest_bytes dy)"
  from assms(3) obtain bp where p: "\<not> raw_overflow M (claims_buffer p) algo" "attested_block M (claims_buffer p) algo = Some bp"
    "hash_all M base bp = Some d"
    by (auto simp: rats_summary_eq [OF assms(1)] bind_eq_Some_conv split: if_splits)
  from assms(4) obtain bq where q: "\<not> raw_overflow M (claims_buffer q) algo" "attested_block M (claims_buffer q) algo = Some bq"
    "hash_all M base bq = Some d"
    by (auto simp: rats_summary_eq [OF assms(1)] bind_eq_Some_conv split: if_splits)
  from p(3) q(3) no have eq: "bp = bq" by metis
  obtain rp vp where rp: "reported M (claims_buffer p) algo = Some (rp, vp)" "length vp \<le> MAX_SPDM_MEASUREMENT_VALUE_LEN M"
    "\<And>rest. rd (bp @ rest) = Some (manifest_block M rp vp, length bp)" using reported_block [OF assms(1,2) p(1,2)] by blast
  obtain rq vq where rq: "reported M (claims_buffer q) algo = Some (rq, vq)" "length vq \<le> MAX_SPDM_MEASUREMENT_VALUE_LEN M"
    "\<And>rest. rd (bq @ rest) = Some (manifest_block M rq vq, length bq)" using reported_block [OF assms(1,2) q(1,2)] by blast
  from rp(3) [of "[]"] rq(3) [of "[]"] have "manifest_block M rp vp = manifest_block M rq vq" by (simp add: eq)
  with manifest_block_fields [OF assms(1) rp(2), of rp] manifest_block_fields [OF assms(1) rq(2), of rq]
  have "vp = vq" by metis
  moreover have inj: "x = y" if "hash_all M a x = Some dx" "hash_all M a y = Some dy" "digest_bytes dx = digest_bytes dy" for a x y dx dy
    using no that by blast
  ultimately show "claims_buffer p = claims_buffer q"
    using rp(1) rq(1) by (auto simp: reported_def split: spdm_measurement_hash_algo.splits intro: inj)
qed

theorem summary_binds_claims_witness:
  "\<exists>a x y dx dy. x \<noteq> y \<and> hash_all sample_meas a x = Some dx \<and> hash_all sample_meas a y = Some dy \<and>
     digest_bytes dx = digest_bytes dy"
proof -
  have block: "attested_block sample_meas [k, 8] MEAS_RAW_BIT_STREAM = Some [1, 1, 5, 0, 2, 0, k, 8]" for k
    using sample_meas_encode_manifest [of "[k, 8]" "MAX_SPDM_MEASUREMENT_RECORD_SIZE sample_meas" RepresentationRawBit]
    by (simp add: attested_block_def reported_def) (simp add: sample_meas_def)
  have "generate_measurement_summary_hash sample_meas (RatsProvider \<lparr>claims_buffer = [k, 8]\<rparr>) BASE_SHA_256
      MEAS_RAW_BIT_STREAM SummaryHashTypeAll = Ok (Some \<lparr>digest_size = 2, digest_data = [8, 8, 0, 0]\<rparr>)" for k
    by (simp add: rats_summary_eq [OF sample_meas_ok] raw_overflow_def block) (simp add: sample_meas_def)
  from summary_binds_claims [OF sample_meas_ok sample_meas_codec_ok this [of 7] this [of 9]] show ?thesis by simp
qed

end
