(* ===== verification/Secret.thy ===== *)
theory Secret
  imports CertTheorems Halves Measurement
begin

text \<open>
  \<^verbatim>\<open>rats-rs/src/transport/spdm/secret\<close>: the callbacks an SPDM endpoint gives to \<open>spdmlib\<close> beside the
  measurements: the certificate chain it presents (\<^verbatim>\<open>cert_provider.rs\<close>), how it validates the peer's chain
  (\<^verbatim>\<open>cert_validation.rs\<close>) and how it signs (\<^verbatim>\<open>asym_crypto.rs\<close>).
\<close>

subsection \<open>Certificate provider\<close>

text \<open>\<open>SpdmCertChainData\<close>: a size and an array of the configured capacity.\<close>

record spdm_cert_chain =
  chain_size :: u16
  chain_data :: bytes

record rats_cert_provider =
  cert_der :: bytes

definition cert_provider_new_der :: "bytes \<Rightarrow> rats_cert_provider" where
  "cert_provider_new_der der = \<lparr>cert_der = der\<rparr>"

text \<open>
  \<open>cap\<close> is the capacity of the array. The size is the length cast to \<open>u16\<close>; the slice of the array is out
  of range for a longer certificate.
\<close>

definition rats_get_full_cert_chain :: "nat \<Rightarrow> rats_cert_provider \<Rightarrow> spdm_cert_chain option res" where
  "rats_get_full_cert_chain cap self =
     (let data = replicate cap 0;
          data_size = word_of_nat (length (cert_der self))
      in if length (cert_der self) > length data then Panic
         else Ok (Some \<lparr>chain_size = data_size, chain_data = blit data 0 (cert_der self)\<rparr>))"

definition empty_get_full_cert_chain :: "spdm_cert_chain option res" where
  "empty_get_full_cert_chain = Ok None"

text \<open>\<open>Box<dyn CertProvider>\<close>.\<close>

datatype cert_provider = RatsCert rats_cert_provider | EmptyCert

fun get_full_cert_chain :: "nat \<Rightarrow> cert_provider \<Rightarrow> spdm_cert_chain option res" where
  "get_full_cert_chain cap (RatsCert p) = rats_get_full_cert_chain cap p"
| "get_full_cert_chain cap EmptyCert = empty_get_full_cert_chain"

text \<open>The chain as the peer gets it: the first \<open>chain_size\<close> bytes.\<close>

definition chain_bytes :: "spdm_cert_chain \<Rightarrow> bytes" where
  "chain_bytes c = take (unat (chain_size c)) (chain_data c)"

lemma rats_cert_chain_eq:
  "rats_get_full_cert_chain cap (cert_provider_new_der der) =
     (if length der > cap then Panic
      else Ok (Some \<lparr>chain_size = word_of_nat (length der), chain_data = der @ replicate (cap - length der) 0\<rparr>))"
  by (simp add: rats_get_full_cert_chain_def cert_provider_new_der_def blit_def Let_def)

subsection \<open>Certificate validation\<close>

definition empty_get_peer_root_cert :: "spdm_cert_chain option" where
  "empty_get_peer_root_cert = None"

text \<open>\<open>RatsCertValidationStrategy\<close>; the claims are only logged.\<close>

definition rats_verify_cert_chain :: "deps \<Rightarrow> bytes \<Rightarrow> (spdm_status + unit) res" where
  "rats_verify_cert_chain D cert_chain =
     (case verify_cert_der D cert_chain of
        Ok claims \<Rightarrow> Ok (Inr ())
      | Err e \<Rightarrow> Ok (Inl SPDM_STATUS_INVALID_CERT)
      | Panic \<Rightarrow> Panic
      | UB \<Rightarrow> UB)"

definition need_check_leaf_certificate :: bool where
  "need_check_leaf_certificate = False"

definition need_check_cert_chain_provisioned :: bool where
  "need_check_cert_chain_provisioned = False"

subsection \<open>Signing\<close>

text \<open>The signature algorithms the source names, and every other combination of bits.\<close>

datatype spdm_base_asym_algo =
    RSAPSS_2048 | RSAPSS_3072 | RSAPSS_4096
  | RSASSA_2048 | RSASSA_3072 | RSASSA_4096
  | ECDSA_P256
  | ASYM_OTHER u32

record rats_secret_asym_signer =
  signer_key :: asymmetric_private_key
  signer_hash :: spdm_base_hash_algo

text \<open>\<open>SpdmSignatureStruct\<close>, an array of the configured capacity.\<close>

record spdm_signature =
  signature_size :: u16
  signature_data :: bytes

text \<open>
  Signing of the \<open>rsa\<close> and \<open>p256\<close> crates, with the randomness as an argument, and the capacity of the
  signature array.
\<close>

record sign_lib =
  pss_sign :: "rng \<Rightarrow> hash_algo \<Rightarrow> rsa_private_key \<Rightarrow> bytes \<Rightarrow> bytes"
  pkcs1v15_sign :: "rng \<Rightarrow> hash_algo \<Rightarrow> rsa_private_key \<Rightarrow> bytes \<Rightarrow> bytes"
  p256_sign :: "rng \<Rightarrow> p256_secret_key \<Rightarrow> bytes \<Rightarrow> bytes"
  signature_capacity :: nat

fun base_hash_of :: "hash_algo \<Rightarrow> spdm_base_hash_algo" where
  "base_hash_of Sha256 = BASE_SHA_256"
| "base_hash_of Sha384 = BASE_SHA_384"
| "base_hash_of Sha512 = BASE_SHA_512"

definition secret_asym_signer_new :: "asymmetric_private_key \<Rightarrow> hash_algo \<Rightarrow> rats_secret_asym_signer" where
  "secret_asym_signer_new key hash_algo = \<lparr>signer_key = key, signer_hash = base_hash_of hash_algo\<rparr>"

fun supported_asym_algo :: "asymmetric_private_key \<Rightarrow> spdm_base_asym_algo" where
  "supported_asym_algo (Rsa2048 _) = RSASSA_2048"
| "supported_asym_algo (Rsa3072 _) = RSASSA_3072"
| "supported_asym_algo (Rsa4096 _) = RSASSA_4096"
| "supported_asym_algo (P256 _) = ECDSA_P256"

definition supported_algo :: "rats_secret_asym_signer \<Rightarrow> spdm_base_hash_algo \<times> spdm_base_asym_algo" where
  "supported_algo self = (signer_hash self, supported_asym_algo (signer_key self))"

text \<open>The match on the hash algorithm inside an RSA arm: another algorithm is \<open>unreachable!()\<close>.\<close>

fun rsa_sign_with :: "(hash_algo \<Rightarrow> bytes) \<Rightarrow> spdm_base_hash_algo \<Rightarrow> bytes res" where
  "rsa_sign_with f BASE_SHA_256 = Ok (f Sha256)"
| "rsa_sign_with f BASE_SHA_384 = Ok (f Sha384)"
| "rsa_sign_with f BASE_SHA_512 = Ok (f Sha512)"
| "rsa_sign_with f (BASE_OTHER _) = Panic"

definition finish_signature :: "sign_lib \<Rightarrow> bytes \<Rightarrow> spdm_signature option res" where
  "finish_signature G digest =
     (if length digest > signature_capacity G then Panic
      else Ok (Some \<lparr>signature_size = word_of_nat (length digest),
                     signature_data = blit (replicate (signature_capacity G) 0) 0 digest\<rparr>))"

definition signer_sign :: "sign_lib \<Rightarrow> rng \<Rightarrow> rats_secret_asym_signer \<Rightarrow> spdm_base_hash_algo \<Rightarrow> spdm_base_asym_algo \<Rightarrow>
    bytes \<Rightarrow> spdm_signature option res" where
  "signer_sign G g self base_hash_algo base_asym_algo data =
     (case (signer_key self, base_asym_algo) of
        (Rsa2048 key, RSAPSS_2048) \<Rightarrow> andthen (rsa_sign_with (\<lambda>h. pss_sign G g h key data) base_hash_algo) (finish_signature G)
      | (Rsa3072 key, RSAPSS_3072) \<Rightarrow> andthen (rsa_sign_with (\<lambda>h. pss_sign G g h key data) base_hash_algo) (finish_signature G)
      | (Rsa4096 key, RSAPSS_4096) \<Rightarrow> andthen (rsa_sign_with (\<lambda>h. pss_sign G g h key data) base_hash_algo) (finish_signature G)
      | (Rsa2048 key, RSASSA_2048) \<Rightarrow> andthen (rsa_sign_with (\<lambda>h. pkcs1v15_sign G g h key data) base_hash_algo) (finish_signature G)
      | (Rsa3072 key, RSASSA_3072) \<Rightarrow> andthen (rsa_sign_with (\<lambda>h. pkcs1v15_sign G g h key data) base_hash_algo) (finish_signature G)
      | (Rsa4096 key, RSASSA_4096) \<Rightarrow> andthen (rsa_sign_with (\<lambda>h. pkcs1v15_sign G g h key data) base_hash_algo) (finish_signature G)
      | (P256 key, ECDSA_P256) \<Rightarrow>
          (if base_hash_algo \<noteq> BASE_SHA_256 then Ok None else finish_signature G (p256_sign G g key data))
      | _ \<Rightarrow> Panic)"

subsection \<open>Properties\<close>

text \<open>
  The certificate an endpoint builds passes the other side's validation: whenever the chain of a
  provider made from a certificate exists (it panics exactly for a certificate longer than the array)
  and the certificate is shorter than 65536 bytes, the peer sees exactly the certificate, and for one built
  by \<open>CertBuilder\<close> with an honest attester the validation callback says \<open>Ok\<close>. In general that callback
  accepts exactly what \<open>verify_cert_der\<close> accepts, and a certificate of 65536 bytes or more is cut by the
  \<open>u16\<close> size.
\<close>

theorem own_chain_validates:
  assumes "libs_ok D" and "attester_ok D (cb_attester b)" and "\<forall>cl. cb_claims b = Some cl \<longrightarrow> claims_wf cl"
    and "build_with_private_key D b key = Ok bd" and "cert_to_der D bd = Ok der"
  shows "(get_full_cert_chain cap (RatsCert (cert_provider_new_der bs)) = Panic \<longleftrightarrow> cap < length bs) \<and>
    (get_full_cert_chain cap (RatsCert (cert_provider_new_der bs)) = Ok (Some c) \<longrightarrow>
       chain_bytes c = take (length bs mod 65536) bs \<and>
       (rats_verify_cert_chain D (chain_bytes c) = Ok (Inr ()) \<longleftrightarrow>
          (\<exists>claims. verify_cert_der D (take (length bs mod 65536) bs) = Ok claims))) \<and>
    (length der \<le> cap \<and> length der < 65536 \<longrightarrow>
       (\<exists>c. get_full_cert_chain cap (RatsCert (cert_provider_new_der der)) = Ok (Some c) \<and>
          rats_verify_cert_chain D (chain_bytes c) = Ok (Inr ())))"
proof -
  have bytes: "chain_bytes c = take (length bs mod 65536) bs"
    if "get_full_cert_chain cap (RatsCert (cert_provider_new_der bs)) = Ok (Some c)" for bs c
  proof -
    have "length bs mod 65536 \<le> length bs" by simp
    with that show ?thesis by (auto simp: rats_cert_chain_eq chain_bytes_def unat_of_nat split: if_splits)
  qed
  have valid: "rats_verify_cert_chain D x = Ok (Inr ()) \<longleftrightarrow> (\<exists>claims. verify_cert_der D x = Ok claims)" for x
    by (cases "verify_cert_der D x") (simp_all add: rats_verify_cert_chain_def)
  have "\<exists>c. get_full_cert_chain cap (RatsCert (cert_provider_new_der der)) = Ok (Some c)" if "length der \<le> cap"
    using that by (simp add: rats_cert_chain_eq)
  with built_cert_verify_Ok [OF assms] bytes [of der] valid show ?thesis
    using bytes [of bs c] by (auto simp: rats_cert_chain_eq split: if_splits)
qed

theorem own_chain_validates_witness:
  "\<exists>der c. get_full_cert_chain (length der) (RatsCert (cert_provider_new_der der)) = Ok (Some c) \<and>
     rats_verify_cert_chain ref_deps (chain_bytes c) = Ok (Inr ())"
proof -
  obtain bd der where b: "build_with_private_key ref_deps sample_builder (P256 [9]) = Ok bd" "cert_to_der ref_deps bd = Ok der"
    and len: "length der < 65536"
    using sample_build by blast
  note hyps = ref_libs_ok sample_builder_attester [of "cb_subject sample_builder", unfolded sample_builder_subject]
    sample_builder_claims_wf [of "cb_subject sample_builder", unfolded sample_builder_subject]
  from own_chain_validates [OF hyps b, of "length der"] len show ?thesis by blast
qed

text \<open>
  C40. Signing with what the endpoint advertises: for the algorithms of \<open>supported_algo\<close> (and signatures
  that fit the array) \<open>sign\<close> never panics and returns exactly the PKCS#1 v1.5 signature of the data for an
  RSA key and the ECDSA signature for a P-256 key with SHA-256; a P-256 key with another hash is
  advertised, yet \<open>sign\<close> refuses it. It panics exactly for a key and algorithm that do not belong together,
  for an RSA key with an unknown hash, and for an over-long signature.
\<close>

theorem signer_sign_exact:
  assumes "s = secret_asym_signer_new key h"
    and "\<forall>g h k data. length (pkcs1v15_sign G g h k data) \<le> signature_capacity G \<and>
      length (pss_sign G g h k data) \<le> signature_capacity G"
    and "\<forall>g k data. length (p256_sign G g k data) \<le> signature_capacity G" and "signature_capacity G < 65536"
  shows "(case signer_sign G g s (fst (supported_algo s)) (snd (supported_algo s)) data of
        Ok (Some sig) \<Rightarrow> take (unat (signature_size sig)) (signature_data sig) =
          (case key of P256 k \<Rightarrow> p256_sign G g k data | Rsa2048 k \<Rightarrow> pkcs1v15_sign G g h k data
           | Rsa3072 k \<Rightarrow> pkcs1v15_sign G g h k data | Rsa4096 k \<Rightarrow> pkcs1v15_sign G g h k data) \<and>
          (\<forall>k. key = P256 k \<longrightarrow> h = Sha256)
      | Ok None \<Rightarrow> (\<exists>k. key = P256 k) \<and> h \<noteq> Sha256
      | _ \<Rightarrow> False) \<and>
    (signer_sign G g s ha aa data = Panic \<longleftrightarrow>
       (case key of
          P256 k \<Rightarrow> aa \<noteq> ECDSA_P256
        | Rsa2048 k \<Rightarrow> aa \<notin> {RSASSA_2048, RSAPSS_2048} \<or> (\<exists>w. ha = BASE_OTHER w)
        | Rsa3072 k \<Rightarrow> aa \<notin> {RSASSA_3072, RSAPSS_3072} \<or> (\<exists>w. ha = BASE_OTHER w)
        | Rsa4096 k \<Rightarrow> aa \<notin> {RSASSA_4096, RSAPSS_4096} \<or> (\<exists>w. ha = BASE_OTHER w)))"
proof -
  have fin: "finish_signature G d = Ok (Some \<lparr>signature_size = word_of_nat (length d),
      signature_data = d @ replicate (signature_capacity G - length d) 0\<rparr>)"
    if "length d \<le> signature_capacity G" for d
    using that by (simp add: finish_signature_def blit_def)
  have take: "unat (word_of_nat (length d) :: u16) = length d" if "length d \<le> signature_capacity G" for d :: bytes
    using that assms(4) by (simp add: unat_of_nat)
  have h: "rsa_sign_with f (base_hash_of h) = Ok (f h)" "(base_hash_of h = BASE_SHA_256) = (h = Sha256)" for f
    by (cases h; simp)+
  have rsa: "andthen (rsa_sign_with f ha) (finish_signature G) = Panic \<longleftrightarrow> (\<exists>w. ha = BASE_OTHER w)"
    if "\<And>h. length (f h) \<le> signature_capacity G" for f
    using that by (cases ha) (simp_all add: fin)
  show ?thesis
  proof (intro conjI)
    show "case signer_sign G g s (fst (supported_algo s)) (snd (supported_algo s)) data of
        Ok (Some sig) \<Rightarrow> take (unat (signature_size sig)) (signature_data sig) =
          (case key of P256 k \<Rightarrow> p256_sign G g k data | Rsa2048 k \<Rightarrow> pkcs1v15_sign G g h k data
           | Rsa3072 k \<Rightarrow> pkcs1v15_sign G g h k data | Rsa4096 k \<Rightarrow> pkcs1v15_sign G g h k data) \<and>
          (\<forall>k. key = P256 k \<longrightarrow> h = Sha256)
      | Ok None \<Rightarrow> (\<exists>k. key = P256 k) \<and> h \<noteq> Sha256
      | _ \<Rightarrow> False"
      using assms(2,3)
      by (cases key) (simp_all add: assms(1) secret_asym_signer_new_def supported_algo_def signer_sign_def h fin take)
  next
    show "signer_sign G g s ha aa data = Panic \<longleftrightarrow>
       (case key of
          P256 k \<Rightarrow> aa \<noteq> ECDSA_P256
        | Rsa2048 k \<Rightarrow> aa \<notin> {RSASSA_2048, RSAPSS_2048} \<or> (\<exists>w. ha = BASE_OTHER w)
        | Rsa3072 k \<Rightarrow> aa \<notin> {RSASSA_3072, RSAPSS_3072} \<or> (\<exists>w. ha = BASE_OTHER w)
        | Rsa4096 k \<Rightarrow> aa \<notin> {RSASSA_4096, RSAPSS_4096} \<or> (\<exists>w. ha = BASE_OTHER w))"
      using assms(2,3)
      by (cases key; cases aa) (simp_all add: assms(1) secret_asym_signer_new_def signer_sign_def rsa fin)
  qed
qed

text \<open>Signatures of a few bytes, for the witness.\<close>

definition sample_sign :: sign_lib where
  "sample_sign = \<lparr>pss_sign = (\<lambda>g h k d. [1, 2]), pkcs1v15_sign = (\<lambda>g h k d. [3]), p256_sign = (\<lambda>g k d. [4, 5]),
     signature_capacity = 8\<rparr>"

theorem signer_sign_exact_witness:
  "signer_sign sample_sign 0 (secret_asym_signer_new (P256 [9]) Sha256) BASE_SHA_256 RSASSA_2048 [7] = Panic \<and>
   (\<forall>sig. signer_sign sample_sign 0 (secret_asym_signer_new (P256 [9]) Sha384) BASE_SHA_384 ECDSA_P256 [7] \<noteq> Ok (Some sig))"
proof -
  have G: "\<forall>g h k data. length (pkcs1v15_sign sample_sign g h k data) \<le> signature_capacity sample_sign \<and>
      length (pss_sign sample_sign g h k data) \<le> signature_capacity sample_sign"
    "\<forall>g k data. length (p256_sign sample_sign g k data) \<le> signature_capacity sample_sign" "signature_capacity sample_sign < 65536"
    by (simp_all add: sample_sign_def)
  have sup: "supported_algo (secret_asym_signer_new (P256 [9]) Sha384) = (BASE_SHA_384, ECDSA_P256)"
    by (simp add: supported_algo_def secret_asym_signer_new_def)
  show ?thesis
    using signer_sign_exact [OF refl G, where g = 0 and key = "P256 [9]" and h = Sha256 and data = "[7]" and ha = BASE_SHA_256 and aa = RSASSA_2048]
      signer_sign_exact [OF refl G, where g = 0 and key = "P256 [9]" and h = Sha384 and data = "[7]" and ha = BASE_SHA_384 and aa = ECDSA_P256]
    unfolding sup by (auto split: res.splits option.splits)
qed

end
