(* ===== verification/SampleCert.thy ===== *)
theory SampleCert
  imports CertTheorems
begin

text \<open>
  The certificate the transports build, on the reference libraries: no claims of the caller, the default
  subject, SHA-256, and a generated RSA or P-256 key. The witnesses of the transports use it.
\<close>

definition sample_attester :: "auto_evidence attester" where
  "sample_attester = auto_attester all_features sample_platform"

lemma sample_attester_honest: "attester_ok ref_deps sample_attester"
  by (simp add: sample_attester_def sample_attester_ok)

lemma sample_key_build:
  assumes spki: "spki_doc sample_crypto key = Ok spki" and len: "length spki \<le> 100"
  obtains bd der where "build_with_private_key ref_deps (cert_builder_new sample_attester Sha256) key = Ok bd"
    "cert_to_der ref_deps bd = Ok der" "length der < 65536" "bundle_private_key bd = key"
    "\<exists>rd. bundle_evidence bd = TdxEv \<lparr>tdx_data = sample_tdx_quote (rd @ replicate 32 0)\<rparr> \<and> length rd = 32"
proof -
  let ?d = "sample_digest 32 spki"
  have hash256: "hash sample_crypto Sha256 x = sample_digest 32 x" for x by (simp add: sample_crypto_def)
  have hpk: "hash_of_private_key sample_crypto Sha256 key = Ok ?d" by (simp add: hash_of_private_key_def spki hash256 del: hash.simps)
  let ?hb = "encode (CArray [CInteger 1, CBytes ?d])"
  have hb: "generate_pubkey_hash_value_buffer ref_cbor Sha256 ?d = Ok ?hb" "length ?hb \<le> 75"
    using sample_hash_for [of 32 Sha256 spki] by (simp_all del: encode.simps)
  let ?cb = "encode (claims_value [(''pubkey-hash'', ?hb)])"
  note cb = sample_claims_for(1,2) [OF hb(2)]
  note ev = sample_evidence_for [OF cb(2)]
  let ?q = "sample_tdx_quote (sample_digest 32 ?cb @ replicate 32 0)"
  let ?eb = "encode (evidence_value 60000 ?q ?cb)" and ?ev = "TdxEv \<lparr>tdx_data = ?q\<rparr>"
  let ?subject = "''CN=rats-rs,O=Inclavare Containers''"
  let ?cert = "sample_cert ?subject Sha256 key spki ?eb"
  have "length ?subject \<le> 1000" by simp
  note cert = sample_cert_for [OF spki len ev(3) this, where h = Sha256]
  have inner: "build_with_private_key_inner ref_deps (cert_builder_new sample_attester Sha256) key = Ok (?cert, ?ev)"
    using hb(1) cb(1) ev(1,2) cert(1) hpk
    by (simp add: build_with_private_key_inner_def sample_attester_def cert_builder_new_def
        ref_deps_def claims_insert_def CLAIM_NAME_PUBLIC_KEY_HASH_def hash256
        auto_attester_def tdx_get_dice_cbor_tag_def tdx_get_dice_raw_evidence_def OCBR_TAG_EVIDENCE_INTEL_TEE_QUOTE_def
        del: encode.simps hash.simps)
  let ?bd = "\<lparr>bundle_private_key = key, bundle_cert = ?cert, bundle_evidence = ?ev\<rparr>"
  have "build_with_private_key ref_deps (cert_builder_new sample_attester Sha256) key = Ok ?bd"
    "cert_to_der ref_deps ?bd = Ok (encode (cert_value ?cert))"
    using inner cert(2) by (simp_all add: build_with_private_key_def cert_to_der_def ref_deps_def gen_cert_step_def del: encode.simps)
  then show thesis by (rule that [OF _ _ cert(3)]) auto
qed

text \<open>The RSA key of the TLS transports and the P-256 key of the SPDM transport.\<close>

lemma sample_keys:
  "gen_private_key sample_crypto 0 AlgoRsa2048 = Ok (Rsa2048 [8, 0])" "gen_private_key sample_crypto 0 AlgoP256 = Ok (P256 [0])"
  "to_pkcs8_der sample_crypto (Rsa2048 [8, 0]) = Ok [0x30, 8, 0]"
  "spki_doc sample_crypto (Rsa2048 [8, 0]) = Ok [0x31, 8, 0]" "spki_doc sample_crypto (P256 [0]) = Ok [0x33, 0]"
  by (simp_all add: sample_crypto_def)

lemma sample_cert_accepted:
  assumes "build_with_private_key ref_deps (cert_builder_new sample_attester Sha256) key = Ok bd" "cert_to_der ref_deps bd = Ok der"
  shows "\<exists>claims. verify_cert_der ref_deps der = Ok claims"
  by (rule built_cert_verify_Ok [OF ref_libs_ok _ _ assms]) (simp_all add: cert_builder_new_def sample_attester_honest)

end
