(* ===== verification/SpdmEndpoint.thy ===== *)
theory SpdmEndpoint
  imports Secret SampleCert
begin

text \<open>
  \<^verbatim>\<open>rats-rs/src/transport/spdm/requester.rs\<close> and \<^verbatim>\<open>responder.rs\<close>, first part: how an endpoint is configured
  and built, and how a negotiated endpoint is split into its halves. The negotiations themselves are in
  \<open>SpdmNegotiate\<close>. What comes from \<open>spdmlib\<close> (its limits, its conversions, its default signer) is the
  parameter \<open>endpoint_lib\<close>.
\<close>

subsection \<open>Verify mode\<close>

text \<open>The bits of \<open>VerifyMode\<close> (\<^verbatim>\<open>spdm/mod.rs\<close>).\<close>

type_synonym verify_mode = u32

definition VERIFY_NONE :: verify_mode where
  "VERIFY_NONE = 0b00000000"

definition VERIFY_PEER :: verify_mode where
  "VERIFY_PEER = 0b00000001"

text \<open>\<open>contains\<close> of \<open>bitflags\<close>.\<close>

definition mode_contains :: "verify_mode \<Rightarrow> verify_mode \<Rightarrow> bool" where
  "mode_contains m bits \<longleftrightarrow> and m bits = bits"

subsection \<open>Credentials and validation\<close>

text \<open>\<open>Box<dyn SecretAsymSigner>\<close> and \<open>Box<dyn CertValidationStrategy>\<close>; the default ones are \<open>spdmlib\<close>'s.\<close>

datatype asym_signer = RatsSigner rats_secret_asym_signer | DefaultSigner

datatype cert_validation_strategy = RatsStrategy | DefaultStrategy

record endpoint_lib =
  CERT_CHAIN_CAPACITY :: nat
  MAX_SPDM_MSG_SIZE :: nat
  HEARTBEAT_PERIOD :: u8
  default_supported_algo :: "spdm_base_hash_algo \<times> spdm_base_asym_algo"
  asym_algo_bits :: "spdm_base_asym_algo \<Rightarrow> u32"
  req_asym_truncate :: "u16 \<Rightarrow> u16"
  secured_message_version :: "u8 \<Rightarrow> u8 option"
  try_clone :: "stream \<Rightarrow> stream option"

fun signer_supported_algo :: "endpoint_lib \<Rightarrow> asym_signer \<Rightarrow> spdm_base_hash_algo \<times> spdm_base_asym_algo" where
  "signer_supported_algo E (RatsSigner s) = supported_algo s"
| "signer_supported_algo E DefaultSigner = default_supported_algo E"

record credentials =
  cred_chain :: cert_provider
  cred_signer :: asym_signer
  cred_measurement :: measurement_provider

definition empty_credentials :: credentials where
  "empty_credentials = \<lparr>cred_chain = EmptyCert, cred_signer = DefaultSigner, cred_measurement = EmptyProvider\<rparr>"

text \<open>The attesting branch of \<open>build_with_tcp_stream\<close>, the same in both builders.\<close>

definition attested_credentials :: "deps \<Rightarrow> rng \<Rightarrow> 'e attester \<Rightarrow> ('e \<Rightarrow> claims res) \<Rightarrow> credentials res" where
  "attested_credentials D g attester get_claims =
     andthen (build_cert D g (cert_builder_new attester Sha256) AlgoP256) (\<lambda>cert_bundle.
     andthen (cert_to_der D cert_bundle) (\<lambda>der.
     andthen (rats_measurement_new_from_evidence (lib_cbor D) get_claims (bundle_evidence cert_bundle)) (\<lambda>m.
     Ok \<lparr>cred_chain = RatsCert (cert_provider_new_der der),
         cred_signer = RatsSigner (secret_asym_signer_new (bundle_private_key cert_bundle) Sha256),
         cred_measurement = RatsProvider m\<rparr>)))"

subsection \<open>Configuration\<close>

text \<open>The capability flags of the requester and the responder.\<close>

datatype capability = CERT_CAP | CHAL_CAP | ENCRYPT_CAP | MAC_CAP | KEY_EX_CAP | ENCAP_CAP | MUT_AUTH_CAP | MEAS_CAP_SIG | MEAS_FRESH_CAP

datatype spdm_version = SpdmVersion10 | SpdmVersion11 | SpdmVersion12

datatype dhe_algo = SECP_384_R1

datatype aead_algo = AES_256_GCM

datatype opaque_support = OPAQUE_DATA_FMT1

datatype key_schedule_algo = SPDM_KEY_SCHEDULE

text \<open>
  \<open>SpdmConfigInfo\<close>: \<open>None\<close> stands for a field left at \<open>Default::default()\<close>, and for the algorithm sets
  \<open>All\<close> is \<open>all()\<close>.
\<close>

datatype 'a algo_set = All | Only 'a

record spdm_config_info =
  cfg_version :: "spdm_version list"
  cfg_req_capabilities :: "capability set option"
  cfg_rsp_capabilities :: "capability set option"
  cfg_req_ct_exponent :: "u8 option"
  cfg_rsp_ct_exponent :: "u8 option"
  cfg_measurement_specification :: spdm_measurement_specification
  cfg_measurement_hash_algo :: "spdm_measurement_hash_algo option"
  cfg_base_asym_algo :: "spdm_base_asym_algo algo_set"
  cfg_base_hash_algo :: spdm_base_hash_algo
  cfg_dhe_algo :: dhe_algo
  cfg_aead_algo :: aead_algo
  cfg_req_asym_algo :: "u16 algo_set"
  cfg_key_schedule_algo :: key_schedule_algo
  cfg_opaque_support :: opaque_support
  cfg_data_transfer_size :: u32
  cfg_max_spdm_msg_size :: u32
  cfg_heartbeat_period :: "u8 option"
  cfg_secure_spdm_version :: "u8 list"

record spdm_provision_info =
  my_cert_chain :: "spdm_cert_chain option"
  peer_root_cert :: "spdm_cert_chain option"

text \<open>
  The \<open>SpdmContext\<close> of an endpoint: the state \<open>'c\<close> that \<open>spdmlib\<close> keeps and the device it reads and
  writes. \<open>context_new\<close> is \<open>RequesterContext::new\<close> or \<open>ResponderContext::new\<close>.
\<close>

record 'c spdm_context =
  ctx_common :: 'c
  ctx_device_io :: framed_stream

type_synonym 'c context_new = "measurement_provider \<Rightarrow> asym_signer \<Rightarrow> cert_validation_strategy \<Rightarrow>
  spdm_config_info \<Rightarrow> spdm_provision_info \<Rightarrow> 'c"

text \<open>The two \<open>SecuredMessageVersion::try_from(..).unwrap()\<close>.\<close>

definition secure_versions :: "endpoint_lib \<Rightarrow> u8 list res" where
  "secure_versions E = (case (secured_message_version E 0x10, secured_message_version E 0x11) of
       (Some a, Some b) \<Rightarrow> Ok [a, b]
     | _ \<Rightarrow> Panic)"

subsection \<open>Requester\<close>

record spdm_requester_builder =
  rqb_verify_mode :: verify_mode
  rqb_attest_self :: bool

definition requester_builder_new :: spdm_requester_builder where
  "requester_builder_new = \<lparr>rqb_verify_mode = VERIFY_PEER, rqb_attest_self = False\<rparr>"

definition requester_with_verify_mode :: "spdm_requester_builder \<Rightarrow> verify_mode \<Rightarrow> spdm_requester_builder" where
  "requester_with_verify_mode b m = b\<lparr>rqb_verify_mode := m\<rparr>"

definition requester_with_attest_self :: "spdm_requester_builder \<Rightarrow> bool \<Rightarrow> spdm_requester_builder" where
  "requester_with_attest_self b a = b\<lparr>rqb_attest_self := a\<rparr>"

record 'c spdm_requester =
  rq_stream :: stream
  rq_context :: "'c spdm_context"
  rq_session_id :: "u32 option"
  rq_summary_type :: spdm_measurement_summary_hash_type

definition requester_config :: "endpoint_lib \<Rightarrow> bool \<Rightarrow> asym_signer \<Rightarrow> u8 list \<Rightarrow> spdm_config_info" where
  "requester_config E mut_auth signer versions =
     (let caps = {CERT_CAP, CHAL_CAP, ENCRYPT_CAP, MAC_CAP, KEY_EX_CAP, ENCAP_CAP};
          caps = (if mut_auth then insert MUT_AUTH_CAP caps else caps)
      in \<lparr>cfg_version = [SpdmVersion10, SpdmVersion11, SpdmVersion12], cfg_req_capabilities = Some caps,
          cfg_rsp_capabilities = None, cfg_req_ct_exponent = Some 0, cfg_rsp_ct_exponent = None,
          cfg_measurement_specification = DMTF, cfg_measurement_hash_algo = None, cfg_base_asym_algo = All,
          cfg_base_hash_algo = fst (signer_supported_algo E signer), cfg_dhe_algo = SECP_384_R1, cfg_aead_algo = AES_256_GCM,
          cfg_req_asym_algo = Only (req_asym_truncate E (ucast (asym_algo_bits E (snd (signer_supported_algo E signer))))),
          cfg_key_schedule_algo = SPDM_KEY_SCHEDULE, cfg_opaque_support = OPAQUE_DATA_FMT1,
          cfg_data_transfer_size = word_of_nat (MAX_SPDM_MSG_SIZE E), cfg_max_spdm_msg_size = word_of_nat (MAX_SPDM_MSG_SIZE E),
          cfg_heartbeat_period = None, cfg_secure_spdm_version = versions\<rparr>)"

definition requester_new :: "endpoint_lib \<Rightarrow> io_config \<Rightarrow> bool \<Rightarrow> 'c context_new \<Rightarrow> stream \<Rightarrow> credentials \<Rightarrow>
    spdm_cert_chain option \<Rightarrow> cert_validation_strategy \<Rightarrow> spdm_measurement_summary_hash_type \<Rightarrow> 'c spdm_requester res" where
  "requester_new E cfg mut_auth context_new strm cred peer_root strategy summary =
     andthen (secure_versions E) (\<lambda>versions.
     andthen (get_full_cert_chain (CERT_CHAIN_CAPACITY E) (cred_chain cred)) (\<lambda>chain.
     case try_clone E strm of
       None \<Rightarrow> Panic
     | Some strm2 \<Rightarrow>
         Ok \<lparr>rq_stream = strm,
             rq_context = \<lparr>ctx_common = context_new (cred_measurement cred) (cred_signer cred) strategy
                   (requester_config E mut_auth (cred_signer cred) versions)
                   \<lparr>my_cert_chain = chain, peer_root_cert = peer_root\<rparr>,
                 ctx_device_io = framed_stream_new cfg strm2\<rparr>,
             rq_session_id = None, rq_summary_type = summary\<rparr>))"

definition requester_build_with_tcp_stream :: "deps \<Rightarrow> endpoint_lib \<Rightarrow> io_config \<Rightarrow> bool \<Rightarrow> 'c context_new \<Rightarrow> rng \<Rightarrow>
    'e attester \<Rightarrow> ('e \<Rightarrow> claims res) \<Rightarrow> spdm_requester_builder \<Rightarrow> stream \<Rightarrow> 'c spdm_requester res" where
  "requester_build_with_tcp_stream D E cfg mut_auth context_new g attester get_claims b strm =
     andthen (if mut_auth \<and> rqb_attest_self b then attested_credentials D g attester get_claims else Ok empty_credentials) (\<lambda>cred.
     let (validation_context, strategy) =
           (if mode_contains (rqb_verify_mode b) VERIFY_PEER then (empty_get_peer_root_cert, RatsStrategy)
            else (empty_get_peer_root_cert, DefaultStrategy))
     in requester_new E cfg mut_auth context_new strm cred validation_context strategy SummaryHashTypeAll)"

subsection \<open>Responder\<close>

record spdm_responder_builder =
  rsb_verify_mode :: verify_mode
  rsb_attest_self :: bool

definition responder_builder_new :: spdm_responder_builder where
  "responder_builder_new = \<lparr>rsb_verify_mode = VERIFY_NONE, rsb_attest_self = True\<rparr>"

definition responder_with_verify_mode :: "spdm_responder_builder \<Rightarrow> verify_mode \<Rightarrow> spdm_responder_builder" where
  "responder_with_verify_mode b m = b\<lparr>rsb_verify_mode := m\<rparr>"

definition responder_with_attest_self :: "spdm_responder_builder \<Rightarrow> bool \<Rightarrow> spdm_responder_builder" where
  "responder_with_attest_self b a = b\<lparr>rsb_attest_self := a\<rparr>"

record 'c spdm_responder =
  rs_stream :: stream
  rs_context :: "'c spdm_context"
  rs_session_id :: "u32 option"

definition responder_config :: "endpoint_lib \<Rightarrow> bool \<Rightarrow> asym_signer \<Rightarrow> u8 list \<Rightarrow> spdm_config_info" where
  "responder_config E mut_auth signer versions =
     (let caps = {CERT_CAP, CHAL_CAP, MEAS_CAP_SIG, MEAS_FRESH_CAP, ENCRYPT_CAP, MAC_CAP, KEY_EX_CAP, ENCAP_CAP};
          caps = (if mut_auth then insert MUT_AUTH_CAP caps else caps)
      in \<lparr>cfg_version = [SpdmVersion10, SpdmVersion11, SpdmVersion12], cfg_req_capabilities = None,
          cfg_rsp_capabilities = Some caps, cfg_req_ct_exponent = None, cfg_rsp_ct_exponent = Some 0,
          cfg_measurement_specification = DMTF, cfg_measurement_hash_algo = Some MEAS_SHA_384,
          cfg_base_asym_algo = Only (snd (signer_supported_algo E signer)),
          cfg_base_hash_algo = fst (signer_supported_algo E signer), cfg_dhe_algo = SECP_384_R1, cfg_aead_algo = AES_256_GCM,
          cfg_req_asym_algo = All, cfg_key_schedule_algo = SPDM_KEY_SCHEDULE, cfg_opaque_support = OPAQUE_DATA_FMT1,
          cfg_data_transfer_size = word_of_nat (MAX_SPDM_MSG_SIZE E), cfg_max_spdm_msg_size = word_of_nat (MAX_SPDM_MSG_SIZE E),
          cfg_heartbeat_period = Some (HEARTBEAT_PERIOD E), cfg_secure_spdm_version = versions\<rparr>)"

definition responder_new :: "endpoint_lib \<Rightarrow> io_config \<Rightarrow> bool \<Rightarrow> 'c context_new \<Rightarrow> stream \<Rightarrow> credentials \<Rightarrow>
    spdm_cert_chain option \<Rightarrow> cert_validation_strategy \<Rightarrow> 'c spdm_responder res" where
  "responder_new E cfg mut_auth context_new strm cred peer_root strategy =
     andthen (secure_versions E) (\<lambda>versions.
     andthen (get_full_cert_chain (CERT_CHAIN_CAPACITY E) (cred_chain cred)) (\<lambda>chain.
     case try_clone E strm of
       None \<Rightarrow> Panic
     | Some strm2 \<Rightarrow>
         Ok \<lparr>rs_stream = strm,
             rs_context = \<lparr>ctx_common = context_new (cred_measurement cred) (cred_signer cred) strategy
                   (responder_config E mut_auth (cred_signer cred) versions)
                   \<lparr>my_cert_chain = chain, peer_root_cert = peer_root\<rparr>,
                 ctx_device_io = framed_stream_new cfg strm2\<rparr>,
             rs_session_id = None\<rparr>))"

definition responder_build_with_tcp_stream :: "deps \<Rightarrow> endpoint_lib \<Rightarrow> io_config \<Rightarrow> bool \<Rightarrow> 'c context_new \<Rightarrow> rng \<Rightarrow>
    'e attester \<Rightarrow> ('e \<Rightarrow> claims res) \<Rightarrow> spdm_responder_builder \<Rightarrow> stream \<Rightarrow> 'c spdm_responder res" where
  "responder_build_with_tcp_stream D E cfg mut_auth context_new g attester get_claims b strm =
     andthen (if rsb_attest_self b then attested_credentials D g attester get_claims else Ok empty_credentials) (\<lambda>cred.
     let (validation_context, strategy) =
           (if mode_contains (rsb_verify_mode b) VERIFY_PEER then (empty_get_peer_root_cert, RatsStrategy)
            else (empty_get_peer_root_cert, DefaultStrategy))
     in responder_new E cfg mut_auth context_new strm cred validation_context strategy)"

subsection \<open>Splitting a negotiated endpoint\<close>

text \<open>The two halves, the context they share, the read half's device and the write half's own.\<close>

record 'c session_halves =
  sh_half :: half
  sh_common :: 'c
  sh_read_io :: framed_stream
  sh_write_io :: framed_stream

definition split_endpoint :: "io_config \<Rightarrow> bool \<Rightarrow> u32 option \<Rightarrow> 'c spdm_context \<Rightarrow> stream \<Rightarrow> 'c session_halves res" where
  "split_endpoint cfg requester sid ctx strm =
     andthen (case sid of
         Some v \<Rightarrow> Ok v
       | None \<Rightarrow> Err (kind_with_msg SpdmSessionNotReady ''session not ready, unknown session_id'')) (\<lambda>session_id.
     Ok \<lparr>sh_half = \<lparr>is_requester = requester, session_id = session_id\<rparr>, sh_common = ctx_common ctx,
         sh_read_io = ctx_device_io ctx, sh_write_io = framed_stream_new cfg strm\<rparr>)"

definition requester_into_split :: "io_config \<Rightarrow> 'c spdm_requester \<Rightarrow> 'c session_halves res" where
  "requester_into_split cfg r = split_endpoint cfg True (rq_session_id r) (rq_context r) (rq_stream r)"

definition responder_into_split :: "io_config \<Rightarrow> 'c spdm_responder \<Rightarrow> 'c session_halves res" where
  "responder_into_split cfg r = split_endpoint cfg False (rs_session_id r) (rs_context r) (rs_stream r)"

subsection \<open>What a built endpoint presents\<close>

text \<open>
  The credentials of an endpoint that attests itself: a chain the peer's \<open>RatsStrategy\<close> accepts, which is
  the certificate of a generated P-256 key, a signer with this key, and the claims of the evidence in the
  certificate as measurements.
\<close>

definition attested_setup :: "deps \<Rightarrow> rng \<Rightarrow> 'e attester \<Rightarrow> ('e \<Rightarrow> claims res) \<Rightarrow> spdm_cert_chain option \<Rightarrow> asym_signer \<Rightarrow>
    measurement_provider \<Rightarrow> bool" where
  "attested_setup D g A get_claims chain signer m \<longleftrightarrow> (\<exists>bd c k cl p.
     build_cert D g (cert_builder_new A Sha256) AlgoP256 = Ok bd \<and> bundle_private_key bd = P256 k \<and>
     chain = Some c \<and> cert_to_der D bd = Ok (chain_bytes c) \<and> rats_verify_cert_chain D (chain_bytes c) = Ok (Inr ()) \<and>
     signer = RatsSigner (secret_asym_signer_new (P256 k) Sha256) \<and>
     m = RatsProvider p \<and> get_claims (bundle_evidence bd) = Ok cl \<and> generate_claims_buffer (lib_cbor D) cl = Ok (claims_buffer p))"

lemma chain_bytes_short:
  "cap < 65536 \<Longrightarrow> get_full_cert_chain cap (RatsCert (cert_provider_new_der der)) = Ok chain \<Longrightarrow>
   \<exists>c. chain = Some c \<and> chain_bytes c = der"
  by (auto simp: rats_cert_chain_eq chain_bytes_def unat_of_nat split: if_splits)

lemma attested_credentials_setup:
  assumes "libs_ok D" "attester_ok D A" "cap < 65536"
    and "attested_credentials D g A get_claims = Ok cred" "get_full_cert_chain cap (cred_chain cred) = Ok chain"
  shows "attested_setup D g A get_claims chain (cred_signer cred) (cred_measurement cred)"
proof -
  from assms(4) obtain bd der p cl where b: "build_cert D g (cert_builder_new A Sha256) AlgoP256 = Ok bd" "cert_to_der D bd = Ok der"
    "get_claims (bundle_evidence bd) = Ok cl" "generate_claims_buffer (lib_cbor D) cl = Ok (claims_buffer p)"
    and cred: "cred = \<lparr>cred_chain = RatsCert (cert_provider_new_der der),
      cred_signer = RatsSigner (secret_asym_signer_new (bundle_private_key bd) Sha256), cred_measurement = RatsProvider p\<rparr>"
    by (auto simp: attested_credentials_def rats_measurement_new_from_evidence_def)
  from b(1) have k: "bundle_private_key bd = P256 (p256_random (lib_crypto D) g)"
    and build: "build_with_private_key D (cert_builder_new A Sha256) (bundle_private_key bd) = Ok bd"
    unfolding build_cert_Ok by simp_all
  from chain_bytes_short [OF assms(3)] assms(5) obtain c where c: "chain = Some c" "chain_bytes c = der" by (auto simp: cred)
  from built_cert_verify_Ok [OF assms(1) _ _ build b(2)] assms(2) have "rats_verify_cert_chain D der = Ok (Inr ())"
    by (auto simp: cert_builder_new_def rats_verify_cert_chain_def)
  with b c k show ?thesis by (auto simp: attested_setup_def cred)
qed

lemma mode_contains_peer: "mode_contains m VERIFY_PEER \<longleftrightarrow> odd m"
  by (simp add: mode_contains_def VERIFY_PEER_def and_one_eq odd_iff_mod_2_eq_one)

text \<open>
  C17. What a built SPDM endpoint is, for both roles and every mode: it has no session and a fresh device;
  it validates its peer with \<open>verify_cert_der\<close> exactly when the \<open>VERIFY_PEER\<close> bit is set, and with no root
  certificate; a responder that attests itself, and a requester that does so in a build with \<open>mut-auth\<close>,
  presents a certificate its peer accepts, signs with the key in it and reports the claims of the evidence
  in it; every other endpoint presents nothing, whatever \<open>attest_self\<close> says.
\<close>

theorem spdm_endpoints_attest:
  assumes "libs_ok D" and "attester_ok D A" and "CERT_CHAIN_CAPACITY E < 65536"
    and "requester_build_with_tcp_stream D E cfg mut_auth rq_new g A get_claims qb strm = Ok q"
    and "responder_build_with_tcp_stream D E cfg mut_auth rs_new h A get_claims pb strm' = Ok p"
  shows "(\<exists>m s st info prov. ctx_common (rq_context q) = rq_new m s st info prov \<and> rq_session_id q = None \<and>
      (\<exists>clone. try_clone E strm = Some clone \<and> ctx_device_io (rq_context q) = framed_stream_new cfg clone) \<and>
      (st = RatsStrategy \<longleftrightarrow> odd (rqb_verify_mode qb)) \<and> peer_root_cert prov = None \<and>
      cfg_base_hash_algo info = fst (signer_supported_algo E s) \<and>
      (if mut_auth \<and> rqb_attest_self qb then attested_setup D g A get_claims (my_cert_chain prov) s m
       else my_cert_chain prov = None \<and> s = DefaultSigner \<and> m = EmptyProvider)) \<and>
    (\<exists>m s st info prov. ctx_common (rs_context p) = rs_new m s st info prov \<and> rs_session_id p = None \<and>
      (\<exists>clone. try_clone E strm' = Some clone \<and> ctx_device_io (rs_context p) = framed_stream_new cfg clone) \<and>
      (st = RatsStrategy \<longleftrightarrow> odd (rsb_verify_mode pb)) \<and> peer_root_cert prov = None \<and>
      cfg_base_asym_algo info = Only (snd (signer_supported_algo E s)) \<and>
      (if rsb_attest_self pb then attested_setup D h A get_claims (my_cert_chain prov) s m
       else my_cert_chain prov = None \<and> s = DefaultSigner \<and> m = EmptyProvider))"
proof
  obtain cred vs chain clone where rq: "(if mut_auth \<and> rqb_attest_self qb then attested_credentials D g A get_claims else Ok empty_credentials) = Ok cred"
    "get_full_cert_chain (CERT_CHAIN_CAPACITY E) (cred_chain cred) = Ok chain" "try_clone E strm = Some clone" "rq_session_id q = None"
    "rq_context q = \<lparr>ctx_common = rq_new (cred_measurement cred) (cred_signer cred) (if odd (rqb_verify_mode qb) then RatsStrategy else DefaultStrategy)
       (requester_config E mut_auth (cred_signer cred) vs) \<lparr>my_cert_chain = chain, peer_root_cert = None\<rparr>,
       ctx_device_io = framed_stream_new cfg clone\<rparr>"
    using assms(4)
    by (cases "odd (rqb_verify_mode qb)") (auto simp: requester_build_with_tcp_stream_def requester_new_def empty_get_peer_root_cert_def mode_contains_peer
        split: option.splits)
  have "if mut_auth \<and> rqb_attest_self qb then attested_setup D g A get_claims chain (cred_signer cred) (cred_measurement cred)
      else chain = None \<and> cred_signer cred = DefaultSigner \<and> cred_measurement cred = EmptyProvider"
    using rq(1,2) attested_credentials_setup [OF assms(1-3)]
    by (auto simp: empty_credentials_def empty_get_full_cert_chain_def split: if_splits)
  with rq(3-5) show "\<exists>m s st info prov. ctx_common (rq_context q) = rq_new m s st info prov \<and> rq_session_id q = None \<and>
      (\<exists>clone. try_clone E strm = Some clone \<and> ctx_device_io (rq_context q) = framed_stream_new cfg clone) \<and>
      (st = RatsStrategy \<longleftrightarrow> odd (rqb_verify_mode qb)) \<and> peer_root_cert prov = None \<and>
      cfg_base_hash_algo info = fst (signer_supported_algo E s) \<and>
      (if mut_auth \<and> rqb_attest_self qb then attested_setup D g A get_claims (my_cert_chain prov) s m
       else my_cert_chain prov = None \<and> s = DefaultSigner \<and> m = EmptyProvider)"
    by (intro exI [of _ "cred_measurement cred"] exI [of _ "cred_signer cred"]
        exI [of _ "if odd (rqb_verify_mode qb) then RatsStrategy else DefaultStrategy"]
        exI [of _ "requester_config E mut_auth (cred_signer cred) vs"] exI [of _ "\<lparr>my_cert_chain = chain, peer_root_cert = None\<rparr>"])
       (simp add: requester_config_def Let_def)
next
  obtain cred vs chain clone where rs: "(if rsb_attest_self pb then attested_credentials D h A get_claims else Ok empty_credentials) = Ok cred"
    "get_full_cert_chain (CERT_CHAIN_CAPACITY E) (cred_chain cred) = Ok chain" "try_clone E strm' = Some clone" "rs_session_id p = None"
    "rs_context p = \<lparr>ctx_common = rs_new (cred_measurement cred) (cred_signer cred) (if odd (rsb_verify_mode pb) then RatsStrategy else DefaultStrategy)
       (responder_config E mut_auth (cred_signer cred) vs) \<lparr>my_cert_chain = chain, peer_root_cert = None\<rparr>,
       ctx_device_io = framed_stream_new cfg clone\<rparr>"
    using assms(5)
    by (cases "odd (rsb_verify_mode pb)") (auto simp: responder_build_with_tcp_stream_def responder_new_def empty_get_peer_root_cert_def mode_contains_peer
        split: option.splits)
  have "if rsb_attest_self pb then attested_setup D h A get_claims chain (cred_signer cred) (cred_measurement cred)
      else chain = None \<and> cred_signer cred = DefaultSigner \<and> cred_measurement cred = EmptyProvider"
    using rs(1,2) attested_credentials_setup [OF assms(1-3)]
    by (auto simp: empty_credentials_def empty_get_full_cert_chain_def split: if_splits)
  with rs(3-5) show "\<exists>m s st info prov. ctx_common (rs_context p) = rs_new m s st info prov \<and> rs_session_id p = None \<and>
      (\<exists>clone. try_clone E strm' = Some clone \<and> ctx_device_io (rs_context p) = framed_stream_new cfg clone) \<and>
      (st = RatsStrategy \<longleftrightarrow> odd (rsb_verify_mode pb)) \<and> peer_root_cert prov = None \<and>
      cfg_base_asym_algo info = Only (snd (signer_supported_algo E s)) \<and>
      (if rsb_attest_self pb then attested_setup D h A get_claims (my_cert_chain prov) s m
       else my_cert_chain prov = None \<and> s = DefaultSigner \<and> m = EmptyProvider)"
    by (intro exI [of _ "cred_measurement cred"] exI [of _ "cred_signer cred"]
        exI [of _ "if odd (rsb_verify_mode pb) then RatsStrategy else DefaultStrategy"]
        exI [of _ "responder_config E mut_auth (cred_signer cred) vs"] exI [of _ "\<lparr>my_cert_chain = chain, peer_root_cert = None\<rparr>"])
       (simp add: responder_config_def Let_def)
qed

text \<open>Endpoints of the sample guest; the context keeps what it is built from.\<close>

definition sample_endpoint :: endpoint_lib where
  "sample_endpoint = \<lparr>CERT_CHAIN_CAPACITY = 65535, MAX_SPDM_MSG_SIZE = 16, HEARTBEAT_PERIOD = 0,
     default_supported_algo = (BASE_SHA_384, ASYM_OTHER 0), asym_algo_bits = (\<lambda>_. 0), req_asym_truncate = id,
     secured_message_version = Some, try_clone = Some\<rparr>"

theorem spdm_endpoints_attest_witness:
  "\<exists>q p k sgn c. requester_build_with_tcp_stream ref_deps sample_endpoint small_config False (\<lambda>m s st info prov. (s, st)) 0
       sample_attester (\<lambda>_. Ok []) (requester_with_attest_self requester_builder_new True) (stream_of []) = Ok q \<and>
     ctx_common (rq_context q) = (DefaultSigner, RatsStrategy) \<and>
     responder_build_with_tcp_stream ref_deps sample_endpoint small_config False (\<lambda>m s st info prov. (s, st, my_cert_chain prov)) 0
       sample_attester (\<lambda>_. Ok []) responder_builder_new (stream_of []) = Ok p \<and>
     ctx_common (rs_context p) = (RatsSigner sgn, DefaultStrategy, Some c) \<and> signer_key sgn = P256 k \<and>
     rats_verify_cert_chain ref_deps (chain_bytes c) = Ok (Inr ())"
proof -
  let ?gc = "\<lambda>_ :: auto_evidence. Ok [] :: claims res"
  let ?qn = "\<lambda>(m :: measurement_provider) s st (info :: spdm_config_info) (prov :: spdm_provision_info). (s :: asym_signer, st :: cert_validation_strategy)"
  let ?rn = "\<lambda>(m :: measurement_provider) s st (info :: spdm_config_info) prov. (s :: asym_signer, st :: cert_validation_strategy, my_cert_chain prov)"
  obtain bd der where b: "build_with_private_key ref_deps (cert_builder_new sample_attester Sha256) (P256 [0]) = Ok bd"
    "cert_to_der ref_deps bd = Ok der" "length der < 65536" "bundle_private_key bd = P256 [0]"
    by (rule sample_key_build [OF sample_keys(5)]) simp_all
  have gen: "gen_private_key (lib_crypto ref_deps) 0 AlgoP256 = Ok (P256 [0])" using sample_keys(2) by (simp add: ref_deps_def)
  have build: "build_cert ref_deps 0 (cert_builder_new sample_attester Sha256) AlgoP256 = Ok bd"
    unfolding build_cert_Ok using b(1,4) gen by simp
  have "\<exists>cb. generate_claims_buffer ref_cbor [] = Ok cb"
    by (simp add: generate_claims_buffer_def ref_cbor_def claims_value_def ref_write_fits del: encode.simps)
  then obtain cb where cb: "generate_claims_buffer (lib_cbor ref_deps) [] = Ok cb" by (auto simp: ref_deps_def)
  have cred: "attested_credentials ref_deps 0 sample_attester ?gc = Ok \<lparr>cred_chain = RatsCert (cert_provider_new_der der),
      cred_signer = RatsSigner (secret_asym_signer_new (P256 [0]) Sha256), cred_measurement = RatsProvider \<lparr>claims_buffer = cb\<rparr>\<rparr>"
    using build b cb by (simp add: attested_credentials_def rats_measurement_new_from_evidence_def)
  have E: "CERT_CHAIN_CAPACITY sample_endpoint < 65536" "try_clone sample_endpoint x = Some x"
      "secure_versions sample_endpoint = Ok [0x10, 0x11]" for x
    by (simp_all add: sample_endpoint_def secure_versions_def)
  have chain: "\<exists>c. get_full_cert_chain (CERT_CHAIN_CAPACITY sample_endpoint) (RatsCert (cert_provider_new_der der)) = Ok c"
    using b(3) by (simp add: sample_endpoint_def rats_cert_chain_eq)
  have peer: "odd VERIFY_PEER" "even VERIFY_NONE" by (simp_all add: VERIFY_PEER_def VERIFY_NONE_def)
  have other: "st = DefaultStrategy" if "st \<noteq> RatsStrategy" for st using that by (cases st) simp_all
  obtain q where q: "requester_build_with_tcp_stream ref_deps sample_endpoint small_config False ?qn 0 sample_attester ?gc
      (requester_with_attest_self requester_builder_new True) (stream_of []) = Ok q"
    by (simp add: requester_build_with_tcp_stream_def requester_new_def E empty_credentials_def empty_get_full_cert_chain_def
        mode_contains_peer requester_with_attest_self_def requester_builder_new_def peer)
  obtain p where p: "responder_build_with_tcp_stream ref_deps sample_endpoint small_config False ?rn 0 sample_attester ?gc
      responder_builder_new (stream_of []) = Ok p"
    using chain cred by (auto simp: responder_build_with_tcp_stream_def responder_new_def E mode_contains_peer responder_builder_new_def peer)
  from spdm_endpoints_attest [OF ref_libs_ok sample_attester_honest E(1) q p] show ?thesis
    using q p peer other by (auto simp: requester_with_attest_self_def requester_builder_new_def responder_builder_new_def attested_setup_def
        secret_asym_signer_new_def)
qed

end
