(* ===== verification/SpdmNegotiate.thy ===== *)
theory SpdmNegotiate
  imports SpdmEndpoint "HOL-Library.Monad_Syntax"
begin

text \<open>
  \<^verbatim>\<open>rats-rs/src/transport/spdm/requester.rs\<close> and \<^verbatim>\<open>responder.rs\<close>, second part: \<open>negotiate\<close> on both sides.
  The requester runs the fixed sequence of SPDM exchanges, the responder serves messages until a session
  is established. The exchanges are \<open>spdmlib\<close>'s: each takes the context and returns it changed.
\<close>

subsection \<open>The requester\<close>

datatype measurement_attribute = SIGNATURE_REQUESTED | RAW_BIT_STREAM_REQUESTED

text \<open>What \<open>send_receive_spdm_measurement\<close> leaves in the variables the caller lends it.\<close>

record measurement_answer =
  content_changed :: "u8 option"
  total_number :: u8
  answer_record :: spdm_measurement_record
  transcript_meas :: "bytes option"

text \<open>Each exchange sends a request and waits for the answer; \<open>None\<close> is a peer that never answers, on which it waits for ever.\<close>

record 'c requester_lib =
  init_connection :: "'c spdm_context \<Rightarrow> ('c spdm_context \<times> (spdm_status + unit)) option"
  send_receive_spdm_digest :: "'c spdm_context \<Rightarrow> ('c spdm_context \<times> (spdm_status + unit)) option"
  send_receive_spdm_certificate :: "'c spdm_context \<Rightarrow> u8 \<Rightarrow> ('c spdm_context \<times> (spdm_status + unit)) option"
  send_receive_spdm_challenge :: "'c spdm_context \<Rightarrow> u8 \<Rightarrow> spdm_measurement_summary_hash_type \<Rightarrow>
    ('c spdm_context \<times> (spdm_status + unit)) option"
  send_receive_spdm_measurement :: "'c spdm_context \<Rightarrow> u8 \<Rightarrow> measurement_attribute set \<Rightarrow> u8 \<Rightarrow>
    ('c spdm_context \<times> measurement_answer \<times> (spdm_status + unit)) option"
  start_session :: "'c spdm_context \<Rightarrow> bool \<Rightarrow> u8 \<Rightarrow> spdm_measurement_summary_hash_type \<Rightarrow>
    ('c spdm_context \<times> (spdm_status + u32)) option"
  read_block :: block_reader
  operation_request_all :: u8

text \<open>
  The blocks of the answer, read until reading fails. A reader that accepts a block without consuming
  anything makes the loop run for ever (\<open>None\<close>).
\<close>

partial_function (option) read_blocks :: "block_reader \<Rightarrow> bytes \<Rightarrow> spdm_measurement_block list option" where
  "read_blocks rd bs = (case rd bs of
       None \<Rightarrow> Some []
     | Some (block, used) \<Rightarrow> do {
         blocks \<leftarrow> read_blocks rd (drop used bs);
         Some (block # blocks)
       })"

text \<open>The debug output: only its slices matter, \<open>Panic\<close> when one is out of range.\<close>

definition print_measurements :: "block_reader \<Rightarrow> spdm_measurement_record \<Rightarrow> unit res option" where
  "print_measurements rd r =
     (if measurement_record_length r > length (measurement_record_data r) then Some Panic
      else do {
        blocks \<leftarrow> read_blocks rd (take (measurement_record_length r) (measurement_record_data r));
        Some (if list_ex (\<lambda>b. unat (value_size (measurement b)) > length (dmtf_value (measurement b))) blocks
              then Panic else Ok ())
      })"

text \<open>One exchange: its status becomes an error of kind \<open>SpdmNegotiate\<close> with the given context.\<close>

definition negotiate_step :: "string \<Rightarrow> (spdm_status + 'a) \<Rightarrow> 'a res" where
  "negotiate_step msg r = res_context msg (res_kind SpdmNegotiate (lift_status r))"

text \<open>The \<open>?\<close> operator in a method of the requester: a failure ends it with the requester as it is.\<close>

definition or_return :: "'c spdm_requester \<Rightarrow> 'a res \<Rightarrow> ('a \<Rightarrow> ('c spdm_requester \<times> unit res) option) \<Rightarrow>
    ('c spdm_requester \<times> unit res) option" where
  "or_return self r k = (case r of
       Ok x \<Rightarrow> k x
     | Err e \<Rightarrow> Some (self, Err e)
     | Panic \<Rightarrow> Some (self, Panic)
     | UB \<Rightarrow> Some (self, UB))"

text \<open>
  \<open>negotiate\<close>: the requester afterwards and the result; \<open>None\<close> if it never returns.
\<close>

definition requester_negotiate :: "'c requester_lib \<Rightarrow> 'c spdm_requester \<Rightarrow> ('c spdm_requester \<times> unit res) option" where
  "requester_negotiate L self = do {
     (ctx, r) \<leftarrow> init_connection L (rq_context self);
     or_return (self\<lparr>rq_context := ctx\<rparr>) (negotiate_step ''init_connection failed'' r) (\<lambda>_. do {
     (ctx, r) \<leftarrow> send_receive_spdm_digest L ctx;
     or_return (self\<lparr>rq_context := ctx\<rparr>) (negotiate_step ''send_receive_spdm_digest failed'' r) (\<lambda>_. do {
     (ctx, r) \<leftarrow> send_receive_spdm_certificate L ctx 0;
     or_return (self\<lparr>rq_context := ctx\<rparr>) (negotiate_step ''send_receive_spdm_certificate failed'' r) (\<lambda>_. do {
     (ctx, r) \<leftarrow> send_receive_spdm_challenge L ctx 0 (rq_summary_type self);
     or_return (self\<lparr>rq_context := ctx\<rparr>) (negotiate_step ''send_receive_spdm_challenge failed'' r) (\<lambda>_. do {
     (ctx, answer, r) \<leftarrow> send_receive_spdm_measurement L ctx 0 {SIGNATURE_REQUESTED, RAW_BIT_STREAM_REQUESTED} (operation_request_all L);
     or_return (self\<lparr>rq_context := ctx\<rparr>) (negotiate_step ''send_receive_spdm_measurement failed'' r) (\<lambda>_.
     or_return (self\<lparr>rq_context := ctx\<rparr>)
       (if transcript_meas answer = None
        then Err (kind_with_msg SpdmNegotiate ''get message_m from send_receive_spdm_measurement failed'') else Ok ()) (\<lambda>_. do {
     printed \<leftarrow> print_measurements (read_block L) (answer_record answer);
     or_return (self\<lparr>rq_context := ctx\<rparr>) printed (\<lambda>_. do {
     (ctx, r) \<leftarrow> start_session L ctx False 0 (rq_summary_type self);
     or_return (self\<lparr>rq_context := ctx\<rparr>) (negotiate_step ''failed to setup session'' r) (\<lambda>sid.
     Some (self\<lparr>rq_context := ctx, rq_session_id := Some sid\<rparr>, Ok ()))
     })}))})})})})}"

subsection \<open>The responder\<close>

datatype spdm_session_state = SpdmSessionNotStarted | SpdmSessionHandshaking | SpdmSessionEstablished | SpdmSessionUnknown u8

datatype process_message_result =
    Success nat
  | SuccessSecured nat nat bool
  | SpdmHandleError spdm_status
  | DecodeError nat

text \<open>
  \<open>process_message\<close> takes the two scratch buffers of \<open>negotiate\<close> and returns them as it leaves them;
  \<open>session_state_of\<close> is \<open>get_immutable_session_via_id\<close> with the state of the session it finds.
\<close>

record 'c responder_lib =
  process_message :: "'c spdm_context \<Rightarrow> bool \<Rightarrow> bytes \<Rightarrow> bytes \<Rightarrow> 'c spdm_context \<times> bytes \<times> bytes \<times> process_message_result"
  session_state_of :: "'c \<Rightarrow> u32 \<Rightarrow> spdm_session_state option"

definition ensure_session_established :: "'c responder_lib \<Rightarrow> 'c spdm_responder \<Rightarrow> u32 \<Rightarrow> unit res" where
  "ensure_session_established L self sid =
     (case session_state_of L (ctx_common (rs_context self)) sid of
        None \<Rightarrow> Err (kind_with_msg SpdmBrokenSession ''failed to get session of session_id: {}'')
      | Some st \<Rightarrow>
          (if st \<noteq> SpdmSessionEstablished
           then Err (kind_with_msg SpdmSessionNotReady ''the session is not ready, session_id: {}'')
           else Ok ()))"

text \<open>
  One turn of the loop: \<open>Inl\<close> is its \<open>continue\<close> with the context and the buffers, \<open>Inr\<close> the end with the
  session id that is stored and the result.
\<close>

type_synonym 'c loop_state = "'c spdm_context \<times> bytes \<times> bytes"

definition negotiate_turn :: "'c responder_lib \<Rightarrow> codec_lib \<Rightarrow> 'c loop_state \<Rightarrow>
    'c loop_state + 'c spdm_context \<times> u32 option \<times> unit res" where
  "negotiate_turn L K s = (case s of (ctx, raw_packet, spdm_buffer) \<Rightarrow>
     (case process_message L ctx False raw_packet spdm_buffer of
        (ctx, raw_packet, spdm_buffer, res) \<Rightarrow>
          (case (case res of Success used \<Rightarrow> Inr used | SuccessSecured used _ _ \<Rightarrow> Inr used
              | SpdmHandleError spdm_status \<Rightarrow>
                  Inl (res_context ''process_message failed while handling SPDM message''
                    (res_kind SpdmNegotiate (lift_status (Inl spdm_status))))
              | DecodeError _ \<Rightarrow> Inl (Err (kind_with_msg SpdmNegotiate ''failed while parsing transport data''))) of
             Inl result \<Rightarrow> Inr (ctx, None, result)
           | Inr used \<Rightarrow>
               (if used > length raw_packet then Inr (ctx, None, Panic)
                else case u32_read K (take used raw_packet) of
                  None \<Rightarrow> Inr (ctx, None, Err (kind_with_msg SpdmNegotiate ''failed to get session_id''))
                | Some sid \<Rightarrow>
                    (case session_state_of L (ctx_common ctx) sid of
                       Some st \<Rightarrow>
                         (if st = SpdmSessionEstablished then Inr (ctx, Some sid, Ok ())
                          else Inl (ctx, raw_packet, spdm_buffer))
                     | None \<Rightarrow> Inl (ctx, raw_packet, spdm_buffer))))))"

partial_function (option) negotiate_loop :: "'c responder_lib \<Rightarrow> codec_lib \<Rightarrow> 'c loop_state \<Rightarrow>
    ('c spdm_context \<times> u32 option \<times> unit res) option" where
  "negotiate_loop L K s = (case negotiate_turn L K s of
       Inl s' \<Rightarrow> negotiate_loop L K s'
     | Inr r \<Rightarrow> Some r)"

text \<open>\<open>negotiate\<close>: the responder afterwards and the result; \<open>None\<close> if the loop never ends.\<close>

definition responder_negotiate :: "'c responder_lib \<Rightarrow> codec_lib \<Rightarrow> io_config \<Rightarrow> endpoint_lib \<Rightarrow> 'c spdm_responder \<Rightarrow>
    ('c spdm_responder \<times> unit res) option" where
  "responder_negotiate L K cfg E self = do {
     (ctx, sid, result) \<leftarrow> negotiate_loop L K
       (rs_context self, replicate (RECEIVER_BUFFER_SIZE cfg) 0, replicate (MAX_SPDM_MSG_SIZE E) 0);
     Some (self\<lparr>rs_context := ctx, rs_session_id := (case sid of Some v \<Rightarrow> Some v | None \<Rightarrow> rs_session_id self)\<rparr>, result)
   }"

subsection \<open>The requester's handshake\<close>

lemma negotiate_step_Ok [simp]: "negotiate_step m r = Ok x \<longleftrightarrow> r = Inr x"
  by (cases r) (simp_all add: negotiate_step_def)

lemma negotiate_step_cases:
  obtains (ok) x where "r = Inr x" "negotiate_step m r = Ok x"
  | (failed) e where "negotiate_step m r = Err e" "err_kind e = SpdmNegotiate" "\<nexists>x. r = Inr x"
proof (cases r)
  case (Inl s)
  then obtain e where "negotiate_step m r = Err e" by (simp add: negotiate_step_def res_context_Err)
  moreover have "fails_with (negotiate_step m r) SpdmNegotiate" using Inl by (simp add: negotiate_step_def with_kind_def res_context_Err with_msg_def)
  ultimately show ?thesis using Inl failed by auto
qed (simp add: ok negotiate_step_def)

lemma or_return_simps [simp]:
  "or_return q (Ok x) k = k x"
  "or_return q (Err e) k = Some (q, Err e)"
  by (simp_all add: or_return_def)

text \<open>A block reader that makes progress and never announces more than it delivers.\<close>

definition reader_ok :: "block_reader \<Rightarrow> bool" where
  "reader_ok rd \<longleftrightarrow> (\<forall>bs b n. rd bs = Some (b, n) \<longrightarrow> 0 < n \<and> n \<le> length bs \<and>
     unat (value_size (measurement b)) \<le> length (dmtf_value (measurement b)))"

text \<open>The loop over the blocks ends: every turn consumes bytes.\<close>

lemma read_blocks_total:
  assumes "reader_ok rd"
  shows "\<exists>blocks. read_blocks rd bs = Some blocks \<and>
    (\<forall>b \<in> set blocks. unat (value_size (measurement b)) \<le> length (dmtf_value (measurement b)))"
proof (induction bs rule: length_induct)
  case (1 bs)
  show ?case
  proof (cases "rd bs")
    case None
    then show ?thesis by (subst read_blocks.simps) simp
  next
    case (Some bn)
    obtain b n where bn: "bn = (b, n)" by (cases bn)
    with Some assms have b: "0 < n" "n \<le> length bs" "unat (value_size (measurement b)) \<le> length (dmtf_value (measurement b))"
      unfolding reader_ok_def by blast+
    then have "length (drop n bs) < length bs" by simp
    with 1 obtain blocks where "read_blocks rd (drop n bs) = Some blocks"
      "\<forall>b \<in> set blocks. unat (value_size (measurement b)) \<le> length (dmtf_value (measurement b))" by blast
    with b Some bn show ?thesis by (subst read_blocks.simps) simp
  qed
qed

lemma print_measurements_ok:
  assumes "reader_ok rd" and "measurement_record_length r \<le> length (measurement_record_data r)"
  shows "print_measurements rd r = Some (Ok ())"
proof -
  from read_blocks_total [OF assms(1)] obtain blocks where
    "read_blocks rd (take (measurement_record_length r) (measurement_record_data r)) = Some blocks"
    "\<forall>b \<in> set blocks. unat (value_size (measurement b)) \<le> length (dmtf_value (measurement b))" by blast
  with assms(2) show ?thesis by (auto simp: print_measurements_def list_ex_iff)
qed

text \<open>What the negotiation relies on: a proper reader, and records inside their arrays.\<close>

definition requester_lib_ok :: "'c requester_lib \<Rightarrow> bool" where
  "requester_lib_ok L \<longleftrightarrow> reader_ok (read_block L) \<and>
     (\<forall>c slot attrs op c' answer r. send_receive_spdm_measurement L c slot attrs op = Some (c', answer, r) \<longrightarrow>
        measurement_record_length (answer_record answer) \<le> length (measurement_record_data (answer_record answer)))"

text \<open>The exchanges in their order, each successful, from one context to another.\<close>

definition handshake :: "'c requester_lib \<Rightarrow> spdm_measurement_summary_hash_type \<Rightarrow> 'c spdm_context \<Rightarrow> u32 \<Rightarrow> 'c spdm_context \<Rightarrow> bool" where
  "handshake L t c sid c' \<longleftrightarrow> (\<exists>c1 c2 c3 c4 c5 answer.
     init_connection L c = Some (c1, Inr ()) \<and>
     send_receive_spdm_digest L c1 = Some (c2, Inr ()) \<and>
     send_receive_spdm_certificate L c2 0 = Some (c3, Inr ()) \<and>
     send_receive_spdm_challenge L c3 0 t = Some (c4, Inr ()) \<and>
     send_receive_spdm_measurement L c4 0 {SIGNATURE_REQUESTED, RAW_BIT_STREAM_REQUESTED} (operation_request_all L) =
       Some (c5, answer, Inr ()) \<and> transcript_meas answer \<noteq> None \<and>
     start_session L c5 False 0 t = Some (c', Inr sid))"

text \<open>
  The same exchanges by their number: the context one leaves, and whether it succeeded, which for the fifth
  includes a transcript; and the context after the first \<open>k\<close> of them, if all of these succeed.
\<close>

fun exchange :: "'c requester_lib \<Rightarrow> spdm_measurement_summary_hash_type \<Rightarrow> nat \<Rightarrow> 'c spdm_context \<Rightarrow> ('c spdm_context \<times> bool) option" where
  "exchange L t k c =
     (if k = 0 then map_option (\<lambda>(c, r). (c, \<not> isl r)) (init_connection L c)
      else if k = 1 then map_option (\<lambda>(c, r). (c, \<not> isl r)) (send_receive_spdm_digest L c)
      else if k = 2 then map_option (\<lambda>(c, r). (c, \<not> isl r)) (send_receive_spdm_certificate L c 0)
      else if k = 3 then map_option (\<lambda>(c, r). (c, \<not> isl r)) (send_receive_spdm_challenge L c 0 t)
      else if k = 4 then map_option (\<lambda>(c, answer, r). (c, \<not> isl r \<and> transcript_meas answer \<noteq> None))
        (send_receive_spdm_measurement L c 0 {SIGNATURE_REQUESTED, RAW_BIT_STREAM_REQUESTED} (operation_request_all L))
      else map_option (\<lambda>(c, r). (c, \<not> isl r)) (start_session L c False 0 t))"

fun reached :: "'c requester_lib \<Rightarrow> spdm_measurement_summary_hash_type \<Rightarrow> 'c spdm_context \<Rightarrow> nat \<Rightarrow> 'c spdm_context option" where
  "reached L t c 0 = Some c"
| "reached L t c (Suc k) = do {
     c \<leftarrow> reached L t c k;
     (c, ok) \<leftarrow> exchange L t k c;
     (if ok then Some c else None)
   }"

text \<open>
  How a negotiation of requester \<open>q\<close> ends that has come to context \<open>c\<close> after \<open>k\<close> exchanges: it waits in one of
  the exchanges to come, or one of them fails, or they are all made.
\<close>

definition failed_from :: "'c spdm_requester \<Rightarrow> 'c spdm_context \<Rightarrow> ('c spdm_requester \<times> unit res) option \<Rightarrow> bool" where
  "failed_from q c out \<longleftrightarrow> (\<exists>e. out = Some (q\<lparr>rq_context := c\<rparr>, Err e) \<and> err_kind e = SpdmNegotiate)"

inductive ends :: "'c requester_lib \<Rightarrow> 'c spdm_requester \<Rightarrow> nat \<Rightarrow> ('c spdm_requester \<times> unit res) option \<Rightarrow> bool" for L q where
  waits: "reached L (rq_summary_type q) (rq_context q) k = Some c \<Longrightarrow> exchange L (rq_summary_type q) k c = None \<Longrightarrow> k < 6 \<Longrightarrow> ends L q k None"
| fails: "reached L (rq_summary_type q) (rq_context q) k = Some c \<Longrightarrow> exchange L (rq_summary_type q) k c = Some (c', False) \<Longrightarrow> k < 6 \<Longrightarrow>
    failed_from q c' out \<Longrightarrow> ends L q k out"
| completes: "reached L (rq_summary_type q) (rq_context q) 6 = Some c \<Longrightarrow> handshake L (rq_summary_type q) (rq_context q) sid c \<Longrightarrow>
    ends L q 6 (Some (q\<lparr>rq_context := c, rq_session_id := Some sid\<rparr>, Ok ()))"

lemma negotiate_step_fails: "\<exists>e. negotiate_step m (Inl x) = Err e \<and> err_kind e = SpdmNegotiate"
  by (cases rule: negotiate_step_cases [of "Inl x" m]) auto

lemma or_return_failed:
  fixes f :: "'b \<Rightarrow> ('c spdm_requester \<times> unit res) option"
  shows "failed_from q c (or_return (q\<lparr>rq_context := c\<rparr>) (negotiate_step m (Inl x)) f)"
proof -
  from negotiate_step_fails [of m x] obtain e where "negotiate_step m (Inl x :: spdm_status + 'b) = Err e" "err_kind e = SpdmNegotiate" by blast
  then show ?thesis unfolding failed_from_def by (intro exI [of _ e]) (simp only: or_return_simps simp_thms)
qed

lemma negotiate_step_ok [simp]: "negotiate_step m (Inr x) = Ok x"
  by (simp add: negotiate_step_def)

lemma ends_step:
  assumes "reached L (rq_summary_type q) (rq_context q) k = Some c" and "k < 6"
    and "exchange L (rq_summary_type q) k c = map_option (\<lambda>(c, r). (c, \<not> isl r)) m"
    and "\<And>c' x. m = Some (c', Inr x) \<Longrightarrow> reached L (rq_summary_type q) (rq_context q) (Suc k) = Some c' \<Longrightarrow> \<exists>j. ends L q j (f c' x)"
  shows "\<exists>j. ends L q j (do {
    (ctx, r) \<leftarrow> m;
    or_return (q\<lparr>rq_context := ctx\<rparr>) (negotiate_step msg r) (f ctx) })"
proof (cases m)
  case None
  with assms(1-3) have "ends L q k None" by (intro waits) simp_all
  with None show ?thesis by auto
next
  case (Some y)
  obtain c' r where y: "y = (c', r)" by fastforce
  show ?thesis
  proof (cases r)
    case (Inl e)
    with assms(3) Some y have "exchange L (rq_summary_type q) k c = Some (c', False)" by simp
    from fails [OF assms(1) this assms(2) or_return_failed [of q c' msg e "f c'"]] Some y Inl show ?thesis by auto
  next
    case (Inr x)
    with assms(3) Some y have "exchange L (rq_summary_type q) k c = Some (c', True)" by simp
    with assms(1) have "reached L (rq_summary_type q) (rq_context q) (Suc k) = Some c'" by (simp del: exchange.simps)
    with assms(4) [of c' x] Some y Inr show ?thesis by simp
  qed
qed

text \<open>The fifth exchange with the tests on its answer, and the sixth.\<close>

lemma ends_measured:
  assumes "requester_lib_ok L" and r4: "reached L (rq_summary_type q) (rq_context q) (Suc (Suc (Suc (Suc 0)))) = Some c"
    and hs: "\<And>c5 answer c6 sid. send_receive_spdm_measurement L c 0 {SIGNATURE_REQUESTED, RAW_BIT_STREAM_REQUESTED} (operation_request_all L) =
        Some (c5, answer, Inr ()) \<Longrightarrow> transcript_meas answer \<noteq> None \<Longrightarrow> start_session L c5 False 0 (rq_summary_type q) = Some (c6, Inr sid) \<Longrightarrow>
        handshake L (rq_summary_type q) (rq_context q) sid c6"
  shows "\<exists>j. ends L q j (do {
     (ctx, answer, r) \<leftarrow> send_receive_spdm_measurement L c 0 {SIGNATURE_REQUESTED, RAW_BIT_STREAM_REQUESTED} (operation_request_all L);
     or_return (q\<lparr>rq_context := ctx\<rparr>) (negotiate_step ''send_receive_spdm_measurement failed'' r) (\<lambda>_.
     or_return (q\<lparr>rq_context := ctx\<rparr>)
       (if transcript_meas answer = None
        then Err (kind_with_msg SpdmNegotiate ''get message_m from send_receive_spdm_measurement failed'') else Ok ()) (\<lambda>_. do {
     printed \<leftarrow> print_measurements (read_block L) (answer_record answer);
     or_return (q\<lparr>rq_context := ctx\<rparr>) printed (\<lambda>_. do {
     (ctx, r) \<leftarrow> start_session L ctx False 0 (rq_summary_type q);
     or_return (q\<lparr>rq_context := ctx\<rparr>) (negotiate_step ''failed to setup session'' r) (\<lambda>sid.
     Some (q\<lparr>rq_context := ctx, rq_session_id := Some sid\<rparr>, Ok ()))
     })}))})" (is "\<exists>j. ends L q j (do { (ctx, answer, r) \<leftarrow> ?meas; _ ctx answer r })")
proof -
  let ?t = "rq_summary_type q" and ?c0 = "rq_context q"
  have four: "reached L ?t ?c0 4 = Some c" using r4 by (simp add: eval_nat_numeral del: reached.simps exchange.simps)
  show ?thesis
  proof (cases ?meas)
    case None
    with four have "ends L q 4 None" by (intro waits) simp_all
    with None show ?thesis by auto
  next
    case (Some y)
    obtain c5 answer r where y: "y = (c5, answer, r)" using prod_cases3 by blast
    show ?thesis
    proof (cases "isl r \<or> transcript_meas answer = None")
      case True
      with Some y have ex: "exchange L ?t 4 c = Some (c5, False)" by auto
      show ?thesis
      proof (cases r)
        case (Inl e)
        from fails [OF four ex _ or_return_failed [of q c5]] Some y Inl show ?thesis by auto
      next
        case (Inr x)
        have "failed_from q c5 (Some (q\<lparr>rq_context := c5\<rparr>,
            Err (kind_with_msg SpdmNegotiate ''get message_m from send_receive_spdm_measurement failed'')))"
          by (simp add: failed_from_def)
        from fails [OF four ex _ this] Some y Inr True show ?thesis by auto
      qed
    next
      case False
      then obtain x where r: "r = Inr ()" by (cases r) auto
      from Some y False have "exchange L ?t 4 c = Some (c5, True)" by auto
      with four have "reached L ?t ?c0 (Suc 4) = Some c5" unfolding reached.simps by (simp del: exchange.simps)
      then have five: "reached L ?t ?c0 5 = Some c5" by simp
      from assms(1) Some y have "reader_ok (read_block L)"
        "measurement_record_length (answer_record answer) \<le> length (measurement_record_data (answer_record answer))"
        unfolding requester_lib_ok_def by blast+
      note print = print_measurements_ok [OF this]
      have "\<exists>j. ends L q j (do {
          (ctx, r) \<leftarrow> start_session L c5 False 0 ?t;
          or_return (q\<lparr>rq_context := ctx\<rparr>) (negotiate_step ''failed to setup session'' r) (\<lambda>sid.
          Some (q\<lparr>rq_context := ctx, rq_session_id := Some sid\<rparr>, Ok ())) })"
      proof (rule ends_step [OF five])
        fix c6 sid
        assume last: "start_session L c5 False 0 ?t = Some (c6, Inr sid)" and six: "reached L ?t ?c0 (Suc 5) = Some c6"
        have "reached L ?t ?c0 6 = Some c6" using six by simp
        from completes [OF this hs [OF _ _ last]] Some y r False
        show "\<exists>j. ends L q j (Some (q\<lparr>rq_context := c6, rq_session_id := Some sid\<rparr>, Ok ()))" by auto
      qed simp_all
      with Some y r False print show ?thesis by auto
    qed
  qed
qed

lemma requester_negotiate_ends:
  assumes "requester_lib_ok L"
  shows "\<exists>k. ends L q k (requester_negotiate L q)"
  unfolding requester_negotiate_def
  apply (rule ends_step [where k = 0], simp, simp, simp)
  apply (rule ends_step [where k = "Suc 0"], assumption, simp, simp)
  apply (rule ends_step [where k = "Suc (Suc 0)"], assumption, simp, simp)
  apply (rule ends_step [where k = "Suc (Suc (Suc 0))"], assumption, simp, simp)
  apply (rule ends_measured [OF assms], assumption)
  apply (auto simp: handshake_def)
  done

text \<open>The exchange that is not made, or that fails, is the last one.\<close>

lemma reached_stuck:
  assumes "reached L t c0 k = Some c" and "\<nexists>c'. exchange L t k c = Some (c', True)" and "k < j"
  shows "reached L t c0 j = None"
  using assms(3)
proof (induction j)
  case (Suc j)
  show ?case
  proof (cases "k < j")
    case False
    with Suc.prems have "j = k" by simp
    with assms(1,2) show ?thesis by (cases "exchange L t k c") (auto simp del: exchange.simps)
  qed (use Suc.IH in \<open>simp del: exchange.simps\<close>)
qed simp

lemma ends_at:
  assumes "ends L q j out" and "reached L (rq_summary_type q) (rq_context q) k = Some c"
    and "\<nexists>c'. exchange L (rq_summary_type q) k c = Some (c', True)" and "k < 6"
  shows "(exchange L (rq_summary_type q) k c = None \<longrightarrow> out = None) \<and>
    (\<forall>c'. exchange L (rq_summary_type q) k c = Some (c', False) \<longrightarrow> failed_from q c' out)"
  using assms(1)
proof cases
  case (waits c1)
  with reached_stuck [OF assms(2,3)] reached_stuck [OF waits(2), of k] assms(2) have "j = k" by (metis linorder_neqE_nat option.distinct(1))
  with waits assms(2) show ?thesis by (simp del: exchange.simps)
next
  case (fails c1 c2)
  with reached_stuck [OF assms(2,3)] reached_stuck [OF fails(1), of k] assms(2) have "j = k"
    by (metis linorder_neqE_nat option.distinct(1) option.inject prod.inject)
  with fails assms(2) show ?thesis by (simp del: exchange.simps)
next
  case (completes c1 sid)
  with reached_stuck [OF assms(2,3), of 6] assms(4) show ?thesis by simp
qed

lemma requester_negotiate_Ok:
  assumes "requester_lib_ok L" and "requester_negotiate L q = Some (q', Ok ())"
  obtains sid c where "handshake L (rq_summary_type q) (rq_context q) sid c" "q' = q\<lparr>rq_context := c, rq_session_id := Some sid\<rparr>"
proof -
  from requester_negotiate_ends [OF assms(1), of q] obtain k where "ends L q k (Some (q', Ok ()))" using assms(2) by auto
  then show thesis by cases (auto simp: failed_from_def intro: that)
qed

lemma split_endpoint_cases:
  "split_endpoint cfg role (Some sid) ctx strm = Ok \<lparr>sh_half = \<lparr>is_requester = role, session_id = sid\<rparr>, sh_common = ctx_common ctx,
     sh_read_io = ctx_device_io ctx, sh_write_io = framed_stream_new cfg strm\<rparr>"
  "fails_with (split_endpoint cfg role None ctx strm) SpdmSessionNotReady"
  by (simp_all add: split_endpoint_def)

subsection \<open>The responder's loop\<close>

text \<open>The continuing turns of the loop as a step relation.\<close>

inductive negotiating :: "'c responder_lib \<Rightarrow> codec_lib \<Rightarrow> 'c loop_state \<Rightarrow> 'c loop_state \<Rightarrow> bool" for L K where
  turn: "negotiate_turn L K s = Inl s' \<Longrightarrow> negotiating L K s s'"

inductive_simps negotiating_iff: "negotiating L K s s'"

lemma loop_of_run:
  assumes "(negotiating L K)\<^sup>*\<^sup>* s s'"
  shows "negotiate_loop L K s = negotiate_loop L K s'"
  using assms
proof (induction rule: converse_rtranclp_induct)
  case (step s t)
  then show ?case by (subst negotiate_loop.simps) (simp add: negotiating_iff)
qed simp

lemma loop_result:
  "negotiate_loop L K s = Some r \<Longrightarrow> \<exists>s'. (negotiating L K)\<^sup>*\<^sup>* s s' \<and> negotiate_turn L K s' = Inr r"
proof (induction rule: negotiate_loop.raw_induct [rotated 1, consumes 1, case_names loop])
  case (loop loop L K s r)
  show ?case
  proof (cases "negotiate_turn L K s")
    case (Inl s')
    with loop.hyps have "loop L K s' = Some r" by simp
    from loop.IH [OF this] Inl show ?thesis by (meson converse_rtranclp_into_rtranclp negotiating.turn)
  next
    case (Inr r')
    with loop.hyps have "negotiate_turn L K s = Inr r" by simp
    then show ?thesis by blast
  qed
qed

text \<open>The loop returns exactly when some run of continuing turns leads to a turn that ends it.\<close>

lemma negotiate_loop_iff:
  "negotiate_loop L K s = Some r \<longleftrightarrow> (\<exists>s'. (negotiating L K)\<^sup>*\<^sup>* s s' \<and> negotiate_turn L K s' = Inr r)"
proof
  assume "\<exists>s'. (negotiating L K)\<^sup>*\<^sup>* s s' \<and> negotiate_turn L K s' = Inr r"
  then obtain s' where run: "(negotiating L K)\<^sup>*\<^sup>* s s'" and fin: "negotiate_turn L K s' = Inr r" by blast
  from fin have "negotiate_loop L K s' = Some r" by (subst negotiate_loop.simps) simp
  with loop_of_run [OF run] show "negotiate_loop L K s = Some r" by simp
qed (rule loop_result)

lemma negotiate_loop_None_iff:
  "negotiate_loop L K s = None \<longleftrightarrow> (\<forall>s'. (negotiating L K)\<^sup>*\<^sup>* s s' \<longrightarrow> (\<exists>s''. negotiating L K s' s''))"
proof -
  have "(\<exists>s''. negotiating L K s' s'') \<longleftrightarrow> (\<nexists>r. negotiate_turn L K s' = Inr r)" for s'
    by (cases "negotiate_turn L K s'") (auto simp: negotiating_iff)
  moreover have "negotiate_loop L K s = None \<longleftrightarrow> (\<nexists>r. negotiate_loop L K s = Some r)"
    by (metis not_None_eq)
  ultimately show ?thesis unfolding negotiate_loop_iff by blast
qed

text \<open>How a turn can end: with an established session, with an error, or out of range.\<close>

lemma turn_end:
  assumes "negotiate_turn L K (ctx, raw, buf) = Inr (ctx', sid, result)"
  shows "(\<exists>v. sid = Some v \<and> result = Ok () \<and> session_state_of L (ctx_common ctx') v = Some SpdmSessionEstablished) \<or>
    sid = None \<and> (fails_with result SpdmNegotiate \<or> result = Panic)"
proof -
  have "fails_with (res_context m (res_kind SpdmNegotiate (lift_status (Inl st)))) SpdmNegotiate" for m st
    by simp
  with assms show ?thesis
    by (auto simp: negotiate_turn_def split: prod.splits process_message_result.splits if_splits option.splits)
qed

text \<open>What a negotiation that returns leaves behind.\<close>

lemma responder_negotiate_result:
  assumes "responder_negotiate L K cfg E p = Some (p', r)"
  shows "(r = Ok () \<and> (\<exists>sid h. rs_session_id p' = Some sid \<and> ensure_session_established L p' sid = Ok () \<and>
           responder_into_split cfg p' = Ok h \<and> session_id (sh_half h) = sid \<and>
           sh_read_io h = ctx_device_io (rs_context p')) \<or>
       (fails_with r SpdmNegotiate \<or> r = Panic) \<and> rs_session_id p' = rs_session_id p)"
proof -
  from assms obtain s0 ctx sid where loop: "negotiate_loop L K s0 = Some (ctx, sid, r)" and
    p': "p' = p\<lparr>rs_context := ctx, rs_session_id := (case sid of Some v \<Rightarrow> Some v | None \<Rightarrow> rs_session_id p)\<rparr>"
    by (auto simp: responder_negotiate_def bind_eq_Some_conv)
  from loop_result [OF loop] obtain c raw buf where "negotiate_turn L K (c, raw, buf) = Inr (ctx, sid, r)" by auto
  from turn_end [OF this] p' show ?thesis
    by (auto simp: ensure_session_established_def responder_into_split_def split_endpoint_cases)
qed

subsection \<open>Properties\<close>

text \<open>
  Sample exchanges for the witnesses: the context counts the exchanges and each succeeds only in its
  turn; the measurement answer is the record of the sample format.
\<close>

definition count_step :: "nat \<Rightarrow> nat spdm_context \<Rightarrow> (nat spdm_context \<times> (spdm_status + unit)) option" where
  "count_step n c = Some (c\<lparr>ctx_common := Suc (ctx_common c)\<rparr>, if ctx_common c = n then Inr () else Inl (SPDM_STATUS_OTHER 1))"

definition sample_requester :: "nat requester_lib" where
  "sample_requester = \<lparr>init_connection = count_step 0, send_receive_spdm_digest = count_step 1,
     send_receive_spdm_certificate = (\<lambda>c _. count_step 2 c), send_receive_spdm_challenge = (\<lambda>c _ _. count_step 3 c),
     send_receive_spdm_measurement = (\<lambda>c _ _ _. map_option (\<lambda>(c, r). (c,
       \<lparr>content_changed = None, total_number = 1, answer_record = record_of sample_meas 1 [1, 1, 5, 0, 2, 0, 7, 8],
        transcript_meas = Some [1]\<rparr>, r)) (count_step 4 c)),
     start_session = (\<lambda>c _ _ _. map_option (\<lambda>(c, r). (c, map_sum id (\<lambda>_. 7) r)) (count_step 5 c)),
     read_block = sample_meas_read, operation_request_all = 0xFF\<rparr>"

text \<open>A peer that answers nothing after the digests.\<close>

definition silent_requester :: "nat requester_lib" where
  "silent_requester = sample_requester\<lparr>send_receive_spdm_certificate := (\<lambda>c _. None)\<rparr>"

lemma sample_reader_ok: "reader_ok sample_meas_read"
proof -
  have "0 < n \<and> n \<le> length bs \<and> unat (value_size (measurement b)) \<le> length (dmtf_value (measurement b))"
    if "sample_meas_read bs = Some (b, n)" for bs b n
  proof -
    from that obtain i r a1 a2 c1 c2 rest where "bs = i # r # a1 # a2 # c1 # c2 # rest" and n: "n = le_nat [c1, c2] + 6"
      and le: "le_nat [c1, c2] \<le> length rest" "le_nat [c1, c2] \<le> 32"
      and b: "value_size (measurement b) = word_of_nat (le_nat [c1, c2])"
        "length (dmtf_value (measurement b)) = 32"
      by (auto simp: sample_meas_read_def Let_def split: list.splits if_splits)
    moreover have "unat (word_of_nat k :: u16) = k" if "k \<le> 32" for k using that by (simp add: unat_of_nat)
    from this [OF le(2)] have "unat (value_size (measurement b)) = le_nat [c1, c2]" by (simp only: b(1))
    ultimately show ?thesis by (simp del: le_nat.simps)
  qed
  then show ?thesis unfolding reader_ok_def by blast
qed

lemma sample_requester_ok: "requester_lib_ok sample_requester"
  by (simp add: requester_lib_ok_def sample_requester_def sample_reader_ok record_of_def sample_meas_def)

definition fresh_requester :: "nat spdm_requester" where
  "fresh_requester = \<lparr>rq_stream = stream_of [], rq_context = \<lparr>ctx_common = 0, ctx_device_io = framed_stream_new small_config (stream_of [Chunk [9]])\<rparr>,
     rq_session_id = None, rq_summary_type = SummaryHashTypeAll\<rparr>"

text \<open>
  C19. The requester's \<open>negotiate\<close>, for every peer. It returns whenever the peer answers every request it gets
  to, whatever the answers are, and waits for ever when one of the first five is not answered. The first exchange
  that fails ends it with \<open>SpdmNegotiate\<close> and the context that exchange left. Whatever it returns, a success means
  that the six exchanges succeeded in their order, that the measurement had a transcript and that the id of the new
  session is stored; a failure has the kind \<open>SpdmNegotiate\<close> and leaves the session id alone. So a fresh requester
  can be split exactly after a successful negotiation (\<open>SpdmSessionNotReady\<close> otherwise), and its read half takes
  over the device of the context with all the bytes it has buffered.
\<close>

theorem requester_negotiate_exact:
  assumes "requester_lib_ok L"
  shows "let at = reached L (rq_summary_type q) (rq_context q); ask = exchange L (rq_summary_type q); out = requester_negotiate L q
    in ((\<forall>k c. k < 6 \<and> at k = Some c \<longrightarrow> ask k c \<noteq> None) \<longrightarrow> out \<noteq> None) \<and>
       (\<forall>k c. k < 5 \<and> at k = Some c \<and> ask k c = None \<longrightarrow> out = None) \<and>
       (\<forall>k c c'. k < 6 \<and> at k = Some c \<and> ask k c = Some (c', False) \<longrightarrow>
          (\<exists>e. out = Some (q\<lparr>rq_context := c'\<rparr>, Err e) \<and> err_kind e = SpdmNegotiate)) \<and>
       (\<forall>q' r. out = Some (q', r) \<longrightarrow>
          (r = Ok () \<longrightarrow> (\<exists>sid c. handshake L (rq_summary_type q) (rq_context q) sid c \<and>
             q' = q\<lparr>rq_context := c, rq_session_id := Some sid\<rparr>)) \<and>
          (r \<noteq> Ok () \<longrightarrow> fails_with r SpdmNegotiate \<and> rq_session_id q' = rq_session_id q \<and> rq_stream q' = rq_stream q) \<and>
          (rq_session_id q = None \<longrightarrow>
             (if r = Ok () then \<exists>h. requester_into_split cfg q' = Ok h \<and> Some (session_id (sh_half h)) = rq_session_id q' \<and>
                is_requester (sh_half h) \<and> sh_read_io h = ctx_device_io (rq_context q')
              else fails_with (requester_into_split cfg q') SpdmSessionNotReady)))"
proof -
  from requester_negotiate_ends [OF assms, of q] obtain j where ends: "ends L q j (requester_negotiate L q)" by blast
  have returns: "requester_negotiate L q \<noteq> None"
    if "\<forall>k c. k < 6 \<and> reached L (rq_summary_type q) (rq_context q) k = Some c \<longrightarrow> exchange L (rq_summary_type q) k c \<noteq> None"
    using ends
  proof cases
    case (waits c)
    with that show ?thesis by blast
  qed (auto simp: failed_from_def)
  have stuck: "(exchange L (rq_summary_type q) k c = None \<longrightarrow> requester_negotiate L q = None) \<and>
      (\<forall>c'. exchange L (rq_summary_type q) k c = Some (c', False) \<longrightarrow> failed_from q c' (requester_negotiate L q))"
    if "k < 6" "reached L (rq_summary_type q) (rq_context q) k = Some c" "\<nexists>c'. exchange L (rq_summary_type q) k c = Some (c', True)" for k c
    by (rule ends_at [OF ends that(2,3,1)])
  have result: "(r = Ok () \<longrightarrow> (\<exists>sid c. handshake L (rq_summary_type q) (rq_context q) sid c \<and>
             q' = q\<lparr>rq_context := c, rq_session_id := Some sid\<rparr>)) \<and>
          (r \<noteq> Ok () \<longrightarrow> fails_with r SpdmNegotiate \<and> rq_session_id q' = rq_session_id q \<and> rq_stream q' = rq_stream q) \<and>
          (rq_session_id q = None \<longrightarrow>
             (if r = Ok () then \<exists>h. requester_into_split cfg q' = Ok h \<and> Some (session_id (sh_half h)) = rq_session_id q' \<and>
                is_requester (sh_half h) \<and> sh_read_io h = ctx_device_io (rq_context q')
              else fails_with (requester_into_split cfg q') SpdmSessionNotReady))"
    if "requester_negotiate L q = Some (q', r)" for q' r
    using ends unfolding that
    by cases (auto simp: failed_from_def requester_into_split_def split_endpoint_cases simp del: exchange.simps)
  show ?thesis
    unfolding Let_def
  proof (intro conjI allI impI)
    assume "\<forall>k c. k < 6 \<and> reached L (rq_summary_type q) (rq_context q) k = Some c \<longrightarrow> exchange L (rq_summary_type q) k c \<noteq> None"
    then show "requester_negotiate L q \<noteq> None" by (rule returns)
  next
    fix k c assume "k < 5 \<and> reached L (rq_summary_type q) (rq_context q) k = Some c \<and> exchange L (rq_summary_type q) k c = None"
    with stuck [of k c] show "requester_negotiate L q = None" by (simp del: exchange.simps)
  next
    fix k c c' assume "k < 6 \<and> reached L (rq_summary_type q) (rq_context q) k = Some c \<and> exchange L (rq_summary_type q) k c = Some (c', False)"
    with stuck [of k c] show "\<exists>e. requester_negotiate L q = Some (q\<lparr>rq_context := c'\<rparr>, Err e) \<and> err_kind e = SpdmNegotiate"
      by (simp add: failed_from_def del: exchange.simps)
  qed (use result in blast)+
qed

theorem requester_negotiate_exact_witness:
  "(\<exists>q h. requester_negotiate sample_requester fresh_requester = Some (q, Ok ()) \<and> rq_session_id q = Some 7 \<and>
     requester_into_split small_config q = Ok h \<and> pending (sh_read_io h) = [9]) \<and>
   requester_negotiate silent_requester fresh_requester = None"
proof
  let ?c = "(rq_context fresh_requester)\<lparr>ctx_common := 6\<rparr>"
  note sample = requester_negotiate_exact [OF sample_requester_ok, of fresh_requester small_config, unfolded Let_def]
  have hs: "handshake sample_requester (rq_summary_type fresh_requester) (rq_context fresh_requester) sid c \<longleftrightarrow> sid = 7 \<and> c = ?c" for sid c
    by (auto simp: handshake_def sample_requester_def fresh_requester_def count_step_def)
  have dev: "pending (ctx_device_io (rq_context fresh_requester)) = [9]"
    by (simp add: fresh_requester_def fs_wf_new stream_of_def)
  have none: "rq_session_id fresh_requester = None" by (simp add: fresh_requester_def)
  have answers: "exchange sample_requester t k c \<noteq> None" for t k c by (simp add: sample_requester_def count_step_def)
  then obtain q r where q: "requester_negotiate sample_requester fresh_requester = Some (q, r)"
    using conjunct1 [OF sample] by auto
  have "r = Ok ()"
  proof -
    have "requester_negotiate sample_requester fresh_requester =
        Some (fresh_requester\<lparr>rq_context := ?c, rq_session_id := Some 7\<rparr>, Ok ())"
      by (simp add: requester_negotiate_def sample_requester_def count_step_def fresh_requester_def
          print_measurements_ok [OF sample_reader_ok] record_of_def sample_meas_def eval_nat_numeral)
    with q show ?thesis by simp
  qed
  with conjunct2 [OF conjunct2 [OF conjunct2 [OF sample]], rule_format, OF q] hs none dev q
  show "\<exists>q h. requester_negotiate sample_requester fresh_requester = Some (q, Ok ()) \<and> rq_session_id q = Some 7 \<and>
     requester_into_split small_config q = Ok h \<and> pending (sh_read_io h) = [9]" by auto
next
  have ok: "requester_lib_ok silent_requester"
    using sample_requester_ok by (simp add: requester_lib_ok_def silent_requester_def)
  have "reached silent_requester SummaryHashTypeAll (rq_context fresh_requester) 2 =
      Some ((rq_context fresh_requester)\<lparr>ctx_common := 2\<rparr>)"
    by (simp add: eval_nat_numeral silent_requester_def sample_requester_def count_step_def fresh_requester_def)
  moreover have "exchange silent_requester t 2 c = None" for t c by (simp add: silent_requester_def)
  ultimately show "requester_negotiate silent_requester fresh_requester = None"
    using conjunct1 [OF conjunct2 [OF requester_negotiate_exact [OF ok, of fresh_requester small_config, unfolded Let_def]], rule_format, of 2]
    by (simp add: fresh_requester_def del: exchange.simps)
qed

text \<open>
  C13. The responder's \<open>negotiate\<close> against every sequence of messages: it returns exactly when some run of
  continuing turns reaches a turn that ends the loop, and runs for ever exactly when every run of
  continuing turns can be continued. Whatever it returns, a success means that the stored id names an
  established session and that the responder can be split on it; a failure stores nothing and has the
  kind \<open>SpdmNegotiate\<close>, or is the panic of a length beyond the packet buffer.
\<close>

theorem responder_negotiate_exact:
  assumes "s0 = (rs_context p, replicate (RECEIVER_BUFFER_SIZE cfg) 0, replicate (MAX_SPDM_MSG_SIZE E) 0)"
  shows "(responder_negotiate L K cfg E p = None \<longleftrightarrow>
      (\<forall>s. (negotiating L K)\<^sup>*\<^sup>* s0 s \<longrightarrow> (\<exists>s'. negotiating L K s s'))) \<and>
    (\<forall>s ctx sid r. (negotiating L K)\<^sup>*\<^sup>* s0 s \<and> negotiate_turn L K s = Inr (ctx, Some sid, r) \<longrightarrow>
      responder_negotiate L K cfg E p = Some (p\<lparr>rs_context := ctx, rs_session_id := Some sid\<rparr>, r)) \<and>
    (\<forall>p' r. responder_negotiate L K cfg E p = Some (p', r) \<longrightarrow>
      (r = Ok () \<and> (\<exists>sid h. rs_session_id p' = Some sid \<and> ensure_session_established L p' sid = Ok () \<and>
           responder_into_split cfg p' = Ok h \<and> session_id (sh_half h) = sid \<and>
           sh_read_io h = ctx_device_io (rs_context p')) \<or>
       (fails_with r SpdmNegotiate \<or> r = Panic) \<and> rs_session_id p' = rs_session_id p))"
proof (intro conjI allI impI; (elim conjE)?)
  show "responder_negotiate L K cfg E p = None \<longleftrightarrow>
      (\<forall>s. (negotiating L K)\<^sup>*\<^sup>* s0 s \<longrightarrow> (\<exists>s'. negotiating L K s s'))"
    unfolding negotiate_loop_None_iff [symmetric] 
    by (cases "negotiate_loop L K s0") (auto simp: responder_negotiate_def assms)
next
  fix s ctx sid r assume "(negotiating L K)\<^sup>*\<^sup>* s0 s" "negotiate_turn L K s = Inr (ctx, Some sid, r)"
  then have "negotiate_loop L K s0 = Some (ctx, Some sid, r)" unfolding negotiate_loop_iff by blast
  then show "responder_negotiate L K cfg E p = Some (p\<lparr>rs_context := ctx, rs_session_id := Some sid\<rparr>, r)"
    by (simp add: responder_negotiate_def assms)
qed (rule responder_negotiate_result)

text \<open>A responder whose third message establishes session 7.\<close>

definition sample_responder :: "nat responder_lib" where
  "sample_responder = \<lparr>process_message = (\<lambda>c crypto raw buf.
       (c\<lparr>ctx_common := Suc (ctx_common c)\<rparr>, blit raw 0 [7, 0, 0, 0], buf, if ctx_common c = 0 then Success 4 else SuccessSecured 4 0 True)),
     session_state_of = (\<lambda>n sid. if sid \<noteq> 7 \<or> n = 1 then None
       else if n = 2 then Some SpdmSessionHandshaking else Some SpdmSessionEstablished)\<rparr>"

lemma sample_responder_run:
  "\<exists>s. (negotiating sample_responder le_codec)\<^sup>*\<^sup>* (\<lparr>ctx_common = 0, ctx_device_io = d\<rparr>, replicate 16 0, buf) s \<and>
     negotiate_turn sample_responder le_codec s = Inr (\<lparr>ctx_common = 3, ctx_device_io = d\<rparr>, Some 7, Ok ())"
proof -
  let ?buf = "replicate 16 0 :: bytes"
  have id: "u32_read le_codec [7, 0, 0, 0] = Some 7" by (simp add: le_codec_def)
  have blit: "length (blit raw 0 [7, 0, 0, 0]) = 16" "take 4 (blit raw 0 [7, 0, 0, 0]) = [7, 0, 0, 0]" if "length raw = 16" for raw :: bytes
    using that by (simp_all add: blit_def)
  have turn: "negotiate_turn sample_responder le_codec (\<lparr>ctx_common = n, ctx_device_io = d\<rparr>, raw, buf) =
      (if n = 0 \<or> n = 1 then Inl (\<lparr>ctx_common = Suc n, ctx_device_io = d\<rparr>, blit raw 0 [7, 0, 0, 0], buf)
       else Inr (\<lparr>ctx_common = Suc n, ctx_device_io = d\<rparr>, Some 7, Ok ()))" if "length raw = 16" for n raw
    using blit [OF that] id by (auto simp: negotiate_turn_def sample_responder_def)
  let ?r1 = "blit ?buf 0 [7, 0, 0, 0]" and ?r2 = "blit (blit ?buf 0 [7, 0, 0, 0]) 0 [7, 0, 0, 0]"
  have len: "length ?buf = 16" by simp
  have "(negotiating sample_responder le_codec)\<^sup>*\<^sup>* (\<lparr>ctx_common = 0, ctx_device_io = d\<rparr>, ?buf, buf)
      (\<lparr>ctx_common = 2, ctx_device_io = d\<rparr>, ?r2, buf)"
    using turn [OF len, of 0] turn [OF blit(1) [OF len], of 1]
    by (intro rtranclp.rtrancl_into_rtrancl [OF r_into_rtranclp]) (auto simp: negotiating_iff numeral_2_eq_2)
  moreover have "negotiate_turn sample_responder le_codec (\<lparr>ctx_common = 2, ctx_device_io = d\<rparr>, ?r2, buf) =
      Inr (\<lparr>ctx_common = 3, ctx_device_io = d\<rparr>, Some 7, Ok ())"
    using turn [OF blit(1) [OF blit(1) [OF len]], of 2] by simp
  ultimately show ?thesis by blast
qed

theorem responder_negotiate_exact_witness:
  "\<exists>p. responder_negotiate sample_responder le_codec small_config sample_endpoint
      \<lparr>rs_stream = stream_of [], rs_context = \<lparr>ctx_common = 0, ctx_device_io = framed_stream_new small_config (stream_of [])\<rparr>,
       rs_session_id = None\<rparr> = Some (p, Ok ()) \<and> ensure_session_established sample_responder p 7 = Ok ()"
proof -
  let ?d = "framed_stream_new small_config (stream_of [])"
  let ?p = "\<lparr>rs_stream = stream_of [], rs_context = \<lparr>ctx_common = 0, ctx_device_io = ?d\<rparr>, rs_session_id = None\<rparr>"
  let ?buf = "replicate 16 0 :: bytes"
  have s0: "(\<lparr>ctx_common = 0, ctx_device_io = ?d\<rparr>, ?buf, ?buf) =
      (rs_context ?p, replicate (RECEIVER_BUFFER_SIZE small_config) 0, replicate (MAX_SPDM_MSG_SIZE sample_endpoint) 0)"
    by (simp add: small_config_def sample_endpoint_def)
  from sample_responder_run [of ?d ?buf] obtain s where
    run: "(negotiating sample_responder le_codec)\<^sup>*\<^sup>* (\<lparr>ctx_common = 0, ctx_device_io = ?d\<rparr>, ?buf, ?buf) s \<and>
      negotiate_turn sample_responder le_codec s = Inr (\<lparr>ctx_common = 3, ctx_device_io = ?d\<rparr>, Some 7, Ok ())" by blast
  from conjunct1 [OF conjunct2 [OF responder_negotiate_exact [OF s0, of sample_responder le_codec]], rule_format, OF run]
  show ?thesis by (simp add: ensure_session_established_def) (simp add: sample_responder_def)
qed

end
