(* ===== verification/Tunnel.thy ===== *)
theory Tunnel
  imports SpdmNegotiate "HOL-Library.Sublist"
begin

text \<open>
  \<^verbatim>\<open>examples/spdm/src/spdm.rs\<close> and \<^verbatim>\<open>examples/spdm/src/tunnel/mod.rs\<close>: the program that carries TCP connections
  through an SPDM session. A tunnel end runs two threads, one that sends what the local connection
  delivers into the session and one that writes what the session delivers to the local connection. They
  share the session's context behind its mutex.

  A turn is one pass of a thread's loop, and an execution is any sequence of turns of the two threads: a
  pass uses the shared context in one critical section only, and everything else it touches is its own.
  An error of \<open>anyhow\<close> is its outermost message. What the operating system decides (spawning, cloning
  and connecting sockets) is the parameter \<open>tunnel_os\<close>.
\<close>

subsection \<open>The threads\<close>

datatype tunnel_thread = NotSpawned | Running | Finished "unit res"

record 'c tunnel_end =
  te_half :: half
  te_common :: 'c
  te_read_io :: framed_stream
  te_write_io :: framed_stream
  te_local :: stream
  te_buf :: bytes
  te_inward :: tunnel_thread
  te_outward :: tunnel_thread

definition TUNNEL_BUFFER :: nat where "TUNNEL_BUFFER = 1024"

text \<open>One pass of the loop that reads the local connection; \<open>msg\<close> is the context of its read error.\<close>

definition inward_turn :: "'c spdm_lib \<Rightarrow> codec_lib \<Rightarrow> io_config \<Rightarrow> string \<Rightarrow> 'c tunnel_end \<Rightarrow> 'c tunnel_end" where
  "inward_turn S K cfg msg e =
     (case stream_read TUNNEL_BUFFER (incoming (te_local e)) of (r, evs) \<Rightarrow>
        (let e = e\<lparr>te_local := (te_local e)\<lparr>incoming := evs\<rparr>\<rparr>
         in case r of
              None \<Rightarrow> e\<lparr>te_inward := Finished (Err (error_of_msg msg))\<rparr>
            | Some bs \<Rightarrow>
                (if bs = [] then
                   (case write_half_shutdown (te_write_io e) of
                      (d, r) \<Rightarrow> e\<lparr>te_write_io := d, te_inward := Finished r\<rparr>)
                 else
                   (case write_half_send S K cfg (te_half e) (te_common e) (te_write_io e) bs of
                      (c, d, r) \<Rightarrow> e\<lparr>te_common := c, te_write_io := d,
                        te_inward := (if r = Ok () then Running else Finished r)\<rparr>))))"

text \<open>One pass of the loop that reads the session.\<close>

definition outward_turn :: "'c spdm_lib \<Rightarrow> codec_lib \<Rightarrow> io_config \<Rightarrow> bool \<Rightarrow> 'c tunnel_end \<Rightarrow> 'c tunnel_end" where
  "outward_turn S K cfg oc e =
     (case read_half_receive S K cfg oc (te_half e) (te_common e) (te_read_io e) (te_buf e) of
        (c, d, buf, r) \<Rightarrow>
          (let e = e\<lparr>te_common := c, te_read_io := d, te_buf := buf\<rparr>
           in case r of
                Ok recv_len \<Rightarrow>
                  (if recv_len = 0 then
                     (case shutdown_write (te_local e) of (s, ok) \<Rightarrow>
                        e\<lparr>te_local := s, te_outward := Finished (if ok then Ok () else Err (error_of_msg ''{}''))\<rparr>)
                   else if recv_len > length buf then e\<lparr>te_outward := Finished Panic\<rparr>
                   else (case write_all (te_local e) (take recv_len buf) of (s, ok) \<Rightarrow>
                        e\<lparr>te_local := s, te_outward := (if ok then Running else Finished (Err (error_of_msg ''{}'')))\<rparr>))
              | Err x \<Rightarrow> e\<lparr>te_outward := Finished (Err x)\<rparr>
              | Panic \<Rightarrow> e\<lparr>te_outward := Finished Panic\<rparr>
              | UB \<Rightarrow> e\<lparr>te_outward := Finished UB\<rparr>))"

datatype turn = InwardTurn | OutwardTurn

text \<open>A thread that is not running does nothing with its turn.\<close>

fun tunnel_turn :: "'c spdm_lib \<Rightarrow> codec_lib \<Rightarrow> io_config \<Rightarrow> bool \<Rightarrow> string \<Rightarrow> turn \<Rightarrow> 'c tunnel_end \<Rightarrow> 'c tunnel_end" where
  "tunnel_turn S K cfg oc msg InwardTurn e = (if te_inward e = Running then inward_turn S K cfg msg e else e)"
| "tunnel_turn S K cfg oc msg OutwardTurn e = (if te_outward e = Running then outward_turn S K cfg oc e else e)"

definition tunnel_run :: "'c spdm_lib \<Rightarrow> codec_lib \<Rightarrow> io_config \<Rightarrow> bool \<Rightarrow> string \<Rightarrow> turn list \<Rightarrow> 'c tunnel_end \<Rightarrow> 'c tunnel_end" where
  "tunnel_run S K cfg oc msg ts e = fold (tunnel_turn S K cfg oc msg) ts e"

lemma tunnel_run_simps [simp]:
  "tunnel_run S K cfg oc msg [] e = e"
  "tunnel_run S K cfg oc msg (t # ts) e = tunnel_run S K cfg oc msg ts (tunnel_turn S K cfg oc msg t e)"
  by (simp_all add: tunnel_run_def)

subsection \<open>Starting a tunnel\<close>

record tunnel_os =
  connect_upstream :: "stream option"
  clone_local :: bool
  spawn_first :: bool
  spawn_second :: bool

definition tunnel_end_of :: "'c session_halves \<Rightarrow> stream \<Rightarrow> 'c tunnel_end" where
  "tunnel_end_of H local_stream =
     \<lparr>te_half = sh_half H, te_common = sh_common H, te_read_io = sh_read_io H, te_write_io = sh_write_io H,
      te_local = local_stream, te_buf = replicate TUNNEL_BUFFER 0, te_inward = NotSpawned, te_outward = NotSpawned\<rparr>"

text \<open>
  Both ends return the threads that run and the result. The client spawns the thread that reads its
  local connection first, the server the one that reads the session.
\<close>

definition tunnel_client_session :: "tunnel_os \<Rightarrow> io_config \<Rightarrow> stream \<Rightarrow> 'c spdm_requester \<Rightarrow> 'c tunnel_end option \<times> unit res" where
  "tunnel_client_session OS cfg client_stream requester =
     (case requester_into_split cfg requester of
        Ok H \<Rightarrow>
          (let e = tunnel_end_of H client_stream
           in if \<not> clone_local OS \<or> \<not> spawn_first OS then (Some e, Err (error_of_msg ''{}''))
              else let e = e\<lparr>te_inward := Running\<rparr>
                   in if \<not> spawn_second OS then (Some e, Err (error_of_msg ''{}''))
                      else (Some (e\<lparr>te_outward := Running\<rparr>), Ok ()))
      | Err x \<Rightarrow> (None, Err x)
      | Panic \<Rightarrow> (None, Panic)
      | UB \<Rightarrow> (None, UB))"

definition tunnel_server_session :: "tunnel_os \<Rightarrow> io_config \<Rightarrow> 'c spdm_responder \<Rightarrow> 'c tunnel_end option \<times> unit res" where
  "tunnel_server_session OS cfg responder =
     (case connect_upstream OS of
        None \<Rightarrow> (None, Err (error_of_msg ''Failed to connect to upstream {}''))
      | Some server_stream \<Rightarrow>
          (case responder_into_split cfg responder of
             Ok H \<Rightarrow>
               (let e = tunnel_end_of H server_stream
                in if \<not> clone_local OS \<or> \<not> spawn_first OS then (Some e, Err (error_of_msg ''{}''))
                   else let e = e\<lparr>te_outward := Running\<rparr>
                        in if \<not> spawn_second OS then (Some e, Err (error_of_msg ''{}''))
                           else (Some (e\<lparr>te_inward := Running\<rparr>), Ok ()))
           | Err x \<Rightarrow> (None, Err x)
           | Panic \<Rightarrow> (None, Panic)
           | UB \<Rightarrow> (None, UB)))"

definition tunnel_client_run :: "'c spdm_lib \<Rightarrow> codec_lib \<Rightarrow> io_config \<Rightarrow> bool \<Rightarrow> turn list \<Rightarrow> 'c tunnel_end \<Rightarrow> 'c tunnel_end" where
  "tunnel_client_run S K cfg oc = tunnel_run S K cfg oc ''Failed to read from ingress''"

definition tunnel_server_run :: "'c spdm_lib \<Rightarrow> codec_lib \<Rightarrow> io_config \<Rightarrow> bool \<Rightarrow> turn list \<Rightarrow> 'c tunnel_end \<Rightarrow> 'c tunnel_end" where
  "tunnel_server_run S K cfg oc = tunnel_run S K cfg oc ''Failed to read from upstream''"

subsection \<open>The channel\<close>

text \<open>
  What a tunnel relies on \<open>spdmlib\<close> for, in a session \<open>sid\<close> used in both directions: \<open>seal req n m\<close> is the
  \<open>n\<close>-th packet of the requester or the responder, \<open>tx\<close> and \<open>rx\<close> count the packets a context has made and
  accepted. Making a packet leaves \<open>rx\<close> alone and taking one leaves \<open>tx\<close> alone; the next packet of the peer
  is either refused or decoded to its message, and decoded when the session is \<open>alive\<close>.
\<close>

definition duplex_ok :: "'c spdm_lib \<Rightarrow> io_config \<Rightarrow> u32 \<Rightarrow> ('c \<Rightarrow> nat) \<Rightarrow> ('c \<Rightarrow> nat) \<Rightarrow> ('c \<Rightarrow> bool) \<Rightarrow>
    (bool \<Rightarrow> nat \<Rightarrow> bytes \<Rightarrow> bytes) \<Rightarrow> bool" where
  "duplex_ok S cfg sid tx rx alive seal \<longleftrightarrow>
     (\<forall>c m req c' buf q. encode_secured_message S c sid m (replicate (SENDER_BUFFER_SIZE cfg) 0) req True = (c', buf, q) \<longrightarrow>
        rx c' = rx c \<and> (alive c \<longrightarrow> alive c') \<and>
        (\<forall>n. q = Inr n \<longrightarrow> n \<le> SENDER_BUFFER_SIZE cfg \<and> n \<le> length buf \<and> take n buf = seal req (tx c) m \<and> tx c' = Suc (tx c))) \<and>
     (\<forall>c p out req c' out' q. decode_secured_message S c sid p out req = (c', out', q) \<longrightarrow> tx c' = tx c) \<and>
     (\<forall>c m out req c' out' q. decode_secured_message S c sid (seal req (rx c) m) out req = (c', out', q) \<longrightarrow>
        (\<forall>n app. q = Inr (n, app) \<longrightarrow> app \<and> n = length m \<and> n \<le> length out \<and> out' = m @ drop n out \<and> rx c' = Suc (rx c)) \<and>
        (alive c \<and> length m \<le> length out \<longrightarrow> alive c' \<and> (\<exists>x. q = Inr x))) \<and>
     (\<forall>c. alive c \<longrightarrow> unat (rsp_ct_exponent_sel S c) < 64)"

lemma duplex_encode:
  assumes "duplex_ok S cfg sid tx rx alive seal"
    and "encode_secured_message S c sid m (replicate (SENDER_BUFFER_SIZE cfg) 0) req True = (c', buf, q)"
  shows "rx c' = rx c" and "alive c \<Longrightarrow> alive c'"
    and "q = Inr n \<Longrightarrow> n \<le> SENDER_BUFFER_SIZE cfg \<and> n \<le> length buf \<and> take n buf = seal req (tx c) m \<and> tx c' = Suc (tx c)"
  using conjunct1 [OF assms(1) [unfolded duplex_ok_def], rule_format, OF assms(2)] by auto

lemma duplex_decode:
  assumes "duplex_ok S cfg sid tx rx alive seal"
  shows "decode_secured_message S c sid p out req = (c', out', q) \<Longrightarrow> tx c' = tx c"
    and "alive c \<Longrightarrow> unat (rsp_ct_exponent_sel S c) < 64"
  using assms unfolding duplex_ok_def by blast+

lemma duplex_next:
  assumes "duplex_ok S cfg sid tx rx alive seal"
    and "decode_secured_message S c sid (seal req (rx c) m) out req = (c', out', q)"
  shows "q = Inr (n, app) \<Longrightarrow> app \<and> n = length m \<and> n \<le> length out \<and> out' = m @ drop n out \<and> rx c' = Suc (rx c)"
    and "alive c \<Longrightarrow> length m \<le> length out \<Longrightarrow> alive c' \<and> (\<exists>x. q = Inr x)"
  using conjunct1 [OF conjunct2 [OF conjunct2 [OF assms(1) [unfolded duplex_ok_def]]], rule_format, OF assms(2)] by auto

text \<open>The packets of the messages \<open>ms\<close>, from number \<open>n\<close> on, and their frames on the wire.\<close>

fun sealed :: "(nat \<Rightarrow> bytes \<Rightarrow> bytes) \<Rightarrow> nat \<Rightarrow> bytes list \<Rightarrow> bytes list" where
  "sealed s n [] = []"
| "sealed s n (m # ms) = s n m # sealed s (Suc n) ms"

definition wire :: "codec_lib \<Rightarrow> (nat \<Rightarrow> bytes \<Rightarrow> bytes) \<Rightarrow> nat \<Rightarrow> bytes list \<Rightarrow> bytes" where
  "wire K s n ms = concat (map (frame K) (sealed s n ms))"

lemma sealed_append: "sealed s n (ms @ ms') = sealed s n ms @ sealed s (n + length ms) ms'"
  by (induction ms arbitrary: n) simp_all

lemma sealed_drop:
  assumes "drop k ms = m # rest"
  shows "s (n + k) m \<in> set (sealed s n ms)"
proof -
  have ms: "ms = take k ms @ m # rest" using assms by (metis append_take_drop_id)
  have "k \<le> length ms" using assms by (metis drop_all le_cases list.discI)
  with ms show ?thesis using sealed_append [of s n "take k ms" "m # rest"] by simp
qed

lemma wire_simps [simp]:
  "wire K s n [] = []" "wire K s n (m # ms) = frame K (s n m) @ wire K s (Suc n) ms"
  "wire K s n (ms @ ms') = wire K s n ms @ wire K s (n + length ms) ms'"
  by (simp_all add: wire_def sealed_append)

lemma ready_prefix:
  assumes "codec_ok K" and "packet_ok cfg p" and "prefix bs (frame K p @ w)" and "frame_ready K cap bs"
  obtains rest where "bs = frame K p @ rest" "prefix rest w"
proof (cases "\<exists>rest. bs = frame K p @ rest \<and> prefix rest w")
  case False
  with assms(3) have "prefix bs (frame K p)" by (auto simp: prefix_append)
  then obtain zs where zs: "frame K p = bs @ zs" by (auto simp: prefix_def)
  have "4 \<le> length bs" using assms(4) by (simp add: frame_ready_def FRAME_HEADER_SIZE_def)
  then have "announced K bs = announced K (frame K p @ [])" using zs by (simp add: announced_append)
  also have "\<dots> = length (frame K p)"
    using frame_ready_frame(2) [OF assms(1,2), of "[]"] header_bytes_spec(1) [OF assms(1)] by (simp add: frame_def)
  finally have "length (frame K p) \<le> length bs" using assms(4) by (simp add: frame_ready_def)
  with zs have "zs = []" by simp
  with zs that [of "[]"] show thesis by simp
qed (use that in blast)

subsection \<open>The sending thread\<close>

text \<open>
  The wire of an end whose thread has read messages from a connection that delivers \<open>evs\<close>: \<open>n\<close> is the
  number of its first packet, \<open>W0\<close> what was written before.
\<close>

definition sent :: "codec_lib \<Rightarrow> io_config \<Rightarrow> (nat \<Rightarrow> bytes \<Rightarrow> bytes) \<Rightarrow> nat \<Rightarrow> bytes \<Rightarrow> bytes list \<Rightarrow> bytes \<Rightarrow> bool" where
  "sent K cfg s n all ms W \<longleftrightarrow> prefix (concat ms) all \<and> prefix W (wire K s n ms) \<and>
     (\<forall>m \<in> set ms. m \<noteq> [] \<and> length m \<le> TUNNEL_BUFFER) \<and> (\<forall>p \<in> set (sealed s n ms). packet_ok cfg p)"

definition sending :: "codec_lib \<Rightarrow> io_config \<Rightarrow> ('c \<Rightarrow> nat) \<Rightarrow> (nat \<Rightarrow> bytes \<Rightarrow> bytes) \<Rightarrow> nat \<Rightarrow> bytes \<Rightarrow> read_event list \<Rightarrow> 'c tunnel_end \<Rightarrow> bool" where
  "sending K cfg tx s n W0 evs e \<longleftrightarrow> (\<exists>ms W. outgoing (stream (te_write_io e)) = W0 @ W \<and> sent K cfg s n (bytes_of_chunks evs) ms W \<and>
     (te_inward e = Running \<longrightarrow> W = wire K s n ms \<and> tx (te_common e) = n + length ms \<and>
        concat ms @ bytes_of_chunks (incoming (te_local e)) = bytes_of_chunks evs \<and>
        (chunks_ok evs \<longrightarrow> chunks_ok (incoming (te_local e)))) \<and>
     (te_inward e = Finished (Ok ()) \<and> chunks_ok evs \<longrightarrow> W = wire K s n ms \<and> concat ms = bytes_of_chunks evs))"

lemma stream_read_bytes:
  assumes "stream_read room evs = (Some bs, evs')" and "0 < room"
  shows "bs @ bytes_of_chunks evs' = bytes_of_chunks evs" and "chunks_ok evs \<Longrightarrow> chunks_ok evs'"
    and "chunks_ok evs \<Longrightarrow> bs = [] \<Longrightarrow> bytes_of_chunks evs = []" and "length bs \<le> room"
  using assms by (auto simp: stream_read_def split: list.splits read_event.splits if_splits)

lemma write_half_shutdown_out: "write_half_shutdown d = (d', r) \<Longrightarrow> outgoing (stream d') = outgoing (stream d)"
  by (cases rule: write_some_cases [of "stream d" "[]"]) (auto simp: write_half_shutdown_def shutdown_write_def)

text \<open>One send of the thread, with what it means for the wire.\<close>

lemma send_packet:
  assumes "codec_ok K" and "duplex_ok S cfg sid tx rx alive seal" and "session_id h = sid"
    and "SENDER_BUFFER_SIZE cfg \<le> RECEIVER_BUFFER_SIZE cfg" and "SENDER_BUFFER_SIZE cfg < 4294967296"
    and "write_half_send S K cfg h c d m = (c', d', r)"
  shows "rx c' = rx c" and "alive c \<Longrightarrow> alive c'"
    and "(outgoing (stream d') = outgoing (stream d) \<and> r \<noteq> Ok ()) \<or>
      (packet_ok cfg (seal (is_requester h) (tx c) m) \<and>
       (\<exists>k. outgoing (stream d') = outgoing (stream d) @ take k (frame K (seal (is_requester h) (tx c) m)) \<and>
         (r = Ok () \<longrightarrow> tx c' = Suc (tx c) \<and> length (frame K (seal (is_requester h) (tx c) m)) \<le> k)))"
proof -
  let ?out = "replicate (SENDER_BUFFER_SIZE cfg) (0 :: u8)"
  obtain c1 buf q where enc: "encode_secured_message S c sid m ?out (is_requester h) True = (c1, buf, q)"
    using prod_cases3 by blast
  have law: "rx c1 = rx c" "alive c \<longrightarrow> alive c1" "\<forall>n. q = Inr n \<longrightarrow> n \<le> SENDER_BUFFER_SIZE cfg \<and> n \<le> length buf \<and>
      take n buf = seal (is_requester h) (tx c) m \<and> tx c1 = Suc (tx c)"
    using duplex_encode [OF assms(2) enc] by auto
  have main: "(c' = c \<or> c' = c1) \<and> ((outgoing (stream d') = outgoing (stream d) \<and> r \<noteq> Ok ()) \<or>
      (packet_ok cfg (seal (is_requester h) (tx c) m) \<and>
       (\<exists>k. outgoing (stream d') = outgoing (stream d) @ take k (frame K (seal (is_requester h) (tx c) m)) \<and>
         (r = Ok () \<longrightarrow> tx c' = Suc (tx c) \<and> length (frame K (seal (is_requester h) (tx c) m)) \<le> k))))"
  proof (cases "rsp_data_transfer_size_sel S c \<noteq> 0 \<and> length m > unat (rsp_data_transfer_size_sel S c)")
    case True
    with assms(6) show ?thesis by (auto simp: write_half_send_def Let_def)
  next
    case fit: False
    show ?thesis
    proof (cases q)
      case (Inl s)
      with assms(3,6) fit enc show ?thesis by (auto simp: write_half_send_def Let_def res_context_Err)
    next
      case (Inr n)
      with law(3) have n: "n \<le> SENDER_BUFFER_SIZE cfg" "n \<le> length buf" "take n buf = seal (is_requester h) (tx c) m"
        "tx c1 = Suc (tx c)" by simp_all
      let ?p = "seal (is_requester h) (tx c) m"
      from fs_send_spec [OF assms(1), of cfg d ?p] obtain s' w k where
        io: "fs_send K cfg d ?p = Some (d\<lparr>stream := s'\<rparr>, w)" "outgoing s' = outgoing (stream d) @ take k (frame K ?p)"
        and w: "w = Inr () \<and> length (frame K ?p) \<le> k \<or> w = Inl SPDM_STATUS_SEND_FAIL" by blast
      have "c' = c1" "d' = d\<lparr>stream := s'\<rparr>" "r = andthen (res_context ''Failed to send message to device_io''
          (res_kind SpdmSend (lift_status w))) (\<lambda>_. Ok ())"
        using assms(3,6) fit enc Inr n io(1) by (auto simp: write_half_send_def Let_def)
      moreover have "packet_ok cfg ?p" using n assms(4,5) by (auto simp: packet_ok_def simp flip: n(3))
      ultimately show ?thesis using w io(2) n(4) by (auto simp: res_context_Err)
    qed
  qed
  then show "rx c' = rx c" "alive c \<Longrightarrow> alive c'" using law by auto
  from main show "(outgoing (stream d') = outgoing (stream d) \<and> r \<noteq> Ok ()) \<or>
      (packet_ok cfg (seal (is_requester h) (tx c) m) \<and>
       (\<exists>k. outgoing (stream d') = outgoing (stream d) @ take k (frame K (seal (is_requester h) (tx c) m)) \<and>
         (r = Ok () \<longrightarrow> tx c' = Suc (tx c) \<and> length (frame K (seal (is_requester h) (tx c) m)) \<le> k)))" by blast
qed

lemma prefix_take_frame: "prefix (w @ take k x) (w @ x)"
  by (simp add: take_is_prefix)

lemma inward_turn_sending:
  assumes "codec_ok K" and "duplex_ok S cfg sid tx rx alive seal" and "session_id (te_half e) = sid"
    and "SENDER_BUFFER_SIZE cfg \<le> RECEIVER_BUFFER_SIZE cfg" and "SENDER_BUFFER_SIZE cfg < 4294967296"
    and "sending K cfg tx (seal (is_requester (te_half e))) n W0 evs e" and "te_inward e = Running"
  shows "sending K cfg tx (seal (is_requester (te_half e))) n W0 evs (inward_turn S K cfg msg e)"
proof -
  let ?s = "seal (is_requester (te_half e))"
  from assms(6,7) obtain ms where inv: "outgoing (stream (te_write_io e)) = W0 @ wire K ?s n ms"
    "sent K cfg ?s n (bytes_of_chunks evs) ms (wire K ?s n ms)" "tx (te_common e) = n + length ms"
    "concat ms @ bytes_of_chunks (incoming (te_local e)) = bytes_of_chunks evs"
    "chunks_ok evs \<Longrightarrow> chunks_ok (incoming (te_local e))"
    unfolding sending_def by blast
  obtain r evs' where read: "stream_read TUNNEL_BUFFER (incoming (te_local e)) = (r, evs')" using prod.exhaust by blast
  have room: "0 < TUNNEL_BUFFER" by (simp add: TUNNEL_BUFFER_def)
  let ?e = "e\<lparr>te_local := (te_local e)\<lparr>incoming := evs'\<rparr>\<rparr>"
  show ?thesis
  proof (cases r)
    case None
    then have "inward_turn S K cfg msg e = ?e\<lparr>te_inward := Finished (Err (error_of_msg msg))\<rparr>"
      by (simp add: inward_turn_def read Let_def)
    with inv(1,2) show ?thesis unfolding sending_def by (intro exI [of _ ms] exI [of _ "wire K ?s n ms"]) simp
  next
    case (Some bs)
    note bytes = stream_read_bytes [OF read [unfolded Some] room]
    show ?thesis
    proof (cases "bs = []")
      case True
      obtain d q where shut: "write_half_shutdown (te_write_io e) = (d, q)" using prod.exhaust by blast
      then have run: "inward_turn S K cfg msg e = ?e\<lparr>te_write_io := d, te_inward := Finished q\<rparr>"
        using read Some True by (simp add: inward_turn_def Let_def)
      have "chunks_ok evs \<Longrightarrow> concat ms = bytes_of_chunks evs" using inv(4,5) bytes(3) True by fastforce
      then show ?thesis unfolding run sending_def using inv(1,2) write_half_shutdown_out [OF shut]
        by (intro exI [of _ ms] exI [of _ "wire K ?s n ms"]) simp
    next
      case False
      obtain c d q where send: "write_half_send S K cfg (te_half e) (te_common e) (te_write_io e) bs = (c, d, q)"
        using prod_cases3 by blast
      then have run: "inward_turn S K cfg msg e = ?e\<lparr>te_common := c, te_write_io := d,
          te_inward := (if q = Ok () then Running else Finished q)\<rparr>"
        using read Some False by (simp add: inward_turn_def Let_def)
      have parts: "concat (ms @ [bs]) @ bytes_of_chunks evs' = bytes_of_chunks evs" using inv(4) bytes(1) by simp
      then have pre: "prefix (concat (ms @ [bs])) (bytes_of_chunks evs)" by (metis prefixI)
      from send_packet(3) [OF assms(1-5) send]
      show ?thesis
      proof (elim disjE conjE exE)
        assume "outgoing (stream d) = outgoing (stream (te_write_io e))" "q \<noteq> Ok ()"
        with inv(1,2) show ?thesis unfolding run sending_def
          by (intro exI [of _ ms] exI [of _ "wire K ?s n ms"]) simp
      next
        fix k
        let ?f = "frame K (?s (tx (te_common e)) bs)"
        assume p: "packet_ok cfg (?s (tx (te_common e)) bs)" and out: "outgoing (stream d) = outgoing (stream (te_write_io e)) @ take k ?f"
          and ok: "q = Ok () \<longrightarrow> tx c = Suc (tx (te_common e)) \<and> length ?f \<le> k"
        let ?W = "wire K ?s n ms @ take k ?f"
        have w: "wire K ?s n (ms @ [bs]) = wire K ?s n ms @ ?f" using inv(3) by simp
        have "sent K cfg ?s n (bytes_of_chunks evs) (ms @ [bs]) ?W"
          using inv(2,3) p pre False bytes(4) unfolding sent_def w by (auto simp: sealed_append take_is_prefix)
        moreover have "q = Ok () \<Longrightarrow> ?W = wire K ?s n (ms @ [bs])" using ok w by simp
        ultimately show ?thesis unfolding run sending_def using out inv(1,3,5) ok parts bytes(2)
          by (intro exI [of _ "ms @ [bs]"] exI [of _ ?W]) (auto simp: w)
      qed
    qed
  qed
qed

text \<open>The other thread, and a turn of neither, leave the sending side alone.\<close>

lemma outward_turn_frame:
  assumes "duplex_ok S cfg sid tx rx alive seal" and "session_id (te_half e) = sid"
  shows "te_half (outward_turn S K cfg oc e) = te_half e" "te_write_io (outward_turn S K cfg oc e) = te_write_io e"
    "te_inward (outward_turn S K cfg oc e) = te_inward e" "incoming (te_local (outward_turn S K cfg oc e)) = incoming (te_local e)"
    "tx (te_common (outward_turn S K cfg oc e)) = tx (te_common e)"
proof -
  obtain c d buf r where run: "read_half_receive S K cfg oc (te_half e) (te_common e) (te_read_io e) (te_buf e) = (c, d, buf, r)"
    using prod_cases4 by blast
  have shut: "incoming (fst (shutdown_write s)) = incoming s" for s
    by (cases rule: write_some_cases [of s "[]"]) (simp_all add: shutdown_write_def)
  have wr: "incoming (fst (write_all s bs)) = incoming s" for s bs
    by (cases rule: write_all_cases [of s bs]) simp_all
  show "te_half (outward_turn S K cfg oc e) = te_half e" "te_write_io (outward_turn S K cfg oc e) = te_write_io e"
    "te_inward (outward_turn S K cfg oc e) = te_inward e"
    by (simp_all add: outward_turn_def run Let_def split: res.splits prod.splits)
  show "incoming (te_local (outward_turn S K cfg oc e)) = incoming (te_local e)"
    using shut [of "te_local e"] wr [of "te_local e"]
    by (auto simp: outward_turn_def run Let_def split: res.splits prod.splits) (metis fst_conv)+
  have "te_common (outward_turn S K cfg oc e) = c"
    by (simp add: outward_turn_def run Let_def split: res.splits prod.splits)
  moreover have "tx c = tx (te_common e)"
    using run duplex_decode(1) [OF assms(1) [folded assms(2)]]
    by (auto simp: read_half_receive_def Let_def split: option.splits prod.splits res.splits if_splits)
  ultimately show "tx (te_common (outward_turn S K cfg oc e)) = tx (te_common e)" by simp
qed

lemma inward_turn_frame:
  assumes "codec_ok K" and "duplex_ok S cfg sid tx rx alive seal" and "session_id (te_half e) = sid"
    and "SENDER_BUFFER_SIZE cfg \<le> RECEIVER_BUFFER_SIZE cfg" and "SENDER_BUFFER_SIZE cfg < 4294967296"
  shows "te_half (inward_turn S K cfg msg e) = te_half e" "te_read_io (inward_turn S K cfg msg e) = te_read_io e"
    "te_outward (inward_turn S K cfg msg e) = te_outward e" "te_buf (inward_turn S K cfg msg e) = te_buf e"
    "outgoing (te_local (inward_turn S K cfg msg e)) = outgoing (te_local e)"
    "write_faults (te_local (inward_turn S K cfg msg e)) = write_faults (te_local e)"
    "write_open (te_local (inward_turn S K cfg msg e)) = write_open (te_local e)"
    "rx (te_common (inward_turn S K cfg msg e)) = rx (te_common e)"
    "alive (te_common e) \<Longrightarrow> alive (te_common (inward_turn S K cfg msg e))"
  using send_packet(1,2) [OF assms]
  by (auto simp: inward_turn_def Let_def split: option.splits prod.splits)

lemma tunnel_run_sending:
  assumes "codec_ok K" and "duplex_ok S cfg sid tx rx alive seal" and "session_id (te_half e) = sid"
    and "SENDER_BUFFER_SIZE cfg \<le> RECEIVER_BUFFER_SIZE cfg" and "SENDER_BUFFER_SIZE cfg < 4294967296"
    and "sending K cfg tx (seal (is_requester (te_half e))) n W0 evs e"
  shows "sending K cfg tx (seal (is_requester (te_half e))) n W0 evs (tunnel_run S K cfg oc msg ts e)"
  using assms(3,6)
proof (induction ts arbitrary: e)
  case (Cons t ts)
  let ?e = "tunnel_turn S K cfg oc msg t e"
  have "te_half ?e = te_half e \<and> sending K cfg tx (seal (is_requester (te_half e))) n W0 evs ?e"
  proof (cases t)
    case InwardTurn
    then show ?thesis
      using inward_turn_sending [OF assms(1,2) Cons.prems(1) assms(4,5) Cons.prems(2)]
        inward_turn_frame(1) [OF assms(1,2) Cons.prems(1) assms(4,5)] Cons.prems(2) by simp
  next
    case OutwardTurn
    then show ?thesis
      using outward_turn_frame [OF assms(2) Cons.prems(1), of K oc] Cons.prems(2) by (simp add: sending_def)
  qed
  with Cons.IH [of ?e] Cons.prems(1) show ?case by simp
qed simp

subsection \<open>The receiving thread\<close>

text \<open>
  The local connection of an end whose device holds \<open>P\<close>, a part of the wire of the messages \<open>ms\<close>: what is
  written is the beginning of the messages, and the thread never ends normally. Without faults it stops
  only when all is written.
\<close>

definition delivering :: "codec_lib \<Rightarrow> io_config \<Rightarrow> ('c \<Rightarrow> nat) \<Rightarrow> ('c \<Rightarrow> bool) \<Rightarrow> (nat \<Rightarrow> bytes \<Rightarrow> bytes) \<Rightarrow> nat \<Rightarrow> bytes list \<Rightarrow> bytes \<Rightarrow>
    bytes \<Rightarrow> bool \<Rightarrow> 'c tunnel_end \<Rightarrow> bool" where
  "delivering K cfg rx alive s n ms P out0 clean e \<longleftrightarrow>
     (\<exists>m. outgoing (te_local e) = out0 @ m \<and> prefix m (concat ms)) \<and> te_outward e \<noteq> Finished (Ok ()) \<and> te_outward e \<noteq> NotSpawned \<and>
     (te_outward e = Running \<longrightarrow> (\<exists>k \<le> length ms. outgoing (te_local e) = out0 @ concat (take k ms) \<and> rx (te_common e) = n + k \<and>
        fs_wf cfg (te_read_io e) \<and> P = wire K s n (take k ms) @ pending (te_read_io e) \<and> length (te_buf e) = TUNNEL_BUFFER)) \<and>
     (clean \<longrightarrow>
        (te_outward e = Running \<longrightarrow> alive (te_common e) \<and> write_faults (te_local e) = [] \<and> write_open (te_local e)) \<and>
        (\<forall>r. te_outward e = Finished r \<longrightarrow> outgoing (te_local e) = out0 @ concat ms \<and> fails_with r SpdmReceive \<and>
           write_open (te_local e)))"

lemma write_all_clean:
  "write_faults s = [] \<Longrightarrow> write_open s \<Longrightarrow> write_all s bs = (s\<lparr>outgoing := outgoing s @ bs\<rparr>, True)"
  by (simp add: write_all_def write_some_def)

text \<open>The next packet of the device, and the write that delivers its message.\<close>

lemma next_packet:
  assumes "codec_ok K" and "\<forall>p \<in> set (sealed s n ms). packet_ok cfg p" and "prefix bs (wire K s (n + k) (drop k ms))"
    and "frame_ready K cap bs"
  obtains m w where "k < length ms" "m \<in> set ms" "take (Suc k) ms = take k ms @ [m]" "bs = frame K (s (n + k) m) @ w"
    "slice 4 (announced K bs - 4) bs = s (n + k) m" "drop (announced K bs) bs = w"
proof -
  obtain m rest where dk: "drop k ms = m # rest" using assms(3,4) frame_ready_Nil by (cases "drop k ms") auto
  have kl: "k < length ms" using dk by (metis drop_all list.discI not_less)
  have mk: "m \<in> set ms" "take (Suc k) ms = take k ms @ [m]"
    using dk kl by (metis in_set_dropD list.set_intros(1), metis nth_via_drop take_Suc_conv_app_nth)
  from sealed_drop [OF dk, of s n] assms(2) have pok: "packet_ok cfg (s (n + k) m)" by blast
  from assms(3) have "prefix bs (frame K (s (n + k) m) @ wire K s (Suc (n + k)) rest)" by (simp add: dk)
  from ready_prefix [OF assms(1) pok this assms(4)] obtain w where w: "bs = frame K (s (n + k) m) @ w" by blast
  note fr = frame_ready_frame [OF assms(1) pok, of w]
  show thesis by (rule that [OF kl mk w]) (simp_all only: w fr(2,3,4) add_diff_cancel_right')
qed

lemma delivering_write:
  assumes "take (Suc k) ms = take k ms @ [m]" and "k < length ms" and "outgoing (te_local e) = out0 @ concat (take k ms)"
    and "rx c = n + Suc k" and "fs_wf cfg d" and "P = wire K s n (take (Suc k) ms) @ pending d" and "length buf = TUNNEL_BUFFER"
    and "clean \<Longrightarrow> alive c \<and> write_faults (te_local e) = [] \<and> write_open (te_local e)"
    and "write_all (te_local e) m = (strm, ok)"
  shows "delivering K cfg rx alive s n ms P out0 clean (e\<lparr>te_common := c, te_read_io := d, te_buf := buf, te_local := strm,
    te_outward := (if ok then Running else Finished (Err x))\<rparr>)"
proof -
  have pre: "prefix (concat (take (Suc k) ms)) (concat ms)" by (metis append_take_drop_id concat_append prefixI)
  show ?thesis
  proof (cases ok)
    case False
    have "\<not> clean" using assms(8,9) write_all_clean [of "te_local e" m] False by auto
    moreover obtain j where "outgoing strm = outgoing (te_local e) @ take j m"
      using assms(9) False by (cases rule: write_all_cases [of "te_local e" m]) auto
    moreover have "prefix (concat (take k ms) @ take j m) (concat ms)"
      by (rule prefix_order.trans [OF _ pre]) (simp add: assms(1) take_is_prefix)
    ultimately show ?thesis using False assms(3) by (simp add: delivering_def)
  next
    case True
    have "outgoing strm = outgoing (te_local e) @ m"
      using assms(9) True by (cases rule: write_all_cases [of "te_local e" m]) auto
    then have "outgoing strm = out0 @ concat (take (Suc k) ms)" using assms(1,3) by simp
    moreover have "clean \<Longrightarrow> alive c \<and> write_faults strm = [] \<and> write_open strm"
      using assms(8,9) write_all_clean [of "te_local e" m] by auto
    ultimately show ?thesis using True assms(2,4-7) pre by (auto simp: delivering_def intro!: exI [of _ "Suc k"])
  qed
qed

lemma outward_turn_delivering:
  assumes "codec_ok K" and "duplex_ok S cfg sid tx rx alive seal" and "session_id (te_half e) = sid"
    and ms: "\<forall>m \<in> set ms. m \<noteq> [] \<and> length m \<le> TUNNEL_BUFFER"
    and ps: "\<forall>p \<in> set (sealed (seal (\<not> is_requester (te_half e))) n ms). packet_ok cfg p"
    and P: "prefix P (wire K (seal (\<not> is_requester (te_half e))) n ms)"
    and clean: "clean \<longrightarrow> P = wire K (seal (\<not> is_requester (te_half e))) n ms"
    and inv: "delivering K cfg rx alive (seal (\<not> is_requester (te_half e))) n ms P out0 clean e" and "te_outward e = Running"
  shows "delivering K cfg rx alive (seal (\<not> is_requester (te_half e))) n ms P out0 clean (outward_turn S K cfg oc e)"
proof -
  let ?s = "seal (\<not> is_requester (te_half e))" and ?c = "te_common e" and ?d = "te_read_io e" and ?h = "te_half e"
  let ?cap = "FRAME_HEADER_SIZE + RECEIVER_BUFFER_SIZE cfg"
  from inv assms(9) obtain k where k: "k \<le> length ms" and out: "outgoing (te_local e) = out0 @ concat (take k ms)"
    and rx: "rx ?c = n + k" and wf: "fs_wf cfg ?d" and Pk: "P = wire K ?s n (take k ms) @ pending ?d"
    and buf: "length (te_buf e) = TUNNEL_BUFFER"
    unfolding delivering_def by blast
  from inv assms(9) have cl: "clean \<Longrightarrow> alive ?c \<and> write_faults (te_local e) = [] \<and> write_open (te_local e)"
    unfolding delivering_def by blast
  have split: "wire K ?s n ms = wire K ?s n (take k ms) @ wire K ?s (n + k) (drop k ms)"
    using k wire_simps(3) [of K ?s n "take k ms" "drop k ms"] by simp
  have pend: "prefix (pending ?d) (wire K ?s (n + k) (drop k ms))" "clean \<Longrightarrow> pending ?d = wire K ?s (n + k) (drop k ms)"
    using P clean unfolding Pk split by simp_all
  have pre: "prefix (concat (take j ms)) (concat ms)" for j
    by (metis append_take_drop_id concat_append prefixI)
  from assms(1) wf show ?thesis
  proof (cases rule: receive_cases [where oc = oc and S = S and c = ?c and h = ?h and buf = "te_buf e"])
    case panic
    then have "outward_turn S K cfg oc e = e\<lparr>te_common := ?c, te_read_io := ?d, te_buf := te_buf e, te_outward := Finished Panic\<rparr>"
      by (simp add: outward_turn_def Let_def)
    moreover have "\<not> clean" using panic(2) cl duplex_decode(2) [OF assms(2)] by force
    ultimately show ?thesis using out pre by (simp add: delivering_def)
  next
    case (not_ready d r)
    then obtain x where r: "r = Err x" by (cases r) (simp_all add: fails_with_def)
    then have run: "outward_turn S K cfg oc e = e\<lparr>te_common := ?c, te_read_io := d, te_buf := te_buf e, te_outward := Finished (Err x)\<rparr>"
      using not_ready(5) by (simp add: outward_turn_def Let_def)
    have "take k ms = ms" if clean
    proof (cases "drop k ms")
      case (Cons m rest)
      with sealed_drop [OF Cons, of ?s n] ps have "packet_ok cfg (?s (n + k) m)" by blast
      with frame_ready_frame(1) [OF assms(1)] pend(2) [OF that] Cons not_ready(2) show ?thesis by simp
    qed (use k in simp)
    with out pre not_ready(6) cl r show ?thesis unfolding run by (auto simp: delivering_def)
  next
    case (packet d c buf' q r)
    from next_packet [OF assms(1) ps pend(1) packet(2)] obtain m w where
      m: "k < length ms" "m \<in> set ms" "take (Suc k) ms = take k ms @ [m]" "pending ?d = frame K (?s (n + k) m) @ w"
      and next_p: "slice 4 (announced K (pending ?d) - 4) (pending ?d) = ?s (n + k) m" "drop (announced K (pending ?d)) (pending ?d) = w" .
    have pd: "pending d = w" using packet(4) next_p(2) by simp
    have dec: "decode_secured_message S ?c sid (?s (rx ?c) m) (te_buf e) (\<not> is_requester ?h) = (c, buf', q)"
      using packet(5) next_p(1) rx assms(3) by simp
    note next_one = duplex_next [OF assms(2) dec]
    have mlen: "length m \<le> length (te_buf e)" using ms m(2) buf by simp
    let ?e = "e\<lparr>te_common := c, te_read_io := d, te_buf := buf'\<rparr>"
    show ?thesis
    proof (cases "\<exists>x. r = Ok x")
      case False
      with packet(7) obtain x where r: "r = Err x" by (cases r) (auto simp: fails_with_def)
      then have run: "outward_turn S K cfg oc e = ?e\<lparr>te_outward := Finished (Err x)\<rparr>"
        using packet(6) by (simp add: outward_turn_def Let_def)
      have "\<not> clean"
      proof
        assume clean
        with cl have "alive ?c" by blast
        with next_one(2) mlen obtain y where q: "q = Inr y" by blast
        then obtain n' app where q': "q = Inr (n', app)" by (cases y) simp
        from next_one(1) [OF this] have "q = Inr (n', True)" using q' by simp
        then have "r = Ok n'" by (simp only: packet(8))
        with False show False by blast
      qed
      then show ?thesis unfolding run using out pre by (simp add: delivering_def)
    next
      case True
      then obtain l where r: "r = Ok l" by blast
      then have "q = Inr (l, True)" by (simp only: packet(8))
      from next_one(1) [OF this] have l: "l = length m" "l \<le> length (te_buf e)" "buf' = m @ drop l (te_buf e)" "rx c = Suc (rx ?c)" by simp_all
      have ne: "l \<noteq> 0" "\<not> l > length buf'" "take l buf' = m" "length buf' = TUNNEL_BUFFER" using ms m(2) l buf by auto
      obtain s ok where wr: "write_all (te_local e) m = (s, ok)" using prod.exhaust by blast
      have run: "outward_turn S K cfg oc e = ?e\<lparr>te_local := s, te_outward := (if ok then Running else Finished (Err (error_of_msg ''{}'')))\<rparr>"
        using packet(6) r ne wr by (simp add: outward_turn_def Let_def)
      have P': "P = wire K ?s n (take (Suc k) ms) @ pending d" using Pk m(3,4) pd k by (simp add: min_absorb2)
      have cl': "clean \<Longrightarrow> alive c \<and> write_faults (te_local e) = [] \<and> write_open (te_local e)"
        using cl next_one(2) [OF _ mlen] by blast
      have rx': "rx c = n + Suc k" using l(4) rx by simp
      show ?thesis unfolding run by (rule delivering_write [where rx = rx and alive = alive, OF m(3,1) out rx' packet(3) P' ne(4) cl' wr])
    qed
  qed
qed

lemma tunnel_run_delivering:
  assumes "codec_ok K" and "duplex_ok S cfg sid tx rx alive seal" and "session_id (te_half e) = sid"
    and "SENDER_BUFFER_SIZE cfg \<le> RECEIVER_BUFFER_SIZE cfg" and "SENDER_BUFFER_SIZE cfg < 4294967296"
    and "\<forall>m \<in> set ms. m \<noteq> [] \<and> length m \<le> TUNNEL_BUFFER"
    and "\<forall>p \<in> set (sealed (seal (\<not> is_requester (te_half e))) n ms). packet_ok cfg p"
    and "prefix P (wire K (seal (\<not> is_requester (te_half e))) n ms)"
    and "clean \<longrightarrow> P = wire K (seal (\<not> is_requester (te_half e))) n ms"
    and "delivering K cfg rx alive (seal (\<not> is_requester (te_half e))) n ms P out0 clean e"
  shows "delivering K cfg rx alive (seal (\<not> is_requester (te_half e))) n ms P out0 clean (tunnel_run S K cfg oc msg ts e)"
  using assms(3,7-10)
proof (induction ts arbitrary: e)
  case (Cons t ts)
  let ?e = "tunnel_turn S K cfg oc msg t e"
  note other = inward_turn_frame [OF assms(1,2) Cons.prems(1) assms(4,5)]
  have "te_half ?e = te_half e \<and> delivering K cfg rx alive (seal (\<not> is_requester (te_half e))) n ms P out0 clean ?e"
  proof (cases t)
    case InwardTurn
    have "delivering K cfg rx alive (seal (\<not> is_requester (te_half e))) n ms P out0 clean (inward_turn S K cfg msg e)"
      using Cons.prems(5) other(9) by (auto simp: delivering_def other(2-8))
    with InwardTurn Cons.prems(5) other(1) show ?thesis by simp
  next
    case OutwardTurn
    with outward_turn_delivering [OF assms(1,2) Cons.prems(1) assms(6) Cons.prems(2-5)] Cons.prems(5)
      outward_turn_frame(1) [OF assms(2) Cons.prems(1)] show ?thesis by simp
  qed
  with Cons.IH [of ?e] Cons.prems(1-4) show ?case by simp
qed simp

text \<open>Every turn of the thread ends it or takes bytes from its device.\<close>

lemma outward_turn_progress:
  assumes "codec_ok K" and "fs_wf cfg (te_read_io e)" and "te_outward (outward_turn S K cfg oc e) = Running"
  shows "fs_wf cfg (te_read_io (outward_turn S K cfg oc e))"
    and "length (pending (te_read_io (outward_turn S K cfg oc e))) < length (pending (te_read_io e))"
proof -
  have "fs_wf cfg (te_read_io (outward_turn S K cfg oc e)) \<and>
      length (pending (te_read_io (outward_turn S K cfg oc e))) < length (pending (te_read_io e))"
    using assms(1,2)
  proof (cases rule: receive_cases [where oc = oc and S = S and c = "te_common e" and h = "te_half e" and buf = "te_buf e"])
    case panic
    with assms(3) show ?thesis by (simp add: outward_turn_def Let_def)
  next
    case (not_ready d r)
    with assms(3) show ?thesis by (cases r) (simp_all add: outward_turn_def Let_def fails_with_def)
  next
    case (packet d c buf' q r)
    have "te_read_io (outward_turn S K cfg oc e) = d"
      using packet(6) by (simp add: outward_turn_def Let_def split: res.splits prod.splits)
    moreover have "0 < announced K (pending (te_read_io e))" "announced K (pending (te_read_io e)) \<le> length (pending (te_read_io e))"
      using announced_ge [of K "pending (te_read_io e)"] packet(2) by (simp_all add: frame_ready_def)
    ultimately show ?thesis using packet(3,4) by simp
  qed
  then show "fs_wf cfg (te_read_io (outward_turn S K cfg oc e))"
    "length (pending (te_read_io (outward_turn S K cfg oc e))) < length (pending (te_read_io e))" by simp_all
qed

lemma outward_thread_ends:
  assumes "codec_ok K" and "duplex_ok S cfg sid tx rx alive seal" and "session_id (te_half e) = sid"
    and "SENDER_BUFFER_SIZE cfg \<le> RECEIVER_BUFFER_SIZE cfg" and "SENDER_BUFFER_SIZE cfg < 4294967296"
    and "te_outward e \<noteq> NotSpawned" and "te_outward e = Running \<longrightarrow> fs_wf cfg (te_read_io e) \<and> length (pending (te_read_io e)) < count_list ts OutwardTurn"
  shows "\<exists>r. te_outward (tunnel_run S K cfg oc msg ts e) = Finished r"
  using assms(3,6,7)
proof (induction ts arbitrary: e)
  case Nil
  then show ?case by (cases "te_outward e") simp_all
next
  case (Cons t ts)
  let ?e = "tunnel_turn S K cfg oc msg t e"
  have "te_half ?e = te_half e \<and> te_outward ?e \<noteq> NotSpawned \<and>
      (te_outward ?e = Running \<longrightarrow> fs_wf cfg (te_read_io ?e) \<and> length (pending (te_read_io ?e)) < count_list ts OutwardTurn)"
  proof (cases t)
    case InwardTurn
    with Cons.prems inward_turn_frame(1-3) [OF assms(1,2) Cons.prems(1) assms(4,5)] show ?thesis by simp
  next
    case OutwardTurn
    show ?thesis
    proof (cases "te_outward e = Running")
      case True
      have ns: "te_outward (outward_turn S K cfg oc e) \<noteq> NotSpawned"
        by (auto simp: outward_turn_def Let_def True split: res.splits prod.splits)
      have wf: "fs_wf cfg (te_read_io e)" and n: "length (pending (te_read_io e)) \<le> count_list ts OutwardTurn"
        using Cons.prems(3) True OutwardTurn by simp_all
      have half: "te_half (outward_turn S K cfg oc e) = te_half e" by (rule outward_turn_frame(1) [OF assms(2) Cons.prems(1)])
      note step = outward_turn_progress [OF assms(1) wf, of S oc]
      show ?thesis using OutwardTurn True ns half step n by (auto intro: less_le_trans)
    next
      case False
      with OutwardTurn Cons.prems(2) show ?thesis by simp
    qed
  qed
  with Cons.IH [of ?e] Cons.prems(1) show ?case by simp
qed

subsection \<open>Properties\<close>

text \<open>
  C12. A tunnel direction is transparent: take the two ends of a session, in either direction, and let all four
  threads run in any interleaving. If the device of the receiving end delivers a beginning of what the sending
  end puts on the wire, in any segmentation, then what the receiving end writes to its local connection is a
  beginning of what the local connection of the sending end delivered, whatever faults the streams have.
  When the sending thread has come to the end of its connection, everything is on the way, and the receiving
  side has no fault and gets as many turns as there are bytes, all of it is written. But the receiving thread
  never ends normally: it ends with an error of kind \<open>SpdmReceive\<close>, and the local connection is never shut
  down for writing.
\<close>

theorem tunnel_transparent:
  assumes "codec_ok K" and "duplex_ok S cfg sid tx rx alive seal"
    and "SENDER_BUFFER_SIZE cfg \<le> RECEIVER_BUFFER_SIZE cfg" and "SENDER_BUFFER_SIZE cfg < 4294967296"
    and "te_half A = \<lparr>is_requester = r, session_id = sid\<rparr>" and "te_half B = \<lparr>is_requester = (\<not> r), session_id = sid\<rparr>"
    and "te_inward A = Running" and "te_outward B = Running" and "rx (te_common B) = tx (te_common A)"
    and "fs_wf cfg (te_read_io B)" and "length (te_buf B) = TUNNEL_BUFFER"
    and "A' = tunnel_run S K cfg oc msg ts A" and "B' = tunnel_run S K cfg oc' msg' us B"
    and "outgoing (stream (te_write_io A')) = outgoing (stream (te_write_io A)) @ pending (te_read_io B) @ rest"
  shows "(\<exists>m. outgoing (te_local B') = outgoing (te_local B) @ m \<and> prefix m (bytes_of_chunks (incoming (te_local A)))) \<and>
    te_outward B' \<noteq> Finished (Ok ()) \<and>
    (length (pending (te_read_io B)) < count_list us OutwardTurn \<longrightarrow> (\<exists>x. te_outward B' = Finished x)) \<and>
    (te_inward A' = Finished (Ok ()) \<and> rest = [] \<and> chunks_ok (incoming (te_local A)) \<and> alive (te_common B) \<and>
       write_faults (te_local B) = [] \<and> write_open (te_local B) \<and> te_outward B' \<noteq> Running \<longrightarrow>
     outgoing (te_local B') = outgoing (te_local B) @ bytes_of_chunks (incoming (te_local A)) \<and>
       (\<exists>x. te_outward B' = Finished x \<and> fails_with x SpdmReceive) \<and> write_open (te_local B'))"
proof -
  let ?n = "tx (te_common A)" and ?all = "bytes_of_chunks (incoming (te_local A))" and ?P = "pending (te_read_io B)"
  have half: "session_id (te_half A) = sid" "is_requester (te_half A) = r" "session_id (te_half B) = sid" "is_requester (te_half B) = (\<not> r)"
    using assms(5,6) by simp_all
  have "sending K cfg tx (seal r) ?n (outgoing (stream (te_write_io A))) (incoming (te_local A)) A"
    unfolding sending_def by (intro exI [of _ "[]"]) (simp add: assms(7) sent_def)
  from tunnel_run_sending [OF assms(1,2) half(1) assms(3,4), unfolded half(2), OF this, of oc msg ts]
  obtain ms W where W: "outgoing (stream (te_write_io A')) = outgoing (stream (te_write_io A)) @ W"
    "sent K cfg (seal r) ?n ?all ms W"
    "te_inward A' = Finished (Ok ()) \<and> chunks_ok (incoming (te_local A)) \<longrightarrow> W = wire K (seal r) ?n ms \<and> concat ms = ?all"
    unfolding sending_def assms(12) [symmetric] by blast
  have P: "W = ?P @ rest" using W(1) assms(14) by simp
  have ms: "\<forall>m \<in> set ms. m \<noteq> [] \<and> length m \<le> TUNNEL_BUFFER" "\<forall>p \<in> set (sealed (seal r) ?n ms). packet_ok cfg p"
    "prefix ?P (wire K (seal r) ?n ms)" "prefix (concat ms) ?all"
    using W(2) unfolding sent_def P by (auto dest: append_prefixD)
  define clean where "clean \<longleftrightarrow> ?P = wire K (seal r) ?n ms \<and> alive (te_common B) \<and> write_faults (te_local B) = [] \<and> write_open (te_local B)"
  have "delivering K cfg rx alive (seal r) ?n ms ?P (outgoing (te_local B)) clean B"
    using assms(8-11) by (auto simp: delivering_def clean_def intro: exI [of _ 0])
  from tunnel_run_delivering [OF assms(1,2) half(3) assms(3,4), unfolded half(4) not_not, OF ms(1-3) _ this, of oc' msg' us]
  have D: "delivering K cfg rx alive (seal r) ?n ms ?P (outgoing (te_local B)) clean B'"
    by (simp add: clean_def assms(13))
  then obtain m where m: "outgoing (te_local B') = outgoing (te_local B) @ m" "prefix m (concat ms)" "te_outward B' \<noteq> Finished (Ok ())"
    "te_outward B' \<noteq> NotSpawned" unfolding delivering_def by blast
  have ends: "\<exists>x. te_outward B' = Finished x" if "length ?P < count_list us OutwardTurn"
    using outward_thread_ends [OF assms(1,2) half(3) assms(3,4), of us oc' msg'] assms(8,10,13) that by simp
  have all: "outgoing (te_local B') = outgoing (te_local B) @ ?all \<and> (\<exists>x. te_outward B' = Finished x \<and> fails_with x SpdmReceive) \<and>
      write_open (te_local B')"
    if fin: "te_inward A' = Finished (Ok ())" "rest = []" "chunks_ok (incoming (te_local A))" "alive (te_common B)"
      "write_faults (te_local B) = []" "write_open (te_local B)" and x: "te_outward B' = Finished x" for x
  proof -
    have "concat ms = ?all" "?P = wire K (seal r) ?n ms" using W(3) fin(1-3) P by simp_all
    moreover from this fin have clean by (simp add: clean_def)
    ultimately show ?thesis using D x unfolding delivering_def by auto
  qed
  show ?thesis using m ms(4) ends all by (cases "te_outward B'") (auto intro: prefix_order.trans)
qed

text \<open>A session for the witness: the context counts the packets sent and received, a packet is the role, its number and the message.\<close>

definition sample_seal :: "bool \<Rightarrow> nat \<Rightarrow> bytes \<Rightarrow> bytes" where
  "sample_seal req n m = (if req then 1 else 0) # of_nat n # m"

definition sample_duplex :: "(nat \<times> nat) spdm_lib" where
  "sample_duplex = \<lparr>rsp_data_transfer_size_sel = (\<lambda>_. 0), rsp_ct_exponent_sel = (\<lambda>_. 3),
     encode_secured_message = (\<lambda>c sid m buf req app.
       if length buf < length m + 2 then (c, buf, Inl (SPDM_STATUS_OTHER 0))
       else ((fst c + 1, snd c), blit buf 0 (sample_seal req (fst c) m), Inr (length m + 2))),
     decode_secured_message = (\<lambda>c sid pkt out req.
       if pkt = sample_seal req (snd c) (drop 2 pkt) \<and> length (drop 2 pkt) \<le> length out
       then ((fst c, snd c + 1), drop 2 pkt @ drop (length (drop 2 pkt)) out, Inr (length (drop 2 pkt), True))
       else (c, out, Inl (SPDM_STATUS_OTHER 0)))\<rparr>"

lemma sample_duplex_ok: "duplex_ok sample_duplex small_config sid fst snd (\<lambda>_. True) sample_seal"
proof -
  have "take (length m + 2) (blit buf 0 (sample_seal req n m)) = sample_seal req n m" for buf req n and m :: bytes
    using take_blit0 [of "sample_seal req n m" buf] by (simp add: sample_seal_def)
  moreover have "length m + 2 \<le> 16 \<Longrightarrow> length (blit (replicate 16 0) 0 (sample_seal req n m)) = 16" for req n and m :: bytes
    by (subst length_blit) (simp_all add: sample_seal_def)
  moreover have "drop 2 (sample_seal req n m) = m" "length (sample_seal req n m) = length m + 2" for req n m
    by (simp_all add: sample_seal_def)
  ultimately show ?thesis by (auto simp: duplex_ok_def sample_duplex_def small_config_def split: if_splits)
qed

theorem tunnel_transparent_witness:
  "\<exists>A A' B B'. A' = tunnel_run sample_duplex le_codec small_config True ''Failed to read from ingress'' [InwardTurn, InwardTurn, InwardTurn] A \<and>
     te_inward A' = Finished (Ok ()) \<and> incoming (te_local A) = [Chunk [5, 6], Chunk [7]] \<and>
     B' = tunnel_run sample_duplex le_codec small_config True ''Failed to read from upstream'' (replicate 30 OutwardTurn) B \<and>
     outgoing (te_local B') = [5, 6, 7] \<and> (\<exists>x. te_outward B' = Finished x \<and> fails_with x SpdmReceive)"
proof -
  let ?io = "framed_stream_new small_config (stream_of [])"
  let ?A = "\<lparr>te_half = \<lparr>is_requester = True, session_id = 7\<rparr>, te_common = (0, 0), te_read_io = ?io, te_write_io = ?io,
      te_local = stream_of [Chunk [5, 6], Chunk [7]], te_buf = replicate TUNNEL_BUFFER 0, te_inward = Running, te_outward = Running\<rparr>"
  let ?A' = "tunnel_run sample_duplex le_codec small_config True ''Failed to read from ingress'' [InwardTurn, InwardTurn, InwardTurn] ?A"
  let ?wire = "frame le_codec [1, 0, 5, 6] @ frame le_codec [1, 1, 7]"
  let ?B = "\<lparr>te_half = \<lparr>is_requester = (\<not> True), session_id = 7\<rparr>, te_common = (0, 0),
      te_read_io = framed_stream_new small_config (stream_of [Chunk ?wire]), te_write_io = ?io, te_local = stream_of [],
      te_buf = replicate TUNNEL_BUFFER 0, te_inward = Running, te_outward = Running\<rparr>"
  let ?B' = "tunnel_run sample_duplex le_codec small_config True ''Failed to read from upstream'' (replicate 30 OutwardTurn) ?B"
  have send: "write_half_send sample_duplex le_codec small_config \<lparr>is_requester = True, session_id = 7\<rparr> c d m =
      ((fst c + 1, snd c), d\<lparr>stream := (stream d)\<lparr>outgoing := outgoing (stream d) @ frame le_codec (sample_seal True (fst c) m)\<rparr>\<rparr>, Ok ())"
    if "length m \<le> 14" "write_faults (stream d) = []" "write_open (stream d)" for c d m
  proof -
    have "take (length m + 2) (blit (replicate 16 0) 0 (sample_seal True (fst c) m)) = sample_seal True (fst c) m"
      using take_blit0 [of "sample_seal True (fst c) m"] by (simp add: sample_seal_def)
    then show ?thesis
      using write_half_send_ok [OF le_codec_ok that(2,3), of sample_duplex c m "\<lparr>is_requester = True, session_id = 7\<rparr>" small_config
          "(fst c + 1, snd c)" "blit (replicate 16 0) 0 (sample_seal True (fst c) m)" "length m + 2"] that(1)
      by (simp add: sample_duplex_def small_config_def length_blit sample_seal_def)
  qed
  have A': "te_inward ?A' = Finished (Ok ())" "outgoing (stream (te_write_io ?A')) = ?wire"
    by (simp_all add: inward_turn_def stream_read_def TUNNEL_BUFFER_def stream_of_def framed_stream_new_def send sample_seal_def
        write_half_shutdown_def shutdown_write_def write_some_def)
  have wf: "fs_wf small_config (te_read_io ?B)" and pend: "pending (te_read_io ?B) = ?wire" and len: "length ?wire = 15"
    by (simp_all add: fs_wf_new stream_of_def frame_def header_bytes_spec(1) [OF le_codec_ok])
  have cfg: "SENDER_BUFFER_SIZE small_config \<le> RECEIVER_BUFFER_SIZE small_config" "SENDER_BUFFER_SIZE small_config < 4294967296"
    by (simp_all add: small_config_def)
  have eqs: "te_half ?A = \<lparr>is_requester = True, session_id = 7\<rparr>" "te_half ?B = \<lparr>is_requester = (\<not> True), session_id = 7\<rparr>"
    "te_inward ?A = Running" "te_outward ?B = Running" "snd (te_common ?B) = fst (te_common ?A)" "length (te_buf ?B) = TUNNEL_BUFFER"
    by simp_all
  have out: "outgoing (stream (te_write_io ?A')) = outgoing (stream (te_write_io ?A)) @ pending (te_read_io ?B) @ []"
    unfolding A'(2) pend by (simp add: framed_stream_new_def stream_of_def)
  have count: "count_list (replicate 30 OutwardTurn) OutwardTurn = 30" by (simp add: count_list_eq_length_filter)
  note T = tunnel_transparent [OF le_codec_ok sample_duplex_ok cfg eqs(1-5) wf eqs(6) refl refl out,
      of True "''Failed to read from upstream''" "replicate 30 OutwardTurn"]
  have fin: "\<exists>x. te_outward ?B' = Finished x" using T len by (simp only: pend count)
  have B': "outgoing (te_local ?B') = [5, 6, 7] \<and> (\<exists>x. te_outward ?B' = Finished x \<and> fails_with x SpdmReceive)"
    using T fin A'(1) by (auto simp: stream_of_def simp del: tunnel_run_simps)
  show ?thesis
    by (rule exI [of _ ?A], rule exI [of _ ?A'], rule exI [of _ ?B], rule exI [of _ ?B'])
      (intro conjI refl A'(1) conjunct1 [OF B'] conjunct2 [OF B'], simp add: stream_of_def)
qed

end
