(* ===== verification/TunnelTypes.thy ===== *)
theory TunnelTypes
  imports Tunnel
begin

text \<open>
  The state of a tunnel end (\<^verbatim>\<open>examples/spdm/src/tunnel/mod.rs\<close>) is well formed from the moment its threads
  are started, whatever the network, the peer and the two threads do.
\<close>

text \<open>
  What is asked of \<open>spdmlib\<close> is only what Rust's slices enforce: the buffer it is lent keeps its length, and
  the number of bytes it reports lies within it.
\<close>

definition slices_ok :: "'c spdm_lib \<Rightarrow> bool" where
  "slices_ok S \<longleftrightarrow>
     (\<forall>c sid m buf req app c' buf' q. encode_secured_message S c sid m buf req app = (c', buf', q) \<longrightarrow>
        (\<forall>n. q = Inr n \<longrightarrow> n \<le> length buf')) \<and>
     (\<forall>c sid p out req c' out' q. decode_secured_message S c sid p out req = (c', out', q) \<longrightarrow>
        length out' = length out \<and> (\<forall>n app. q = Inr (n, app) \<longrightarrow> n \<le> length out'))"

lemma slices_encode:
  assumes "slices_ok S" and "encode_secured_message S c sid m buf req app = (c', buf', Inr n)"
  shows "n \<le> length buf'"
  by (rule conjunct1 [OF assms(1) [unfolded slices_ok_def], rule_format, OF assms(2) refl])

lemma slices_decode:
  assumes "slices_ok S" and "decode_secured_message S c sid p out req = (c', out', q)"
  shows "length out' = length out" and "q = Inr (n, app) \<Longrightarrow> n \<le> length out'"
  using conjunct2 [OF assms(1) [unfolded slices_ok_def], rule_format, OF assms(2)] by auto

text \<open>The sending thread ends with a value of its result type, the other one at least not by undefined behaviour.\<close>

fun orderly :: "tunnel_thread \<Rightarrow> bool" where
  "orderly (Finished r) \<longleftrightarrow> r \<noteq> Panic \<and> r \<noteq> UB"
| "orderly _ \<longleftrightarrow> True"

definition tunnel_end_wf :: "io_config \<Rightarrow> 'c tunnel_end \<Rightarrow> bool" where
  "tunnel_end_wf cfg e \<longleftrightarrow> fs_wf cfg (te_read_io e) \<and> length (te_buf e) = TUNNEL_BUFFER \<and>
     orderly (te_inward e) \<and> te_outward e \<noteq> Finished UB"

text \<open>The one way to panic: overflow checks are on and the peer's timeout exponent in the context is too large to shift by.\<close>

definition shift_overflows :: "'c spdm_lib \<Rightarrow> bool \<Rightarrow> 'c tunnel_end \<Rightarrow> bool" where
  "shift_overflows S oc e \<longleftrightarrow> oc \<and> 64 \<le> unat (rsp_ct_exponent_sel S (te_common e))"

lemma write_half_send_orderly:
  assumes "codec_ok K" and "slices_ok S" and "write_half_send S K cfg h c d m = (c', d', r)"
  shows "r \<noteq> Panic \<and> r \<noteq> UB"
proof -
  obtain c1 buf q where enc: "encode_secured_message S c (session_id h) m (replicate (SENDER_BUFFER_SIZE cfg) 0) (is_requester h) True = (c1, buf, q)"
    using prod_cases3 by blast
  have bound: "q = Inr n \<Longrightarrow> n \<le> length buf" for n using slices_encode [OF assms(2)] enc by blast
  have send: "\<exists>d' r. fs_send K cfg d p = Some (d', r)" for p using fs_send_spec [OF assms(1), of cfg d p] by blast
  show ?thesis
  proof (cases q)
    case (Inl s)
    with assms(3) enc show ?thesis by (auto simp: write_half_send_def Let_def res_context_Err split: if_splits)
  next
    case (Inr n)
    obtain d1 w where "fs_send K cfg d (take n buf) = Some (d1, w)" using send by blast
    with assms(3) enc Inr bound [OF Inr] show ?thesis
      by (cases w) (auto simp: write_half_send_def Let_def res_context_Err split: if_splits)
  qed
qed

lemma write_half_shutdown_orderly: "write_half_shutdown d = (d', r) \<Longrightarrow> r \<noteq> Panic \<and> r \<noteq> UB"
  by (auto simp: write_half_shutdown_def res_context_Err split: prod.splits bool.splits)

lemma inward_turn_wf:
  assumes "codec_ok K" and "slices_ok S" and "tunnel_end_wf cfg e"
  shows "tunnel_end_wf cfg (inward_turn S K cfg msg e)"
  using assms(3) write_half_send_orderly [OF assms(1,2)] write_half_shutdown_orderly
  by (auto simp: inward_turn_def tunnel_end_wf_def Let_def split: option.splits prod.splits)

lemma outward_turn_wf:
  assumes "codec_ok K" and "slices_ok S" and "tunnel_end_wf cfg e"
  shows "tunnel_end_wf cfg (outward_turn S K cfg oc e)"
    and "te_outward (outward_turn S K cfg oc e) = Finished Panic \<longleftrightarrow> shift_overflows S oc e"
proof -
  have "tunnel_end_wf cfg (outward_turn S K cfg oc e) \<and>
      (te_outward (outward_turn S K cfg oc e) = Finished Panic \<longleftrightarrow> shift_overflows S oc e)"
  proof -
    have wf: "fs_wf cfg (te_read_io e)" and buf: "length (te_buf e) = TUNNEL_BUFFER" using assms(3) by (simp_all add: tunnel_end_wf_def)
    from assms(1) wf show ?thesis
    proof (cases rule: receive_cases [where oc = oc and S = S and c = "te_common e" and h = "te_half e" and buf = "te_buf e"])
      case panic
      with assms(3) show ?thesis by (simp add: outward_turn_def tunnel_end_wf_def shift_overflows_def Let_def)
    next
      case (not_ready d r)
      then obtain x where "r = Err x" by (cases r) (simp_all add: fails_with_def)
      with not_ready(1,3,5) assms(3) show ?thesis by (simp add: outward_turn_def tunnel_end_wf_def shift_overflows_def Let_def)
    next
      case (packet d c buf' q r)
      note sl = slices_decode [OF assms(2) packet(5)]
      have r: "(\<exists>x. r = Err x) \<or> (\<exists>n \<le> length buf'. r = Ok n)"
      proof (cases "\<exists>n. r = Ok n")
        case True
        then obtain n where n: "r = Ok n" by blast
        then have "q = Inr (n, True)" by (simp only: packet(8))
        from sl(2) [OF this] n show ?thesis by blast
      next
        case False
        with packet(7) show ?thesis by (cases r) (auto simp: fails_with_def)
      qed
      then show ?thesis
      proof (elim disjE exE conjE)
        fix x assume "r = Err x"
        with packet(1,3,6) sl(1) buf assms(3) show ?thesis by (simp add: outward_turn_def tunnel_end_wf_def shift_overflows_def Let_def)
      next
        fix n assume "n \<le> length buf'" "r = Ok n"
        with packet(1,3,6) sl(1) buf assms(3) show ?thesis
          by (auto simp: outward_turn_def tunnel_end_wf_def shift_overflows_def Let_def split: prod.splits)
      qed
    qed
  qed
  then show "tunnel_end_wf cfg (outward_turn S K cfg oc e)"
    "te_outward (outward_turn S K cfg oc e) = Finished Panic \<longleftrightarrow> shift_overflows S oc e" by blast+
qed

lemma inward_turn_outward [simp]: "te_outward (inward_turn S K cfg msg e) = te_outward e"
  by (auto simp: inward_turn_def Let_def split: option.splits prod.splits)

lemma tunnel_run_wf:
  assumes "codec_ok K" and "slices_ok S"
  shows "tunnel_end_wf cfg e \<Longrightarrow> tunnel_end_wf cfg (tunnel_run S K cfg oc msg ts e)"
proof (induction ts arbitrary: e)
  case (Cons t ts)
  then have "tunnel_end_wf cfg (tunnel_turn S K cfg oc msg t e)"
    using inward_turn_wf [OF assms Cons.prems] outward_turn_wf(1) [OF assms Cons.prems] by (cases t) simp_all
  with Cons.IH show ?case by simp
qed simp

text \<open>A thread that has panicked did so in a turn of its own, at an overflowing shift.\<close>

lemma tunnel_run_panic:
  assumes "codec_ok K" and "slices_ok S"
  shows "tunnel_end_wf cfg e \<Longrightarrow> te_outward e \<noteq> Finished Panic \<Longrightarrow> te_outward (tunnel_run S K cfg oc msg ts e) = Finished Panic \<Longrightarrow>
    \<exists>before after. ts = before @ OutwardTurn # after \<and> shift_overflows S oc (tunnel_run S K cfg oc msg before e)"
proof (induction ts arbitrary: e)
  case (Cons t ts)
  let ?e = "tunnel_turn S K cfg oc msg t e"
  have wf: "tunnel_end_wf cfg ?e" using tunnel_run_wf [OF assms Cons.prems(1), of oc msg "[t]"] by simp
  show ?case
  proof (cases "te_outward ?e = Finished Panic")
    case True
    with Cons.prems(2) outward_turn_wf(2) [OF assms Cons.prems(1), of oc] have "t = OutwardTurn" "shift_overflows S oc e"
      by (cases t; auto split: if_splits)+
    then show ?thesis by (intro exI [of _ "[]"] exI [of _ ts]) simp
  next
    case False
    with Cons.IH [OF wf False] Cons.prems(3) obtain before after where
      "ts = before @ OutwardTurn # after" "shift_overflows S oc (tunnel_run S K cfg oc msg before ?e)" by auto
    then show ?thesis by (intro exI [of _ "t # before"] exI [of _ after]) simp
  qed
qed simp

lemma split_endpoint_wf:
  "split_endpoint cfg req sid ctx strm = Ok H \<Longrightarrow> fs_wf cfg (ctx_device_io ctx) \<Longrightarrow>
   tunnel_end_wf cfg (tunnel_end_of H s) \<and> te_outward (tunnel_end_of H s) \<noteq> Finished Panic"
  by (cases sid) (auto simp: split_endpoint_def tunnel_end_of_def tunnel_end_wf_def)

lemmas session_defs = tunnel_client_session_def tunnel_server_session_def requester_into_split_def responder_into_split_def

text \<open>
  C24. The state of a tunnel end is well formed: started on an endpoint whose device is well formed, by either
  program and whatever the operating system answers, and after any interleaving of its two threads, the read
  device satisfies the invariant of the framed stream, the thread's buffer has its 1024 bytes, the sending thread
  has not panicked, and neither has read memory it does not own. In particular the slice \<open>buf[..recv_len]\<close> is always
  in bounds. The receiving thread has panicked only if in one of its turns the timeout exponent that the peer
  announced was too large to shift by, with overflow checks on.
\<close>

theorem tunnel_well_typed:
  assumes "codec_ok K" and "slices_ok S"
    and "fs_wf cfg (ctx_device_io (rq_context q))" and "fs_wf cfg (ctx_device_io (rs_context p))"
  shows "(\<forall>e r. tunnel_client_session OS cfg client_stream q = (Some e, r) \<longrightarrow>
      tunnel_end_wf cfg (tunnel_client_run S K cfg oc ts e) \<and>
      (te_outward (tunnel_client_run S K cfg oc ts e) = Finished Panic \<longrightarrow> (\<exists>before after. ts = before @ OutwardTurn # after \<and>
         oc \<and> 64 \<le> unat (rsp_ct_exponent_sel S (te_common (tunnel_client_run S K cfg oc before e)))))) \<and>
    (\<forall>e r. tunnel_server_session OS cfg p = (Some e, r) \<longrightarrow>
      tunnel_end_wf cfg (tunnel_server_run S K cfg oc ts e) \<and>
      (te_outward (tunnel_server_run S K cfg oc ts e) = Finished Panic \<longrightarrow> (\<exists>before after. ts = before @ OutwardTurn # after \<and>
         oc \<and> 64 \<le> unat (rsp_ct_exponent_sel S (te_common (tunnel_server_run S K cfg oc before e))))))"
proof -
  have upd: "tunnel_end_wf cfg (e\<lparr>te_inward := Running\<rparr>)" "tunnel_end_wf cfg (e\<lparr>te_outward := Running\<rparr>)"
    "tunnel_end_wf cfg (e\<lparr>te_inward := Running, te_outward := Running\<rparr>)"
    if "tunnel_end_wf cfg e" for e :: "'a tunnel_end"
    using that by (simp_all add: tunnel_end_wf_def)
  have client: "tunnel_end_wf cfg e \<and> te_outward e \<noteq> Finished Panic"
    if "tunnel_client_session OS cfg client_stream q = (Some e, r)" for e r
    using that split_endpoint_wf [OF _ assms(3)]
    by (auto simp: session_defs Let_def upd split: res.splits if_splits)
  have server: "tunnel_end_wf cfg e \<and> te_outward e \<noteq> Finished Panic" if "tunnel_server_session OS cfg p = (Some e, r)" for e r
    using that split_endpoint_wf [OF _ assms(4)]
    by (auto simp: session_defs Let_def upd split: res.splits if_splits option.splits)
  show ?thesis
    using client server tunnel_run_wf [OF assms(1,2)] tunnel_run_panic [OF assms(1,2)]
    unfolding tunnel_client_run_def tunnel_server_run_def shift_overflows_def by blast
qed

lemma sample_slices_ok: "slices_ok sample_duplex"
proof -
  have "length m + 2 \<le> length buf \<Longrightarrow> length m + 2 \<le> length (blit buf 0 (sample_seal req n m))" for buf req n and m :: bytes
    by (subst length_blit) (simp_all add: sample_seal_def)
  then show ?thesis by (auto simp: slices_ok_def sample_duplex_def split: if_splits)
qed

theorem tunnel_well_typed_witness:
  "\<exists>OS p. let H = \<lparr>sh_half = \<lparr>is_requester = False, session_id = 7\<rparr>, sh_common = (0, 0),
       sh_read_io = framed_stream_new small_config (stream_of [Chunk [0, 0], Chunk [0, 9, 1]]),
       sh_write_io = framed_stream_new small_config (stream_of [])\<rparr>;
       e = (tunnel_end_of H (stream_of [Chunk [5]]))\<lparr>te_outward := Running, te_inward := Running\<rparr>
     in tunnel_server_session OS small_config p = (Some e, Ok ()) \<and>
        tunnel_end_wf small_config (tunnel_server_run sample_duplex le_codec small_config True [OutwardTurn, InwardTurn, InwardTurn] e) \<and>
        te_outward (tunnel_server_run sample_duplex le_codec small_config True [OutwardTurn, InwardTurn, InwardTurn] e) \<noteq> Finished Panic"
proof -
  let ?d = "framed_stream_new small_config (stream_of [Chunk [0, 0], Chunk [0, 9, 1]])"
  let ?p = "\<lparr>rs_stream = stream_of [], rs_context = \<lparr>ctx_common = (0, 0), ctx_device_io = ?d\<rparr>, rs_session_id = Some 7\<rparr>"
  let ?q = "\<lparr>rq_stream = stream_of [], rq_context = \<lparr>ctx_common = (0, 0), ctx_device_io = ?d\<rparr>, rq_session_id = None, rq_summary_type = SummaryHashTypeAll\<rparr>"
  let ?OS = "\<lparr>connect_upstream = Some (stream_of [Chunk [5]]), clone_local = True, spawn_first = True, spawn_second = True\<rparr>"
  have wf: "fs_wf small_config (ctx_device_io (rq_context ?q))" "fs_wf small_config (ctx_device_io (rs_context ?p))"
    by (simp_all add: fs_wf_new stream_of_def)
  note T = tunnel_well_typed [OF le_codec_ok sample_slices_ok wf, where OS = ?OS and oc = True and ts = "[OutwardTurn, InwardTurn, InwardTurn]"]
  have "tunnel_server_session ?OS small_config ?p = (Some ((tunnel_end_of \<lparr>sh_half = \<lparr>is_requester = False, session_id = 7\<rparr>, sh_common = (0, 0),
       sh_read_io = ?d, sh_write_io = framed_stream_new small_config (stream_of [])\<rparr> (stream_of [Chunk [5]]))\<lparr>te_outward := Running, te_inward := Running\<rparr>), Ok ())"
    by (simp add: tunnel_server_session_def responder_into_split_def split_endpoint_def)
  moreover have "unat (rsp_ct_exponent_sel sample_duplex c) < 64" for c by (simp add: sample_duplex_def)
  then have "\<not> 64 \<le> unat (rsp_ct_exponent_sel sample_duplex c)" for c by (simp add: not_le)
  ultimately show ?thesis using conjunct2 [OF T, rule_format] unfolding Let_def by (intro exI conjI) blast+
qed

end
