(* ===== verification/Serving.thy ===== *)
theory Serving
  imports Errors
begin

text \<open>
  What the example programs \<^verbatim>\<open>examples/spdm\<close>, \<^verbatim>\<open>examples/tls\<close> and \<^verbatim>\<open>examples/rustls\<close> have in three copies each: the
  loop that accepts connections one after the other, and the two sides of the echo test. \<open>'w\<close> is the world
  a transport acts on, \<open>'s\<close> an endpoint with its world.
\<close>

subsection \<open>Accepting connections\<close>

text \<open>
  The accept results are given as a list, \<open>None\<close> for an error; at its end the loop waits for the next
  connection. \<open>serve i conn\<close> is the body of the loop for the \<open>i\<close>-th connection: the endpoint that was handed
  on with what was made of it, if any, and how the body ended.
\<close>

datatype loop_outcome = Waiting | Hanging | Returned "unit res"

fun accept_loop :: "string \<Rightarrow> (nat \<Rightarrow> 'conn \<Rightarrow> 'w \<Rightarrow> 'w \<times> 'a option \<times> unit res option) \<Rightarrow> nat \<Rightarrow> 'conn option list \<Rightarrow> 'w \<Rightarrow>
    'w \<times> 'a list \<times> loop_outcome" where
  "accept_loop msg serve i [] w = (w, [], Waiting)"
| "accept_loop msg serve i (None # conns) w = (w, [], Returned (Err (error_of_msg msg)))"
| "accept_loop msg serve i (Some conn # conns) w =
     (case serve i conn w of (w, x, out) \<Rightarrow>
        (let xs = (case x of Some a \<Rightarrow> [a] | None \<Rightarrow> [])
         in case out of
              None \<Rightarrow> (w, xs, Hanging)
            | Some r \<Rightarrow>
                (if r = Ok ()
                 then (case accept_loop msg serve (Suc i) conns w of (w, ys, out) \<Rightarrow> (w, xs @ ys, out))
                 else (w, xs, Returned r))))"

text \<open>What the body keeps of the world, the loop keeps, and the endpoints it hands on belong to the first connections.\<close>

lemma accept_loop_keeps:
  assumes "\<And>i conn w. P w \<Longrightarrow> P (fst (serve i conn w))" and "P w"
  shows "P (fst (accept_loop msg serve i conns w))"
  using assms(2)
proof (induction conns arbitrary: i w)
  case (Cons c conns)
  show ?case
  proof (cases c)
    case (Some conn)
    obtain w1 x out where s: "serve i conn w = (w1, x, out)" using prod_cases3 by blast
    have w1: "P w1" using assms(1) [OF Cons.prems, of i conn] s by simp
    obtain w2 ys o2 where "accept_loop msg serve (Suc i) conns w1 = (w2, ys, o2)" using prod_cases3 by blast
    with Cons.IH [OF w1, of "Suc i"] s w1 Some show ?thesis by (cases out) (simp_all add: Let_def)
  qed (use Cons.prems in simp)
qed simp

lemma accept_loop_serves_first:
  assumes "\<And>i conn w w' a out. serve i conn w = (w', Some a, out) \<Longrightarrow> Q conn"
    and "\<And>i conn w w' r. serve i conn w = (w', None, Some r) \<Longrightarrow> r \<noteq> Ok ()"
  shows "accept_loop msg serve i conns w = (w', xs, out) \<Longrightarrow>
    length xs \<le> length conns \<and> (\<forall>c \<in> set (take (length xs) conns). \<exists>conn. c = Some conn \<and> Q conn)"
proof (induction conns arbitrary: i w w' xs out)
  case (Cons c conns)
  show ?case
  proof (cases c)
    case (Some conn)
    obtain w1 x o1 where s: "serve i conn w = (w1, x, o1)" using prod_cases3 by blast
    obtain w2 ys o2 where l: "accept_loop msg serve (Suc i) conns w1 = (w2, ys, o2)" using prod_cases3 by blast
    show ?thesis
    proof (cases x)
      case None
      with Cons.prems Some s assms(2) have "xs = []" by (auto simp: Let_def split: option.splits if_splits)
      then show ?thesis by simp
    next
      case (Some a)
      from Cons.prems \<open>c = Some conn\<close> s l this have "xs = [a] \<or> xs = a # ys" by (auto simp: Let_def split: option.splits if_splits)
      with Cons.IH [OF l] assms(1) [OF s [unfolded Some]] \<open>c = Some conn\<close> show ?thesis by auto
    qed
  qed (use Cons.prems in simp)
qed simp

text \<open>
  The contract of a server program: whatever its body hands on is \<open>ready\<close> for transfers.
\<close>

locale server_program =
  fixes serve :: "nat \<Rightarrow> 'conn \<Rightarrow> 'w \<Rightarrow> 'w \<times> 'a option \<times> unit res option" and ready :: "'a \<Rightarrow> bool"
  assumes hands_on_ready: "serve i conn w = (w', Some a, out) \<Longrightarrow> ready a"
begin

lemma all_ready: "accept_loop msg serve i conns w = (w', xs, out) \<Longrightarrow> list_all ready xs \<and> length xs \<le> length conns"
proof (induction conns arbitrary: i w w' xs out)
  case (Cons c conns)
  show ?case
  proof (cases c)
    case (Some conn)
    obtain w1 x o1 where s: "serve i conn w = (w1, x, o1)" using prod_cases3 by blast
    have x: "list_all ready (case x of Some a \<Rightarrow> [a] | None \<Rightarrow> [])" using hands_on_ready s by (cases x) auto
    show ?thesis
    proof (cases "o1 = Some (Ok ())")
      case True
      obtain w2 ys o2 where l: "accept_loop msg serve (Suc i) conns w1 = (w2, ys, o2)" using prod_cases3 by blast
      from Cons.IH [OF l] l s True Cons.prems Some x show ?thesis by (auto split: option.splits)
    next
      case False
      with Cons.prems s x Some show ?thesis by (auto simp: Let_def split: option.splits if_splits)
    qed
  qed (use Cons.prems in simp)
qed simp

text \<open>A loop that waits has run its body to a normal end for every connection; any other outcome is final.\<close>

lemma waiting_then:
  "accept_loop msg serve i conns w = (w1, xs, Waiting) \<Longrightarrow>
   accept_loop msg serve i (conns @ rest) w =
     (case accept_loop msg serve (i + length conns) rest w1 of (w, ys, out) \<Rightarrow> (w, xs @ ys, out))"
proof (induction conns arbitrary: i w w1 xs)
  case (Cons c conns)
  obtain conn where c: "c = Some conn" using Cons.prems by (cases c) simp_all
  obtain w2 x o2 where s: "serve i conn w = (w2, x, o2)" using prod_cases3 by blast
  have o2: "o2 = Some (Ok ())" using Cons.prems c s by (auto simp: Let_def split: option.splits if_splits)
  obtain w3 ys o3 where l: "accept_loop msg serve (Suc i) conns w2 = (w3, ys, o3)" using prod_cases3 by blast
  with Cons.prems c s o2 have "o3 = Waiting" "w3 = w1" "xs = (case x of Some a \<Rightarrow> [a] | None \<Rightarrow> []) @ ys" by (auto simp: Let_def)
  with Cons.IH [of "Suc i" w2 w1 ys] l c s o2 show ?case by (simp add: Let_def split: prod.splits)
qed simp

lemma final: "accept_loop msg serve i conns w = (w1, xs, out) \<Longrightarrow> out \<noteq> Waiting \<Longrightarrow>
    accept_loop msg serve i (conns @ rest) w = (w1, xs, out) \<and> out \<noteq> Returned (Ok ())"
proof (induction conns arbitrary: i w w1 xs out)
  case (Cons c conns)
  show ?case
  proof (cases c)
    case (Some conn)
    obtain w2 x o2 where s: "serve i conn w = (w2, x, o2)" using prod_cases3 by blast
    obtain w3 ys o3 where l: "accept_loop msg serve (Suc i) conns w2 = (w3, ys, o3)" using prod_cases3 by blast
    show ?thesis
    proof (cases "o2 = Some (Ok ())")
      case True
      with Cons.prems Some s l have "out = o3" by (simp add: Let_def)
      with Cons.IH [OF l] Cons.prems Some s l True show ?thesis by (simp add: Let_def)
    next
      case False
      with Cons.prems Some s show ?thesis by (cases o2) (auto simp: Let_def)
    qed
  qed (use Cons.prems in auto)
qed simp

text \<open>So the first connection whose body fails or hangs is the last one.\<close>

lemma one_peer_ends_the_loop:
  assumes "accept_loop msg serve i conns w = (w1, xs, Waiting)" and "serve (i + length conns) conn w1 = (w2, x, out)"
    and "out \<noteq> Some (Ok ())"
  shows "accept_loop msg serve i (conns @ Some conn # rest) w =
    (w2, xs @ (case x of Some a \<Rightarrow> [a] | None \<Rightarrow> []), case out of Some r \<Rightarrow> Returned r | None \<Rightarrow> Hanging)"
  using waiting_then [OF assms(1), of "Some conn # rest"] assms(2,3) by (cases out) (auto simp: Let_def)

end

subsection \<open>The echo test\<close>

text \<open>The server sends back \<open>n\<close> messages; a buffer is reused and its used part sent.\<close>

fun echo_rounds :: "(bytes \<Rightarrow> 's \<Rightarrow> 's \<times> bytes \<times> nat res) \<Rightarrow> (bytes \<Rightarrow> 's \<Rightarrow> 's \<times> unit res) \<Rightarrow> nat \<Rightarrow> bytes \<Rightarrow> 's \<Rightarrow> 's \<times> unit res" where
  "echo_rounds receive send 0 buf s = (s, Ok ())"
| "echo_rounds receive send (Suc n) buf s =
     (case receive buf s of (s, buf, r) \<Rightarrow>
        (case r of
           Ok recv_len \<Rightarrow>
             (if recv_len > length buf then (s, Panic)
              else (case send (take recv_len buf) s of (s, r) \<Rightarrow>
                (if r = Ok () then echo_rounds receive send n buf s else (s, r))))
         | Err e \<Rightarrow> (s, Err e)
         | Panic \<Rightarrow> (s, Panic)
         | UB \<Rightarrow> (s, UB)))"

definition ECHO_ROUNDS :: nat where "ECHO_ROUNDS = 128"

definition echo_server :: "(bytes \<Rightarrow> 's \<Rightarrow> 's \<times> bytes \<times> nat res) \<Rightarrow> (bytes \<Rightarrow> 's \<Rightarrow> 's \<times> unit res) \<Rightarrow> ('s \<Rightarrow> 's \<times> unit res) \<Rightarrow> nat \<Rightarrow> 's \<Rightarrow> 's \<times> unit res" where
  "echo_server receive send shutdown room s =
     (case echo_rounds receive send ECHO_ROUNDS (replicate room 0) s of
        (s, r) \<Rightarrow> if r = Ok () then shutdown s else (s, r))"

text \<open>Whatever the three operations keep, the server keeps.\<close>

lemma echo_server_keeps:
  assumes "\<And>buf s. P s \<Longrightarrow> P (fst (receive buf s))" and "\<And>m s. P s \<Longrightarrow> P (fst (send m s))"
    and "\<And>s. P s \<Longrightarrow> P (fst (shutdown s))" and "P s"
  shows "P (fst (echo_server receive send shutdown room s))"
proof -
  have "P (fst (echo_rounds receive send n buf s))" if "P s" for n buf s
    using that
  proof (induction n arbitrary: buf s)
    case (Suc n)
    obtain s1 buf1 r where r: "receive buf s = (s1, buf1, r)" using prod_cases3 by blast
    with assms(1) [OF Suc.prems, of buf] have s1: "P s1" by simp
    show ?case
    proof (cases r)
      case (Ok l)
      obtain s2 r2 where s2: "send (take l buf1) s1 = (s2, r2)" using prod.exhaust by blast
      with assms(2) [OF s1, of "take l buf1"] have "P s2" by simp
      with r Ok s1 s2 Suc.IH show ?thesis by simp
    qed (use r s1 in simp_all)
  qed simp
  from this [OF assms(4), of ECHO_ROUNDS "replicate room 0"] assms(3) show ?thesis
    by (cases "echo_rounds receive send ECHO_ROUNDS (replicate room 0) s") (simp add: echo_server_def)
qed

text \<open>
  The client: \<open>rnd i\<close> are the eight random bytes of round \<open>i\<close>. The two assertions panic on any other answer.
\<close>

fun ping_rounds :: "(bytes \<Rightarrow> 's \<Rightarrow> 's \<times> bytes \<times> nat res) \<Rightarrow> (bytes \<Rightarrow> 's \<Rightarrow> 's \<times> unit res) \<Rightarrow> (nat \<Rightarrow> bytes) \<Rightarrow> nat \<Rightarrow> nat \<Rightarrow> nat \<Rightarrow> 's \<Rightarrow> 's \<times> unit res" where
  "ping_rounds receive send rnd room i 0 s = (s, Ok ())"
| "ping_rounds receive send rnd room i (Suc n) s =
     (let expected = rnd i; expected_len = length expected
      in case send expected s of (s, r) \<Rightarrow>
        (if r \<noteq> Ok () then (s, r)
         else if expected_len > room then (s, Panic)
         else (case receive (take expected_len (replicate room 0)) s of (s, buf, r) \<Rightarrow>
           (case r of
              Ok recv_len \<Rightarrow>
                (if expected_len \<noteq> recv_len \<or> expected \<noteq> take expected_len buf then (s, Panic)
                 else ping_rounds receive send rnd room (Suc i) n s)
            | Err e \<Rightarrow> (s, Err e)
            | Panic \<Rightarrow> (s, Panic)
            | UB \<Rightarrow> (s, UB)))))"

definition echo_client :: "(bytes \<Rightarrow> 's \<Rightarrow> 's \<times> bytes \<times> nat res) \<Rightarrow> (bytes \<Rightarrow> 's \<Rightarrow> 's \<times> unit res) \<Rightarrow> ('s \<Rightarrow> 's \<times> unit res) \<Rightarrow> (nat \<Rightarrow> bytes) \<Rightarrow> nat \<Rightarrow> 's \<Rightarrow> 's \<times> unit res" where
  "echo_client receive send shutdown rnd room s =
     (case ping_rounds receive send rnd room 0 ECHO_ROUNDS s of
        (s, r) \<Rightarrow> if r = Ok () then shutdown s else (s, r))"

text \<open>What sending, receiving and shutting down keep, the client keeps.\<close>

lemma echo_client_keeps:
  assumes "\<And>buf s. P s \<Longrightarrow> P (fst (receive buf s))" and "\<And>m s. P s \<Longrightarrow> P (fst (send m s))"
    and "\<And>s. P s \<Longrightarrow> P (fst (shutdown s))" and "P s"
  shows "P (fst (echo_client receive send shutdown rnd room s))"
proof -
  have "P (fst (ping_rounds receive send rnd room i n s))" if "P s" for i n s
    using that
  proof (induction n arbitrary: i s)
    case (Suc n)
    obtain s1 r1 where s1: "send (rnd i) s = (s1, r1)" using prod.exhaust by blast
    with assms(2) [OF Suc.prems, of "rnd i"] have p1: "P s1" by simp
    obtain s2 buf r2 where s2: "receive (take (length (rnd i)) (replicate room 0)) s1 = (s2, buf, r2)" using prod_cases3 by blast
    with assms(1) [OF p1, of "take (length (rnd i)) (replicate room 0)"] have "P s2" by simp
    with s1 p1 s2 Suc.IH show ?case by (cases r2) (simp_all add: Let_def del: take_replicate)
  qed simp
  from this [OF assms(4), of 0 ECHO_ROUNDS] assms(3) show ?thesis
    by (cases "ping_rounds receive send rnd room 0 ECHO_ROUNDS s") (simp add: echo_client_def)
qed

text \<open>
  What the echo test relies on: an endpoint for which the messages \<open>ins\<close> are on their way and which has sent
  \<open>outs\<close> receives them one per call, whole and in order, and sends messages up to \<open>limit\<close> bytes.
\<close>

locale message_endpoint =
  fixes receive :: "bytes \<Rightarrow> 's \<Rightarrow> 's \<times> bytes \<times> nat res" and send :: "bytes \<Rightarrow> 's \<Rightarrow> 's \<times> unit res"
    and mailbox :: "'s \<Rightarrow> bytes list \<Rightarrow> bytes list \<Rightarrow> bool" and limit :: nat
  assumes receive_next: "mailbox s (m # ins) outs \<Longrightarrow> length m \<le> length buf \<Longrightarrow>
      \<exists>s'. receive buf s = (s', m @ drop (length m) buf, Ok (length m)) \<and> mailbox s' ins outs"
    and receive_none: "mailbox s [] outs \<Longrightarrow> \<exists>s' e. receive buf s = (s', buf, Err e) \<and> mailbox s' [] outs"
    and send_next: "mailbox s ins outs \<Longrightarrow> length m \<le> limit \<Longrightarrow> \<exists>s'. send m s = (s', Ok ()) \<and> mailbox s' ins (outs @ [m])"
begin

text \<open>The echo server sends back what is on its way, in order; it ends normally exactly when that is enough.\<close>

lemma echo_rounds_mailbox:
  assumes "mailbox s ins outs" and "\<forall>m \<in> set ins. length m \<le> limit \<and> length m \<le> length buf"
  shows "\<exists>s' r. echo_rounds receive send n buf s = (s', r) \<and> mailbox s' (drop n ins) (outs @ take n ins) \<and>
    (if n \<le> length ins then r = Ok () else \<exists>e. r = Err e)"
  using assms
proof (induction n arbitrary: s ins outs buf)
  case (Suc n)
  show ?case
  proof (cases ins)
    case Nil
    with receive_none [of s outs buf] Suc.prems(1) obtain s' e where "receive buf s = (s', buf, Err e)" "mailbox s' [] outs" by blast
    with Nil show ?thesis by simp
  next
    case (Cons m rest)
    let ?buf = "m @ drop (length m) buf"
    have m: "length m \<le> length buf" "length m \<le> limit" using Suc.prems(2) Cons by simp_all
    with Suc.prems(1) Cons receive_next obtain s1 where
      r: "receive buf s = (s1, ?buf, Ok (length m))" "mailbox s1 rest outs" by blast
    from send_next [OF r(2) m(2)] obtain s2 where s: "send m s1 = (s2, Ok ())" "mailbox s2 rest (outs @ [m])" by blast
    have "\<forall>m \<in> set rest. length m \<le> limit \<and> length m \<le> length ?buf" using Suc.prems(2) Cons m by simp
    from Suc.IH [OF s(2) this] r(1) s(1) Cons show ?thesis by auto
  qed
qed simp

text \<open>The client ends normally when its own messages come back.\<close>

lemma ping_rounds_mailbox:
  assumes "mailbox s (map rnd [i..<i + n]) outs" and "\<forall>j. length (rnd j) \<le> limit \<and> length (rnd j) \<le> room"
  shows "\<exists>s'. ping_rounds receive send rnd room i n s = (s', Ok ()) \<and> mailbox s' [] (outs @ map rnd [i..<i + n])"
  using assms(1)
proof (induction n arbitrary: s i outs)
  case (Suc n)
  let ?m = "rnd i"
  have upt: "[i..<i + Suc n] = i # [Suc i..<Suc i + n]" by (simp add: upt_conv_Cons)
  then have upt': "[i..<Suc (i + n)] = i # [Suc i..<Suc (i + n)]" by simp
  have len: "length ?m \<le> limit" "length ?m \<le> room" using assms(2) by simp_all
  from send_next [OF Suc.prems len(1)] obtain s1 where
    s: "send ?m s = (s1, Ok ())" "mailbox s1 (?m # map rnd [Suc i..<Suc i + n]) (outs @ [?m])" unfolding upt by auto
  have "length ?m \<le> length (take (length ?m) (replicate room (0 :: u8)))" using len(2) by simp
  from receive_next [OF s(2) this] obtain s2 where
    r: "receive (take (length ?m) (replicate room 0)) s1 = (s2, ?m @ drop (length ?m) (take (length ?m) (replicate room 0)), Ok (length ?m))"
      "mailbox s2 (map rnd [Suc i..<Suc i + n]) (outs @ [?m])" by blast
  from Suc.IH [OF r(2)] s(1) r(1) len(2) show ?case by (auto simp: Let_def upt' simp del: upt_Suc)
qed simp

end

end
