(* ===== verification/SpdmExample.thy ===== *)
theory SpdmExample
  imports Tunnel Serving
begin

text \<open>
  \<^verbatim>\<open>examples/spdm\<close>: the programs around an SPDM session (\<^verbatim>\<open>src/spdm.rs\<close>, \<^verbatim>\<open>src/echo/mod.rs\<close>, \<^verbatim>\<open>src/tunnel/mod.rs\<close>).
  A server accepts connections one after the other, negotiates on each and hands the responder on; a
  client connects once. Command line, logging and address parsing are left out: a listener is the list of
  its accept results, a connection that cannot be made is \<open>None\<close>.
\<close>

subsection \<open>Connecting\<close>

record spdm_options =
  opt_attest_self :: bool
  opt_verify_peer :: bool

text \<open>What both sides need to build an endpoint.\<close>

record ('c, 'e) spdm_setup =
  su_deps :: deps
  su_endpoint :: endpoint_lib
  su_io :: io_config
  su_mut_auth :: bool
  su_context_new :: "'c context_new"
  su_rng :: "nat \<Rightarrow> rng"
  su_attester :: "'e attester"
  su_claims :: "'e \<Rightarrow> claims res"

definition verify_mode_of :: "spdm_options \<Rightarrow> verify_mode" where
  "verify_mode_of opts = (if opt_verify_peer opts then VERIFY_PEER else VERIFY_NONE)"

text \<open>
  The body of the server's loop: \<open>known\<close> says that the peer's address can be read. The responder is handed
  to \<open>func\<close>, which answers with what it makes of it; \<open>None\<close> as outcome is a negotiation that never returns.
\<close>

definition spdm_serve_one :: "('c, 'e) spdm_setup \<Rightarrow> 'c responder_lib \<Rightarrow> codec_lib \<Rightarrow> spdm_options \<Rightarrow>
    (nat \<Rightarrow> 'c spdm_responder \<Rightarrow> 'w \<Rightarrow> 'w \<times> 'x \<times> unit res) \<Rightarrow> nat \<Rightarrow> stream \<times> bool \<Rightarrow> 'w \<Rightarrow>
    'w \<times> ('c spdm_responder \<times> 'x) option \<times> unit res option" where
  "spdm_serve_one U RL K opts func i conn w =
     (case conn of (strm, known) \<Rightarrow>
        (if \<not> known then (w, None, Some Panic)
         else (case responder_build_with_tcp_stream (su_deps U) (su_endpoint U) (su_io U) (su_mut_auth U) (su_context_new U)
                 (su_rng U i) (su_attester U) (su_claims U)
                 (responder_with_verify_mode (responder_with_attest_self responder_builder_new (opt_attest_self opts))
                    (verify_mode_of opts)) strm of
             Ok responder \<Rightarrow>
               (case responder_negotiate RL K (su_io U) (su_endpoint U) responder of
                  None \<Rightarrow> (w, None, None)
                | Some (responder, r) \<Rightarrow>
                    (if r = Ok () then (case func i responder w of (w, x, r) \<Rightarrow> (w, Some (responder, x), Some r))
                     else (w, None, Some r)))
           | Err e \<Rightarrow> (w, None, Some (Err e))
           | Panic \<Rightarrow> (w, None, Some Panic)
           | UB \<Rightarrow> (w, None, Some UB))))"

definition with_spdm_tcp_server :: "('c, 'e) spdm_setup \<Rightarrow> 'c responder_lib \<Rightarrow> codec_lib \<Rightarrow> spdm_options \<Rightarrow>
    (nat \<Rightarrow> 'c spdm_responder \<Rightarrow> 'w \<Rightarrow> 'w \<times> 'x \<times> unit res) \<Rightarrow> (stream \<times> bool) option list \<Rightarrow> 'w \<Rightarrow>
    'w \<times> ('c spdm_responder \<times> 'x) list \<times> loop_outcome" where
  "with_spdm_tcp_server U RL K opts func conns w =
     accept_loop ''Error accepting connection: {}'' (spdm_serve_one U RL K opts func) 0 conns w"

definition with_spdm_tcp_client :: "('c, 'e) spdm_setup \<Rightarrow> 'c requester_lib \<Rightarrow> spdm_options \<Rightarrow> nat \<Rightarrow> stream option \<Rightarrow>
    ('c spdm_requester \<Rightarrow> 'x \<times> unit res) \<Rightarrow> ('x option \<times> unit res) option" where
  "with_spdm_tcp_client U L opts i connected func =
     (case connected of
        None \<Rightarrow> Some (None, Panic)
      | Some strm \<Rightarrow>
          (case requester_build_with_tcp_stream (su_deps U) (su_endpoint U) (su_io U) (su_mut_auth U) (su_context_new U)
              (su_rng U i) (su_attester U) (su_claims U)
              (requester_with_verify_mode (requester_with_attest_self requester_builder_new (opt_attest_self opts))
                 (verify_mode_of opts)) strm of
             Ok requester \<Rightarrow>
               (case requester_negotiate L requester of
                  None \<Rightarrow> None
                | Some (requester, r) \<Rightarrow>
                    Some (if r = Ok () then (case func requester of (x, r) \<Rightarrow> (Some x, r)) else (None, r)))
           | Err e \<Rightarrow> Some (None, Err e)
           | Panic \<Rightarrow> Some (None, Panic)
           | UB \<Rightarrow> Some (None, UB)))"

subsection \<open>Tunnel\<close>

text \<open>The server's tunnels, each with its own answers of the operating system.\<close>

definition tunnel_server :: "('c, 'e) spdm_setup \<Rightarrow> 'c responder_lib \<Rightarrow> codec_lib \<Rightarrow> spdm_options \<Rightarrow> (nat \<Rightarrow> tunnel_os) \<Rightarrow>
    (stream \<times> bool) option list \<Rightarrow> ('c spdm_responder \<times> 'c tunnel_end option) list \<times> loop_outcome" where
  "tunnel_server U RL K opts OS conns =
     snd (with_spdm_tcp_server U RL K opts
       (\<lambda>i responder w. case tunnel_server_session (OS i) (su_io U) responder of (x, r) \<Rightarrow> (w, x, r)) conns ())"

text \<open>
  The client makes a session for each local connection; a local connection that is not accepted is only
  logged. \<open>connected i\<close> is the connection to the server for the \<open>i\<close>-th one.
\<close>

fun tunnel_client :: "('c, 'e) spdm_setup \<Rightarrow> 'c requester_lib \<Rightarrow> spdm_options \<Rightarrow> (nat \<Rightarrow> tunnel_os) \<Rightarrow> (nat \<Rightarrow> stream option) \<Rightarrow> nat \<Rightarrow>
    stream option list \<Rightarrow> 'c tunnel_end list \<times> loop_outcome" where
  "tunnel_client U L opts OS connected i [] = ([], Waiting)"
| "tunnel_client U L opts OS connected i (None # locals) = tunnel_client U L opts OS connected (Suc i) locals"
| "tunnel_client U L opts OS connected i (Some client_stream # locals) =
     (case with_spdm_tcp_client U L opts i (connected i) (tunnel_client_session (OS i) (su_io U) client_stream) of
        None \<Rightarrow> ([], Hanging)
      | Some (x, r) \<Rightarrow>
          (let xs = (case x of Some (Some e) \<Rightarrow> [e] | _ \<Rightarrow> [])
           in if r = Ok () then (case tunnel_client U L opts OS connected (Suc i) locals of (ys, out) \<Rightarrow> (xs @ ys, out))
              else (xs, Returned r)))"

subsection \<open>Echo\<close>

text \<open>The two halves of a session as one endpoint.\<close>

definition halves_receive :: "'c spdm_lib \<Rightarrow> codec_lib \<Rightarrow> io_config \<Rightarrow> bool \<Rightarrow> bytes \<Rightarrow> 'c session_halves \<Rightarrow> 'c session_halves \<times> bytes \<times> nat res" where
  "halves_receive S K cfg oc buf H =
     (case read_half_receive S K cfg oc (sh_half H) (sh_common H) (sh_read_io H) buf of
        (c, d, buf, r) \<Rightarrow> (H\<lparr>sh_common := c, sh_read_io := d\<rparr>, buf, r))"

definition halves_send :: "'c spdm_lib \<Rightarrow> codec_lib \<Rightarrow> io_config \<Rightarrow> bytes \<Rightarrow> 'c session_halves \<Rightarrow> 'c session_halves \<times> unit res" where
  "halves_send S K cfg m H =
     (case write_half_send S K cfg (sh_half H) (sh_common H) (sh_write_io H) m of
        (c, d, r) \<Rightarrow> (H\<lparr>sh_common := c, sh_write_io := d\<rparr>, r))"

definition halves_shutdown :: "'c session_halves \<Rightarrow> 'c session_halves \<times> unit res" where
  "halves_shutdown H = (case write_half_shutdown (sh_write_io H) of (d, r) \<Rightarrow> (H\<lparr>sh_write_io := d\<rparr>, r))"

definition spdm_echo_server :: "'c spdm_lib \<Rightarrow> codec_lib \<Rightarrow> io_config \<Rightarrow> endpoint_lib \<Rightarrow> bool \<Rightarrow> 'c session_halves \<Rightarrow> 'c session_halves \<times> unit res" where
  "spdm_echo_server S K cfg E oc =
     echo_server (halves_receive S K cfg oc) (halves_send S K cfg) halves_shutdown (MAX_SPDM_MSG_SIZE E)"

definition spdm_echo_client :: "'c spdm_lib \<Rightarrow> codec_lib \<Rightarrow> io_config \<Rightarrow> endpoint_lib \<Rightarrow> bool \<Rightarrow> (nat \<Rightarrow> bytes) \<Rightarrow> 'c session_halves \<Rightarrow> 'c session_halves \<times> unit res" where
  "spdm_echo_client S K cfg E oc rnd =
     echo_client (halves_receive S K cfg oc) (halves_send S K cfg) halves_shutdown rnd (MAX_SPDM_MSG_SIZE E)"

subsection \<open>The contracts\<close>

definition responder_ready :: "'c responder_lib \<Rightarrow> 'c spdm_responder \<times> 'x \<Rightarrow> bool" where
  "responder_ready RL a \<longleftrightarrow> (\<exists>sid. rs_session_id (fst a) = Some sid \<and> ensure_session_established RL (fst a) sid = Ok ())"

interpretation spdm_server: server_program "spdm_serve_one U RL K opts func" "responder_ready RL"
  for U :: "('c, 'e) spdm_setup" and RL K opts and func :: "nat \<Rightarrow> 'c spdm_responder \<Rightarrow> 'w \<Rightarrow> 'w \<times> 'x \<times> unit res"
proof
  fix i conn and w w' :: 'w and a :: "'c spdm_responder \<times> 'x" and out
  assume "spdm_serve_one U RL K opts func i conn w = (w', Some a, out)"
  then obtain p p' where "responder_negotiate RL K (su_io U) (su_endpoint U) p = Some (p', Ok ())" "fst a = p'"
    by (auto simp: spdm_serve_one_def split: prod.splits if_splits res.splits option.splits)
  with responder_negotiate_result [of RL K "su_io U" "su_endpoint U" p p' "Ok ()"] show "responder_ready RL a"
    by (auto simp: responder_ready_def)
qed

text \<open>
  A session in which every message of at most \<open>limit\<close> bytes can be sent while it is alive, and the state of an
  endpoint in it: the messages \<open>ins\<close> of the peer are on their way, \<open>outs\<close> have been sent since the wire
  was \<open>W0\<close> and the next packet number \<open>t0\<close>.
\<close>

definition duplex_live :: "'c spdm_lib \<Rightarrow> io_config \<Rightarrow> u32 \<Rightarrow> ('c \<Rightarrow> bool) \<Rightarrow> nat \<Rightarrow> bool" where
  "duplex_live S cfg sid alive limit \<longleftrightarrow>
     (\<forall>c m req. alive c \<and> length m \<le> limit \<longrightarrow>
        (\<exists>c' buf n. encode_secured_message S c sid m (replicate (SENDER_BUFFER_SIZE cfg) 0) req True = (c', buf, Inr n))) \<and>
     (\<forall>c. alive c \<longrightarrow> rsp_data_transfer_size_sel S c = 0 \<or> limit \<le> unat (rsp_data_transfer_size_sel S c))"

definition session_ok :: "'c spdm_lib \<Rightarrow> codec_lib \<Rightarrow> io_config \<Rightarrow> u32 \<Rightarrow> ('c \<Rightarrow> nat) \<Rightarrow> ('c \<Rightarrow> nat) \<Rightarrow> ('c \<Rightarrow> bool) \<Rightarrow>
    (bool \<Rightarrow> nat \<Rightarrow> bytes \<Rightarrow> bytes) \<Rightarrow> nat \<Rightarrow> bool" where
  "session_ok S K cfg sid tx rx alive seal limit \<longleftrightarrow>
     codec_ok K \<and> duplex_ok S cfg sid tx rx alive seal \<and> duplex_live S cfg sid alive limit \<and>
     SENDER_BUFFER_SIZE cfg \<le> RECEIVER_BUFFER_SIZE cfg \<and> SENDER_BUFFER_SIZE cfg < 4294967296"

definition spdm_mailbox :: "'c spdm_lib \<Rightarrow> codec_lib \<Rightarrow> io_config \<Rightarrow> u32 \<Rightarrow> ('c \<Rightarrow> nat) \<Rightarrow> ('c \<Rightarrow> nat) \<Rightarrow> ('c \<Rightarrow> bool) \<Rightarrow>
    (bool \<Rightarrow> nat \<Rightarrow> bytes \<Rightarrow> bytes) \<Rightarrow> nat \<Rightarrow> bool \<Rightarrow> nat \<Rightarrow> bytes \<Rightarrow> 'c session_halves \<Rightarrow> bytes list \<Rightarrow> bytes list \<Rightarrow> bool" where
  "spdm_mailbox S K cfg sid tx rx alive seal limit req t0 W0 H ins outs \<longleftrightarrow>
     session_ok S K cfg sid tx rx alive seal limit \<and> sh_half H = \<lparr>is_requester = req, session_id = sid\<rparr> \<and> alive (sh_common H) \<and>
     fs_queued K cfg (sh_read_io H) (sealed (seal (\<not> req)) (rx (sh_common H)) ins) \<and>
     tx (sh_common H) = t0 + length outs \<and>
     outgoing (stream (sh_write_io H)) = W0 @ wire K (seal req) t0 outs \<and>
     write_faults (stream (sh_write_io H)) = [] \<and> write_open (stream (sh_write_io H))"

lemma mailbox_session:
  assumes "spdm_mailbox S K cfg sid tx rx alive seal limit req t0 W0 H ins outs"
  shows "codec_ok K" and "duplex_ok S cfg sid tx rx alive seal" and "duplex_live S cfg sid alive limit"
    and "sh_half H = \<lparr>is_requester = req, session_id = sid\<rparr>" and "alive (sh_common H)"
    and "fs_queued K cfg (sh_read_io H) (sealed (seal (\<not> req)) (rx (sh_common H)) ins)"
    and "unat (rsp_ct_exponent_sel S (sh_common H)) < 64"
  using assms by (auto simp: spdm_mailbox_def session_ok_def intro: duplex_decode(2))

lemma mailbox_receive:
  assumes mb: "spdm_mailbox S K cfg sid tx rx alive seal limit req t0 W0 H (m # ins) outs" and len: "length m \<le> length buf"
  shows "\<exists>H'. halves_receive S K cfg oc buf H = (H', m @ drop (length m) buf, Ok (length m)) \<and>
    spdm_mailbox S K cfg sid tx rx alive seal limit req t0 W0 H' ins outs"
proof -
  note H = mailbox_session [OF mb]
  let ?c = "sh_common H"
  from H(6) have q: "fs_queued K cfg (sh_read_io H) (seal (\<not> req) (rx ?c) m # sealed (seal (\<not> req)) (Suc (rx ?c)) ins)" by simp
  obtain c' buf' r where dec: "decode_secured_message S ?c sid (seal (\<not> req) (rx ?c) m) buf (\<not> req) = (c', buf', r)"
    using prod_cases3 by blast
  from duplex_next(2) [OF H(2) dec H(5) len] obtain n app where r: "r = Inr (n, app)" and al: "alive c'" by auto
  from duplex_next(1) [OF H(2) dec r] have a: "app" "n = length m" "buf' = m @ drop n buf" "rx c' = Suc (rx ?c)" by simp_all
  have tx: "tx c' = tx ?c" by (rule duplex_decode(1) [OF H(2) dec])
  from read_half_receive_packet [OF q H(7), of "sh_half H" buf c' buf' n oc] dec r a(1) H(4) obtain d where
    d: "read_half_receive S K cfg oc (sh_half H) ?c (sh_read_io H) buf = (c', d, buf', Ok n)"
      "fs_queued K cfg d (sealed (seal (\<not> req)) (Suc (rx ?c)) ins)" by auto
  then show ?thesis using mb a al tx by (simp add: halves_receive_def spdm_mailbox_def)
qed

lemma mailbox_receive_none:
  assumes mb: "spdm_mailbox S K cfg sid tx rx alive seal limit req t0 W0 H [] outs"
  shows "\<exists>H' e. halves_receive S K cfg oc buf H = (H', buf, Err e) \<and> spdm_mailbox S K cfg sid tx rx alive seal limit req t0 W0 H' [] outs"
proof -
  note H = mailbox_session [OF mb]
  let ?c = "sh_common H"
  from H(6) have wf: "fs_wf cfg (sh_read_io H)" and p: "pending (sh_read_io H) = []" by (simp_all add: fs_queued_def)
  from H(1) wf show ?thesis
  proof (cases rule: receive_cases [where oc = oc and S = S and c = ?c and h = "sh_half H" and buf = buf])
    case (not_ready d r)
    then obtain e where "r = Err e" by (cases r) (simp_all add: fails_with_def)
    with not_ready mb p show ?thesis by (auto simp: halves_receive_def spdm_mailbox_def fs_queued_def)
  qed (use H(7) p frame_ready_Nil in auto)
qed

lemma mailbox_send:
  assumes mb: "spdm_mailbox S K cfg sid tx rx alive seal limit req t0 W0 H ins outs" and len: "length m \<le> limit"
  shows "\<exists>H'. halves_send S K cfg m H = (H', Ok ()) \<and> spdm_mailbox S K cfg sid tx rx alive seal limit req t0 W0 H' ins (outs @ [m])"
proof -
  note H = mailbox_session [OF mb]
  let ?c = "sh_common H" and ?d = "sh_write_io H"
  from mb have d: "write_faults (stream ?d) = []" "write_open (stream ?d)" "tx ?c = t0 + length outs" by (simp_all add: spdm_mailbox_def)
  from H(3,5) len obtain c' buf n where
    enc: "encode_secured_message S ?c sid m (replicate (SENDER_BUFFER_SIZE cfg) 0) req True = (c', buf, Inr n)"
    unfolding duplex_live_def by blast
  note e = duplex_encode [OF H(2) enc]
  have "rsp_data_transfer_size_sel S ?c = 0 \<or> length m \<le> unat (rsp_data_transfer_size_sel S ?c)"
    using H(3,5) len unfolding duplex_live_def by (meson order_trans)
  from write_half_send_ok [OF H(1) d(1,2) this, of "sh_half H" cfg c' buf n] enc e(3) [OF refl] H(4)
  have "write_half_send S K cfg (sh_half H) ?c ?d m =
      (c', ?d\<lparr>stream := (stream ?d)\<lparr>outgoing := outgoing (stream ?d) @ frame K (seal req (tx ?c) m)\<rparr>\<rparr>, Ok ())" by simp
  then show ?thesis
    using mb e(1) e(2) [OF H(5)] e(3) [OF refl] d(3) by (simp add: halves_send_def spdm_mailbox_def)
qed

interpretation spdm_halves: message_endpoint "halves_receive S K cfg oc" "halves_send S K cfg"
    "spdm_mailbox S K cfg sid tx rx alive seal limit req t0 W0" limit
  for S :: "'c spdm_lib" and K cfg oc sid tx rx alive seal limit req t0 W0
  by unfold_locales (fact mailbox_receive mailbox_receive_none mailbox_send)+

subsection \<open>Properties\<close>

lemma halves_shutdown_clean:
  assumes "write_faults (stream (sh_write_io H)) = []"
  obtains H' where "halves_shutdown H = (H', Ok ())" "outgoing (stream (sh_write_io H')) = outgoing (stream (sh_write_io H))"
    "\<not> write_open (stream (sh_write_io H'))"
  using assms that by (auto simp: halves_shutdown_def write_half_shutdown_def shutdown_write_def write_some_def)

lemma mailbox_wire:
  "spdm_mailbox S K cfg sid tx rx alive seal limit req t0 W0 H ins outs \<Longrightarrow>
   outgoing (stream (sh_write_io H)) = W0 @ wire K (seal req) t0 outs \<and> write_faults (stream (sh_write_io H)) = [] \<and>
   pending (sh_read_io H) = wire K (seal (\<not> req)) (rx (sh_common H)) ins"
  by (simp add: spdm_mailbox_def fs_queued_def wire_def)

lemma spdm_echo_server_mailbox:
  assumes "spdm_mailbox S K cfg sid tx rx alive seal limit req t0 W0 H ins []"
    and "\<forall>m \<in> set ins. length m \<le> limit \<and> length m \<le> MAX_SPDM_MSG_SIZE E"
  obtains H' r where "spdm_echo_server S K cfg E oc H = (H', r)" "r = Ok () \<longleftrightarrow> ECHO_ROUNDS \<le> length ins"
    "outgoing (stream (sh_write_io H')) = W0 @ wire K (seal req) t0 (take ECHO_ROUNDS ins)"
proof -
  have "\<forall>m \<in> set ins. length m \<le> limit \<and> length m \<le> length (replicate (MAX_SPDM_MSG_SIZE E) (0 :: u8))" using assms(2) by simp
  from spdm_halves.echo_rounds_mailbox [OF assms(1) this, where n = ECHO_ROUNDS and oc = oc] obtain S1 r1 where
    e: "echo_rounds (halves_receive S K cfg oc) (halves_send S K cfg) ECHO_ROUNDS (replicate (MAX_SPDM_MSG_SIZE E) 0) H = (S1, r1)"
      "spdm_mailbox S K cfg sid tx rx alive seal limit req t0 W0 S1 (drop ECHO_ROUNDS ins) ([] @ take ECHO_ROUNDS ins)"
      "if ECHO_ROUNDS \<le> length ins then r1 = Ok () else \<exists>e. r1 = Err e" by blast
  note w = mailbox_wire [OF e(2)]
  show thesis
  proof (cases "ECHO_ROUNDS \<le> length ins")
    case True
    from w have "write_faults (stream (sh_write_io S1)) = []" by simp
    then obtain S2 where "halves_shutdown S1 = (S2, Ok ())" "outgoing (stream (sh_write_io S2)) = outgoing (stream (sh_write_io S1))"
      by (rule halves_shutdown_clean)
    with that [of S2 "Ok ()"] e True w show thesis by (simp add: spdm_echo_server_def echo_server_def)
  next
    case False
    with e(3) obtain x where "r1 = Err x" by auto
    with that [of S1 "Err x"] e(1) False w show thesis by (simp add: spdm_echo_server_def echo_server_def)
  qed
qed

lemma spdm_echo_client_mailbox:
  assumes "spdm_mailbox S K cfg sid tx rx alive seal limit req t0 W0 H (map rnd [0..<ECHO_ROUNDS]) []"
    and "\<forall>j. length (rnd j) \<le> limit \<and> length (rnd j) \<le> MAX_SPDM_MSG_SIZE E"
  obtains H' where "spdm_echo_client S K cfg E oc rnd H = (H', Ok ())"
    "outgoing (stream (sh_write_io H')) = W0 @ wire K (seal req) t0 (map rnd [0..<ECHO_ROUNDS])"
proof -
  from spdm_halves.ping_rounds_mailbox [of S K cfg sid tx rx alive seal limit req t0 W0 H rnd 0 ECHO_ROUNDS "[]", OF _ assms(2), where oc = oc]
    assms(1) obtain C1 where
    p: "ping_rounds (halves_receive S K cfg oc) (halves_send S K cfg) rnd (MAX_SPDM_MSG_SIZE E) 0 ECHO_ROUNDS H = (C1, Ok ())"
      "spdm_mailbox S K cfg sid tx rx alive seal limit req t0 W0 C1 [] ([] @ map rnd [0..<ECHO_ROUNDS])" by auto
  note w = mailbox_wire [OF p(2)]
  then obtain C2 where "halves_shutdown C1 = (C2, Ok ())" "outgoing (stream (sh_write_io C2)) = outgoing (stream (sh_write_io C1))"
    using halves_shutdown_clean by blast
  with that [of C2] p(1) w show thesis by (simp add: spdm_echo_client_def echo_client_def)
qed

text \<open>
  C22. The echo test over an SPDM session. A server for which the messages \<open>ins\<close> are on their way puts exactly these
  (at most 128) on the wire again, in order, under its own packet numbers, and ends normally exactly when
  there are 128 of them. A client whose own random messages come back sends them all and ends normally, its
  assertions holding. When the packet numbers of the two ends agree, each end's wire is what the other's
  device holds, so the two executions are one exchange.
\<close>

theorem spdm_echo_exact:
  assumes "spdm_mailbox S K cfg sid tx rx alive seal limit False t0 W0 Sv ins []"
    and "\<forall>m \<in> set ins. length m \<le> limit \<and> length m \<le> MAX_SPDM_MSG_SIZE E"
    and "spdm_mailbox S K cfg sid tx rx alive seal limit True u0 V0 Cl (map rnd [0..<ECHO_ROUNDS]) []"
    and "\<forall>j. length (rnd j) = 8" and "8 \<le> limit" and "8 \<le> MAX_SPDM_MSG_SIZE E"
  shows "\<exists>Sv' r Cl'. spdm_echo_server S K cfg E oc Sv = (Sv', r) \<and> (r = Ok () \<longleftrightarrow> ECHO_ROUNDS \<le> length ins) \<and>
    outgoing (stream (sh_write_io Sv')) = W0 @ wire K (seal False) t0 (take ECHO_ROUNDS ins) \<and>
    spdm_echo_client S K cfg E oc rnd Cl = (Cl', Ok ()) \<and>
    outgoing (stream (sh_write_io Cl')) = V0 @ wire K (seal True) u0 (map rnd [0..<ECHO_ROUNDS]) \<and>
    (ins = map rnd [0..<ECHO_ROUNDS] \<and> rx (sh_common Sv) = u0 \<and> rx (sh_common Cl) = t0 \<longrightarrow>
       outgoing (stream (sh_write_io Cl')) = V0 @ pending (sh_read_io Sv) \<and>
       outgoing (stream (sh_write_io Sv')) = W0 @ pending (sh_read_io Cl))"
proof -
  obtain S2 r2 where sv: "spdm_echo_server S K cfg E oc Sv = (S2, r2)" "r2 = Ok () \<longleftrightarrow> ECHO_ROUNDS \<le> length ins"
    "outgoing (stream (sh_write_io S2)) = W0 @ wire K (seal False) t0 (take ECHO_ROUNDS ins)"
    using spdm_echo_server_mailbox [OF assms(1,2)] by blast
  have "\<forall>j. length (rnd j) \<le> limit \<and> length (rnd j) \<le> MAX_SPDM_MSG_SIZE E" using assms(4-6) by simp
  then obtain C2 where cl: "spdm_echo_client S K cfg E oc rnd Cl = (C2, Ok ())"
    "outgoing (stream (sh_write_io C2)) = V0 @ wire K (seal True) u0 (map rnd [0..<ECHO_ROUNDS])"
    using spdm_echo_client_mailbox [OF assms(3)] by blast
  have "ins = map rnd [0..<ECHO_ROUNDS] \<and> rx (sh_common Sv) = u0 \<and> rx (sh_common Cl) = t0 \<longrightarrow>
       outgoing (stream (sh_write_io C2)) = V0 @ pending (sh_read_io Sv) \<and> outgoing (stream (sh_write_io S2)) = W0 @ pending (sh_read_io Cl)"
    using cl(2) sv(3) mailbox_wire [OF assms(1)] mailbox_wire [OF assms(3)] by auto
  with sv cl show ?thesis by (intro exI [of _ S2] exI [of _ r2] exI [of _ C2]) blast
qed

text \<open>The session of the tunnel's witness carries it.\<close>

definition sample_halves :: "bool \<Rightarrow> bytes list \<Rightarrow> (nat \<times> nat) session_halves" where
  "sample_halves req ins = \<lparr>sh_half = \<lparr>is_requester = req, session_id = 7\<rparr>, sh_common = (0, 0),
     sh_read_io = framed_stream_new small_config (stream_of [Chunk (wire le_codec (sample_seal (\<not> req)) 0 ins)]),
     sh_write_io = framed_stream_new small_config (stream_of [])\<rparr>"

lemma sample_session_ok: "session_ok sample_duplex le_codec small_config 7 fst snd (\<lambda>_. True) sample_seal 14"
  using sample_duplex_ok [of 7] le_codec_ok
  by (simp add: session_ok_def duplex_live_def) (simp add: sample_duplex_def small_config_def)

lemma sample_packets: "\<forall>m \<in> set ins. length m \<le> 14 \<Longrightarrow> \<forall>p \<in> set (sealed (sample_seal req) n ins). packet_ok small_config p"
  by (induction ins arbitrary: n) (simp_all add: packet_ok_def small_config_def sample_seal_def)

lemma sample_mailbox:
  assumes "ins \<noteq> []" and "\<forall>m \<in> set ins. length m \<le> 14"
  shows "spdm_mailbox sample_duplex le_codec small_config 7 fst snd (\<lambda>_. True) sample_seal 14 req 0 [] (sample_halves req ins) ins []"
proof -
  have "wire le_codec (sample_seal (\<not> req)) 0 ins \<noteq> []"
    using assms(1) header_bytes_spec(1) [OF le_codec_ok] by (cases ins) (auto simp: frame_def sample_seal_def)
  then show ?thesis
    using sample_session_ok sample_packets [OF assms(2)] le_codec_ok fs_wf_new [where cfg = small_config and s = "stream_of [Chunk (wire le_codec (sample_seal (\<not> req)) 0 ins)]"]
    by (simp add: spdm_mailbox_def fs_queued_def sample_halves_def) (simp add: wire_def stream_of_def framed_stream_new_def)
qed

theorem spdm_echo_exact_witness:
  "\<exists>Sv Cl. spdm_echo_server sample_duplex le_codec small_config sample_endpoint True (sample_halves False (replicate 128 (replicate 8 7))) = (Sv, Ok ()) \<and>
     spdm_echo_client sample_duplex le_codec small_config sample_endpoint True (\<lambda>_. replicate 8 7) (sample_halves True (replicate 128 (replicate 8 7))) = (Cl, Ok ()) \<and>
     outgoing (stream (sh_write_io Cl)) = pending (sh_read_io (sample_halves False (replicate 128 (replicate 8 7)))) \<and>
     outgoing (stream (sh_write_io Sv)) = pending (sh_read_io (sample_halves True (replicate 128 (replicate 8 7))))"
proof -
  let ?ins = "replicate 128 (replicate 8 7) :: bytes list"
  have ins: "map (\<lambda>_. replicate 8 7) [0..<ECHO_ROUNDS] = ?ins" by (simp add: ECHO_ROUNDS_def map_replicate_const)
  have ne: "?ins \<noteq> []" and len: "\<forall>m \<in> set ?ins. length m \<le> 14" by simp_all
  have sv: "\<forall>m \<in> set ?ins. length m \<le> 14 \<and> length m \<le> MAX_SPDM_MSG_SIZE sample_endpoint" by (simp add: sample_endpoint_def)
  have rnd: "\<forall>j :: nat. length (replicate 8 (7 :: u8)) = 8" "8 \<le> (14 :: nat)" "8 \<le> MAX_SPDM_MSG_SIZE sample_endpoint"
    by (simp_all add: sample_endpoint_def)
  have rx: "snd (sh_common (sample_halves r ?ins)) = 0" for r by (simp add: sample_halves_def)
  have rounds: "ECHO_ROUNDS \<le> length ?ins" by (simp add: ECHO_ROUNDS_def)
  note mb = sample_mailbox [OF ne len]
  from spdm_echo_exact [OF mb sv mb [folded ins] rnd, unfolded ins, where oc = True] rx rounds
  obtain Sv r Cl where e: "spdm_echo_server sample_duplex le_codec small_config sample_endpoint True (sample_halves False ?ins) = (Sv, r)" "r = Ok ()"
    "spdm_echo_client sample_duplex le_codec small_config sample_endpoint True (\<lambda>_. replicate 8 7) (sample_halves True ?ins) = (Cl, Ok ())"
    "outgoing (stream (sh_write_io Cl)) = [] @ pending (sh_read_io (sample_halves False ?ins))"
    "outgoing (stream (sh_write_io Sv)) = [] @ pending (sh_read_io (sample_halves True ?ins))"
    by blast
  then show ?thesis by (intro exI [of _ Sv] exI [of _ Cl]) simp
qed

end
