(* ===== verification/SpdmAttested.thy ===== *)
theory SpdmAttested
  imports SpdmExample
begin

text \<open>
  Whom an SPDM endpoint talks to: what \<open>VERIFY_PEER\<close> means for the requester and for the responder, through
  the builders, the negotiation and the client program.
\<close>

text \<open>
  What is relied on of \<open>spdmlib\<close>'s requester: the context keeps the validation strategy it is made with; the
  exchange that fetches the certificate chain succeeds only if this strategy accepted the chain, which is
  then the \<open>peer\<close> of the context; the exchanges that authenticate the responder and set up the session
  do not exchange it for another one.
\<close>

definition keeps :: "('c \<Rightarrow> 'x) \<Rightarrow> 'c spdm_context \<Rightarrow> 'c spdm_context \<Rightarrow> bool" where
  "keeps f c c' \<longleftrightarrow> f (ctx_common c') = f (ctx_common c)"

definition spdm_verifies :: "deps \<Rightarrow> 'c requester_lib \<Rightarrow> 'c context_new \<Rightarrow> ('c \<Rightarrow> cert_validation_strategy) \<Rightarrow> ('c \<Rightarrow> bytes option) \<Rightarrow> bool" where
  "spdm_verifies D L context_new strategy peer \<longleftrightarrow>
     (\<forall>m s st info prov. strategy (context_new m s st info prov) = st) \<and>
     (\<forall>c c' r. init_connection L c = Some (c', r) \<or> send_receive_spdm_digest L c = Some (c', r) \<longrightarrow> keeps strategy c c') \<and>
     (\<forall>c c' slot. send_receive_spdm_certificate L c slot = Some (c', Inr ()) \<and> strategy (ctx_common c) = RatsStrategy \<longrightarrow>
        (\<exists>chain. peer (ctx_common c') = Some chain \<and> rats_verify_cert_chain D chain = Ok (Inr ()))) \<and>
     (\<forall>c slot t c' r. send_receive_spdm_challenge L c slot t = Some (c', r) \<longrightarrow> keeps peer c c') \<and>
     (\<forall>c slot attrs op c' answer r. send_receive_spdm_measurement L c slot attrs op = Some (c', answer, r) \<longrightarrow> keeps peer c c') \<and>
     (\<forall>c psk slot t c' r. start_session L c psk slot t = Some (c', r) \<longrightarrow> keeps peer c c')"

lemma spdm_verifiesD:
  assumes "spdm_verifies D L context_new strategy peer"
  shows "init_connection L c = Some (c', r) \<Longrightarrow> keeps strategy c c'"
    and "send_receive_spdm_digest L c = Some (c', r) \<Longrightarrow> keeps strategy c c'"
    and "send_receive_spdm_challenge L c slot t = Some (c', r) \<Longrightarrow> keeps peer c c'"
    and "send_receive_spdm_measurement L c slot attrs op = Some (c', answer, r) \<Longrightarrow> keeps peer c c'"
    and "start_session L c psk slot t = Some (c', sid) \<Longrightarrow> keeps peer c c'"
proof -
  note v = assms [unfolded spdm_verifies_def, THEN conjunct2]
  show "init_connection L c = Some (c', r) \<Longrightarrow> keeps strategy c c'" "send_receive_spdm_digest L c = Some (c', r) \<Longrightarrow> keeps strategy c c'"
    using conjunct1 [OF v] by blast+
  note v = v [THEN conjunct2, THEN conjunct2]
  show "send_receive_spdm_challenge L c slot t = Some (c', r) \<Longrightarrow> keeps peer c c'" using conjunct1 [OF v] by blast
  show "send_receive_spdm_measurement L c slot attrs op = Some (c', answer, r) \<Longrightarrow> keeps peer c c'"
    using conjunct1 [OF conjunct2 [OF v]] by blast
  show "start_session L c psk slot t = Some (c', sid) \<Longrightarrow> keeps peer c c'" using conjunct2 [OF conjunct2 [OF v]] by blast
qed

lemma handshake_attested:
  assumes "spdm_verifies D L context_new strategy peer" and "handshake L t c sid c'" and "strategy (ctx_common c) = RatsStrategy"
  shows "\<exists>chain claims. peer (ctx_common c') = Some chain \<and> verify_cert_der D chain = Ok claims"
proof -
  from assms(2) obtain c1 c2 c3 c4 c5 answer where h: "init_connection L c = Some (c1, Inr ())" "send_receive_spdm_digest L c1 = Some (c2, Inr ())"
    "send_receive_spdm_certificate L c2 0 = Some (c3, Inr ())" "send_receive_spdm_challenge L c3 0 t = Some (c4, Inr ())"
    "send_receive_spdm_measurement L c4 0 {SIGNATURE_REQUESTED, RAW_BIT_STREAM_REQUESTED} (operation_request_all L) = Some (c5, answer, Inr ())"
    "start_session L c5 False 0 t = Some (c', Inr sid)"
    unfolding handshake_def by blast
  have strat: "keeps strategy c c1" "keeps strategy c1 c2" and peer: "keeps peer c3 c4" "keeps peer c4 c5" "keeps peer c5 c'"
    by (rule spdm_verifiesD [OF assms(1)], rule h)+
  have cert: "\<forall>c c' slot. send_receive_spdm_certificate L c slot = Some (c', Inr ()) \<and> strategy (ctx_common c) = RatsStrategy \<longrightarrow>
        (\<exists>chain. peer (ctx_common c') = Some chain \<and> rats_verify_cert_chain D chain = Ok (Inr ()))"
    using assms(1) unfolding spdm_verifies_def by (elim conjE) assumption
  have "strategy (ctx_common c2) = RatsStrategy" using strat assms(3) by (simp add: keeps_def)
  with cert h(3) obtain chain where chain: "peer (ctx_common c3) = Some chain" "rats_verify_cert_chain D chain = Ok (Inr ())" by blast
  from chain(2) obtain claims where "verify_cert_der D chain = Ok claims"
    by (cases "verify_cert_der D chain") (simp_all add: rats_verify_cert_chain_def)
  with chain(1) peer show ?thesis by (simp add: keeps_def)
qed

lemma requester_strategy:
  assumes "spdm_verifies D L context_new strategy peer"
    and "requester_build_with_tcp_stream D E cfg mut_auth context_new g A get_claims b strm = Ok q"
  shows "strategy (ctx_common (rq_context q)) = (if mode_contains (rqb_verify_mode b) VERIFY_PEER then RatsStrategy else DefaultStrategy)"
proof -
  have "strategy (context_new m s st info prov) = st" for m s st info prov using assms(1) by (simp add: spdm_verifies_def)
  with assms(2) show ?thesis
    by (auto simp: requester_build_with_tcp_stream_def requester_new_def Let_def split: if_splits option.splits)
qed

lemma requester_attested:
  assumes "spdm_verifies D L context_new strategy peer" and "requester_lib_ok L"
    and "requester_build_with_tcp_stream D E cfg mut_auth context_new g A get_claims b strm = Ok q"
    and "mode_contains (rqb_verify_mode b) VERIFY_PEER" and "requester_negotiate L q = Some (q', Ok ())"
  shows "\<exists>chain claims. peer (ctx_common (rq_context q')) = Some chain \<and> verify_cert_der D chain = Ok claims"
proof -
  from requester_negotiate_Ok [OF assms(2,5)] obtain sid c where
    c: "handshake L (rq_summary_type q) (rq_context q) sid c" "q' = q\<lparr>rq_context := c, rq_session_id := Some sid\<rparr>" .
  from handshake_attested [OF assms(1) c(1)] requester_strategy [OF assms(1,3)] assms(4) c(2) show ?thesis by simp
qed

lemma client_program_attested:
  assumes "spdm_verifies (su_deps U) L (su_context_new U) strategy peer" and "requester_lib_ok L"
    and "opt_verify_peer opts" and "with_spdm_tcp_client U L opts i connected func = Some (Some x, r)"
  shows "\<exists>q chain claims. func q = (x, r) \<and> peer (ctx_common (rq_context q)) = Some chain \<and> verify_cert_der (su_deps U) chain = Ok claims"
proof -
  let ?b = "requester_with_verify_mode (requester_with_attest_self requester_builder_new (opt_attest_self opts)) (verify_mode_of opts)"
  have mode: "mode_contains (rqb_verify_mode ?b) VERIFY_PEER"
    using assms(3) by (simp add: requester_with_verify_mode_def verify_mode_of_def mode_contains_def)
  from assms(4) obtain strm q q' where q: "requester_build_with_tcp_stream (su_deps U) (su_endpoint U) (su_io U) (su_mut_auth U) (su_context_new U)
      (su_rng U i) (su_attester U) (su_claims U) ?b strm = Ok q" "requester_negotiate L q = Some (q', Ok ())" "func q' = (x, r)"
    by (auto simp: with_spdm_tcp_client_def split: option.splits res.splits if_splits prod.splits)
  from requester_attested [OF assms(1,2) q(1) mode q(2)] q(3) show ?thesis by blast
qed

lemma responder_new_caps:
  assumes "responder_new E cfg False context_new strm cred root st = Ok p"
  shows "\<exists>m s st info prov caps. ctx_common (rs_context p) = context_new m s st info prov \<and>
    cfg_rsp_capabilities info = Some caps \<and> MUT_AUTH_CAP \<notin> caps"
proof -
  have "\<exists>versions prov. ctx_common (rs_context p) =
      context_new (cred_measurement cred) (cred_signer cred) st (responder_config E False (cred_signer cred) versions) prov"
    using assms by (auto simp: responder_new_def split: option.splits) (rule exI, rule exI, rule refl)
  then obtain versions prov where "ctx_common (rs_context p) =
      context_new (cred_measurement cred) (cred_signer cred) st (responder_config E False (cred_signer cred) versions) prov" by blast
  moreover have "\<exists>caps. cfg_rsp_capabilities (responder_config E False s versions) = Some caps \<and> MUT_AUTH_CAP \<notin> caps" for s
    by (simp add: responder_config_def)
  ultimately show ?thesis by blast
qed

text \<open>
  C7. Whom an SPDM endpoint talks to. A requester built with \<open>VERIFY_PEER\<close>, with any other setting, whose
  \<open>negotiate\<close> returns \<open>Ok\<close> has a responder whose certificate \<open>verify_cert_der\<close> accepts, and the halves it
  is split into share the context with this peer. So the client program with peer verification runs its
  session only with such a responder. The responder is different: a build without the undeclared feature
  \<open>mut-auth\<close> never announces mutual authentication, whatever the verify mode, so \<open>VERIFY_PEER\<close> on the
  responder authenticates nobody.
\<close>

theorem spdm_peer_attested:
  assumes "spdm_verifies (su_deps U) L (su_context_new U) strategy peer" and "requester_lib_ok L"
  shows "(\<forall>b strm g q q'. requester_build_with_tcp_stream (su_deps U) (su_endpoint U) (su_io U) (su_mut_auth U) (su_context_new U) g
         (su_attester U) (su_claims U) b strm = Ok q \<and> mode_contains (rqb_verify_mode b) VERIFY_PEER \<and>
         requester_negotiate L q = Some (q', Ok ()) \<longrightarrow>
       (\<exists>chain claims H. peer (ctx_common (rq_context q')) = Some chain \<and> verify_cert_der (su_deps U) chain = Ok claims \<and>
         requester_into_split (su_io U) q' = Ok H \<and> sh_common H = ctx_common (rq_context q'))) \<and>
    (\<forall>opts i connected func x r. opt_verify_peer opts \<and> with_spdm_tcp_client U L opts i connected func = Some (Some x, r) \<longrightarrow>
       (\<exists>q' chain claims. func q' = (x, r) \<and> peer (ctx_common (rq_context q')) = Some chain \<and>
         verify_cert_der (su_deps U) chain = Ok claims)) \<and>
    (\<forall>context_new b strm g p. responder_build_with_tcp_stream (su_deps U) (su_endpoint U) (su_io U) False context_new g
         (su_attester U) (su_claims U) b strm = Ok p \<longrightarrow>
       (\<exists>m s st info prov caps. ctx_common (rs_context p) = context_new m s st info prov \<and>
         cfg_rsp_capabilities info = Some caps \<and> MUT_AUTH_CAP \<notin> caps))"
proof (intro conjI allI impI; (elim conjE)?)
  fix b strm g q q'
  assume q: "requester_build_with_tcp_stream (su_deps U) (su_endpoint U) (su_io U) (su_mut_auth U) (su_context_new U) g
         (su_attester U) (su_claims U) b strm = Ok q" "mode_contains (rqb_verify_mode b) VERIFY_PEER" "requester_negotiate L q = Some (q', Ok ())"
  from requester_negotiate_Ok [OF assms(2) q(3)] obtain sid c where "q' = q\<lparr>rq_context := c, rq_session_id := Some sid\<rparr>" .
  then have "rq_session_id q' = Some sid" by simp
  with requester_attested [OF assms q]
  show "\<exists>chain claims H. peer (ctx_common (rq_context q')) = Some chain \<and> verify_cert_der (su_deps U) chain = Ok claims \<and>
         requester_into_split (su_io U) q' = Ok H \<and> sh_common H = ctx_common (rq_context q')"
    by (simp add: requester_into_split_def split_endpoint_cases)
next
  fix opts i connected func x r
  assume v: "opt_verify_peer opts" and run: "with_spdm_tcp_client U L opts i connected func = Some (Some x, r)"
  show "\<exists>q' chain claims. func q' = (x, r) \<and> peer (ctx_common (rq_context q')) = Some chain \<and> verify_cert_der (su_deps U) chain = Ok claims"
    by (rule client_program_attested [OF assms v run])
next
  fix context_new b strm g p
  assume "responder_build_with_tcp_stream (su_deps U) (su_endpoint U) (su_io U) False context_new g (su_attester U) (su_claims U) b strm = Ok p"
  then obtain cred root st where "responder_new (su_endpoint U) (su_io U) False context_new strm cred root st = Ok p"
    by (auto simp: responder_build_with_tcp_stream_def Let_def split: if_splits)
  then show "\<exists>m s st info prov caps. ctx_common (rs_context p) = context_new m s st info prov \<and>
         cfg_rsp_capabilities info = Some caps \<and> MUT_AUTH_CAP \<notin> caps" by (rule responder_new_caps)
qed

text \<open>A responder that presents one certificate, and a library that asks the strategy about it.\<close>

definition attested_lib :: "bytes \<Rightarrow> (cert_validation_strategy \<times> bytes option) requester_lib" where
  "attested_lib der = \<lparr>init_connection = (\<lambda>c. Some (c, Inr ())), send_receive_spdm_digest = (\<lambda>c. Some (c, Inr ())),
     send_receive_spdm_certificate = (\<lambda>c _.
       if fst (ctx_common c) = RatsStrategy \<and> rats_verify_cert_chain ref_deps der \<noteq> Ok (Inr ()) then Some (c, Inl SPDM_STATUS_INVALID_CERT)
       else Some (c\<lparr>ctx_common := (fst (ctx_common c), Some der)\<rparr>, Inr ())),
     send_receive_spdm_challenge = (\<lambda>c _ _. Some (c, Inr ())),
     send_receive_spdm_measurement = (\<lambda>c _ _ _. Some (c, \<lparr>content_changed = None, total_number = 1,
        answer_record = record_of sample_meas 1 [1, 1, 5, 0, 2, 0, 7, 8], transcript_meas = Some [1]\<rparr>, Inr ())),
     start_session = (\<lambda>c _ _ _. Some (c, Inr 7)), read_block = sample_meas_read, operation_request_all = 0xFF\<rparr>"

definition attested_setup_of :: "(cert_validation_strategy \<times> bytes option, auto_evidence) spdm_setup" where
  "attested_setup_of = \<lparr>su_deps = ref_deps, su_endpoint = sample_endpoint, su_io = small_config, su_mut_auth = False,
     su_context_new = (\<lambda>m s st info prov. (st, None)), su_rng = (\<lambda>_. 0), su_attester = sample_attester, su_claims = (\<lambda>_. Ok [])\<rparr>"

lemma attested_lib_ok: "requester_lib_ok (attested_lib der)"
  by (simp add: requester_lib_ok_def attested_lib_def sample_reader_ok record_of_def sample_meas_def)

lemma attested_lib_verifies:
  "spdm_verifies (su_deps attested_setup_of) (attested_lib der) (su_context_new attested_setup_of) fst snd"
  by (auto simp: spdm_verifies_def keeps_def attested_lib_def attested_setup_of_def split: if_splits)

lemma with_spdm_tcp_client_connected:
  assumes "requester_build_with_tcp_stream (su_deps U) (su_endpoint U) (su_io U) (su_mut_auth U) (su_context_new U)
      (su_rng U i) (su_attester U) (su_claims U)
      (requester_with_verify_mode (requester_with_attest_self requester_builder_new (opt_attest_self opts)) (verify_mode_of opts)) strm = Ok q0"
    and "requester_negotiate L q0 = Some (q, Ok ())"
  shows "with_spdm_tcp_client U L opts i (Some strm) func = Some (case func q of (x, r) \<Rightarrow> (Some x, r))"
  unfolding with_spdm_tcp_client_def using assms by simp

lemma sample_client_run:
  fixes opts :: spdm_options
  assumes "opts = \<lparr>opt_attest_self = False, opt_verify_peer = True\<rparr>"
  obtains der claims q q0 where "verify_cert_der ref_deps der = Ok claims" "rq_session_id q = Some 7" "snd (ctx_common (rq_context q)) = Some der"
    "\<And>i. requester_build_with_tcp_stream (su_deps attested_setup_of) (su_endpoint attested_setup_of) (su_io attested_setup_of)
       (su_mut_auth attested_setup_of) (su_context_new attested_setup_of) (su_rng attested_setup_of i) (su_attester attested_setup_of)
       (su_claims attested_setup_of) (requester_with_verify_mode (requester_with_attest_self requester_builder_new (opt_attest_self opts))
         (verify_mode_of opts)) (stream_of []) = Ok q0"
    "requester_negotiate (attested_lib der) q0 = Some (q, Ok ())"
proof -
  obtain bd der where b: "build_with_private_key ref_deps (cert_builder_new sample_attester Sha256) (P256 [0]) = Ok bd"
    "cert_to_der ref_deps bd = Ok der"
    by (rule sample_key_build [OF sample_keys(5)]) simp_all
  from sample_cert_accepted [OF b] obtain claims where v: "verify_cert_der ref_deps der = Ok claims" by blast
  then have ok: "rats_verify_cert_chain ref_deps der = Ok (Inr ())" by (simp add: rats_verify_cert_chain_def)
  let ?L = "attested_lib der" and ?U = attested_setup_of
  let ?b = "requester_with_verify_mode (requester_with_attest_self requester_builder_new (opt_attest_self opts)) (verify_mode_of opts)"
  obtain q where q: "\<And>i. requester_build_with_tcp_stream (su_deps ?U) (su_endpoint ?U) (su_io ?U) (su_mut_auth ?U) (su_context_new ?U)
      (su_rng ?U i) (su_attester ?U) (su_claims ?U) ?b (stream_of []) = Ok q"
    by (cases "mode_contains (rqb_verify_mode ?b) VERIFY_PEER") (simp_all add: attested_setup_of_def requester_build_with_tcp_stream_def
        requester_new_def sample_endpoint_def secure_versions_def empty_credentials_def empty_get_full_cert_chain_def)
  let ?c = "(rq_context q)\<lparr>ctx_common := (fst (ctx_common (rq_context q)), Some der)\<rparr>"
  have neg: "requester_negotiate ?L q = Some (q\<lparr>rq_context := ?c, rq_session_id := Some 7\<rparr>, Ok ())"
    by (simp add: requester_negotiate_def attested_lib_def ok print_measurements_ok [OF sample_reader_ok] record_of_def sample_meas_def)
  show thesis by (rule that [OF v _ _ q neg]) simp_all
qed

theorem spdm_peer_attested_witness:
  "\<exists>der q claims. with_spdm_tcp_client attested_setup_of (attested_lib der) \<lparr>opt_attest_self = False, opt_verify_peer = True\<rparr> 0 (Some (stream_of []))
       (\<lambda>q. (q, Ok ())) = Some (Some q, Ok ()) \<and> snd (ctx_common (rq_context q)) = Some der \<and> verify_cert_der ref_deps der = Ok claims"
proof -
  let ?o = "\<lparr>opt_attest_self = False, opt_verify_peer = True\<rparr>"
  show ?thesis
  proof (rule sample_client_run [OF refl])
    fix der claims q q0
    assume der: "snd (ctx_common (rq_context q)) = Some der"
      and b: "\<And>i. requester_build_with_tcp_stream (su_deps attested_setup_of) (su_endpoint attested_setup_of) (su_io attested_setup_of)
        (su_mut_auth attested_setup_of) (su_context_new attested_setup_of) (su_rng attested_setup_of i) (su_attester attested_setup_of)
        (su_claims attested_setup_of) (requester_with_verify_mode (requester_with_attest_self requester_builder_new (opt_attest_self ?o))
          (verify_mode_of ?o)) (stream_of []) = Ok q0" and n: "requester_negotiate (attested_lib der) q0 = Some (q, Ok ())"
    have run: "with_spdm_tcp_client attested_setup_of (attested_lib der) ?o 0 (Some (stream_of [])) (\<lambda>q. (q, Ok ())) = Some (Some q, Ok ())"
      by (simp add: with_spdm_tcp_client_connected [OF b n])
    have "opt_verify_peer ?o" by simp
    from conjunct1 [OF conjunct2 [OF spdm_peer_attested [OF attested_lib_verifies [of der] attested_lib_ok]], rule_format, OF conjI [OF this run]] der
    obtain claims where "verify_cert_der (su_deps attested_setup_of) der = Ok claims" by auto
    then have "verify_cert_der ref_deps der = Ok claims" by (simp add: attested_setup_of_def)
    with run der show ?thesis by blast
  qed
qed

end
