(* ===== verification/Commands.thy ===== *)
theory Commands
  imports Prelude "HOL-Library.Monad_Syntax"
begin

text \<open>
  The command lines of the example programs (\<^verbatim>\<open>main.rs\<close> of \<^verbatim>\<open>examples/spdm\<close>, \<^verbatim>\<open>examples/tls\<close> and
  \<^verbatim>\<open>examples/rustls\<close>): the options each subcommand declares for the argument parser \<open>clap\<close>, and the values
  the programs read from what it found. The parser is a parameter: it is given the declarations and the
  arguments behind the name of the program, and answers with the chosen subcommand and the value of each of
  its options; \<open>None\<close> is a message and the end of the process.
\<close>

subsection \<open>Declarations\<close>

datatype arg_action = ActionSet

record arg_spec =
  arg_long :: string
  arg_default_missing_value :: "string option"
  arg_default_value :: "string option"
  arg_num_args :: "nat \<times> nat"
  arg_require_equals :: bool
  arg_kind :: arg_action

text \<open>The attributes of a \<open>bool\<close> field, which are the same for all of them but the default, and of a \<open>String\<close> field.\<close>

definition flag_arg :: "string \<Rightarrow> string \<Rightarrow> arg_spec" where
  "flag_arg long dflt =
     \<lparr>arg_long = long, arg_default_missing_value = Some ''true'', arg_default_value = Some dflt,
      arg_num_args = (0, 1), arg_require_equals = True, arg_kind = ActionSet\<rparr>"

definition value_arg :: "string \<Rightarrow> arg_spec" where
  "value_arg long =
     \<lparr>arg_long = long, arg_default_missing_value = None, arg_default_value = None,
      arg_num_args = (1, 1), arg_require_equals = False, arg_kind = ActionSet\<rparr>"

type_synonym subcommands = "(string \<times> arg_spec list) list"
type_synonym arg_matches = "string \<Rightarrow> string option"
type_synonym clap = "subcommands \<Rightarrow> string list \<Rightarrow> (string \<times> arg_matches) option"

text \<open>\<^verbatim>\<open>examples/spdm\<close>\<close>

definition spdm_server_args :: "arg_spec list" where
  "spdm_server_args =
     [flag_arg ''attest-self'' ''true'', flag_arg ''verify-peer'' ''false'', value_arg ''listen-on-tcp'']"

definition spdm_client_args :: "arg_spec list" where
  "spdm_client_args =
     [flag_arg ''attest-self'' ''false'', flag_arg ''verify-peer'' ''true'', value_arg ''connect-to-tcp'']"

definition tunnel_server_args :: "arg_spec list" where
  "tunnel_server_args = [value_arg ''upstream'']"

definition tunnel_client_args :: "arg_spec list" where
  "tunnel_client_args = [value_arg ''ingress'']"

definition spdm_subcommands :: subcommands where
  "spdm_subcommands =
     [(''echo-server'', spdm_server_args),
      (''echo-client'', spdm_client_args),
      (''tunnel-server'', spdm_server_args @ tunnel_server_args),
      (''tunnel-client'', spdm_client_args @ tunnel_client_args)]"

text \<open>\<^verbatim>\<open>examples/tls\<close> and \<^verbatim>\<open>examples/rustls\<close>, each with declarations of its own.\<close>

definition tls_server_args :: "arg_spec list" where
  "tls_server_args =
     [flag_arg ''attest-self'' ''true'', flag_arg ''verify-peer'' ''false'', value_arg ''listen-on-tcp'']"

definition tls_client_args :: "arg_spec list" where
  "tls_client_args =
     [flag_arg ''attest-self'' ''false'', flag_arg ''verify-peer'' ''true'', value_arg ''connect-to-tcp'']"

definition tls_subcommands :: subcommands where
  "tls_subcommands = [(''echo-client'', tls_client_args), (''echo-server'', tls_server_args)]"

definition rustls_server_args :: "arg_spec list" where
  "rustls_server_args =
     [flag_arg ''attest-self'' ''true'', flag_arg ''verify-peer'' ''false'', value_arg ''listen-on-tcp'']"

definition rustls_client_args :: "arg_spec list" where
  "rustls_client_args =
     [flag_arg ''attest-self'' ''false'', flag_arg ''verify-peer'' ''true'', value_arg ''connect-to-tcp'']"

definition rustls_subcommands :: subcommands where
  "rustls_subcommands = [(''echo-client'', rustls_client_args), (''echo-server'', rustls_server_args)]"

subsection \<open>Commands\<close>

record common_server_options =
  so_attest_self :: bool
  so_verify_peer :: bool
  so_listen_on_tcp :: string

record common_client_options =
  co_attest_self :: bool
  co_verify_peer :: bool
  co_connect_to_tcp :: string

datatype spdm_command =
    SpdmEchoServer common_server_options
  | SpdmEchoClient common_client_options
  | SpdmTunnelServer common_server_options string
  | SpdmTunnelClient common_client_options string

datatype tls_command = EchoClient common_client_options | EchoServer common_server_options

text \<open>The value of a \<open>bool\<close> field: \<open>clap\<close> takes the two words and refuses any other.\<close>

definition flag_value :: "arg_matches \<Rightarrow> string \<Rightarrow> bool option" where
  "flag_value m long =
     (if m long = Some ''true'' then Some True else if m long = Some ''false'' then Some False else None)"

definition server_options_of :: "arg_matches \<Rightarrow> common_server_options option" where
  "server_options_of m = do {
     attest_self \<leftarrow> flag_value m ''attest-self'';
     verify_peer \<leftarrow> flag_value m ''verify-peer'';
     listen_on_tcp \<leftarrow> m ''listen-on-tcp'';
     Some \<lparr>so_attest_self = attest_self, so_verify_peer = verify_peer, so_listen_on_tcp = listen_on_tcp\<rparr>
   }"

definition client_options_of :: "arg_matches \<Rightarrow> common_client_options option" where
  "client_options_of m = do {
     attest_self \<leftarrow> flag_value m ''attest-self'';
     verify_peer \<leftarrow> flag_value m ''verify-peer'';
     connect_to_tcp \<leftarrow> m ''connect-to-tcp'';
     Some \<lparr>co_attest_self = attest_self, co_verify_peer = verify_peer, co_connect_to_tcp = connect_to_tcp\<rparr>
   }"

definition parse_spdm :: "clap \<Rightarrow> string list \<Rightarrow> spdm_command option" where
  "parse_spdm C argv = do {
     (name, m) \<leftarrow> C spdm_subcommands argv;
     (if name = ''echo-server'' then map_option SpdmEchoServer (server_options_of m)
      else if name = ''echo-client'' then map_option SpdmEchoClient (client_options_of m)
      else if name = ''tunnel-server'' then do {
        common \<leftarrow> server_options_of m;
        upstream \<leftarrow> m ''upstream'';
        Some (SpdmTunnelServer common upstream)
      }
      else if name = ''tunnel-client'' then do {
        common \<leftarrow> client_options_of m;
        ingress \<leftarrow> m ''ingress'';
        Some (SpdmTunnelClient common ingress)
      }
      else None)
   }"

definition parse_echo :: "subcommands \<Rightarrow> clap \<Rightarrow> string list \<Rightarrow> tls_command option" where
  "parse_echo cmds C argv = do {
     (name, m) \<leftarrow> C cmds argv;
     (if name = ''echo-client'' then map_option EchoClient (client_options_of m)
      else if name = ''echo-server'' then map_option EchoServer (server_options_of m)
      else None)
   }"

definition parse_tls :: "clap \<Rightarrow> string list \<Rightarrow> tls_command option" where
  "parse_tls = parse_echo tls_subcommands"

definition parse_rustls :: "clap \<Rightarrow> string list \<Rightarrow> tls_command option" where
  "parse_rustls = parse_echo rustls_subcommands"

subsection \<open>What a command line means\<close>

text \<open>
  The documented behaviour of \<open>clap\<close> for an option that takes at most one value, only behind an equals sign:
  the subcommand is the first argument, an option that no argument names has its default, one given without
  a value its default for a missing value, and one given with a value this value.
\<close>

definition long_option :: "arg_spec \<Rightarrow> string" where
  "long_option a = ''--'' @ arg_long a"

definition names_option :: "arg_spec \<Rightarrow> string \<Rightarrow> bool" where
  "names_option a t \<longleftrightarrow> t = long_option a \<or> (\<exists>v. t = long_option a @ ''='' @ v)"

definition option_law :: "arg_matches \<Rightarrow> string list \<Rightarrow> arg_spec \<Rightarrow> bool" where
  "option_law m toks a \<longleftrightarrow>
     ((\<forall>t \<in> set toks. \<not> names_option a t) \<longrightarrow> m (arg_long a) = arg_default_value a) \<and>
     (long_option a \<in> set toks \<longrightarrow> m (arg_long a) = arg_default_missing_value a) \<and>
     (\<forall>v. long_option a @ ''='' @ v \<in> set toks \<longrightarrow> m (arg_long a) = Some v)"

definition specs_ok :: "subcommands \<Rightarrow> bool" where
  "specs_ok cmds \<longleftrightarrow> distinct (map fst cmds) \<and>
     (\<forall>(name, args) \<in> set cmds. distinct (map arg_long args) \<and> (\<forall>a \<in> set args. CHR ''='' \<notin> set (arg_long a)))"

definition clap_ok :: "clap \<Rightarrow> bool" where
  "clap_ok C \<longleftrightarrow> (\<forall>cmds argv name m. specs_ok cmds \<and> C cmds argv = Some (name, m) \<longrightarrow>
     (\<exists>toks args. argv = name # toks \<and> (name, args) \<in> set cmds \<and>
       (\<forall>a \<in> set args. arg_require_equals a \<longrightarrow> option_law m toks a)))"

lemma example_specs_ok: "specs_ok spdm_subcommands" "specs_ok tls_subcommands" "specs_ok rustls_subcommands"
  by (simp_all add: specs_ok_def spdm_subcommands_def tls_subcommands_def rustls_subcommands_def flag_arg_def value_arg_def
      spdm_server_args_def spdm_client_args_def tunnel_server_args_def tunnel_client_args_def
      tls_server_args_def tls_client_args_def rustls_server_args_def rustls_client_args_def)

text \<open>The value a command line gives to a flag.\<close>

definition flag_reading :: "string list \<Rightarrow> string \<Rightarrow> bool \<Rightarrow> bool" where
  "flag_reading toks long dflt =
     (if ''--'' @ long @ ''=false'' \<in> set toks then False
      else if ''--'' @ long \<in> set toks \<or> ''--'' @ long @ ''=true'' \<in> set toks then True
      else dflt)"

lemma flag_value_iff: "flag_value m long = Some b \<longleftrightarrow> m long = Some (if b then ''true'' else ''false'')"
  by (auto simp: flag_value_def)

lemma flag_reading_of_law:
  assumes "option_law m toks (flag_arg long d)" and "flag_value m long = Some b"
  shows "b = flag_reading toks long (d = ''true'')"
proof -
  let ?o = "''--'' @ long"
  from assms(1) have law: "(\<forall>t \<in> set toks. t \<noteq> ?o \<and> (\<forall>v. t \<noteq> ?o @ ''='' @ v)) \<longrightarrow> m long = Some d"
    "?o \<in> set toks \<longrightarrow> m long = Some ''true''" "\<And>v. ?o @ ''='' @ v \<in> set toks \<Longrightarrow> m long = Some v"
    by (auto simp: option_law_def names_option_def long_option_def flag_arg_def)
  from assms(2) have m: "m long = Some (if b then ''true'' else ''false'')" by (simp add: flag_value_iff)
  consider (false) "?o @ ''=false'' \<in> set toks" | (bare) "?o \<in> set toks" | (true) "?o @ ''=true'' \<in> set toks"
    | (other) v where "?o @ ''='' @ v \<in> set toks" "v \<noteq> ''true''" "v \<noteq> ''false''"
    | (absent) "\<forall>t \<in> set toks. t \<noteq> ?o \<and> (\<forall>v. t \<noteq> ?o @ ''='' @ v)"
    by (metis append_Cons append_Nil)
  then show ?thesis
  proof cases
    case false
    with law(3) [of "''false''"] m show ?thesis by (simp add: flag_reading_def split: if_splits)
  next
    case bare
    with law(2) m have "b" by (simp split: if_splits)
    moreover have "?o @ ''=false'' \<notin> set toks" using law(3) [of "''false''"] m calculation by auto
    ultimately show ?thesis using bare by (simp add: flag_reading_def)
  next
    case true
    with law(3) [of "''true''"] m have "b" by (simp split: if_splits)
    moreover have "?o @ ''=false'' \<notin> set toks" using law(3) [of "''false''"] m calculation by auto
    ultimately show ?thesis using true by (simp add: flag_reading_def)
  next
    case other
    with law(3) [OF other(1)] m show ?thesis by (simp split: if_splits)
  next
    case absent
    then have "?o \<notin> set toks" "?o @ ''=false'' \<notin> set toks" "?o @ ''=true'' \<notin> set toks" by auto
    moreover have "d = (if b then ''true'' else ''false'')" using absent law(1) m by simp
    ultimately show ?thesis by (cases b) (simp_all add: flag_reading_def)
  qed
qed

lemma server_options_of_eq:
  "server_options_of m = Some o' \<longleftrightarrow> flag_value m ''attest-self'' = Some (so_attest_self o') \<and>
     flag_value m ''verify-peer'' = Some (so_verify_peer o') \<and> m ''listen-on-tcp'' = Some (so_listen_on_tcp o')"
  by (cases o') (auto simp: server_options_of_def split: Option.bind_splits)

lemma client_options_of_eq:
  "client_options_of m = Some o' \<longleftrightarrow> flag_value m ''attest-self'' = Some (co_attest_self o') \<and>
     flag_value m ''verify-peer'' = Some (co_verify_peer o') \<and> m ''connect-to-tcp'' = Some (co_connect_to_tcp o')"
  by (cases o') (auto simp: client_options_of_def split: Option.bind_splits)

text \<open>The options of a command are what the arguments behind its name say, with the defaults of their side.\<close>

definition server_reads :: "string list \<Rightarrow> common_server_options \<Rightarrow> bool" where
  "server_reads toks o' \<longleftrightarrow> so_attest_self o' = flag_reading toks ''attest-self'' True \<and>
     so_verify_peer o' = flag_reading toks ''verify-peer'' False"

definition client_reads :: "string list \<Rightarrow> common_client_options \<Rightarrow> bool" where
  "client_reads toks o' \<longleftrightarrow> co_attest_self o' = flag_reading toks ''attest-self'' False \<and>
     co_verify_peer o' = flag_reading toks ''verify-peer'' True"

fun spdm_command_reads :: "string list \<Rightarrow> spdm_command \<Rightarrow> bool" where
  "spdm_command_reads argv (SpdmEchoServer common) \<longleftrightarrow> (\<exists>toks. argv = ''echo-server'' # toks \<and> server_reads toks common)"
| "spdm_command_reads argv (SpdmEchoClient common) \<longleftrightarrow> (\<exists>toks. argv = ''echo-client'' # toks \<and> client_reads toks common)"
| "spdm_command_reads argv (SpdmTunnelServer common _) \<longleftrightarrow> (\<exists>toks. argv = ''tunnel-server'' # toks \<and> server_reads toks common)"
| "spdm_command_reads argv (SpdmTunnelClient common _) \<longleftrightarrow> (\<exists>toks. argv = ''tunnel-client'' # toks \<and> client_reads toks common)"

fun tls_command_reads :: "string list \<Rightarrow> tls_command \<Rightarrow> bool" where
  "tls_command_reads argv (EchoClient common) \<longleftrightarrow> (\<exists>toks. argv = ''echo-client'' # toks \<and> client_reads toks common)"
| "tls_command_reads argv (EchoServer common) \<longleftrightarrow> (\<exists>toks. argv = ''echo-server'' # toks \<and> server_reads toks common)"

lemma clap_flags:
  assumes "clap_ok C" and "specs_ok cmds" and "C cmds argv = Some (name, m)"
  obtains toks args where "argv = name # toks" "(name, args) \<in> set cmds"
    "\<And>o'. flag_arg ''attest-self'' ''true'' \<in> set args \<Longrightarrow> flag_arg ''verify-peer'' ''false'' \<in> set args \<Longrightarrow>
       server_options_of m = Some o' \<Longrightarrow> server_reads toks o'"
    "\<And>o'. flag_arg ''attest-self'' ''false'' \<in> set args \<Longrightarrow> flag_arg ''verify-peer'' ''true'' \<in> set args \<Longrightarrow>
       client_options_of m = Some o' \<Longrightarrow> client_reads toks o'"
proof -
  from assms obtain toks args where a: "argv = name # toks" "(name, args) \<in> set cmds"
    "\<forall>a \<in> set args. arg_require_equals a \<longrightarrow> option_law m toks a" unfolding clap_ok_def by blast
  have r: "b = flag_reading toks long (d = ''true'')" if "flag_arg long d \<in> set args" "flag_value m long = Some b" for long d b
    using a(3) that by (intro flag_reading_of_law) (auto simp: flag_arg_def)
  show thesis
    by (rule that [OF a(1,2)]) (use r [of "''attest-self''"] r [of "''verify-peer''"] in
        \<open>fastforce simp: server_options_of_eq client_options_of_eq server_reads_def client_reads_def\<close>)+
qed

lemmas example_args = spdm_subcommands_def spdm_server_args_def spdm_client_args_def tunnel_server_args_def tunnel_client_args_def
  tls_subcommands_def tls_server_args_def tls_client_args_def rustls_subcommands_def rustls_server_args_def rustls_client_args_def

lemma parse_spdm_reads:
  assumes "clap_ok C" and "parse_spdm C argv = Some cmd"
  shows "spdm_command_reads argv cmd"
proof -
  from assms(2) obtain name m where c: "C spdm_subcommands argv = Some (name, m)" by (auto simp: parse_spdm_def split: Option.bind_splits)
  from assms(1) example_specs_ok(1) c show ?thesis
  proof (cases rule: clap_flags)
    case (1 toks args)
    have cmd: "name = ''echo-server'' \<and> (\<exists>o'. server_options_of m = Some o' \<and> cmd = SpdmEchoServer o') \<or>
        name = ''echo-client'' \<and> (\<exists>o'. client_options_of m = Some o' \<and> cmd = SpdmEchoClient o') \<or>
        name = ''tunnel-server'' \<and> (\<exists>o' x. server_options_of m = Some o' \<and> cmd = SpdmTunnelServer o' x) \<or>
        name = ''tunnel-client'' \<and> (\<exists>o' x. client_options_of m = Some o' \<and> cmd = SpdmTunnelClient o' x)"
      using assms(2) by (auto simp: parse_spdm_def c split: Option.bind_splits if_splits)
    from 1(2) have "args = (if name = ''echo-server'' then spdm_server_args else if name = ''echo-client'' then spdm_client_args
        else if name = ''tunnel-server'' then spdm_server_args @ tunnel_server_args else spdm_client_args @ tunnel_client_args)"
      by (auto simp: spdm_subcommands_def)
    with cmd 1(1,3,4) show ?thesis by (auto simp: example_args)
  qed
qed

lemma parse_echo_reads:
  assumes "clap_ok C" and "parse_echo cmds C argv = Some cmd" and "cmds = tls_subcommands \<or> cmds = rustls_subcommands"
  shows "tls_command_reads argv cmd"
proof -
  from assms(2) obtain name m where c: "C cmds argv = Some (name, m)" by (auto simp: parse_echo_def split: Option.bind_splits)
  have "specs_ok cmds" using assms(3) example_specs_ok by blast
  from assms(1) this c show ?thesis
  proof (cases rule: clap_flags)
    case (1 toks args)
    have cmd: "name = ''echo-client'' \<and> (\<exists>o'. client_options_of m = Some o' \<and> cmd = EchoClient o') \<or>
        name = ''echo-server'' \<and> (\<exists>o'. server_options_of m = Some o' \<and> cmd = EchoServer o')"
      using assms(2) by (auto simp: parse_echo_def c split: Option.bind_splits if_splits)
    from 1(2) assms(3) have "args = (if name = ''echo-client'' then tls_client_args else tls_server_args)" by (auto simp: example_args)
    with cmd 1(1,3,4) show ?thesis by (auto simp: example_args)
  qed
qed

subsection \<open>A parser that satisfies the laws\<close>

text \<open>An argument \<open>--name\<close> or \<open>--name=value\<close>.\<close>

fun split_long :: "string \<Rightarrow> (string \<times> string option) option" where
  "split_long (CHR ''-'' # CHR ''-'' # s) =
     Some (takeWhile (\<lambda>c. c \<noteq> CHR ''='') s, case dropWhile (\<lambda>c. c \<noteq> CHR ''='') s of [] \<Rightarrow> None | _ # v \<Rightarrow> Some v)"
| "split_long _ = None"

fun ref_values :: "arg_spec list \<Rightarrow> string list \<Rightarrow> (string \<times> string) list option" where
  "ref_values args [] = Some []"
| "ref_values args (t # ts) =
     (case split_long t of
        None \<Rightarrow> None
      | Some (n, v) \<Rightarrow>
          (case find (\<lambda>a. arg_long a = n) args of
             None \<Rightarrow> None
           | Some a \<Rightarrow>
               (case v of
                  Some v \<Rightarrow> map_option (Cons (n, v)) (ref_values args ts)
                | None \<Rightarrow>
                    (if arg_require_equals a
                     then (case arg_default_missing_value a of
                         Some v \<Rightarrow> map_option (Cons (n, v)) (ref_values args ts) | None \<Rightarrow> None)
                     else (case ts of
                         v # ts' \<Rightarrow> (if split_long v = None then map_option (Cons (n, v)) (ref_values args ts') else None)
                       | [] \<Rightarrow> None)))))"

definition ref_clap :: clap where
  "ref_clap cmds argv = (case argv of [] \<Rightarrow> None | name # toks \<Rightarrow> do {
     args \<leftarrow> map_of cmds name;
     given \<leftarrow> ref_values args toks;
     (if distinct (map fst given) \<and> list_all (\<lambda>a. arg_default_value a \<noteq> None \<or> arg_long a \<in> fst ` set given) args
      then Some (name, \<lambda>n. case map_of given n of
          Some v \<Rightarrow> Some v
        | None \<Rightarrow> Option.bind (find (\<lambda>a. arg_long a = n) args) arg_default_value)
      else None)
   })"

lemma find_long:
  "distinct (map arg_long args) \<Longrightarrow> a \<in> set args \<Longrightarrow> find (\<lambda>b. arg_long b = arg_long a) args = Some a"
  by (induction args) auto

lemma split_long_option:
  assumes "CHR ''='' \<notin> set (arg_long a)"
  shows "split_long (long_option a) = Some (arg_long a, None)" and "split_long (long_option a @ ''='' @ v) = Some (arg_long a, Some v)"
proof -
  have "CHR ''='' \<notin> set xs \<Longrightarrow> takeWhile (\<lambda>c. c \<noteq> CHR ''='') (xs @ zs) = xs @ takeWhile (\<lambda>c. c \<noteq> CHR ''='') zs"
    "CHR ''='' \<notin> set xs \<Longrightarrow> dropWhile (\<lambda>c. c \<noteq> CHR ''='') (xs @ zs) = dropWhile (\<lambda>c. c \<noteq> CHR ''='') zs" for xs zs
    by (induction xs) auto
  from this [OF assms, of "[]"] this [OF assms, of "''='' @ v"]
  have "takeWhile (\<lambda>c. c \<noteq> CHR ''='') (arg_long a) = arg_long a" "dropWhile (\<lambda>c. c \<noteq> CHR ''='') (arg_long a) = []"
    "takeWhile (\<lambda>c. c \<noteq> CHR ''='') (arg_long a @ CHR ''='' # v) = arg_long a"
    "dropWhile (\<lambda>c. c \<noteq> CHR ''='') (arg_long a @ CHR ''='' # v) = CHR ''='' # v" by simp_all
  then show "split_long (long_option a) = Some (arg_long a, None)" "split_long (long_option a @ ''='' @ v) = Some (arg_long a, Some v)"
    by (simp_all add: long_option_def del: dropWhile_eq_Nil_conv takeWhile_eq_all_conv)
qed

lemma split_long_names:
  assumes "split_long t = Some (arg_long a, v)"
  shows "names_option a t"
proof -
  from assms obtain s where t: "t = ''--'' @ s" and n: "arg_long a = takeWhile (\<lambda>c. c \<noteq> CHR ''='') s"
    by (cases t rule: split_long.cases) auto
  show ?thesis
  proof (cases "dropWhile (\<lambda>c. c \<noteq> CHR ''='') s")
    case Nil
    then have "takeWhile (\<lambda>c. c \<noteq> CHR ''='') s = s" using takeWhile_dropWhile_id [of "\<lambda>c. c \<noteq> CHR ''=''" s] by (metis append_Nil2)
    with t n show ?thesis by (simp add: names_option_def long_option_def)
  next
    case (Cons c rest)
    then have "c = CHR ''=''" using hd_dropWhile [of "\<lambda>c. c \<noteq> CHR ''=''" s] by simp
    with takeWhile_dropWhile_id [of "\<lambda>c. c \<noteq> CHR ''=''" s] t n Cons have "t = long_option a @ ''='' @ rest"
      by (simp add: long_option_def)
    then show ?thesis by (auto simp: names_option_def)
  qed
qed

text \<open>Every option that is given is in the result, and nothing else.\<close>

lemma ref_values_step:
  assumes "ref_values args (u # us) = Some given"
  obtains m w b x given' us' where "split_long u = Some (m, w)" "find (\<lambda>a. arg_long a = m) args = Some b" "given = (m, x) # given'"
    "ref_values args us' = Some given'" "\<And>y. w = Some y \<Longrightarrow> x = y"
    "w = None \<Longrightarrow> arg_require_equals b \<Longrightarrow> arg_default_missing_value b = Some x"
    "us' = us \<or> (\<exists>v. us = v # us' \<and> split_long v = None)"
  using assms that by (auto split: option.splits if_splits list.splits) blast+

lemma ref_values_complete:
  "ref_values args toks = Some given \<Longrightarrow> t \<in> set toks \<Longrightarrow> split_long t = Some (n, v) \<Longrightarrow>
   \<exists>a. find (\<lambda>b. arg_long b = n) args = Some a \<and>
     (case v of Some x \<Rightarrow> (n, x) \<in> set given
      | None \<Rightarrow> arg_require_equals a \<longrightarrow> (\<exists>x. arg_default_missing_value a = Some x \<and> (n, x) \<in> set given))"
proof (induction toks arbitrary: given rule: length_induct)
  case (1 toks)
  then obtain u us where toks: "toks = u # us" by (cases toks) auto
  from "1.prems"(1) [unfolded toks] show ?case
  proof (cases rule: ref_values_step)
    case (1 m w b x given' us')
    show ?thesis
    proof (cases "t = u")
      case True
      with "1.prems"(3) 1 show ?thesis by (auto split: option.splits)
    next
      case False
      have "t \<in> set us'" "length us' < length toks" using "1.prems"(2,3) toks False 1(7) by auto
      with "1.IH" 1(4) "1.prems"(3) have "\<exists>a. find (\<lambda>b. arg_long b = n) args = Some a \<and>
         (case v of Some x \<Rightarrow> (n, x) \<in> set given'
          | None \<Rightarrow> arg_require_equals a \<longrightarrow> (\<exists>x. arg_default_missing_value a = Some x \<and> (n, x) \<in> set given'))" by blast
      with 1(3) show ?thesis by (auto split: option.splits)
    qed
  qed
qed

lemma ref_values_sound:
  "ref_values args toks = Some given \<Longrightarrow> (n, x) \<in> set given \<Longrightarrow> \<exists>t \<in> set toks. \<exists>v. split_long t = Some (n, v)"
proof (induction toks arbitrary: given rule: length_induct)
  case (1 toks)
  then obtain u us where toks: "toks = u # us" by (cases toks) auto
  from "1.prems"(1) [unfolded toks] show ?case
  proof (cases rule: ref_values_step)
    case (1 m w b x' given' us')
    show ?thesis
    proof (cases "(n, x) = (m, x')")
      case False
      with "1.prems"(2) 1(3) have "(n, x) \<in> set given'" by auto
      moreover have "length us' < length toks" "set us' \<subseteq> set toks" using toks 1(7) by auto
      ultimately show ?thesis using "1.IH" 1(4) by blast
    qed (use 1(1) toks in simp)
  qed
qed

lemma ref_clap_ok: "clap_ok ref_clap"
  unfolding clap_ok_def
proof (intro allI impI, elim conjE)
  fix cmds argv name m
  assume ok: "specs_ok cmds" and run: "ref_clap cmds argv = Some (name, m)"
  then obtain toks args given where a: "argv = name # toks" "map_of cmds name = Some args" "ref_values args toks = Some given"
      "distinct (map fst given)"
    and m: "m = (\<lambda>n. case map_of given n of Some v \<Rightarrow> Some v | None \<Rightarrow> Option.bind (find (\<lambda>a. arg_long a = n) args) arg_default_value)"
    by (auto simp: ref_clap_def split: list.splits Option.bind_splits if_splits)
  from a(2) have mem: "(name, args) \<in> set cmds" by (rule map_of_SomeD)
  with ok have spec: "distinct (map arg_long args)" "\<forall>a \<in> set args. CHR ''='' \<notin> set (arg_long a)" by (auto simp: specs_ok_def)
  have "option_law m toks b" if b: "b \<in> set args" "arg_require_equals b" for b
  proof -
    note f = find_long [OF spec(1) b(1)] and s = split_long_option [of b, OF bspec [OF spec(2) b(1)]]
    have given: "m (arg_long b) = Some x" if "(arg_long b, x) \<in> set given" for x
      using that a(4) by (simp add: m)
    have "m (arg_long b) = arg_default_value b" if "\<forall>t \<in> set toks. \<not> names_option b t"
    proof -
      have "map_of given (arg_long b) = None"
        using ref_values_sound [OF a(3)] split_long_names that by (fastforce simp: map_of_eq_None_iff)
      with f show ?thesis by (simp add: m)
    qed
    moreover have "m (arg_long b) = arg_default_missing_value b" if "long_option b \<in> set toks"
      using ref_values_complete [OF a(3) that s(1)] f b(2) given by auto
    moreover have "m (arg_long b) = Some v" if "long_option b @ ''='' @ v \<in> set toks" for v
      using ref_values_complete [OF a(3) that s(2)] given by auto
    ultimately show ?thesis by (simp add: option_law_def)
  qed
  with a(1) mem show "\<exists>toks args. argv = name # toks \<and> (name, args) \<in> set cmds \<and>
      (\<forall>a \<in> set args. arg_require_equals a \<longrightarrow> option_law m toks a)" by blast
qed

end
