(* ===== verification/SpdmProgram.thy ===== *)
theory SpdmProgram
  imports SpdmAttested Commands
begin

text \<open>
  The program \<^verbatim>\<open>examples/spdm\<close> as it is started from its command line (\<^verbatim>\<open>src/main.rs\<close>, with the functions of
  \<^verbatim>\<open>src/echo/mod.rs\<close> and \<^verbatim>\<open>src/tunnel/mod.rs\<close> it dispatches to): which sessions a command line leads to, and
  with whom.
\<close>

subsection \<open>The program\<close>

text \<open>
  Everything outside the program. An address is looked up when it is used: \<open>None\<close> is one that does not parse,
  or that cannot be bound or connected to, on which the program panics.
\<close>

record ('c, 'e) spdm_world =
  w_clap :: clap
  w_setup :: "('c, 'e) spdm_setup"
  w_requester :: "'c requester_lib"
  w_responder :: "'c responder_lib"
  w_codec :: codec_lib
  w_spdm :: "'c spdm_lib"
  w_overflow_checks :: bool
  w_random :: "nat \<Rightarrow> bytes"
  w_listen :: "string \<Rightarrow> (stream \<times> bool) option list option"
  w_ingress :: "string \<Rightarrow> stream option list option"
  w_connect :: "string \<Rightarrow> nat \<Rightarrow> stream option"
  w_os :: "string \<Rightarrow> nat \<Rightarrow> tunnel_os"

definition server_flags :: "common_server_options \<Rightarrow> spdm_options" where
  "server_flags o' = \<lparr>opt_attest_self = so_attest_self o', opt_verify_peer = so_verify_peer o'\<rparr>"

definition client_flags :: "common_client_options \<Rightarrow> spdm_options" where
  "client_flags o' = \<lparr>opt_attest_self = co_attest_self o', opt_verify_peer = co_verify_peer o'\<rparr>"

text \<open>The closures of the echo test, which split the endpoint first; the halves are returned as the test leaves them.\<close>

definition on_halves :: "'c session_halves res \<Rightarrow> ('c session_halves \<Rightarrow> 'c session_halves \<times> unit res) \<Rightarrow>
    'c session_halves option \<times> unit res" where
  "on_halves split f =
     (case split of
        Ok H \<Rightarrow> (case f H of (H, r) \<Rightarrow> (Some H, r))
      | Err e \<Rightarrow> (None, Err e)
      | Panic \<Rightarrow> (None, Panic)
      | UB \<Rightarrow> (None, UB))"

definition echo_client_program :: "('c, 'e) spdm_world \<Rightarrow> common_client_options \<Rightarrow> 'c session_halves list \<times> loop_outcome" where
  "echo_client_program V opts =
     (let cfg = su_io (w_setup V); E = su_endpoint (w_setup V)
      in case with_spdm_tcp_client (w_setup V) (w_requester V) (client_flags opts) 0 (w_connect V (co_connect_to_tcp opts) 0)
          (\<lambda>requester. on_halves (requester_into_split cfg requester)
             (spdm_echo_client (w_spdm V) (w_codec V) cfg E (w_overflow_checks V) (w_random V))) of
           None \<Rightarrow> ([], Hanging)
         | Some (x, r) \<Rightarrow> ((case x of Some (Some H) \<Rightarrow> [H] | _ \<Rightarrow> []), Returned r))"

definition echo_server_program :: "('c, 'e) spdm_world \<Rightarrow> common_server_options \<Rightarrow> 'c session_halves list \<times> loop_outcome" where
  "echo_server_program V opts =
     (let cfg = su_io (w_setup V); E = su_endpoint (w_setup V)
      in case w_listen V (so_listen_on_tcp opts) of
           None \<Rightarrow> ([], Returned Panic)
         | Some conns \<Rightarrow>
             (case with_spdm_tcp_server (w_setup V) (w_responder V) (w_codec V) (server_flags opts)
                 (\<lambda>i responder w. case on_halves (responder_into_split cfg responder)
                    (spdm_echo_server (w_spdm V) (w_codec V) cfg E (w_overflow_checks V)) of (x, r) \<Rightarrow> (w, x, r)) conns () of
                (_, xs, out) \<Rightarrow> (List.map_filter snd xs, out)))"

definition tunnel_client_program :: "('c, 'e) spdm_world \<Rightarrow> common_client_options \<Rightarrow> string \<Rightarrow> 'c tunnel_end list \<times> loop_outcome" where
  "tunnel_client_program V common ingress =
     (case w_ingress V ingress of
        None \<Rightarrow> ([], Returned Panic)
      | Some locals \<Rightarrow>
          tunnel_client (w_setup V) (w_requester V) (client_flags common) (w_os V ingress)
            (w_connect V (co_connect_to_tcp common)) 0 locals)"

definition tunnel_server_program :: "('c, 'e) spdm_world \<Rightarrow> common_server_options \<Rightarrow> string \<Rightarrow> 'c tunnel_end list \<times> loop_outcome" where
  "tunnel_server_program V common upstream =
     (case w_listen V (so_listen_on_tcp common) of
        None \<Rightarrow> ([], Returned Panic)
      | Some conns \<Rightarrow>
          (case tunnel_server (w_setup V) (w_responder V) (w_codec V) (server_flags common) (w_os V upstream) conns of
             (xs, out) \<Rightarrow> (List.map_filter snd xs, out)))"

text \<open>What a start of the program leads to; \<open>None\<close> is an end before the program's own code.\<close>

datatype 'c spdm_run = EchoRun "'c session_halves list" loop_outcome | TunnelRun "'c tunnel_end list" loop_outcome

definition spdm_main :: "('c, 'e) spdm_world \<Rightarrow> string list \<Rightarrow> 'c spdm_run option" where
  "spdm_main V argv =
     map_option (\<lambda>cmd. case cmd of
         SpdmEchoServer opts \<Rightarrow> case_prod EchoRun (echo_server_program V opts)
       | SpdmEchoClient opts \<Rightarrow> case_prod EchoRun (echo_client_program V opts)
       | SpdmTunnelServer common upstream \<Rightarrow> case_prod TunnelRun (tunnel_server_program V common upstream)
       | SpdmTunnelClient common ingress \<Rightarrow> case_prod TunnelRun (tunnel_client_program V common ingress))
     (parse_spdm (w_clap V) argv)"

subsection \<open>Whom the sessions are with\<close>

text \<open>The record layer works in the session it is given and does not exchange its peer.\<close>

definition records_keep :: "'c spdm_lib \<Rightarrow> ('c \<Rightarrow> 'x) \<Rightarrow> bool" where
  "records_keep S peer \<longleftrightarrow>
     (\<forall>c sid m buf req app. peer (fst (encode_secured_message S c sid m buf req app)) = peer c) \<and>
     (\<forall>c sid p out req. peer (fst (decode_secured_message S c sid p out req)) = peer c)"

lemma records_keepD:
  assumes "records_keep S peer"
  shows "encode_secured_message S c sid m buf req app = (c', x) \<Longrightarrow> peer c' = peer c"
    and "decode_secured_message S c sid p out req = (c', y) \<Longrightarrow> peer c' = peer c"
  using assms unfolding records_keep_def by (metis fst_conv)+

lemma write_half_send_peer:
  assumes "records_keep S peer" and "write_half_send S K cfg h c d m = (c', x)"
  shows "peer c' = peer c"
  using assms(2) records_keepD(1) [OF assms(1)]
  by (auto simp: write_half_send_def Let_def split: if_splits prod.splits res.splits option.splits)

lemma read_half_receive_peer:
  assumes "records_keep S peer" and "read_half_receive S K cfg oc h c d buf = (c', x)"
  shows "peer c' = peer c"
  using assms(2) records_keepD(2) [OF assms(1)]
  by (auto simp: read_half_receive_def Let_def split: if_splits prod.splits res.splits option.splits)

text \<open>Neither a turn of a tunnel's threads nor the echo test changes the peer.\<close>

lemma tunnel_turn_peer:
  assumes "records_keep S peer"
  shows "peer (te_common (tunnel_turn S K cfg oc msg t e)) = peer (te_common e)"
proof (cases t)
  case InwardTurn
  then show ?thesis using write_half_send_peer [OF assms]
    by (auto simp: inward_turn_def Let_def split: prod.splits option.splits)
next
  case OutwardTurn
  then show ?thesis using read_half_receive_peer [OF assms]
    by (auto simp: outward_turn_def Let_def split: prod.splits res.splits)
qed

lemma tunnel_run_peer:
  assumes "records_keep S peer"
  shows "peer (te_common (tunnel_run S K cfg oc msg ts e)) = peer (te_common e)"
  by (induction ts arbitrary: e) (simp_all add: tunnel_turn_peer [OF assms])

lemma spdm_echo_client_peer:
  assumes "records_keep S peer"
  shows "peer (sh_common (fst (spdm_echo_client S K cfg E oc rnd H))) = peer (sh_common H)"
  unfolding spdm_echo_client_def
  by (rule echo_client_keeps [where P = "\<lambda>H'. peer (sh_common H') = peer (sh_common H)"])
    (auto simp: halves_receive_def halves_send_def halves_shutdown_def split: prod.splits
      dest: read_half_receive_peer [OF assms] write_half_send_peer [OF assms])

definition attested_peer :: "deps \<Rightarrow> ('c \<Rightarrow> bytes option) \<Rightarrow> 'c \<Rightarrow> bool" where
  "attested_peer D peer c \<longleftrightarrow> (\<exists>chain claims. peer c = Some chain \<and> verify_cert_der D chain = Ok claims)"

lemma split_common: "requester_into_split cfg q = Ok H \<Longrightarrow> sh_common H = ctx_common (rq_context q)"
  by (cases "rq_session_id q") (auto simp: requester_into_split_def split_endpoint_def)

lemma tunnel_client_session_common:
  assumes "tunnel_client_session OS cfg strm q = (Some e, r)"
  shows "te_common e = ctx_common (rq_context q)"
proof -
  from assms obtain H where H: "requester_into_split cfg q = Ok H" by (cases "requester_into_split cfg q") (auto simp: tunnel_client_session_def)
  with assms have "te_common e = sh_common H" by (auto simp: tunnel_client_session_def tunnel_end_of_def Let_def split: if_splits)
  with split_common [OF H] show ?thesis by simp
qed

lemma tunnel_client_attested:
  assumes "spdm_verifies (su_deps U) L (su_context_new U) strategy peer" and "requester_lib_ok L" and "opt_verify_peer opts"
  shows "tunnel_client U L opts OS connected i locals = (es, out) \<Longrightarrow> e \<in> set es \<Longrightarrow> attested_peer (su_deps U) peer (te_common e)"
proof (induction locals arbitrary: i es out)
  case (Cons l locals)
  show ?case
  proof (cases l)
    case (Some strm)
    let ?run = "with_spdm_tcp_client U L opts i (connected i) (tunnel_client_session (OS i) (su_io U) strm)"
    from Cons.prems Some obtain x r where run: "?run = Some (x, r)" by (cases ?run) auto
    have mine: "attested_peer (su_deps U) peer (te_common e')" if "x = Some (Some e')" for e'
    proof -
      from client_program_attested [OF assms, of i "connected i" "tunnel_client_session (OS i) (su_io U) strm" "Some e'" r] run that
      obtain q chain claims where "tunnel_client_session (OS i) (su_io U) strm q = (Some e', r)" "peer (ctx_common (rq_context q)) = Some chain"
        "verify_cert_der (su_deps U) chain = Ok claims" by auto
      with tunnel_client_session_common [OF this(1)] show ?thesis by (simp add: attested_peer_def)
    qed
    obtain ys o2 where rest: "tunnel_client U L opts OS connected (Suc i) locals = (ys, o2)" by fastforce
    from Cons.prems Some run rest have "e \<in> set (case x of Some (Some e) \<Rightarrow> [e] | _ \<Rightarrow> []) \<or> e \<in> set ys"
      by (auto simp: Let_def split: if_splits)
    with mine Cons.IH [OF rest] show ?thesis by (auto split: option.splits)
  qed (use Cons in simp)
qed simp

lemma echo_client_attested:
  assumes "spdm_verifies (su_deps (w_setup V)) (w_requester V) (su_context_new (w_setup V)) strategy peer" and "requester_lib_ok (w_requester V)"
    and "records_keep (w_spdm V) peer" and "co_verify_peer opts" and "echo_client_program V opts = (Hs, out)"
  shows "length Hs \<le> 1" and "H \<in> set Hs \<Longrightarrow> attested_peer (su_deps (w_setup V)) peer (sh_common H)"
proof -
  let ?cfg = "su_io (w_setup V)"
  let ?echo = "spdm_echo_client (w_spdm V) (w_codec V) ?cfg (su_endpoint (w_setup V)) (w_overflow_checks V) (w_random V)"
  let ?func = "\<lambda>requester. on_halves (requester_into_split ?cfg requester) ?echo"
  let ?run = "with_spdm_tcp_client (w_setup V) (w_requester V) (client_flags opts) 0 (w_connect V (co_connect_to_tcp opts) 0) ?func"
  show "length Hs \<le> 1" using assms(5) by (auto simp: echo_client_program_def Let_def split: option.splits prod.splits)
  show "attested_peer (su_deps (w_setup V)) peer (sh_common H)" if "H \<in> set Hs"
  proof -
    from that assms(5) obtain r where run: "?run = Some (Some (Some H), r)"
      by (auto simp: echo_client_program_def Let_def split: option.splits prod.splits)
    have "opt_verify_peer (client_flags opts)" using assms(4) by (simp add: client_flags_def)
    from client_program_attested [OF assms(1,2) this run] obtain q chain claims where
      q: "?func q = (Some H, r)" "peer (ctx_common (rq_context q)) = Some chain" "verify_cert_der (su_deps (w_setup V)) chain = Ok claims" by blast
    then obtain H0 where H0: "requester_into_split ?cfg q = Ok H0" "?echo H0 = (H, r)"
      by (cases "requester_into_split ?cfg q") (auto simp: on_halves_def split: prod.splits)
    from spdm_echo_client_peer [OF assms(3), of "w_codec V" ?cfg "su_endpoint (w_setup V)" "w_overflow_checks V" "w_random V" H0] H0(2)
    have "peer (sh_common H) = peer (sh_common H0)" by simp
    with split_common [OF H0(1)] q(2,3) show ?thesis by (simp add: attested_peer_def)
  qed
qed

text \<open>
  C9. The SPDM client program, from its command line on: started as \<^verbatim>\<open>echo-client\<close> or \<^verbatim>\<open>tunnel-client\<close> with any
  arguments that do not contain \<^verbatim>\<open>--verify-peer=false\<close>, every session it makes is with a peer whose certificate
  \<open>verify_cert_der\<close> accepts, at the end of the echo test as well as after any interleaving of the threads of any
  of its tunnels. The argument parser is relied on only for the documented meaning of an option with a
  default, so this is what the declared defaults give.
\<close>

theorem spdm_program_attested:
  assumes "clap_ok (w_clap V)" and "spdm_verifies (su_deps (w_setup V)) (w_requester V) (su_context_new (w_setup V)) strategy peer"
    and "requester_lib_ok (w_requester V)" and "records_keep (w_spdm V) peer"
    and "spdm_main V (name # toks) = Some run" and "name = ''echo-client'' \<or> name = ''tunnel-client''"
    and "''--verify-peer=false'' \<notin> set toks"
  shows "case run of
      EchoRun Hs out \<Rightarrow> name = ''echo-client'' \<and> length Hs \<le> 1 \<and>
        (\<forall>H \<in> set Hs. attested_peer (su_deps (w_setup V)) peer (sh_common H))
    | TunnelRun es out \<Rightarrow> name = ''tunnel-client'' \<and>
        (\<forall>e \<in> set es. \<forall>ts. attested_peer (su_deps (w_setup V)) peer
           (te_common (tunnel_client_run (w_spdm V) (w_codec V) (su_io (w_setup V)) (w_overflow_checks V) ts e)))"
proof -
  from assms(5) obtain cmd where cmd: "parse_spdm (w_clap V) (name # toks) = Some cmd" by (auto simp: spdm_main_def)
  note reads = parse_spdm_reads [OF assms(1) cmd]
  have verify: "co_verify_peer o'" if "client_reads toks o'" for o'
    using that assms(7) by (simp add: client_reads_def flag_reading_def)
  consider (echo) opts where "cmd = SpdmEchoClient opts" "name = ''echo-client''" "client_reads toks opts"
    | (tunnel) common ingress where "cmd = SpdmTunnelClient common ingress" "name = ''tunnel-client''" "client_reads toks common"
    using reads assms(6) by (cases cmd) auto
  then show ?thesis
  proof cases
    case (echo opts)
    obtain Hs out where run: "echo_client_program V opts = (Hs, out)" by fastforce
    with assms(5) cmd echo(1) have "run = EchoRun Hs out" by (simp add: spdm_main_def)
    with echo_client_attested [OF assms(2-4) verify [OF echo(3)] run] echo(2) show ?thesis by simp
  next
    case (tunnel common ingress)
    obtain es out where run: "tunnel_client_program V common ingress = (es, out)" by fastforce
    have "opt_verify_peer (client_flags common)" using verify [OF tunnel(3)] by (simp add: client_flags_def)
    from tunnel_client_attested [OF assms(2,3) this] run
    have "\<forall>e \<in> set es. attested_peer (su_deps (w_setup V)) peer (te_common e)"
      by (auto simp: tunnel_client_program_def split: option.splits)
    moreover have "run = TunnelRun es out" using assms(5) cmd tunnel(1) run by (simp add: spdm_main_def)
    ultimately show ?thesis
      using tunnel(2) by (simp add: tunnel_client_run_def attested_peer_def tunnel_run_peer [OF assms(4)])
  qed
qed

text \<open>A record layer without protection, and a world with one local connection, for a tunnel started without options.\<close>

definition plain_spdm :: "'c spdm_lib" where
  "plain_spdm = \<lparr>rsp_data_transfer_size_sel = (\<lambda>_. 0), rsp_ct_exponent_sel = (\<lambda>_. 3),
     encode_secured_message = (\<lambda>c sid m buf req app.
       if length buf < length m then (c, buf, Inl (SPDM_STATUS_OTHER 0)) else (c, blit buf 0 m, Inr (length m))),
     decode_secured_message = (\<lambda>c sid p out req.
       if length out < length p then (c, out, Inl (SPDM_STATUS_OTHER 0)) else (c, blit out 0 p, Inr (length p, True)))\<rparr>"

definition sample_world :: "bytes \<Rightarrow> (cert_validation_strategy \<times> bytes option, auto_evidence) spdm_world" where
  "sample_world der = \<lparr>w_clap = ref_clap, w_setup = attested_setup_of, w_requester = attested_lib der,
     w_responder = \<lparr>process_message = (\<lambda>c crypto raw buf. (c, raw, buf, SpdmHandleError SPDM_STATUS_INVALID_CERT)), session_state_of = (\<lambda>_ _. None)\<rparr>,
     w_codec = le_codec, w_spdm = plain_spdm, w_overflow_checks = True, w_random = (\<lambda>_. replicate 8 7),
     w_listen = (\<lambda>_. Some []), w_ingress = (\<lambda>_. Some [Some (stream_of [Chunk [1, 2]])]), w_connect = (\<lambda>_ _. Some (stream_of [])),
     w_os = (\<lambda>_ _. \<lparr>connect_upstream = None, clone_local = True, spawn_first = True, spawn_second = True\<rparr>)\<rparr>"

lemma plain_records_keep: "records_keep plain_spdm peer"
  by (simp add: records_keep_def plain_spdm_def)

lemma sample_command:
  "parse_spdm ref_clap [''tunnel-client'', ''--connect-to-tcp=host:1'', ''--ingress'', ''host:2''] =
     Some (SpdmTunnelClient \<lparr>co_attest_self = False, co_verify_peer = True, co_connect_to_tcp = ''host:1''\<rparr> ''host:2'')"
  by code_simp

theorem spdm_program_attested_witness:
  "\<exists>der e. spdm_main (sample_world der) [''tunnel-client'', ''--connect-to-tcp=host:1'', ''--ingress'', ''host:2''] = Some (TunnelRun [e] Waiting) \<and>
     attested_peer ref_deps snd (te_common (tunnel_client_run plain_spdm le_codec small_config True [InwardTurn, OutwardTurn, InwardTurn] e))"
proof -
  let ?o = "\<lparr>opt_attest_self = False, opt_verify_peer = True\<rparr>"
  let ?common = "\<lparr>co_attest_self = False, co_verify_peer = True, co_connect_to_tcp = ''host:1''\<rparr>"
  have o: "client_flags ?common = ?o" by (simp add: client_flags_def)
  show ?thesis
  proof (rule sample_client_run [OF refl])
    fix der claims q q0
    assume sid: "rq_session_id q = Some 7"
      and b: "\<And>i. requester_build_with_tcp_stream (su_deps attested_setup_of) (su_endpoint attested_setup_of) (su_io attested_setup_of)
        (su_mut_auth attested_setup_of) (su_context_new attested_setup_of) (su_rng attested_setup_of i) (su_attester attested_setup_of)
        (su_claims attested_setup_of) (requester_with_verify_mode (requester_with_attest_self requester_builder_new (opt_attest_self ?o))
          (verify_mode_of ?o)) (stream_of []) = Ok q0" and n: "requester_negotiate (attested_lib der) q0 = Some (q, Ok ())"
    let ?V = "sample_world der"
    let ?OS = "w_os ?V ''host:2'' 0" and ?local = "stream_of [Chunk [1, 2]]"
    obtain e where e: "tunnel_client_session ?OS small_config ?local q = (Some e, Ok ())"
      using sid by (simp add: tunnel_client_session_def requester_into_split_def split_endpoint_def sample_world_def)
    have tc: "tunnel_client attested_setup_of (attested_lib der) ?o (w_os ?V ''host:2'') (\<lambda>_. Some (stream_of [])) 0 [Some ?local] = ([e], Waiting)"
      using e by (simp add: with_spdm_tcp_client_connected [OF b n]) (simp add: attested_setup_of_def)
    have world: "w_clap ?V = ref_clap" "w_setup ?V = attested_setup_of" "w_requester ?V = attested_lib der"
      "w_ingress ?V x = Some [Some ?local]" "w_connect ?V x = (\<lambda>_. Some (stream_of []))" for x by (simp_all add: sample_world_def)
    have "tunnel_client_program ?V ?common ''host:2'' = ([e], Waiting)"
      unfolding tunnel_client_program_def world option.case o by (rule tc)
    then have main: "spdm_main ?V (''tunnel-client'' # [''--connect-to-tcp=host:1'', ''--ingress'', ''host:2'']) = Some (TunnelRun [e] Waiting)"
      unfolding spdm_main_def world sample_command by simp
    have hyps: "clap_ok (w_clap ?V)" "spdm_verifies (su_deps (w_setup ?V)) (w_requester ?V) (su_context_new (w_setup ?V)) fst snd"
      "requester_lib_ok (w_requester ?V)" "records_keep (w_spdm ?V) snd"
      using ref_clap_ok attested_lib_verifies attested_lib_ok plain_records_keep by (simp_all add: sample_world_def)
    have no: "''--verify-peer=false'' \<notin> set [''--connect-to-tcp=host:1'', ''--ingress'', ''host:2'']" by simp
    from spdm_program_attested [OF hyps main disjI2 [OF refl] no] main show ?thesis
      by (auto simp: sample_world_def attested_setup_of_def)
  qed
qed

end
