(* ===== verification/Tls.thy ===== *)
theory Tls
  imports CertTheorems
begin

text \<open>
  \<^verbatim>\<open>rats-rs/src/transport/tls\<close>: the TLS endpoints over OpenSSL (\<^verbatim>\<open>mod.rs\<close>, \<^verbatim>\<open>client.rs\<close>, \<^verbatim>\<open>server.rs\<close>).

  OpenSSL is the parameter \<open>ossl_lib\<close>. The world \<open>ossl\<close> is the list of the calls the program made so far,
  newest first, each with its arguments and its answer; what OpenSSL answers to a call may depend on all
  calls before it, so no behaviour of the library is excluded. A pointer is a number, 0 the null pointer.
  \<open>Handshake TlsClient\<close> is a call of \<open>SSL_connect\<close>, \<open>Handshake TlsServer\<close> one of \<open>SSL_accept\<close>. The call of
  \<open>SSL_get_error\<close> is an argument of a log message and left out with it.
\<close>

type_synonym c_int = "32 word"
type_synonym ptr = nat

text \<open>A value of \<open>SSL_verify_cb\<close>: the crate's callback or one of the user's, known by its address.\<close>

datatype verify_cb = VerifyCertificateDefault | UserCallback ptr

datatype tls_role = TlsClient | TlsServer

datatype ossl_event =
    InitCrypto u64
  | InitSsl u64
  | CtxNew tls_role ptr
  | UsePrivateKey ptr c_int bytes c_int
  | UseCertificate ptr bytes c_int c_int
  | SetVerify ptr c_int verify_cb
  | SslNew ptr ptr
  | SetExData ptr
  | SetFd ptr c_int c_int
  | ClearError
  | Handshake tls_role ptr c_int
  | SslWrite ptr bytes c_int c_int
  | SslRead ptr c_int c_int
  | SslShutdown ptr
  | SslFree ptr
  | CtxFree ptr

text \<open>\<open>START\<close>, the process-wide \<open>Once\<close>, has run or not.\<close>

record ossl =
  events :: "ossl_event list"
  START :: bool

record ossl_lib =
  init_ssl :: "ossl_event list \<Rightarrow> c_int"
  ctx_new :: "ossl_event list \<Rightarrow> tls_role \<Rightarrow> ptr"
  use_private_key :: "ossl_event list \<Rightarrow> ptr \<Rightarrow> c_int \<Rightarrow> bytes \<Rightarrow> c_int"
  use_certificate :: "ossl_event list \<Rightarrow> ptr \<Rightarrow> bytes \<Rightarrow> c_int \<Rightarrow> c_int"
  ssl_new :: "ossl_event list \<Rightarrow> ptr \<Rightarrow> ptr"
  ssl_set_fd :: "ossl_event list \<Rightarrow> ptr \<Rightarrow> c_int \<Rightarrow> c_int"
  ssl_handshake :: "ossl_event list \<Rightarrow> tls_role \<Rightarrow> ptr \<Rightarrow> c_int"
  ssl_write :: "ossl_event list \<Rightarrow> ptr \<Rightarrow> bytes \<Rightarrow> c_int \<Rightarrow> c_int"
  ssl_read :: "ossl_event list \<Rightarrow> ptr \<Rightarrow> c_int \<Rightarrow> c_int \<times> bytes"

definition log_event :: "ossl_event \<Rightarrow> ossl \<Rightarrow> ossl" where
  "log_event e w = w\<lparr>events := e # events w\<rparr>"

lemma events_log [simp]: "events (log_event e w) = e # events w"
  by (simp add: log_event_def)

text \<open>\<open>?\<close> after a call that changes the world.\<close>

definition w_then :: "'w \<times> 'a res \<Rightarrow> ('w \<Rightarrow> 'a \<Rightarrow> 'w \<times> 'b res) \<Rightarrow> 'w \<times> 'b res" where
  "w_then x f = (case x of
       (w, Ok a) \<Rightarrow> f w a
     | (w, Err e) \<Rightarrow> (w, Err e)
     | (w, Panic) \<Rightarrow> (w, Panic)
     | (w, UB) \<Rightarrow> (w, UB))"

lemma w_then_simps [simp]:
  "w_then (w, Ok a) f = f w a" "w_then (w, Err e) f = (w, Err e)" "w_then (w, Panic) f = (w, Panic)"
  "w_then (w, UB) f = (w, UB)"
  by (simp_all add: w_then_def)

lemma w_then_eq_Ok: "w_then x f = (w', Ok y) \<longleftrightarrow> (\<exists>w a. x = (w, Ok a) \<and> f w a = (w', Ok y))"
  by (cases x; cases "snd x") (auto simp: w_then_def)

subsection \<open>Initialisation and the verification callback\<close>

text \<open>The flags of \<open>SslMode\<close>, \<open>SslInit\<close> and \<open>EpvPkey\<close>.\<close>

definition SSL_VERIFY_NONE :: c_int where "SSL_VERIFY_NONE = 0x00"
definition SSL_VERIFY_PEER :: c_int where "SSL_VERIFY_PEER = 0x01"
definition SSL_VERIFY_FAIL_IF_NO_PEER_CERT :: c_int where "SSL_VERIFY_FAIL_IF_NO_PEER_CERT = 0x02"
definition LOAD_CRYPTO_STRINGS :: u64 where "LOAD_CRYPTO_STRINGS = 0x00000002"
definition ADD_ALL_DIGESTS :: u64 where "ADD_ALL_DIGESTS = 0x00000008"
definition LOAD_SSL_STRINGS :: u64 where "LOAD_SSL_STRINGS = 0x00200000"
definition EPV_PKEY_EC :: c_int where "EPV_PKEY_EC = 408"
definition EPV_PKEY_RSA :: c_int where "EPV_PKEY_RSA = 6"

definition ossl_init :: "ossl_lib \<Rightarrow> ossl \<Rightarrow> ossl \<times> unit res" where
  "ossl_init L w =
     (let w = (if START w then w
               else (log_event (InitCrypto ADD_ALL_DIGESTS) (log_event (InitCrypto LOAD_CRYPTO_STRINGS)
                      (log_event (InitSsl (or LOAD_SSL_STRINGS LOAD_CRYPTO_STRINGS))
                        (log_event (InitCrypto (or ADD_ALL_DIGESTS ADD_ALL_DIGESTS)) w))))\<lparr>START := True\<rparr>);
          res = init_ssl L (events w);
          w = log_event (InitSsl 0) w
      in if sint res < 0 then (w, Err (error_of_kind OsslInitializeFail)) else (w, Ok ()))"

text \<open>
  What the callback reads from its \<open>X509_STORE_CTX\<close>: the error number, and for the current certificate
  the answer of \<open>i2d_X509\<close>, its length and the buffer it allocated (\<open>None\<close>: the pointer stayed null).
\<close>

record store_ctx =
  store_error :: c_int
  i2d_current :: "c_int \<times> bytes option"

definition X509_V_ERR_DEPTH_ZERO_SELF_SIGNED_CERT :: c_int where
  "X509_V_ERR_DEPTH_ZERO_SELF_SIGNED_CERT = 18"

text \<open>\<open>slice::from_raw_parts\<close> on a null pointer or beyond the buffer is undefined behaviour.\<close>

definition verify_certificate_default :: "deps \<Rightarrow> c_int \<Rightarrow> store_ctx \<Rightarrow> c_int res" where
  "verify_certificate_default D preverify_ok ctx =
     (if preverify_ok = 0
      then (if store_error ctx = X509_V_ERR_DEPTH_ZERO_SELF_SIGNED_CERT then Ok 1 else Ok 0)
      else (case i2d_current ctx of
          (len, None) \<Rightarrow> UB
        | (len, Some buf) \<Rightarrow>
            (if sint len < 0 \<or> length buf < unat len then UB
             else (case cert_verifier_verify D (cert_verifier_new (Contains [])) (take (unat len) buf) of
                 Ok Passed \<Rightarrow> Ok 1
               | Ok Failed \<Rightarrow> Ok 0
               | Err e \<Rightarrow> Ok 0
               | Panic \<Rightarrow> Panic
               | UB \<Rightarrow> UB))))"

text \<open>The callback that is installed; \<open>user\<close> gives the behaviour of the user's ones.\<close>

fun run_callback :: "deps \<Rightarrow> (ptr \<Rightarrow> c_int \<Rightarrow> store_ctx \<Rightarrow> c_int res) \<Rightarrow> verify_cb \<Rightarrow> c_int \<Rightarrow> store_ctx \<Rightarrow> c_int res" where
  "run_callback D user VerifyCertificateDefault pre x = verify_certificate_default D pre x"
| "run_callback D user (UserCallback p) pre x = user p pre x"

subsection \<open>Client\<close>

record tls_client =
  tc_ctx :: ptr
  tc_session :: "ptr option"
  tc_verify :: "verify_cb option"
  tc_fd :: c_int
  tc_attest_self :: bool

record tls_client_builder =
  tcb_verify :: "verify_cb option"
  tcb_stream :: "c_int option"
  tcb_attest_self :: bool

definition client_builder_new :: tls_client_builder where
  "client_builder_new = \<lparr>tcb_verify = None, tcb_stream = None, tcb_attest_self = False\<rparr>"

definition client_with_verify :: "tls_client_builder \<Rightarrow> verify_cb option \<Rightarrow> tls_client_builder" where
  "client_with_verify b v = b\<lparr>tcb_verify := v\<rparr>"

definition client_with_tcp_stream :: "tls_client_builder \<Rightarrow> c_int \<Rightarrow> tls_client_builder" where
  "client_with_tcp_stream b fd = b\<lparr>tcb_stream := Some fd\<rparr>"

definition client_with_attest_self :: "tls_client_builder \<Rightarrow> bool \<Rightarrow> tls_client_builder" where
  "client_with_attest_self b a = b\<lparr>tcb_attest_self := a\<rparr>"

definition client_send :: "ossl_lib \<Rightarrow> ossl \<Rightarrow> tls_client \<Rightarrow> bytes \<Rightarrow> ossl \<times> unit res" where
  "client_send L w self bytes =
     (case tc_session self of
        None \<Rightarrow> (w, Err (error_of_kind OsslCtxOrSessionUninitialized))
      | Some ssl \<Rightarrow>
          (let len = word_of_nat (length bytes);
               res = ssl_write L (events w) ssl bytes len;
               w = log_event (SslWrite ssl bytes len res) w
           in if sint res < 0 then (w, Err (error_of_kind OsslSendFail)) else (w, Ok ())))"

definition client_shutdown :: "ossl \<Rightarrow> tls_client \<Rightarrow> ossl \<times> unit res" where
  "client_shutdown w self = (case tc_session self of Some ssl \<Rightarrow> (log_event (SslShutdown ssl) w, Ok ()) | None \<Rightarrow> (w, Ok ()))"

definition client_drop :: "ossl \<Rightarrow> tls_client \<Rightarrow> ossl" where
  "client_drop w self =
     (let w = (case tc_session self of Some ssl \<Rightarrow> log_event (SslFree ssl) w | None \<Rightarrow> w)
      in log_event (CtxFree (tc_ctx self)) w)"

text \<open>\<open>SSL_read\<close> writes its data at the start of the caller's buffer.\<close>

definition client_receive :: "ossl_lib \<Rightarrow> ossl \<Rightarrow> tls_client \<Rightarrow> bytes \<Rightarrow> ossl \<times> bytes \<times> nat res" where
  "client_receive L w self buf =
     (case tc_session self of
        None \<Rightarrow> (w, buf, Err (error_of_kind OsslCtxOrSessionUninitialized))
      | Some ssl \<Rightarrow>
          (case ssl_read L (events w) ssl (word_of_nat (length buf)) of (res, data) \<Rightarrow>
             (let w = log_event (SslRead ssl (word_of_nat (length buf)) res) w
              in if length data > length buf then (w, buf, UB)
                 else if sint res < 0 then (w, blit buf 0 data, Err (error_of_kind OsslReceiveFail))
                 else (w, blit buf 0 data, Ok (unat res)))))"

definition client_negotiate :: "ossl_lib \<Rightarrow> ossl \<Rightarrow> tls_client \<Rightarrow> ossl \<times> tls_client \<times> unit res" where
  "client_negotiate L w self =
     (let ctx = tc_ctx self;
          w = (case tc_verify self of Some cb \<Rightarrow> log_event (SetVerify ctx SSL_VERIFY_PEER cb) w | None \<Rightarrow> w);
          session = ssl_new L (events w) ctx;
          w = log_event (SslNew ctx session) w
      in if session = 0 then (w, self, Err (error_of_kind OsslNoMem))
         else (let w = log_event (SetExData ctx) w;
                   res = ssl_set_fd L (events w) session (tc_fd self);
                   w = log_event (SetFd session (tc_fd self) res) w
               in if res \<noteq> 1 then (w, self, Err (error_of_kind OsslSetFdFail))
                  else (let w = log_event ClearError w;
                            err = ssl_handshake L (events w) TlsClient session;
                            w = log_event (Handshake TlsClient session err) w
                        in if err \<noteq> 1 then (w, self, Err (error_of_kind OsslServerNegotiationFail))
                           else (w, self\<lparr>tc_session := Some session\<rparr>, Ok ()))))"

definition client_use_privkey :: "crypto_lib \<Rightarrow> ossl_lib \<Rightarrow> ossl \<Rightarrow> tls_client \<Rightarrow> asymmetric_private_key \<Rightarrow> ossl \<times> unit res" where
  "client_use_privkey C L w self privkey =
     (case (case privkey of
              Rsa2048 key \<Rightarrow> (map_err (\<lambda>_. error_unknown) (lift_ext (rsa_to_der C key)), EPV_PKEY_RSA)
            | Rsa3072 key \<Rightarrow> (map_err (\<lambda>_. error_unknown) (lift_ext (rsa_to_der C key)), EPV_PKEY_RSA)
            | Rsa4096 key \<Rightarrow> (map_err (\<lambda>_. error_unknown) (lift_ext (rsa_to_der C key)), EPV_PKEY_RSA)
            | P256 key \<Rightarrow> (lift_ext (p256_to_der C key), EPV_PKEY_EC)) of
        (pkey, epkey) \<Rightarrow> w_then (w, pkey) (\<lambda>w pkey.
          if pkey = [] then (w, Panic)
          else (let res = use_private_key L (events w) (tc_ctx self) epkey pkey;
                    w = log_event (UsePrivateKey (tc_ctx self) epkey pkey res) w
                in if res \<noteq> 1 then (w, Err (error_of_kind OsslUsePrivKeyfail)) else (w, Ok ()))))"

definition client_use_cert :: "ossl_lib \<Rightarrow> ossl \<Rightarrow> tls_client \<Rightarrow> bytes \<Rightarrow> ossl \<times> unit res" where
  "client_use_cert L w self cert =
     (let len = word_of_nat (length cert);
          res = use_certificate L (events w) (tc_ctx self) cert len;
          w = log_event (UseCertificate (tc_ctx self) cert len res) w
      in if res \<noteq> 1 then (w, Err (error_of_kind OsslUseCertfail)) else (w, Ok ()))"

text \<open>The part of \<open>build\<close> that makes a key and a certificate and installs them.\<close>

definition client_attest :: "deps \<Rightarrow> ossl_lib \<Rightarrow> 'e attester \<Rightarrow> rng \<Rightarrow> ossl \<Rightarrow> tls_client \<Rightarrow> ossl \<times> unit res" where
  "client_attest D L attester g w self =
     w_then (w, gen_private_key (lib_crypto D) g AlgoRsa2048) (\<lambda>w privkey.
     w_then (client_use_privkey (lib_crypto D) L w self privkey) (\<lambda>w _.
     w_then (w, andthen (build_with_private_key D (cert_builder_new attester Sha256) privkey) (cert_to_der D)) (\<lambda>w cert.
     client_use_cert L w self cert)))"

text \<open>
  \<open>build\<close>. From the construction of the \<open>Client\<close> on, leaving early drops it; the missing stream is
  noticed before, when only the raw context exists.
\<close>

definition client_build :: "deps \<Rightarrow> ossl_lib \<Rightarrow> 'e attester \<Rightarrow> rng \<Rightarrow> ossl \<Rightarrow> tls_client_builder \<Rightarrow> ossl \<times> tls_client res" where
  "client_build D L attester g w self =
     w_then (ossl_init L w) (\<lambda>w _.
     let ctx = ctx_new L (events w) TlsClient;
         w = log_event (CtxNew TlsClient ctx) w
     in if ctx = 0 then (w, Err (error_of_kind OsslCtxInitializeFail))
        else w_then (w, case tcb_stream self of Some fd \<Rightarrow> Ok fd | None \<Rightarrow> Err (error_of_kind OsslTlsBuilderStreamUnset)) (\<lambda>w fd.
          let c = \<lparr>tc_ctx = ctx, tc_session = None,
                   tc_verify = Some (case tcb_verify self of Some v \<Rightarrow> v | None \<Rightarrow> VerifyCertificateDefault),
                   tc_fd = fd, tc_attest_self = tcb_attest_self self\<rparr>
          in case (if tc_attest_self c then client_attest D L attester g w c else (w, Ok ())) of
               (w, r) \<Rightarrow> (if r = Ok () then (w, Ok c) else (client_drop w c, andthen r (\<lambda>_. Ok c)))))"

subsection \<open>Server\<close>

record tls_server =
  ts_ctx :: ptr
  ts_session :: "ptr option"
  ts_verify :: "verify_cb option"
  ts_fd :: c_int

record tls_server_builder =
  tsb_verify :: "verify_cb option"
  tsb_stream :: "c_int option"
  tsb_verify_peer :: bool

definition server_builder_new :: tls_server_builder where
  "server_builder_new = \<lparr>tsb_verify = None, tsb_stream = None, tsb_verify_peer = False\<rparr>"

definition server_with_verify :: "tls_server_builder \<Rightarrow> verify_cb option \<Rightarrow> tls_server_builder" where
  "server_with_verify b v = b\<lparr>tsb_verify := v\<rparr>"

definition server_with_verify_peer :: "tls_server_builder \<Rightarrow> bool \<Rightarrow> tls_server_builder" where
  "server_with_verify_peer b v = b\<lparr>tsb_verify_peer := v\<rparr>"

definition server_with_tcp_stream :: "tls_server_builder \<Rightarrow> c_int \<Rightarrow> tls_server_builder" where
  "server_with_tcp_stream b fd = b\<lparr>tsb_stream := Some fd\<rparr>"

definition server_send :: "ossl_lib \<Rightarrow> ossl \<Rightarrow> tls_server \<Rightarrow> bytes \<Rightarrow> ossl \<times> unit res" where
  "server_send L w self bytes =
     (case ts_session self of
        None \<Rightarrow> (w, Err (error_of_kind OsslCtxOrSessionUninitialized))
      | Some ssl \<Rightarrow>
          (let len = word_of_nat (length bytes);
               res = ssl_write L (events w) ssl bytes len;
               w = log_event (SslWrite ssl bytes len res) w
           in if sint res < 0 then (w, Err (error_of_kind OsslSendFail)) else (w, Ok ())))"

definition server_shutdown :: "ossl \<Rightarrow> tls_server \<Rightarrow> ossl \<times> unit res" where
  "server_shutdown w self = (case ts_session self of Some ssl \<Rightarrow> (log_event (SslShutdown ssl) w, Ok ()) | None \<Rightarrow> (w, Ok ()))"

definition server_drop :: "ossl \<Rightarrow> tls_server \<Rightarrow> ossl" where
  "server_drop w self =
     (let w = (case ts_session self of Some ssl \<Rightarrow> log_event (SslFree ssl) w | None \<Rightarrow> w)
      in log_event (CtxFree (ts_ctx self)) w)"

definition server_receive :: "ossl_lib \<Rightarrow> ossl \<Rightarrow> tls_server \<Rightarrow> bytes \<Rightarrow> ossl \<times> bytes \<times> nat res" where
  "server_receive L w self buf =
     (case ts_session self of
        None \<Rightarrow> (w, buf, Err (error_of_kind OsslCtxOrSessionUninitialized))
      | Some ssl \<Rightarrow>
          (case ssl_read L (events w) ssl (word_of_nat (length buf)) of (res, data) \<Rightarrow>
             (let w = log_event (SslRead ssl (word_of_nat (length buf)) res) w
              in if length data > length buf then (w, buf, UB)
                 else if sint res < 0 then (w, blit buf 0 data, Err (error_of_kind OsslReceiveFail))
                 else (w, blit buf 0 data, Ok (unat res)))))"

definition server_negotiate :: "ossl_lib \<Rightarrow> ossl \<Rightarrow> tls_server \<Rightarrow> ossl \<times> tls_server \<times> unit res" where
  "server_negotiate L w self =
     (let ctx = ts_ctx self;
          w = (case ts_verify self of
                 Some cb \<Rightarrow> log_event (SetVerify ctx (or SSL_VERIFY_NONE (or SSL_VERIFY_PEER SSL_VERIFY_FAIL_IF_NO_PEER_CERT)) cb) w
               | None \<Rightarrow> w);
          session = ssl_new L (events w) ctx;
          w = log_event (SslNew ctx session) w
      in if session = 0 then (w, self, Err (error_of_kind OsslNoMem))
         else (let w = log_event (SetExData ctx) w;
                   res = ssl_set_fd L (events w) session (ts_fd self);
                   w = log_event (SetFd session (ts_fd self) res) w
               in if res \<noteq> 1 then (w, self, Err (error_of_kind OsslSetFdFail))
                  else (let w = log_event ClearError w;
                            err = ssl_handshake L (events w) TlsServer session;
                            w = log_event (Handshake TlsServer session err) w
                        in if err \<noteq> 1 then (w, self, Err (error_of_kind OsslServerNegotiationFail))
                           else (w, self\<lparr>ts_session := Some session\<rparr>, Ok ()))))"

definition server_use_privkey :: "crypto_lib \<Rightarrow> ossl_lib \<Rightarrow> ossl \<Rightarrow> tls_server \<Rightarrow> asymmetric_private_key \<Rightarrow> ossl \<times> unit res" where
  "server_use_privkey C L w self privkey =
     (case (case privkey of
              Rsa2048 key \<Rightarrow> (lift_ext (rsa_to_der C key), EPV_PKEY_RSA)
            | Rsa3072 key \<Rightarrow> (lift_ext (rsa_to_der C key), EPV_PKEY_RSA)
            | Rsa4096 key \<Rightarrow> (lift_ext (rsa_to_der C key), EPV_PKEY_RSA)
            | P256 key \<Rightarrow> (lift_ext (p256_to_der C key), EPV_PKEY_EC)) of
        (pkey, epkey) \<Rightarrow> w_then (w, pkey) (\<lambda>w pkey.
          if pkey = [] then (w, Panic)
          else (let res = use_private_key L (events w) (ts_ctx self) epkey pkey;
                    w = log_event (UsePrivateKey (ts_ctx self) epkey pkey res) w
                in if res \<noteq> 1 then (w, Err (error_of_kind OsslUsePrivKeyfail)) else (w, Ok ()))))"

definition server_use_cert :: "ossl_lib \<Rightarrow> ossl \<Rightarrow> tls_server \<Rightarrow> bytes \<Rightarrow> ossl \<times> unit res" where
  "server_use_cert L w self cert =
     (let len = word_of_nat (length cert);
          res = use_certificate L (events w) (ts_ctx self) cert len;
          w = log_event (UseCertificate (ts_ctx self) cert len res) w
      in if res \<noteq> 1 then (w, Err (error_of_kind OsslUseCertfail)) else (w, Ok ()))"

text \<open>The part of \<open>build\<close> that makes a key and a certificate and installs them.\<close>

definition server_attest :: "deps \<Rightarrow> ossl_lib \<Rightarrow> 'e attester \<Rightarrow> rng \<Rightarrow> ossl \<Rightarrow> tls_server \<Rightarrow> ossl \<times> unit res" where
  "server_attest D L attester g w self =
     w_then (w, gen_private_key (lib_crypto D) g AlgoRsa2048) (\<lambda>w privkey.
     w_then (server_use_privkey (lib_crypto D) L w self privkey) (\<lambda>w _.
     w_then (w, andthen (build_with_private_key D (cert_builder_new attester Sha256) privkey) (cert_to_der D)) (\<lambda>w cert.
     server_use_cert L w self cert)))"

definition server_build :: "deps \<Rightarrow> ossl_lib \<Rightarrow> 'e attester \<Rightarrow> rng \<Rightarrow> ossl \<Rightarrow> tls_server_builder \<Rightarrow> ossl \<times> tls_server res" where
  "server_build D L attester g w self =
     w_then (ossl_init L w) (\<lambda>w _.
     let ctx = ctx_new L (events w) TlsServer;
         w = log_event (CtxNew TlsServer ctx) w
     in if ctx = 0 then (w, Err (error_of_kind OsslCtxInitializeFail))
        else w_then (w, case tsb_stream self of Some fd \<Rightarrow> Ok fd | None \<Rightarrow> Err (error_of_kind OsslTlsBuilderStreamUnset)) (\<lambda>w fd.
          let s = \<lparr>ts_ctx = ctx, ts_session = None,
                   ts_verify = (if tsb_verify_peer self
                     then (if tsb_verify self \<noteq> None then tsb_verify self else Some VerifyCertificateDefault)
                     else None),
                   ts_fd = fd\<rparr>
          in case server_attest D L attester g w s of
               (w, r) \<Rightarrow> (if r = Ok () then (w, Ok s) else (server_drop w s, andthen r (\<lambda>_. Ok s)))))"

end
