(* ===== verification/TlsTheorems.thy ===== *)
theory TlsTheorems
  imports Tls SampleCert
begin

text \<open>
  Properties of the TLS endpoints: what a finished negotiation says about the peer, which sessions an
  endpoint touches and frees over its life, and what its builder leaves behind. The two endpoints share
  the contract \<open>tls_endpoint\<close>, interpreted on the client and on the server.
\<close>

subsection \<open>Histories of OpenSSL calls\<close>

text \<open>The session a call works on.\<close>

fun uses :: "ossl_event \<Rightarrow> ptr option" where
  "uses (SslWrite s _ _ _) = Some s"
| "uses (SslRead s _ _) = Some s"
| "uses (SslShutdown s) = Some s"
| "uses _ = None"

fun frees :: "ossl_event \<Rightarrow> bool" where
  "frees (SslFree _) = True"
| "frees (CtxFree _) = True"
| "frees _ = False"

text \<open>The session of the last handshake that succeeded, and the sessions made, newest first.\<close>

fun latest_session :: "ossl_event list \<Rightarrow> ptr option" where
  "latest_session [] = None"
| "latest_session (Handshake _ s v # es) = (if v = 1 then Some s else latest_session es)"
| "latest_session (_ # es) = latest_session es"

fun sessions_made :: "ossl_event list \<Rightarrow> ptr list" where
  "sessions_made [] = []"
| "sessions_made (SslNew _ s # es) = (if s = 0 then sessions_made es else s # sessions_made es)"
| "sessions_made (_ # es) = sessions_made es"

text \<open>Every call on a session was made on the one of the last successful handshake before it.\<close>

fun disciplined :: "ossl_event list \<Rightarrow> bool" where
  "disciplined [] = True"
| "disciplined (e # es) \<longleftrightarrow> disciplined es \<and> (uses e = None \<or> uses e = latest_session es)"

lemma latest_session_append:
  "latest_session (xs @ ys) = (case latest_session xs of Some s \<Rightarrow> Some s | None \<Rightarrow> latest_session ys)"
  by (induction xs rule: latest_session.induct) auto

lemma sessions_made_append: "sessions_made (xs @ ys) = sessions_made xs @ sessions_made ys"
  by (induction xs rule: sessions_made.induct) auto

lemma disciplined_append: "list_all (\<lambda>e. uses e = None) new \<Longrightarrow> disciplined (new @ es) \<longleftrightarrow> disciplined es"
  by (induction new) auto

lemma latest_session_use: "uses e = Some s \<Longrightarrow> latest_session (e # es) = latest_session es"
  by (cases e) auto

lemma sessions_made_use: "uses e = Some s \<Longrightarrow> sessions_made (e # es) = sessions_made es"
  by (cases e) auto

text \<open>The history of an endpoint without a free: the calls since its creation and its session.\<close>

definition session_history :: "ossl_event list \<Rightarrow> ptr option \<Rightarrow> nat \<Rightarrow> bool" where
  "session_history es sess negotiations \<longleftrightarrow>
     disciplined es \<and> list_all (\<lambda>e. \<not> frees e) es \<and> latest_session es = sess \<and>
     (\<forall>s. sess = Some s \<longrightarrow> s \<in> set (sessions_made es)) \<and> length (sessions_made es) \<le> negotiations"

datatype tls_op = OpNegotiate | OpSend bytes | OpReceive bytes | OpShutdown

definition negotiations :: "tls_op list \<Rightarrow> nat" where
  "negotiations ops = length (filter (\<lambda>op. op = OpNegotiate) ops)"

locale tls_endpoint =
  fixes op :: "ossl_lib \<Rightarrow> tls_op \<Rightarrow> ossl \<times> 'a \<Rightarrow> ossl \<times> 'a"
    and session :: "'a \<Rightarrow> ptr option" and fixed_part :: "'a \<Rightarrow> 'b"
  assumes transfer: "k \<noteq> OpNegotiate \<Longrightarrow> op L k (w, a) = (w', a') \<Longrightarrow>
      a' = a \<and> (w' = w \<or> (\<exists>e s. events w' = e # events w \<and> uses e = Some s \<and> session a = Some s \<and> \<not> frees e))"
    and negotiate: "op L OpNegotiate (w, a) = (w', a') \<Longrightarrow>
      fixed_part a' = fixed_part a \<and>
      (\<exists>new. events w' = new @ events w \<and> list_all (\<lambda>e. uses e = None \<and> \<not> frees e) new \<and>
         (session a' = session a \<and> latest_session new = None \<and> length (sessions_made new) \<le> 1 \<or>
          (\<exists>s. session a' = Some s \<and> latest_session new = Some s \<and> sessions_made new = [s])))"
begin

text \<open>Every sequence of operations keeps the history in order.\<close>

lemma step_history:
  assumes "events w = es @ base" and "session_history es (session a) n" and "op L k (w, a) = (w', a')"
  shows "\<exists>es'. events w' = es' @ base \<and> session_history es' (session a') (n + (if k = OpNegotiate then 1 else 0)) \<and>
    fixed_part a' = fixed_part a"
proof (cases "k = OpNegotiate")
  case False
  with transfer [OF False assms(3)] assms(1,2) show ?thesis
    by (auto simp: session_history_def latest_session_use sessions_made_use intro: exI [of _ es] exI [of _ "_ # es"])
next
  case True
  with negotiate assms(3) obtain new where
    n: "events w' = new @ events w" "list_all (\<lambda>e. uses e = None \<and> \<not> frees e) new" "fixed_part a' = fixed_part a"
    and alt: "session a' = session a \<and> latest_session new = None \<and> length (sessions_made new) \<le> 1 \<or>
      (\<exists>s. session a' = Some s \<and> latest_session new = Some s \<and> sessions_made new = [s])" by blast
  from n(2) have quiet: "list_all (\<lambda>e. uses e = None) new" "list_all (\<lambda>e. \<not> frees e) new" by (simp_all add: list_all_iff)
  have "session_history (new @ es) (session a') (n + 1)"
    using assms(2) alt disciplined_append [OF quiet(1), of es] quiet(2)
    by (auto simp: session_history_def latest_session_append sessions_made_append)
  with n(1,3) assms(1) True show ?thesis by auto
qed

lemma run_history:
  assumes "events w = es @ base" and "session_history es (session a) n"
    and "foldl (\<lambda>s k. op L k s) (w, a) ops = (w', a')"
  shows "\<exists>es'. events w' = es' @ base \<and> session_history es' (session a') (n + negotiations ops) \<and> fixed_part a' = fixed_part a"
  using assms
proof (induction ops arbitrary: w a es n)
  case Nil
  then show ?case by (auto simp: negotiations_def)
next
  case (Cons k ops)
  obtain w1 a1 where s: "op L k (w, a) = (w1, a1)" by fastforce
  from step_history [OF Cons.prems(1,2) s] obtain es1 where
    h: "events w1 = es1 @ base" "session_history es1 (session a1) (n + (if k = OpNegotiate then 1 else 0))"
      "fixed_part a1 = fixed_part a" by blast
  from Cons.prems(3) s have "foldl (\<lambda>s k. op L k s) (w1, a1) ops = (w', a')" by simp
  from Cons.IH [OF h(1,2) this] h(3) show ?case by (auto simp: negotiations_def)
qed

text \<open>From a fresh endpoint.\<close>

lemma life:
  assumes "session a = None" and "foldl (\<lambda>s k. op L k s) (w, a) ops = (w', a')"
  obtains es where "events w' = es @ events w" "session_history es (session a') (negotiations ops)"
    "fixed_part a' = fixed_part a"
proof -
  have "session_history [] (session a) 0" using assms(1) by (simp add: session_history_def)
  from run_history [OF _ this assms(2), of "events w"] that show ?thesis by auto
qed

end

definition client_op :: "ossl_lib \<Rightarrow> tls_op \<Rightarrow> ossl \<times> tls_client \<Rightarrow> ossl \<times> tls_client" where
  "client_op L k s = (case s of (w, c) \<Rightarrow> (case k of
       OpNegotiate \<Rightarrow> (case client_negotiate L w c of (w, c, _) \<Rightarrow> (w, c))
     | OpSend m \<Rightarrow> (case client_send L w c m of (w, _) \<Rightarrow> (w, c))
     | OpReceive buf \<Rightarrow> (case client_receive L w c buf of (w, _) \<Rightarrow> (w, c))
     | OpShutdown \<Rightarrow> (case client_shutdown w c of (w, _) \<Rightarrow> (w, c))))"

definition server_op :: "ossl_lib \<Rightarrow> tls_op \<Rightarrow> ossl \<times> tls_server \<Rightarrow> ossl \<times> tls_server" where
  "server_op L k s = (case s of (w, c) \<Rightarrow> (case k of
       OpNegotiate \<Rightarrow> (case server_negotiate L w c of (w, c, _) \<Rightarrow> (w, c))
     | OpSend m \<Rightarrow> (case server_send L w c m of (w, _) \<Rightarrow> (w, c))
     | OpReceive buf \<Rightarrow> (case server_receive L w c buf of (w, _) \<Rightarrow> (w, c))
     | OpShutdown \<Rightarrow> (case server_shutdown w c of (w, _) \<Rightarrow> (w, c))))"

lemmas client_defs = client_op_def client_send_def client_receive_def client_shutdown_def client_negotiate_def
lemmas server_defs = server_op_def server_send_def server_receive_def server_shutdown_def server_negotiate_def

text \<open>The parts of an endpoint no operation changes.\<close>

definition client_fixed :: "tls_client \<Rightarrow> ptr \<times> verify_cb option \<times> c_int" where
  "client_fixed c = (tc_ctx c, tc_verify c, tc_fd c)"

definition server_fixed :: "tls_server \<Rightarrow> ptr \<times> verify_cb option \<times> c_int" where
  "server_fixed s = (ts_ctx s, ts_verify s, ts_fd s)"

interpretation client: tls_endpoint client_op tc_session client_fixed
proof
  fix k L w a w' a' assume k: "k \<noteq> OpNegotiate" and op: "client_op L k (w, a) = (w', a')"
  show "a' = a \<and> (w' = w \<or> (\<exists>e s. events w' = e # events w \<and> uses e = Some s \<and> tc_session a = Some s \<and> \<not> frees e))"
    using k op by (cases k) (auto simp: client_defs Let_def split: option.splits prod.splits if_splits)
next
  fix L w a w' a' assume op: "client_op L OpNegotiate (w, a) = (w', a')"
  show "client_fixed a' = client_fixed a \<and>
      (\<exists>new. events w' = new @ events w \<and> list_all (\<lambda>e. uses e = None \<and> \<not> frees e) new \<and>
         (tc_session a' = tc_session a \<and> latest_session new = None \<and> length (sessions_made new) \<le> 1 \<or>
          (\<exists>s. tc_session a' = Some s \<and> latest_session new = Some s \<and> sessions_made new = [s])))"
    using op by (cases "tc_verify a") (auto simp: client_defs client_fixed_def Let_def split: if_splits)
qed

interpretation server: tls_endpoint server_op ts_session server_fixed
proof
  fix k L w a w' a' assume k: "k \<noteq> OpNegotiate" and op: "server_op L k (w, a) = (w', a')"
  show "a' = a \<and> (w' = w \<or> (\<exists>e s. events w' = e # events w \<and> uses e = Some s \<and> ts_session a = Some s \<and> \<not> frees e))"
    using k op by (cases k) (auto simp: server_defs Let_def split: option.splits prod.splits if_splits)
next
  fix L w a w' a' assume op: "server_op L OpNegotiate (w, a) = (w', a')"
  show "server_fixed a' = server_fixed a \<and>
      (\<exists>new. events w' = new @ events w \<and> list_all (\<lambda>e. uses e = None \<and> \<not> frees e) new \<and>
         (ts_session a' = ts_session a \<and> latest_session new = None \<and> length (sessions_made new) \<le> 1 \<or>
          (\<exists>s. ts_session a' = Some s \<and> latest_session new = Some s \<and> sessions_made new = [s])))"
    using op by (cases "ts_verify a") (auto simp: server_defs server_fixed_def Let_def split: if_splits)
qed

subsection \<open>Builders\<close>

text \<open>What the initialisation adds to the history.\<close>

fun is_init :: "ossl_event \<Rightarrow> bool" where
  "is_init (InitCrypto _) = True"
| "is_init (InitSsl _) = True"
| "is_init _ = False"

fun is_credential :: "ossl_event \<Rightarrow> bool" where
  "is_credential (UsePrivateKey _ _ _ _) = True"
| "is_credential (UseCertificate _ _ _ _) = True"
| "is_credential _ = False"

lemma ossl_init_adds:
  "\<exists>new. events (fst (ossl_init L w)) = new @ events w \<and> list_all is_init new"
proof (cases "START w")
  case True
  then show ?thesis by (intro exI [of _ "[InitSsl 0]"]) (simp add: ossl_init_def Let_def)
next
  case False
  then show ?thesis
    by (intro exI [of _ "[InitSsl 0, InitCrypto ADD_ALL_DIGESTS, InitCrypto LOAD_CRYPTO_STRINGS,
          InitSsl (or LOAD_SSL_STRINGS LOAD_CRYPTO_STRINGS), InitCrypto (or ADD_ALL_DIGESTS ADD_ALL_DIGESTS)]"])
       (simp add: ossl_init_def Let_def log_event_def)
qed

lemma ossl_init_events:
  obtains new w' r where "ossl_init L w = (w', r)" "events w' = new @ events w" "list_all is_init new"
    "r = Ok () \<or> r = Err (error_of_kind OsslInitializeFail)"
proof -
  have "snd (ossl_init L w) = Ok () \<or> snd (ossl_init L w) = Err (error_of_kind OsslInitializeFail)"
    by (simp add: ossl_init_def Let_def)
  with ossl_init_adds [of L w] that show thesis by (cases "ossl_init L w") auto
qed

text \<open>The credentials an endpoint with context \<open>ctx\<close> installed, newest first.\<close>

definition credentials_installed :: "deps \<Rightarrow> 'e attester \<Rightarrow> rng \<Rightarrow> ptr \<Rightarrow> ossl_event list \<Rightarrow> bool" where
  "credentials_installed D attester g ctx es \<longleftrightarrow> (\<exists>key pkey der bd.
     gen_private_key (lib_crypto D) g AlgoRsa2048 = Ok key \<and> to_pkcs8_der (lib_crypto D) key = Ok pkey \<and>
     build_with_private_key D (cert_builder_new attester Sha256) key = Ok bd \<and> cert_to_der D bd = Ok der \<and>
     es = [UseCertificate ctx der (word_of_nat (length der)) 1, UsePrivateKey ctx EPV_PKEY_RSA pkey 1])"

lemma gen_rsa2048: "gen_private_key C g AlgoRsa2048 = Ok key \<Longrightarrow> \<exists>k. key = Rsa2048 k"
  by auto

text \<open>
  The attesting part adds only credentials to the history; the server's does the same as the client's up
  to the error of a key that has no encoding.
\<close>

lemma client_attest_cases:
  fixes A :: "'e attester"
  assumes "client_attest D L A g w c = (w', r)"
  obtains new where "events w' = new @ events w" "r = Ok () \<longrightarrow> credentials_installed D A g (tc_ctx c) new"
    "list_all is_credential new"
proof (cases "gen_private_key (lib_crypto D) g AlgoRsa2048")
  case (Ok key)
  then obtain k where k: "key = Rsa2048 k" using gen_rsa2048 by blast
  note gen = Ok
  let ?C = "andthen (build_with_private_key D (cert_builder_new A Sha256) key) (cert_to_der D)"
  show thesis
  proof (cases "rsa_to_der (lib_crypto D) k")
    case (Inr pkey)
    then have der: "to_pkcs8_der (lib_crypto D) key = Ok pkey" by (simp add: k)
    let ?res = "use_private_key L (events w) (tc_ctx c) EPV_PKEY_RSA pkey"
    let ?w1 = "log_event (UsePrivateKey (tc_ctx c) EPV_PKEY_RSA pkey ?res) w"
    have priv: "client_use_privkey (lib_crypto D) L w c key =
        (if pkey = [] then (w, Panic) else (?w1, if ?res \<noteq> 1 then Err (error_of_kind OsslUsePrivKeyfail) else Ok ()))"
      by (simp add: client_use_privkey_def Let_def k Inr)
    show thesis
    proof (cases "pkey = [] \<or> ?res \<noteq> 1")
      case True
      with assms gen priv have "(w' = w \<or> w' = ?w1) \<and> r \<noteq> Ok ()"
        by (auto simp: client_attest_def simp del: gen_private_key.simps split: if_splits)
      then show thesis using that [of "[]"] that [of "[UsePrivateKey (tc_ctx c) EPV_PKEY_RSA pkey ?res]"] by auto
    next
      case False
      with assms gen priv have rest: "w_then (?w1, ?C) (\<lambda>w cert. client_use_cert L w c cert) = (w', r)"
        by (simp add: client_attest_def del: gen_private_key.simps)
      show thesis
      proof (cases ?C)
        case (Ok der')
        let ?len = "word_of_nat (length der')"
        let ?res2 = "use_certificate L (events ?w1) (tc_ctx c) der' ?len"
        let ?new = "[UseCertificate (tc_ctx c) der' ?len ?res2, UsePrivateKey (tc_ctx c) EPV_PKEY_RSA pkey ?res]"
        have run: "client_use_cert L ?w1 c der' = (w', r)" using rest by (simp only: Ok w_then_simps)
        then have w': "events w' = ?new @ events w" and r: "r = Ok () \<longrightarrow> ?res2 = 1"
          by (auto simp: client_use_cert_def Let_def split: if_splits)
        from Ok obtain bd where "build_with_private_key D (cert_builder_new A Sha256) key = Ok bd" "cert_to_der D bd = Ok der'" by auto
        with r False der gen have "r = Ok () \<longrightarrow> credentials_installed D A g (tc_ctx c) ?new"
          unfolding credentials_installed_def by auto
        from that [OF w' this] show thesis by simp
      qed (use rest that [of "[UsePrivateKey (tc_ctx c) EPV_PKEY_RSA pkey ?res]"] in auto)
    qed
  next
    case (Inl e)
    then have "client_use_privkey (lib_crypto D) L w c key = (w, Err error_unknown)"
      by (simp add: client_use_privkey_def k)
    with assms gen have "w' = w" "r \<noteq> Ok ()" by (auto simp: client_attest_def simp del: gen_private_key.simps)
    then show thesis using that [of "[]"] by auto
  qed
qed (use assms that [of "[]"] in \<open>auto simp: client_attest_def simp del: gen_private_key.simps\<close>)

lemma server_attest_like_client:
  assumes "tc_ctx c = ts_ctx s" and "server_attest D L A g w s = (w', r)"
  shows "\<exists>r'. client_attest D L A g w c = (w', r') \<and> (r' = Ok () \<longleftrightarrow> r = Ok ())"
proof (cases "gen_private_key (lib_crypto D) g AlgoRsa2048")
  case (Ok key)
  then obtain k where k: "key = Rsa2048 k" using gen_rsa2048 by blast
  have cert: "client_use_cert L v c x = server_use_cert L v s x" for v x
    by (simp add: client_use_cert_def server_use_cert_def assms(1))
  show ?thesis
  proof (cases "rsa_to_der (lib_crypto D) k")
    case (Inr pkey)
    then have "client_use_privkey (lib_crypto D) L w c key = server_use_privkey (lib_crypto D) L w s key"
      by (simp add: client_use_privkey_def server_use_privkey_def k assms(1))
    with assms(2) Ok cert show ?thesis by (simp add: client_attest_def server_attest_def del: gen_private_key.simps)
  next
    case (Inl e)
    with assms(2) Ok k show ?thesis
      by (auto simp: client_attest_def server_attest_def client_use_privkey_def server_use_privkey_def simp del: gen_private_key.simps)
  qed
qed (use assms in \<open>auto simp: client_attest_def server_attest_def simp del: gen_private_key.simps\<close>)

text \<open>The four ways a \<open>build\<close> ends, with what it added to the history.\<close>

lemma client_build_cases:
  fixes A :: "'e attester"
  assumes "client_build D L A g w b = (w', r)"
  obtains (init) new where "events w' = new @ events w" "list_all is_init new" "r = Err (error_of_kind OsslInitializeFail)"
  | (no_ctx) new where "events w' = CtxNew TlsClient 0 # new @ events w" "list_all is_init new"
      "r = Err (error_of_kind OsslCtxInitializeFail)"
  | (no_stream) new ctx where "events w' = CtxNew TlsClient ctx # new @ events w" "list_all is_init new" "ctx \<noteq> 0"
      "tcb_stream b = None" "r = Err (error_of_kind OsslTlsBuilderStreamUnset)"
  | (made) new creds c where "list_all is_init new" "list_all is_credential creds" "tcb_stream b = Some (tc_fd c)" "tc_ctx c \<noteq> 0"
      "tc_session c = None" "tc_verify c = Some (case tcb_verify b of Some v \<Rightarrow> v | None \<Rightarrow> VerifyCertificateDefault)"
      "r = Ok c \<and> events w' = creds @ CtxNew TlsClient (tc_ctx c) # new @ events w \<and>
         (if tcb_attest_self b then credentials_installed D A g (tc_ctx c) creds else creds = []) \<or>
       (\<forall>x. r \<noteq> Ok x) \<and> events w' = CtxFree (tc_ctx c) # creds @ CtxNew TlsClient (tc_ctx c) # new @ events w"
proof -
  obtain new w1 r1 where i: "ossl_init L w = (w1, r1)" "events w1 = new @ events w" "list_all is_init new"
    "r1 = Ok () \<or> r1 = Err (error_of_kind OsslInitializeFail)" by (rule ossl_init_events)
  let ?ctx = "ctx_new L (events w1) TlsClient" and ?w2 = "log_event (CtxNew TlsClient (ctx_new L (events w1) TlsClient)) w1"
  show thesis
  proof (cases "r1 = Ok () \<and> ?ctx \<noteq> 0")
    case False
    with i assms init [of new] no_ctx [of new] show thesis by (auto simp: client_build_def Let_def)
  next
    case True
    show thesis
    proof (cases "tcb_stream b")
      case None
      with i True assms no_stream [of ?ctx new] show thesis by (auto simp: client_build_def Let_def)
    next
      case (Some fd)
      let ?c = "\<lparr>tc_ctx = ?ctx, tc_session = None, tc_verify = Some (case tcb_verify b of Some v \<Rightarrow> v | None \<Rightarrow> VerifyCertificateDefault),
          tc_fd = fd, tc_attest_self = tcb_attest_self b\<rparr>"
      obtain w3 q where at: "(if tcb_attest_self b then client_attest D L A g ?w2 ?c else (?w2, Ok ())) = (w3, q)" by fastforce
      from i(1,4) True have "client_build D L A g w b = (if q = Ok () then (w3, Ok ?c) else (client_drop w3 ?c, andthen q (\<lambda>_. Ok ?c)))"
        by (simp add: client_build_def Let_def Some at)
      then have fin: "(w', r) = (if q = Ok () then (w3, Ok ?c) else (client_drop w3 ?c, andthen q (\<lambda>_. Ok ?c)))"
        by (simp only: assms)
      have "\<exists>creds. events w3 = creds @ events ?w2 \<and> list_all is_credential creds \<and>
          (q = Ok () \<longrightarrow> (if tcb_attest_self b then credentials_installed D A g ?ctx creds else creds = []))"
      proof (cases "tcb_attest_self b")
        case True
        with at have "client_attest D L A g ?w2 ?c = (w3, q)" by simp
        from client_attest_cases [OF this] True show ?thesis by (metis tls_client.select_convs(1))
      next
        case False
        with at show ?thesis by auto
      qed
      then obtain creds where "events w3 = creds @ events ?w2" "list_all is_credential creds"
        "q = Ok () \<longrightarrow> (if tcb_attest_self b then credentials_installed D A g ?ctx creds else creds = [])" by blast
      with fin i True Some show thesis
        by (intro made [of new creds ?c]) (auto simp: client_drop_def Let_def split: if_splits)
    qed
  qed
qed

lemma server_build_cases:
  fixes A :: "'e attester"
  assumes "server_build D L A g w b = (w', r)"
  obtains (init) new where "events w' = new @ events w" "list_all is_init new" "r = Err (error_of_kind OsslInitializeFail)"
  | (no_ctx) new where "events w' = CtxNew TlsServer 0 # new @ events w" "list_all is_init new"
      "r = Err (error_of_kind OsslCtxInitializeFail)"
  | (no_stream) new ctx where "events w' = CtxNew TlsServer ctx # new @ events w" "list_all is_init new" "ctx \<noteq> 0"
      "tsb_stream b = None" "r = Err (error_of_kind OsslTlsBuilderStreamUnset)"
  | (made) new creds s where "list_all is_init new" "list_all is_credential creds" "tsb_stream b = Some (ts_fd s)" "ts_ctx s \<noteq> 0"
      "ts_session s = None" "ts_verify s = (if tsb_verify_peer b
         then Some (case tsb_verify b of Some v \<Rightarrow> v | None \<Rightarrow> VerifyCertificateDefault) else None)"
      "r = Ok s \<and> events w' = creds @ CtxNew TlsServer (ts_ctx s) # new @ events w \<and>
         credentials_installed D A g (ts_ctx s) creds \<or>
       (\<forall>x. r \<noteq> Ok x) \<and> events w' = CtxFree (ts_ctx s) # creds @ CtxNew TlsServer (ts_ctx s) # new @ events w"
proof -
  obtain new w1 r1 where i: "ossl_init L w = (w1, r1)" "events w1 = new @ events w" "list_all is_init new"
    "r1 = Ok () \<or> r1 = Err (error_of_kind OsslInitializeFail)" by (rule ossl_init_events)
  let ?ctx = "ctx_new L (events w1) TlsServer" and ?w2 = "log_event (CtxNew TlsServer (ctx_new L (events w1) TlsServer)) w1"
  show thesis
  proof (cases "r1 = Ok () \<and> ?ctx \<noteq> 0")
    case False
    with i assms init [of new] no_ctx [of new] show thesis by (auto simp: server_build_def Let_def)
  next
    case True
    show thesis
    proof (cases "tsb_stream b")
      case None
      with i True assms no_stream [of ?ctx new] show thesis by (auto simp: server_build_def Let_def)
    next
      case (Some fd)
      let ?s = "\<lparr>ts_ctx = ?ctx, ts_session = None, ts_verify = (if tsb_verify_peer b
          then (if tsb_verify b \<noteq> None then tsb_verify b else Some VerifyCertificateDefault) else None), ts_fd = fd\<rparr>"
      let ?c = "\<lparr>tc_ctx = ?ctx, tc_session = None, tc_verify = None, tc_fd = fd, tc_attest_self = True\<rparr>"
      obtain w3 q where at: "server_attest D L A g ?w2 ?s = (w3, q)" by fastforce
      from i(1,4) True have "server_build D L A g w b = (if q = Ok () then (w3, Ok ?s) else (server_drop w3 ?s, andthen q (\<lambda>_. Ok ?s)))"
        by (simp add: server_build_def Let_def Some at del: not_None_eq)
      then have fin: "(w', r) = (if q = Ok () then (w3, Ok ?s) else (server_drop w3 ?s, andthen q (\<lambda>_. Ok ?s)))"
        by (simp only: assms)
      from server_attest_like_client [OF _ at, of ?c] obtain q' where
        "client_attest D L A g ?w2 ?c = (w3, q')" "q' = Ok () \<longleftrightarrow> q = Ok ()" by auto
      with client_attest_cases [OF this(1)] obtain creds where "events w3 = creds @ events ?w2" "list_all is_credential creds"
        "q = Ok () \<longrightarrow> credentials_installed D A g ?ctx creds" by (metis tls_client.select_convs(1))
      with fin i True Some show thesis
        by (intro made [of new creds ?s]) (auto simp: server_drop_def Let_def split: if_splits option.splits)
    qed
  qed
qed

subsection \<open>What OpenSSL promises\<close>

text \<open>
  The verification settings a session took over from its context when it was made
  (\<open>SSL_CTX_set_verify\<close>, \<open>SSL_new\<close>).
\<close>

fun ctx_setting :: "ossl_event list \<Rightarrow> ptr \<Rightarrow> (c_int \<times> verify_cb) option" where
  "ctx_setting [] ctx = None"
| "ctx_setting (SetVerify c mode cb # es) ctx = (if c = ctx then Some (mode, cb) else ctx_setting es ctx)"
| "ctx_setting (CtxNew _ c # es) ctx = (if c = ctx then None else ctx_setting es ctx)"
| "ctx_setting (_ # es) ctx = ctx_setting es ctx"

fun ssl_setting :: "ossl_event list \<Rightarrow> ptr \<Rightarrow> (c_int \<times> verify_cb) option" where
  "ssl_setting [] s = None"
| "ssl_setting (SslNew ctx s' # es) s = (if s' = s then ctx_setting es ctx else ssl_setting es s)"
| "ssl_setting (_ # es) s = ssl_setting es s"

text \<open>
  A successful handshake on a session that verifies its peer: \<open>invocations\<close> are the calls of the callback
  OpenSSL makes in it, \<open>peer\<close> the certificate the peer sent. Every invocation returned a non-zero value (a zero
  ends the handshake); a peer's certificate is walked to with \<open>preverify_ok = 1\<close> last; a server always
  sends one, and a client has to when the server's mode says so.
\<close>

type_synonym invocations = "ossl_event list \<Rightarrow> ptr \<Rightarrow> (c_int \<times> store_ctx) list"

definition openssl_verifies :: "deps \<Rightarrow> (ptr \<Rightarrow> c_int \<Rightarrow> store_ctx \<Rightarrow> c_int res) \<Rightarrow> ossl_lib \<Rightarrow> invocations \<Rightarrow>
    (ossl_event list \<Rightarrow> ptr \<Rightarrow> bytes option) \<Rightarrow> bool" where
  "openssl_verifies D user L invocations peer \<longleftrightarrow>
     (\<forall>evs role s mode cb. ssl_handshake L evs role s = 1 \<and> ssl_setting evs s = Some (mode, cb) \<and> and mode SSL_VERIFY_PEER \<noteq> 0 \<longrightarrow>
        (\<forall>(pre, x) \<in> set (invocations evs s). \<exists>v. run_callback D user cb pre x = Ok v \<and> v \<noteq> 0) \<and>
        (case peer evs s of
           Some der \<Rightarrow> length der < 2147483648 \<and>
             (\<exists>x. (1, x) \<in> set (invocations evs s) \<and> i2d_current x = (word_of_nat (length der), Some der))
         | None \<Rightarrow> role = TlsServer \<and> and mode SSL_VERIFY_FAIL_IF_NO_PEER_CERT = 0))"

lemma contains_nothing_Passed:
  "cert_verifier_verify D (cert_verifier_new (Contains [])) der = Ok Passed \<longleftrightarrow> (\<exists>claims. verify_cert_der D der = Ok claims)"
  by (cases "verify_cert_der D der") (simp_all add: cert_verifier_verify_def cert_verifier_new_def)

text \<open>The crate's callback on a certificate that passed OpenSSL's own check, or is self-signed.\<close>

lemma default_callback_accepts:
  assumes "verify_certificate_default D 1 x = Ok v" "v \<noteq> 0" "i2d_current x = (word_of_nat (length der), Some der)"
    "length der < 2147483648"
  shows "\<exists>claims. verify_cert_der D der = Ok claims"
proof -
  have len: "unat (word_of_nat (length der) :: c_int) = length der" using assms(4) by (simp add: unat_of_nat)
  have "cert_verifier_verify D (cert_verifier_new (Contains [])) der = Ok Passed"
    using assms(1-3) len by (auto simp: verify_certificate_default_def split: if_splits res.splits verify_policy_output.splits)
  then show ?thesis by (simp add: contains_nothing_Passed)
qed

lemma verified_handshake:
  assumes "openssl_verifies D user L invocations peer" and "ssl_handshake L evs role s = 1"
    and "ssl_setting evs s = Some (mode, VerifyCertificateDefault)" and "and mode SSL_VERIFY_PEER \<noteq> 0"
    and "role = TlsClient \<or> and mode SSL_VERIFY_FAIL_IF_NO_PEER_CERT \<noteq> 0"
  shows "\<exists>der claims. peer evs s = Some der \<and> verify_cert_der D der = Ok claims"
proof -
  from assms(1-4) have all: "\<forall>(pre, x) \<in> set (invocations evs s). \<exists>v. run_callback D user VerifyCertificateDefault pre x = Ok v \<and> v \<noteq> 0"
    and p: "case peer evs s of
           Some der \<Rightarrow> length der < 2147483648 \<and>
             (\<exists>x. (1, x) \<in> set (invocations evs s) \<and> i2d_current x = (word_of_nat (length der), Some der))
         | None \<Rightarrow> role = TlsServer \<and> and mode SSL_VERIFY_FAIL_IF_NO_PEER_CERT = 0"
    unfolding openssl_verifies_def by blast+
  from p assms(5) obtain der x where d: "peer evs s = Some der" "length der < 2147483648" "(1, x) \<in> set (invocations evs s)"
    "i2d_current x = (word_of_nat (length der), Some der)" by (auto split: option.splits)
  from all d(3) obtain v where "verify_certificate_default D 1 x = Ok v" "v \<noteq> 0" by auto
  from default_callback_accepts [OF this d(4,2)] d(1) show ?thesis by blast
qed

subsection \<open>Properties\<close>

lemma client_negotiate_Ok:
  assumes "client_negotiate L w c = (w', c', Ok ())"
  obtains s es where "events w' = Handshake TlsClient s 1 # es" "tc_session c' = Some s" "ssl_handshake L es TlsClient s = 1"
    "\<And>cb. tc_verify c = Some cb \<Longrightarrow> ssl_setting es s = Some (SSL_VERIFY_PEER, cb)"
  using assms by (cases "tc_verify c") (auto simp: client_negotiate_def Let_def split: if_splits)

lemma server_negotiate_Ok:
  assumes "server_negotiate L w c = (w', c', Ok ())"
  obtains s es where "events w' = Handshake TlsServer s 1 # es" "ts_session c' = Some s" "ssl_handshake L es TlsServer s = 1"
    "\<And>cb. ts_verify c = Some cb \<Longrightarrow>
      ssl_setting es s = Some (or SSL_VERIFY_NONE (or SSL_VERIFY_PEER SSL_VERIFY_FAIL_IF_NO_PEER_CERT), cb)"
  using assms by (cases "ts_verify c") (auto simp: server_negotiate_def Let_def split: if_splits)

lemma verify_modes:
  "and SSL_VERIFY_PEER SSL_VERIFY_PEER \<noteq> 0"
  "and (or SSL_VERIFY_NONE (or SSL_VERIFY_PEER SSL_VERIFY_FAIL_IF_NO_PEER_CERT)) SSL_VERIFY_PEER \<noteq> 0"
  "and (or SSL_VERIFY_NONE (or SSL_VERIFY_PEER SSL_VERIFY_FAIL_IF_NO_PEER_CERT)) SSL_VERIFY_FAIL_IF_NO_PEER_CERT \<noteq> 0"
  by (simp_all add: SSL_VERIFY_NONE_def SSL_VERIFY_PEER_def SSL_VERIFY_FAIL_IF_NO_PEER_CERT_def)

text \<open>So a handshake with the crate's callback succeeds only with a peer whose certificate is accepted.\<close>

lemma client_negotiate_attested:
  assumes "openssl_verifies D user L invocations peer" and "tc_verify c = Some VerifyCertificateDefault"
    and "client_negotiate L w c = (w', c', Ok ())"
  obtains s es der claims where "tc_session c' = Some s" "events w' = Handshake TlsClient s 1 # es" "peer es s = Some der"
    "verify_cert_der D der = Ok claims"
proof -
  from assms(3) obtain s es where n: "events w' = Handshake TlsClient s 1 # es" "tc_session c' = Some s" "ssl_handshake L es TlsClient s = 1"
    "ssl_setting es s = Some (SSL_VERIFY_PEER, VerifyCertificateDefault)" using assms(2) by (cases rule: client_negotiate_Ok) auto
  from verified_handshake [OF assms(1) n(3,4) verify_modes(1)] n(1,2) that show thesis by auto
qed

lemma server_negotiate_attested:
  assumes "openssl_verifies D user L invocations peer" and "ts_verify c = Some VerifyCertificateDefault"
    and "server_negotiate L w c = (w', c', Ok ())"
  obtains s es der claims where "ts_session c' = Some s" "events w' = Handshake TlsServer s 1 # es" "peer es s = Some der"
    "verify_cert_der D der = Ok claims"
proof -
  from assms(3) obtain s es where n: "events w' = Handshake TlsServer s 1 # es" "ts_session c' = Some s" "ssl_handshake L es TlsServer s = 1"
    "ssl_setting es s = Some (or SSL_VERIFY_NONE (or SSL_VERIFY_PEER SSL_VERIFY_FAIL_IF_NO_PEER_CERT), VerifyCertificateDefault)"
    using assms(2) by (cases rule: server_negotiate_Ok) auto
  from verified_handshake [OF assms(1) n(3,4) verify_modes(2)] verify_modes(3) n(1,2) that show thesis by auto
qed

text \<open>
  C8. The peer of a negotiated TLS endpoint is attested: for an endpoint built with the crate's own
  callback (a client always, a server that verifies its peer), after any operations, a negotiation that
  returns \<open>Ok\<close> has a session whose handshake succeeded with a peer certificate that \<open>verify_cert_der\<close>
  accepts, although the callback waves a self-signed certificate through on its first call. The callback
  is installed on the context before the session is made from it.
\<close>

theorem tls_peer_attested:
  assumes "openssl_verifies D user L invocations peer"
  shows "(client_build D L A g w0 cb = (w1, Ok c0) \<and> tcb_verify cb = None \<and>
      foldl (\<lambda>s k. client_op L k s) (w1, c0) ops = (w2, c) \<and> client_negotiate L w2 c = (w3, c', Ok ()) \<longrightarrow>
      (\<exists>s es der claims. tc_session c' = Some s \<and> events w3 = Handshake TlsClient s 1 # es \<and>
         peer es s = Some der \<and> verify_cert_der D der = Ok claims)) \<and>
    (server_build D L B h v0 sb = (v1, Ok s0) \<and> tsb_verify sb = None \<and> tsb_verify_peer sb \<and>
      foldl (\<lambda>s k. server_op L k s) (v1, s0) ops' = (v2, sv) \<and> server_negotiate L v2 sv = (v3, sv', Ok ()) \<longrightarrow>
      (\<exists>s es der claims. ts_session sv' = Some s \<and> events v3 = Handshake TlsServer s 1 # es \<and>
         peer es s = Some der \<and> verify_cert_der D der = Ok claims))"
proof (intro conjI impI; elim conjE)
  assume b: "client_build D L A g w0 cb = (w1, Ok c0)" "tcb_verify cb = None"
    and run: "foldl (\<lambda>s k. client_op L k s) (w1, c0) ops = (w2, c)" and neg: "client_negotiate L w2 c = (w3, c', Ok ())"
  from b have new: "tc_session c0 = None" "tc_verify c0 = Some VerifyCertificateDefault"
    by (cases rule: client_build_cases; simp)+
  from client.life [OF new(1) run] new(2) have v: "tc_verify c = Some VerifyCertificateDefault" by (auto simp: client_fixed_def)
  show "\<exists>s es der claims. tc_session c' = Some s \<and> events w3 = Handshake TlsClient s 1 # es \<and> peer es s = Some der \<and> verify_cert_der D der = Ok claims"
    by (rule client_negotiate_attested [OF assms v neg]) blast
next
  assume b: "server_build D L B h v0 sb = (v1, Ok s0)" "tsb_verify sb = None" "tsb_verify_peer sb"
    and run: "foldl (\<lambda>s k. server_op L k s) (v1, s0) ops' = (v2, sv)" and neg: "server_negotiate L v2 sv = (v3, sv', Ok ())"
  from b have new: "ts_session s0 = None" "ts_verify s0 = Some VerifyCertificateDefault"
    by (cases rule: server_build_cases; simp)+
  from server.life [OF new(1) run] new(2) have v: "ts_verify sv = Some VerifyCertificateDefault" by (auto simp: server_fixed_def)
  show "\<exists>s es der claims. ts_session sv' = Some s \<and> events v3 = Handshake TlsServer s 1 # es \<and> peer es s = Some der \<and> verify_cert_der D der = Ok claims"
    by (rule server_negotiate_attested [OF assms v neg]) blast
qed

text \<open>An OpenSSL in which everything succeeds, for the witnesses.\<close>

definition sample_ossl :: ossl_lib where
  "sample_ossl = \<lparr>init_ssl = (\<lambda>_. 1), ctx_new = (\<lambda>es _. Suc (length es)), use_private_key = (\<lambda>_ _ _ _. 1),
     use_certificate = (\<lambda>_ _ _ _. 1), ssl_new = (\<lambda>es _. Suc (length es)), ssl_set_fd = (\<lambda>_ _ _. 1), ssl_handshake = (\<lambda>_ _ _. 1),
     ssl_write = (\<lambda>_ _ _ n. n), ssl_read = (\<lambda>_ _ _. (0, []))\<rparr>"

definition fresh_process :: ossl where
  "fresh_process = \<lparr>events = [], START = True\<rparr>"

lemma sample_ossl_verifies:
  obtains user invocations der claims where "openssl_verifies ref_deps user sample_ossl invocations (\<lambda>_ _. Some der)"
    "verify_cert_der ref_deps der = Ok claims"
proof -
  obtain bd der where b: "build_with_private_key ref_deps sample_builder (P256 [9]) = Ok bd" "cert_to_der ref_deps bd = Ok der"
    and len: "length der < 65536"
    using sample_build by blast
  note hyps = ref_libs_ok sample_builder_attester [of "cb_subject sample_builder", unfolded sample_builder_subject]
    sample_builder_claims_wf [of "cb_subject sample_builder", unfolded sample_builder_subject]
  from built_cert_verify_Ok [OF hyps b] obtain claims where ok: "verify_cert_der ref_deps der = Ok claims" by blast
  let ?self = "\<lparr>store_error = 18, i2d_current = (0, None)\<rparr>"
    and ?leaf = "\<lparr>store_error = 0, i2d_current = (word_of_nat (length der), Some der)\<rparr>"
    and ?user = "\<lambda>_ _ _. Ok 1"
  have len': "unat (word_of_nat (length der) :: c_int) = length der" using len by (simp add: unat_of_nat)
  have "\<not> sint (word_of_nat (length der) :: c_int) < 0"
    using len by (simp add: signed_of_nat take_bit_nat_eq_self signed_take_bit_eq_if_positive bit_iff_odd)
  with len' ok have leaf: "verify_certificate_default ref_deps 1 ?leaf = Ok 1"
    by (simp add: verify_certificate_default_def cert_verifier_verify_def cert_verifier_new_def)
  have self: "verify_certificate_default ref_deps 0 ?self = Ok 1"
    by (simp add: verify_certificate_default_def X509_V_ERR_DEPTH_ZERO_SELF_SIGNED_CERT_def)
  have cb: "run_callback ref_deps ?user cb 1 ?leaf = Ok 1" "run_callback ref_deps ?user cb 0 ?self = Ok 1" for cb
    using leaf self by (cases cb; simp)+
  have "openssl_verifies ref_deps ?user sample_ossl (\<lambda>_ _. [(0, ?self), (1, ?leaf)]) (\<lambda>_ _. Some der)"
    using len cb by (simp add: openssl_verifies_def)
  with ok that show thesis by blast
qed

lemma sample_client_build:
  "client_build D sample_ossl A g fresh_process (client_with_tcp_stream client_builder_new 5) =
     (\<lparr>events = [CtxNew TlsClient 2, InitSsl 0], START = True\<rparr>,
      Ok \<lparr>tc_ctx = 2, tc_session = None, tc_verify = Some VerifyCertificateDefault, tc_fd = 5, tc_attest_self = False\<rparr>)"
  by (simp add: client_build_def ossl_init_def sample_ossl_def fresh_process_def client_with_tcp_stream_def
      client_builder_new_def log_event_def Let_def)

theorem tls_peer_attested_witness:
  "\<exists>s es der claims w c. client_negotiate sample_ossl \<lparr>events = [CtxNew TlsClient 2, InitSsl 0], START = True\<rparr>
       \<lparr>tc_ctx = 2, tc_session = None, tc_verify = Some VerifyCertificateDefault, tc_fd = 5, tc_attest_self = False\<rparr> = (w, c, Ok ()) \<and>
     tc_session c = Some s \<and> events w = Handshake TlsClient s 1 # es \<and> verify_cert_der ref_deps der = Ok claims"
proof -
  obtain user invocations der claims where lib: "openssl_verifies ref_deps user sample_ossl invocations (\<lambda>_ _. Some der)"
    by (rule sample_ossl_verifies)
  note safe = conjunct1 [OF tls_peer_attested [OF lib], rule_format]
  let ?w = "\<lparr>events = [CtxNew TlsClient 2, InitSsl 0], START = True\<rparr>"
    and ?c = "\<lparr>tc_ctx = 2, tc_session = None, tc_verify = Some VerifyCertificateDefault, tc_fd = 5, tc_attest_self = False\<rparr>"
  obtain w c where neg: "client_negotiate sample_ossl ?w ?c = (w, c, Ok ())"
    by (simp add: client_negotiate_def sample_ossl_def Let_def)
  have "client_build ref_deps sample_ossl A g fresh_process (client_with_tcp_stream client_builder_new 5) = (?w, Ok ?c) \<and>
      tcb_verify (client_with_tcp_stream client_builder_new 5) = None \<and>
      foldl (\<lambda>s k. client_op sample_ossl k s) (?w, ?c) [] = (?w, ?c) \<and> client_negotiate sample_ossl ?w ?c = (w, c, Ok ())" for A :: "unit attester" and g
    using sample_client_build [of ref_deps A g] neg by (simp add: client_with_tcp_stream_def client_builder_new_def)
  from safe [OF this] neg show ?thesis by blast
qed

text \<open>
  C18. The life of a TLS endpoint, whatever OpenSSL answers: along every sequence of operations it calls
  OpenSSL only on the session of its last successful handshake, frees nothing and keeps its context and
  callback; dropping it frees exactly that session, one it made, and its context. Before a successful
  negotiation \<open>send\<close> and \<open>receive\<close> fail without a call; after it \<open>send\<close> is one \<open>SSL_write\<close> with every
  answer that is not negative, 0 included, taken for success. Every other session of the endpoint stays
  allocated: with one negotiation there is none unless it failed after \<open>SSL_new\<close>.
\<close>

theorem tls_session_protocol:
  "(client_build D L A g w0 cb = (w1, Ok c0) \<and> foldl (\<lambda>s k. client_op L k s) (w1, c0) ops = (w, c) \<longrightarrow>
     (\<exists>es. events w = es @ events w1 \<and> session_history es (tc_session c) (negotiations ops) \<and> client_fixed c = client_fixed c0 \<and>
        events (client_drop w c) = CtxFree (tc_ctx c0) # (case latest_session es of Some s \<Rightarrow> [SslFree s] | None \<Rightarrow> []) @ events w \<and>
        (case latest_session es of
           None \<Rightarrow> client_send L w c m = (w, Err (error_of_kind OsslCtxOrSessionUninitialized)) \<and>
             client_receive L w c buf = (w, buf, Err (error_of_kind OsslCtxOrSessionUninitialized))
         | Some s \<Rightarrow> (negotiations ops = 1 \<longrightarrow> sessions_made es = [s]) \<and>
             snd (client_send L w c m) = (if sint (ssl_write L (events w) s m (word_of_nat (length m))) < 0
               then Err (error_of_kind OsslSendFail) else Ok ())))) \<and>
   (server_build D L B h v0 sb = (v1, Ok s0) \<and> foldl (\<lambda>s k. server_op L k s) (v1, s0) ops' = (v, s) \<longrightarrow>
     (\<exists>es. events v = es @ events v1 \<and> session_history es (ts_session s) (negotiations ops') \<and> server_fixed s = server_fixed s0 \<and>
        events (server_drop v s) = CtxFree (ts_ctx s0) # (case latest_session es of Some s \<Rightarrow> [SslFree s] | None \<Rightarrow> []) @ events v \<and>
        (case latest_session es of
           None \<Rightarrow> server_send L v s m = (v, Err (error_of_kind OsslCtxOrSessionUninitialized)) \<and>
             server_receive L v s buf = (v, buf, Err (error_of_kind OsslCtxOrSessionUninitialized))
         | Some x \<Rightarrow> (negotiations ops' = 1 \<longrightarrow> sessions_made es = [x]) \<and>
             snd (server_send L v s m) = (if sint (ssl_write L (events v) x m (word_of_nat (length m))) < 0
               then Err (error_of_kind OsslSendFail) else Ok ()))))"
proof (intro conjI impI; elim conjE)
  have one: "sessions_made es = [x]" if "session_history es (Some x) 1" for es x
  proof -
    have "length (sessions_made es) \<le> 1" "x \<in> set (sessions_made es)" using that by (simp_all add: session_history_def)
    then show ?thesis by (cases "sessions_made es") auto
  qed
  {
    assume b: "client_build D L A g w0 cb = (w1, Ok c0)" and run: "foldl (\<lambda>s k. client_op L k s) (w1, c0) ops = (w, c)"
    from b have "tc_session c0 = None" by (cases rule: client_build_cases) simp_all
    from client.life [OF this run] obtain es where h: "events w = es @ events w1" "session_history es (tc_session c) (negotiations ops)"
      "client_fixed c = client_fixed c0" .
    then have "latest_session es = tc_session c" "tc_ctx c = tc_ctx c0" by (simp_all add: session_history_def client_fixed_def)
    with h one [of es] show "\<exists>es. events w = es @ events w1 \<and> session_history es (tc_session c) (negotiations ops) \<and> client_fixed c = client_fixed c0 \<and>
        events (client_drop w c) = CtxFree (tc_ctx c0) # (case latest_session es of Some s \<Rightarrow> [SslFree s] | None \<Rightarrow> []) @ events w \<and>
        (case latest_session es of
           None \<Rightarrow> client_send L w c m = (w, Err (error_of_kind OsslCtxOrSessionUninitialized)) \<and>
             client_receive L w c buf = (w, buf, Err (error_of_kind OsslCtxOrSessionUninitialized))
         | Some s \<Rightarrow> (negotiations ops = 1 \<longrightarrow> sessions_made es = [s]) \<and>
             snd (client_send L w c m) = (if sint (ssl_write L (events w) s m (word_of_nat (length m))) < 0
               then Err (error_of_kind OsslSendFail) else Ok ()))"
      by (intro exI [of _ es]) (auto simp: client_drop_def client_send_def client_receive_def Let_def split: option.splits)
  next
    assume b: "server_build D L B h v0 sb = (v1, Ok s0)" and run: "foldl (\<lambda>s k. server_op L k s) (v1, s0) ops' = (v, s)"
    from b have "ts_session s0 = None" by (cases rule: server_build_cases) simp_all
    from server.life [OF this run] obtain es where h: "events v = es @ events v1" "session_history es (ts_session s) (negotiations ops')"
      "server_fixed s = server_fixed s0" .
    then have "latest_session es = ts_session s" "ts_ctx s = ts_ctx s0" by (simp_all add: session_history_def server_fixed_def)
    with h one [of es] show "\<exists>es. events v = es @ events v1 \<and> session_history es (ts_session s) (negotiations ops') \<and> server_fixed s = server_fixed s0 \<and>
        events (server_drop v s) = CtxFree (ts_ctx s0) # (case latest_session es of Some s \<Rightarrow> [SslFree s] | None \<Rightarrow> []) @ events v \<and>
        (case latest_session es of
           None \<Rightarrow> server_send L v s m = (v, Err (error_of_kind OsslCtxOrSessionUninitialized)) \<and>
             server_receive L v s buf = (v, buf, Err (error_of_kind OsslCtxOrSessionUninitialized))
         | Some x \<Rightarrow> (negotiations ops' = 1 \<longrightarrow> sessions_made es = [x]) \<and>
             snd (server_send L v s m) = (if sint (ssl_write L (events v) x m (word_of_nat (length m))) < 0
               then Err (error_of_kind OsslSendFail) else Ok ()))"
      by (intro exI [of _ es]) (auto simp: server_drop_def server_send_def server_receive_def Let_def split: option.splits)
  }
qed

theorem tls_session_protocol_witness:
  "\<exists>w c es. foldl (\<lambda>s k. client_op sample_ossl k s) (\<lparr>events = [CtxNew TlsClient 2, InitSsl 0], START = True\<rparr>,
       \<lparr>tc_ctx = 2, tc_session = None, tc_verify = Some VerifyCertificateDefault, tc_fd = 5, tc_attest_self = False\<rparr>)
       [OpSend [7], OpNegotiate, OpSend [8, 9], OpShutdown] = (w, c) \<and>
     events (client_drop w c) = CtxFree 2 # SslFree 4 # es"
proof -
  let ?w = "\<lparr>events = [CtxNew TlsClient 2, InitSsl 0], START = True\<rparr>"
    and ?c = "\<lparr>tc_ctx = 2, tc_session = None, tc_verify = Some VerifyCertificateDefault, tc_fd = 5, tc_attest_self = False\<rparr>"
    and ?b = "client_with_tcp_stream client_builder_new 5" and ?ops = "[OpSend [7], OpNegotiate, OpSend [8, 9], OpShutdown]"
  have b: "client_build ref_deps sample_ossl (A :: unit attester) 0 fresh_process ?b = (?w, Ok ?c)" for A
    by (rule sample_client_build)
  obtain w c where run: "foldl (\<lambda>s k. client_op sample_ossl k s) (?w, ?c) ?ops = (w, c)" and c: "tc_session c = Some 4"
    by (simp add: client_defs sample_ossl_def Let_def log_event_def)
  note life = conjunct1 [OF tls_session_protocol, rule_format, of ref_deps sample_ossl _ 0 fresh_process ?b ?w ?c ?ops w c, OF conjI, OF b run]
  from life [of "[]" "[]"] c show ?thesis using run by (auto simp: session_history_def)
qed

lemma installed_attested:
  assumes "libs_ok D" "attester_ok D A" "credentials_installed D A g ctx creds"
  shows "\<exists>key pkey bd der. gen_private_key (lib_crypto D) g AlgoRsa2048 = Ok key \<and> to_pkcs8_der (lib_crypto D) key = Ok pkey \<and>
    build_with_private_key D (cert_builder_new A Sha256) key = Ok bd \<and> cert_to_der D bd = Ok der \<and> certifies D der key \<and>
    creds = [UseCertificate ctx der (word_of_nat (length der)) 1, UsePrivateKey ctx EPV_PKEY_RSA pkey 1]"
proof -
  from assms(3) obtain key pkey der bd where c: "gen_private_key (lib_crypto D) g AlgoRsa2048 = Ok key"
    "to_pkcs8_der (lib_crypto D) key = Ok pkey" "build_with_private_key D (cert_builder_new A Sha256) key = Ok bd" "cert_to_der D bd = Ok der"
    "creds = [UseCertificate ctx der (word_of_nat (length der)) 1, UsePrivateKey ctx EPV_PKEY_RSA pkey 1]"
    unfolding credentials_installed_def by blast
  have "certifies D der key"
    by (rule built_certifies [OF assms(1) _ _ c(3,4)]) (simp_all add: cert_builder_new_def assms(2))
  with c show ?thesis by blast
qed

lemma no_context: "list_all is_init new \<Longrightarrow> CtxNew r x \<notin> set new \<and> CtxFree x \<notin> set new"
  "list_all is_credential creds \<Longrightarrow> CtxNew r x \<notin> set creds \<and> CtxFree x \<notin> set creds"
  by (auto simp: list_all_iff)

lemma init_quiet: "list_all is_init n \<Longrightarrow> \<not> list_ex is_credential n"
  by (induction n) (auto elim: is_init.elims)

lemma client_builder_exact:
  assumes "libs_ok D" and "attester_ok D A" and "client_build D L A g w b = (w', r)"
  shows "\<exists>new. events w' = new @ events w \<and>
      (\<forall>c. r = Ok c \<longrightarrow> (if tcb_attest_self b
         then \<exists>key pkey bd der rest. gen_private_key (lib_crypto D) g AlgoRsa2048 = Ok key \<and> to_pkcs8_der (lib_crypto D) key = Ok pkey \<and>
           build_with_private_key D (cert_builder_new A Sha256) key = Ok bd \<and> cert_to_der D bd = Ok der \<and> certifies D der key \<and>
           new = UseCertificate (tc_ctx c) der (word_of_nat (length der)) 1 # UsePrivateKey (tc_ctx c) EPV_PKEY_RSA pkey 1 # rest
         else \<not> list_ex is_credential new)) \<and>
      (\<forall>ctx. CtxNew TlsClient ctx \<in> set new \<and> ctx \<noteq> 0 \<longrightarrow>
         (CtxFree ctx \<in> set new \<longleftrightarrow> (\<forall>c. r \<noteq> Ok c) \<and> tcb_stream b \<noteq> None))"
  using assms(3)
proof (cases rule: client_build_cases)
  case (init new)
  then show ?thesis by (intro exI [of _ new]) (auto simp: no_context)
next
  case (no_ctx new)
  then show ?thesis by (intro exI [of _ "CtxNew TlsClient 0 # new"]) (auto simp: no_context)
next
  case (no_stream new ctx)
  then show ?thesis by (intro exI [of _ "CtxNew TlsClient ctx # new"]) (auto simp: no_context)
next
  case (made new creds c)
  note facts = no_context(1) [OF made(1)] no_context(2) [OF made(2)] init_quiet [OF made(1)]
  from made(7) show ?thesis
  proof
    assume ok: "r = Ok c \<and> events w' = creds @ CtxNew TlsClient (tc_ctx c) # new @ events w \<and>
      (if tcb_attest_self b then credentials_installed D A g (tc_ctx c) creds else creds = [])"
    with installed_attested [OF assms(1,2), of g "tc_ctx c" creds] facts made(3) show ?thesis
      by (intro exI [of _ "creds @ CtxNew TlsClient (tc_ctx c) # new"]) (auto split: if_splits)
  next
    assume "(\<forall>x. r \<noteq> Ok x) \<and> events w' = CtxFree (tc_ctx c) # creds @ CtxNew TlsClient (tc_ctx c) # new @ events w"
    with facts made(3) show ?thesis
      by (intro exI [of _ "CtxFree (tc_ctx c) # creds @ CtxNew TlsClient (tc_ctx c) # new"]) auto
  qed
qed

lemma server_builder_exact:
  assumes "libs_ok D" and "attester_ok D A" and "server_build D L A h v sb = (v', sr)"
  shows "\<exists>new. events v' = new @ events v \<and>
      (\<forall>s. sr = Ok s \<longrightarrow> (\<exists>key pkey bd der rest. gen_private_key (lib_crypto D) h AlgoRsa2048 = Ok key \<and> to_pkcs8_der (lib_crypto D) key = Ok pkey \<and>
           build_with_private_key D (cert_builder_new A Sha256) key = Ok bd \<and> cert_to_der D bd = Ok der \<and> certifies D der key \<and>
           new = UseCertificate (ts_ctx s) der (word_of_nat (length der)) 1 # UsePrivateKey (ts_ctx s) EPV_PKEY_RSA pkey 1 # rest)) \<and>
      (\<forall>ctx. CtxNew TlsServer ctx \<in> set new \<and> ctx \<noteq> 0 \<longrightarrow>
         (CtxFree ctx \<in> set new \<longleftrightarrow> (\<forall>s. sr \<noteq> Ok s) \<and> tsb_stream sb \<noteq> None))"
  using assms(3)
proof (cases rule: server_build_cases)
  case (init new)
  then show ?thesis by (intro exI [of _ new]) (auto simp: no_context)
next
  case (no_ctx new)
  then show ?thesis by (intro exI [of _ "CtxNew TlsServer 0 # new"]) (auto simp: no_context)
next
  case (no_stream new ctx)
  then show ?thesis by (intro exI [of _ "CtxNew TlsServer ctx # new"]) (auto simp: no_context)
next
  case (made new creds s)
  note facts = no_context(1) [OF made(1)] no_context(2) [OF made(2)]
  from made(7) show ?thesis
  proof
    assume "sr = Ok s \<and> events v' = creds @ CtxNew TlsServer (ts_ctx s) # new @ events v \<and> credentials_installed D A h (ts_ctx s) creds"
    with installed_attested [OF assms(1,2), of h "ts_ctx s" creds] facts made(3) show ?thesis
      by (intro exI [of _ "creds @ CtxNew TlsServer (ts_ctx s) # new"]) auto
  next
    assume "(\<forall>x. sr \<noteq> Ok x) \<and> events v' = CtxFree (ts_ctx s) # creds @ CtxNew TlsServer (ts_ctx s) # new @ events v"
    with facts made(3) show ?thesis
      by (intro exI [of _ "CtxFree (ts_ctx s) # creds @ CtxNew TlsServer (ts_ctx s) # new"]) auto
  qed
qed

text \<open>
  C36. What \<open>build\<close> leaves behind, on every path: a server that is built, and a client that attests itself,
  has installed on its context the generated RSA key and the certificate that \<open>CertBuilder\<close> makes for this
  key: it carries the public key of the installed private key and \<open>verify_cert_der\<close> accepts it. A
  client that does not attest itself installs nothing. A build that fails frees the context it made, unless
  the builder has no stream: then the context is leaked.
\<close>

theorem tls_builders_exact:
  assumes "libs_ok D" and "attester_ok D A"
    and "client_build D L A g w b = (w', r)" and "server_build D L A h v sb = (v', sr)"
  shows "(\<exists>new. events w' = new @ events w \<and>
      (\<forall>c. r = Ok c \<longrightarrow> (if tcb_attest_self b
         then \<exists>key pkey bd der rest. gen_private_key (lib_crypto D) g AlgoRsa2048 = Ok key \<and> to_pkcs8_der (lib_crypto D) key = Ok pkey \<and>
           build_with_private_key D (cert_builder_new A Sha256) key = Ok bd \<and> cert_to_der D bd = Ok der \<and> certifies D der key \<and>
           new = UseCertificate (tc_ctx c) der (word_of_nat (length der)) 1 # UsePrivateKey (tc_ctx c) EPV_PKEY_RSA pkey 1 # rest
         else \<not> list_ex is_credential new)) \<and>
      (\<forall>ctx. CtxNew TlsClient ctx \<in> set new \<and> ctx \<noteq> 0 \<longrightarrow>
         (CtxFree ctx \<in> set new \<longleftrightarrow> (\<forall>c. r \<noteq> Ok c) \<and> tcb_stream b \<noteq> None))) \<and>
    (\<exists>new. events v' = new @ events v \<and>
      (\<forall>s. sr = Ok s \<longrightarrow> (\<exists>key pkey bd der rest. gen_private_key (lib_crypto D) h AlgoRsa2048 = Ok key \<and> to_pkcs8_der (lib_crypto D) key = Ok pkey \<and>
           build_with_private_key D (cert_builder_new A Sha256) key = Ok bd \<and> cert_to_der D bd = Ok der \<and> certifies D der key \<and>
           new = UseCertificate (ts_ctx s) der (word_of_nat (length der)) 1 # UsePrivateKey (ts_ctx s) EPV_PKEY_RSA pkey 1 # rest)) \<and>
      (\<forall>ctx. CtxNew TlsServer ctx \<in> set new \<and> ctx \<noteq> 0 \<longrightarrow>
         (CtxFree ctx \<in> set new \<longleftrightarrow> (\<forall>s. sr \<noteq> Ok s) \<and> tsb_stream sb \<noteq> None)))"
  using client_builder_exact [OF assms(1-3)] server_builder_exact [OF assms(1,2,4)] by (rule conjI)

text \<open>A server that is built, with its certificate; a server builder without a stream leaks its context.\<close>

lemma sample_server_build:
  "\<exists>w s. server_build ref_deps sample_ossl sample_attester 0 fresh_process (server_with_tcp_stream server_builder_new 5) = (w, Ok s)"
proof -
  obtain bd der where b: "build_with_private_key ref_deps (cert_builder_new sample_attester Sha256) (Rsa2048 [8, 0]) = Ok bd"
    "cert_to_der ref_deps bd = Ok der" by (rule sample_key_build [OF sample_keys(4)]) simp_all
  have crypto: "lib_crypto ref_deps = sample_crypto" by (simp add: ref_deps_def)
  have rsa: "rsa_to_der sample_crypto [8, 0] = Inr [0x30, 8, 0]" by (simp add: sample_crypto_def)
  have ones: "use_private_key sample_ossl es c t k = 1" "use_certificate sample_ossl es c k n = 1" for es c t k n
    by (simp_all add: sample_ossl_def)
  have key: "\<exists>w'. server_use_privkey sample_crypto sample_ossl w s (Rsa2048 [8, 0]) = (w', Ok ())" for w s
    by (simp add: server_use_privkey_def rsa ones Let_def)
  have cert: "\<exists>w'. server_use_cert sample_ossl w s der = (w', Ok ())" for w s
    by (simp add: server_use_cert_def ones Let_def)
  have attest: "\<exists>w'. server_attest ref_deps sample_ossl sample_attester 0 w s = (w', Ok ())" for w s
  proof -
    from key obtain w1 where w1: "server_use_privkey sample_crypto sample_ossl w s (Rsa2048 [8, 0]) = (w1, Ok ())" by blast
    from cert obtain w2 where w2: "server_use_cert sample_ossl w1 s der = (w2, Ok ())" by blast
    show ?thesis unfolding server_attest_def crypto sample_keys(1) by (simp add: w1 w2 b)
  qed
  let ?w = "log_event (CtxNew TlsServer 2) \<lparr>events = [InitSsl 0], START = True\<rparr>"
    and ?s = "\<lparr>ts_ctx = 2, ts_session = None, ts_verify = None, ts_fd = 5\<rparr>"
  have lib: "init_ssl sample_ossl es = 1" "ctx_new sample_ossl es k = Suc (length es)" for es k by (simp_all add: sample_ossl_def)
  from attest obtain w' where "server_attest ref_deps sample_ossl sample_attester 0 ?w ?s = (w', Ok ())" by blast
  moreover have "server_build ref_deps sample_ossl sample_attester 0 fresh_process (server_with_tcp_stream server_builder_new 5) =
      (case server_attest ref_deps sample_ossl sample_attester 0 ?w ?s of
         (w, r) \<Rightarrow> if r = Ok () then (w, Ok ?s) else (server_drop w ?s, andthen r (\<lambda>_. Ok ?s)))"
    by (simp add: server_build_def ossl_init_def lib fresh_process_def server_with_tcp_stream_def
        server_builder_new_def log_event_def Let_def numeral_2_eq_2 split_def)
  ultimately show ?thesis by simp
qed

theorem tls_builders_exact_witness:
  "\<exists>w s key der v r. server_build ref_deps sample_ossl sample_attester 0 fresh_process (server_with_tcp_stream server_builder_new 5) = (w, Ok s) \<and>
     UseCertificate (ts_ctx s) der (word_of_nat (length der)) 1 \<in> set (events w) \<and> certifies ref_deps der key \<and>
     server_build ref_deps sample_ossl sample_attester 0 fresh_process server_builder_new = (v, r) \<and>
     (\<forall>s. r \<noteq> Ok s) \<and> CtxNew TlsServer 2 \<in> set (events v) \<and> CtxFree 2 \<notin> set (events v)"
proof -
  obtain v r where run: "server_build ref_deps sample_ossl sample_attester 0 fresh_process server_builder_new = (v, r)"
    and r: "r = Err (error_of_kind OsslTlsBuilderStreamUnset)" "CtxNew TlsServer 2 \<in> set (events v)"
    by (simp add: server_build_def ossl_init_def sample_ossl_def fresh_process_def server_builder_new_def Let_def)
  obtain w' r' where client: "client_build ref_deps sample_ossl sample_attester 0 fresh_process client_builder_new = (w', r')"
    by fastforce
  have none: "tsb_stream server_builder_new = None" "events fresh_process = []"
    by (simp_all add: server_builder_new_def fresh_process_def)
  note exact = tls_builders_exact [OF ref_libs_ok sample_attester_honest client]
  from conjunct2 [OF exact [OF run]] none r have free: "CtxFree 2 \<notin> set (events v)" by auto
  obtain w s where ok: "server_build ref_deps sample_ossl sample_attester 0 fresh_process (server_with_tcp_stream server_builder_new 5) = (w, Ok s)"
    using sample_server_build by blast
  from conjunct2 [OF exact [OF ok]] obtain key der where
    "UseCertificate (ts_ctx s) der (word_of_nat (length der)) 1 \<in> set (events w)" "certifies ref_deps der key" by fastforce
  with ok run r free show ?thesis by blast
qed

end
