(* ===== verification/Rustls.thy ===== *)
theory Rustls
  imports SampleCert
begin

text \<open>
  \<^verbatim>\<open>rats-rs/src/transport/rustls\<close>: the certificate verifiers (\<^verbatim>\<open>mod.rs\<close>) and the endpoints over rustls
  (\<^verbatim>\<open>client.rs\<close>, \<^verbatim>\<open>server.rs\<close>). \<open>rustls\<close>, \<open>tokio_rustls\<close> and the sockets are the parameter
  \<open>rustls_lib\<close>: \<open>'r\<close> and \<open>'w\<close> are the states of the two halves of a split TLS stream, a socket and a WebPKI
  verifier are handles. An \<open>await\<close> is a call; the failure of a foreign call is its display text on the left.
\<close>

subsection \<open>Verifiers\<close>

type_synonym webpki_verifier = nat
type_synonym socket = nat

record ('r, 'w) rustls_lib =
  root_add :: "bytes \<Rightarrow> string + unit"
  webpki_client_build :: "bytes \<Rightarrow> string + webpki_verifier"
  webpki_server_build :: "bytes \<Rightarrow> string + webpki_verifier"
  check_certified_key :: "bytes \<Rightarrow> bytes \<Rightarrow> string + unit"
  webpki_tls12_signature :: "webpki_verifier \<Rightarrow> bytes \<Rightarrow> bytes \<Rightarrow> bytes \<Rightarrow> string + unit"
  webpki_tls13_signature :: "webpki_verifier \<Rightarrow> bytes \<Rightarrow> bytes \<Rightarrow> bytes \<Rightarrow> string + unit"
  webpki_schemes :: "webpki_verifier \<Rightarrow> u16 list"
  webpki_root_hints :: "webpki_verifier \<Rightarrow> bytes list"
  parse_socket_addr :: "string \<Rightarrow> string + bytes"
  server_name_of :: "bytes \<Rightarrow> string + string"
  tcp_connect :: "string \<Rightarrow> string + socket"
  tls_write :: "'w \<Rightarrow> bytes \<Rightarrow> 'w \<times> (string + nat)"
  tls_shutdown :: "'w \<Rightarrow> 'w \<times> (string + unit)"
  tls_read :: "'r \<Rightarrow> bytes \<Rightarrow> 'r \<times> bytes \<times> (string + nat)"

record rats_client_verifier =
  default_client_verifier :: webpki_verifier

record rats_server_verifier =
  default_server_verifier :: webpki_verifier

definition root_hint_subjects :: "('r, 'w) rustls_lib \<Rightarrow> rats_client_verifier \<Rightarrow> bytes list" where
  "root_hint_subjects L self = webpki_root_hints L (default_client_verifier self)"

definition verify_client_cert :: "deps \<Rightarrow> rats_client_verifier \<Rightarrow> bytes \<Rightarrow> (string + unit) res" where
  "verify_client_cert D self end_entity =
     (case cert_verifier_verify D (cert_verifier_new (Contains [])) end_entity of
        Ok Passed \<Rightarrow> Ok (Inr ())
      | Ok Failed \<Rightarrow> Ok (Inl ''Verify failed because of claims'')
      | Err e \<Rightarrow> Ok (Inl ''Verify failed with err: {:?}'')
      | Panic \<Rightarrow> Panic
      | UB \<Rightarrow> UB)"

definition client_verifier_tls12_signature :: "('r, 'w) rustls_lib \<Rightarrow> rats_client_verifier \<Rightarrow> bytes \<Rightarrow> bytes \<Rightarrow> bytes \<Rightarrow> string + unit" where
  "client_verifier_tls12_signature L self message cert dss = webpki_tls12_signature L (default_client_verifier self) message cert dss"

definition client_verifier_tls13_signature :: "('r, 'w) rustls_lib \<Rightarrow> rats_client_verifier \<Rightarrow> bytes \<Rightarrow> bytes \<Rightarrow> bytes \<Rightarrow> string + unit" where
  "client_verifier_tls13_signature L self message cert dss = webpki_tls13_signature L (default_client_verifier self) message cert dss"

definition client_verifier_schemes :: "('r, 'w) rustls_lib \<Rightarrow> rats_client_verifier \<Rightarrow> u16 list" where
  "client_verifier_schemes L self = webpki_schemes L (default_client_verifier self)"

definition verify_server_cert :: "deps \<Rightarrow> rats_server_verifier \<Rightarrow> bytes \<Rightarrow> (string + unit) res" where
  "verify_server_cert D self end_entity =
     (case cert_verifier_verify D (cert_verifier_new (Contains [])) end_entity of
        Ok Passed \<Rightarrow> Ok (Inr ())
      | Ok Failed \<Rightarrow> Ok (Inl ''Verify failed because of claims'')
      | Err e \<Rightarrow> Ok (Inl ''Verify failed with err: {:?}'')
      | Panic \<Rightarrow> Panic
      | UB \<Rightarrow> UB)"

definition server_verifier_tls12_signature :: "('r, 'w) rustls_lib \<Rightarrow> rats_server_verifier \<Rightarrow> bytes \<Rightarrow> bytes \<Rightarrow> bytes \<Rightarrow> string + unit" where
  "server_verifier_tls12_signature L self message cert dss = webpki_tls12_signature L (default_server_verifier self) message cert dss"

definition server_verifier_tls13_signature :: "('r, 'w) rustls_lib \<Rightarrow> rats_server_verifier \<Rightarrow> bytes \<Rightarrow> bytes \<Rightarrow> bytes \<Rightarrow> string + unit" where
  "server_verifier_tls13_signature L self message cert dss = webpki_tls13_signature L (default_server_verifier self) message cert dss"

definition server_verifier_schemes :: "('r, 'w) rustls_lib \<Rightarrow> rats_server_verifier \<Rightarrow> u16 list" where
  "server_verifier_schemes L self = webpki_schemes L (default_server_verifier self)"

subsection \<open>Client\<close>

text \<open>The key and the certificate an endpoint presents.\<close>

definition rustls_credentials :: "deps \<Rightarrow> 'e attester \<Rightarrow> rng \<Rightarrow> (asymmetric_private_key \<times> bytes) res" where
  "rustls_credentials D attester g =
     andthen (gen_private_key (lib_crypto D) g AlgoRsa2048) (\<lambda>privkey.
     andthen (build_with_private_key D (cert_builder_new attester Sha256) privkey) (\<lambda>bd.
     andthen (cert_to_der D bd) (\<lambda>cert. Ok (privkey, cert))))"

text \<open>The verifier of a client configuration: the built-in one over its root certificates, or one that was set.\<close>

datatype server_cert_verifier = WebPkiRoots "bytes list" | RatsServerVerifier rats_server_verifier

record rustls_client_config =
  ccfg_auth :: "(bytes \<times> bytes) option"
  ccfg_verifier :: server_cert_verifier

record rustls_server_config =
  scfg_cert :: "bytes \<times> bytes"
  scfg_client_verifier :: "rats_client_verifier option"

text \<open>
  \<open>TlsConnector::connect\<close> and \<open>TlsAcceptor::accept\<close>, each followed by \<open>split\<close>: the two halves.
\<close>

record ('r, 'w) rustls_io =
  tls_connect :: "rustls_client_config \<Rightarrow> string \<Rightarrow> socket \<Rightarrow> string + 'r \<times> 'w"
  tls_accept :: "rustls_server_config \<Rightarrow> socket \<Rightarrow> string + 'r \<times> 'w"

record ('r, 'w) rustls_client =
  rc_connector :: rustls_client_config
  rc_addr :: string
  rc_reader :: "'r option"
  rc_writer :: "'w option"

text \<open>
  \<open>new\<close>: \<open>g\<close> and \<open>g'\<close> are the random states of the two keys. The verifier's WebPKI part gets a throw-away
  certificate as its root.
\<close>

definition rustls_client_new :: "deps \<Rightarrow> ('r, 'w) rustls_lib \<Rightarrow> 'e attester \<Rightarrow> rng \<Rightarrow> rng \<Rightarrow> string \<Rightarrow> bool \<Rightarrow> ('r, 'w) rustls_client res" where
  "rustls_client_new D L attester g g' addr mutal =
     andthen (if mutal
       then andthen (rustls_credentials D attester g) (\<lambda>(privkey, cert).
            andthen (to_pkcs8_der (lib_crypto D) privkey) (\<lambda>tmp.
            andthen (lift_ext (check_certified_key L cert tmp)) (\<lambda>_. Ok (Some (cert, tmp)))))
       else Ok None) (\<lambda>auth.
     let config = \<lparr>ccfg_auth = auth, ccfg_verifier = WebPkiRoots []\<rparr>
     in andthen (rustls_credentials D attester g') (\<lambda>(_, cert).
     andthen (lift_ext (root_add L cert)) (\<lambda>_.
     andthen (lift_ext (webpki_server_build L cert)) (\<lambda>v.
     Ok \<lparr>rc_connector = config\<lparr>ccfg_verifier := RatsServerVerifier \<lparr>default_server_verifier = v\<rparr>\<rparr>, rc_addr = addr,
         rc_reader = None, rc_writer = None\<rparr>))))"

definition rustls_client_negotiate :: "('r, 'w) rustls_lib \<Rightarrow> ('r, 'w) rustls_io \<Rightarrow> ('r, 'w) rustls_client \<Rightarrow> ('r, 'w) rustls_client \<times> unit res" where
  "rustls_client_negotiate L IO self =
     (case andthen (lift_ext (parse_socket_addr L (rc_addr self))) (\<lambda>addr.
           andthen (lift_ext (tcp_connect L (rc_addr self))) (\<lambda>strm.
           andthen (lift_ext (server_name_of L addr)) (\<lambda>domain.
           lift_ext (tls_connect IO (rc_connector self) domain strm)))) of
        Ok (reader, writer) \<Rightarrow> (self\<lparr>rc_reader := Some reader, rc_writer := Some writer\<rparr>, Ok ())
      | Err e \<Rightarrow> (self, Err e)
      | Panic \<Rightarrow> (self, Panic)
      | UB \<Rightarrow> (self, UB))"

text \<open>\<open>send\<close> is one \<open>write\<close>, whose count is dropped. Before a negotiation the \<open>unwrap\<close> panics.\<close>

definition rustls_client_send :: "('r, 'w) rustls_lib \<Rightarrow> ('r, 'w) rustls_client \<Rightarrow> bytes \<Rightarrow> ('r, 'w) rustls_client \<times> unit res" where
  "rustls_client_send L self bytes =
     (case rc_writer self of
        None \<Rightarrow> (self, Panic)
      | Some writer \<Rightarrow> (case tls_write L writer bytes of
          (writer, r) \<Rightarrow> (self\<lparr>rc_writer := Some writer\<rparr>, andthen (lift_ext r) (\<lambda>_. Ok ()))))"

definition rustls_client_shutdown :: "('r, 'w) rustls_lib \<Rightarrow> ('r, 'w) rustls_client \<Rightarrow> ('r, 'w) rustls_client \<times> unit res" where
  "rustls_client_shutdown L self =
     (case rc_writer self of
        None \<Rightarrow> (self, Panic)
      | Some writer \<Rightarrow> (case tls_shutdown L writer of
          (writer, r) \<Rightarrow> (self\<lparr>rc_writer := Some writer\<rparr>, andthen (lift_ext r) (\<lambda>_. Ok ()))))"

definition rustls_client_receive :: "('r, 'w) rustls_lib \<Rightarrow> ('r, 'w) rustls_client \<Rightarrow> bytes \<Rightarrow> ('r, 'w) rustls_client \<times> bytes \<times> nat res" where
  "rustls_client_receive L self buf =
     (case rc_reader self of
        None \<Rightarrow> (self, buf, Panic)
      | Some reader \<Rightarrow> (case tls_read L reader buf of
          (reader, buf, r) \<Rightarrow> (self\<lparr>rc_reader := Some reader\<rparr>, buf, andthen (lift_ext r) Ok)))"

subsection \<open>Server\<close>

record ('r, 'w) rustls_server =
  rv_acceptor :: rustls_server_config
  rv_stream :: "socket option"
  rv_inner :: "('r \<times> 'w) option"

definition rustls_server_new :: "deps \<Rightarrow> ('r, 'w) rustls_lib \<Rightarrow> 'e attester \<Rightarrow> rng \<Rightarrow> rng \<Rightarrow> socket \<Rightarrow> bool \<Rightarrow> ('r, 'w) rustls_server res" where
  "rustls_server_new D L attester g g' strm mutal =
     andthen (rustls_credentials D attester g) (\<lambda>(privkey, cert).
     andthen (to_pkcs8_der (lib_crypto D) privkey) (\<lambda>tmp.
     andthen (if mutal
       then andthen (rustls_credentials D attester g') (\<lambda>(_, root).
            andthen (lift_ext (root_add L root)) (\<lambda>_.
            andthen (lift_ext (webpki_client_build L root)) (\<lambda>v. Ok (Some \<lparr>default_client_verifier = v\<rparr>))))
       else Ok None) (\<lambda>verifier.
     andthen (lift_ext (check_certified_key L cert tmp)) (\<lambda>_.
     Ok \<lparr>rv_acceptor = \<lparr>scfg_cert = (cert, tmp), scfg_client_verifier = verifier\<rparr>, rv_stream = Some strm, rv_inner = None\<rparr>))))"

text \<open>\<open>negotiate\<close> takes the socket out: without one, after an earlier call, it panics.\<close>

definition rustls_server_negotiate :: "('r, 'w) rustls_io \<Rightarrow> ('r, 'w) rustls_server \<Rightarrow> ('r, 'w) rustls_server \<times> unit res" where
  "rustls_server_negotiate IO self =
     (case rv_stream self of
        None \<Rightarrow> (self, Panic)
      | Some strm \<Rightarrow>
          (let self = self\<lparr>rv_stream := None\<rparr>
           in case lift_ext (tls_accept IO (rv_acceptor self) strm) of
                Ok (reader, writer) \<Rightarrow> (self\<lparr>rv_inner := Some (reader, writer)\<rparr>, Ok ())
              | Err e \<Rightarrow> (self, Err e)
              | Panic \<Rightarrow> (self, Panic)
              | UB \<Rightarrow> (self, UB)))"

definition rustls_server_send :: "('r, 'w) rustls_lib \<Rightarrow> ('r, 'w) rustls_server \<Rightarrow> bytes \<Rightarrow> ('r, 'w) rustls_server \<times> unit res" where
  "rustls_server_send L self bytes =
     (case rv_inner self of
        None \<Rightarrow> (self, Panic)
      | Some (reader, writer) \<Rightarrow> (case tls_write L writer bytes of
          (writer, r) \<Rightarrow> (self\<lparr>rv_inner := Some (reader, writer)\<rparr>, andthen (lift_ext r) (\<lambda>_. Ok ()))))"

definition rustls_server_shutdown :: "('r, 'w) rustls_lib \<Rightarrow> ('r, 'w) rustls_server \<Rightarrow> ('r, 'w) rustls_server \<times> unit res" where
  "rustls_server_shutdown L self =
     (case rv_inner self of
        None \<Rightarrow> (self, Panic)
      | Some (reader, writer) \<Rightarrow> (case tls_shutdown L writer of
          (writer, r) \<Rightarrow> (self\<lparr>rv_inner := Some (reader, writer)\<rparr>, andthen (lift_ext r) (\<lambda>_. Ok ()))))"

definition rustls_server_receive :: "('r, 'w) rustls_lib \<Rightarrow> ('r, 'w) rustls_server \<Rightarrow> bytes \<Rightarrow> ('r, 'w) rustls_server \<times> bytes \<times> nat res" where
  "rustls_server_receive L self buf =
     (case rv_inner self of
        None \<Rightarrow> (self, buf, Panic)
      | Some (reader, writer) \<Rightarrow> (case tls_read L reader buf of
          (reader, buf, r) \<Rightarrow> (self\<lparr>rv_inner := Some (reader, writer)\<rparr>, buf, andthen (lift_ext r) Ok)))"

subsection \<open>Order of calls\<close>

text \<open>
  The contract of an endpoint whose transfer operations need a finished negotiation. An operation returns
  the endpoint and whether it panicked.
\<close>

datatype transfer = Send bytes | Receive bytes | Shutdown

locale rustls_endpoint =
  fixes op :: "transfer \<Rightarrow> 'a \<Rightarrow> 'a \<times> bool" and negotiate :: "'a \<Rightarrow> 'a \<times> unit res" and wf ready :: "'a \<Rightarrow> bool"
  assumes op_panics: "wf a \<Longrightarrow> snd (op k a) \<longleftrightarrow> \<not> ready a"
    and op_keeps: "wf a \<Longrightarrow> wf (fst (op k a)) \<and> ready (fst (op k a)) = ready a"
    and negotiate_keeps: "wf a \<Longrightarrow> negotiate a = (a', r) \<Longrightarrow> wf a' \<and> (ready a' \<longleftrightarrow> ready a \<or> r = Ok ())"
begin

lemma run_keeps: "wf a \<Longrightarrow> wf (foldl (\<lambda>a k. fst (op k a)) a ks) \<and> ready (foldl (\<lambda>a k. fst (op k a)) a ks) = ready a"
proof (induction ks arbitrary: a)
  case (Cons k ks)
  from op_keeps [OF Cons.prems, of k] Cons.IH [of "fst (op k a)"] show ?case by simp
qed simp

text \<open>Transfers work exactly after a negotiation that succeeded, however many came before.\<close>

lemma transfers_after_negotiation:
  assumes "wf a" "\<not> ready a" and "negotiate a = (a', r)"
  shows "snd (op k a)" "snd (op k (foldl (\<lambda>a k. fst (op k a)) a' ks)) \<longleftrightarrow> r \<noteq> Ok ()"
proof -
  from negotiate_keeps [OF assms(1,3)] assms(2) have n: "wf a'" "ready a' \<longleftrightarrow> r = Ok ()" by simp_all
  from run_keeps [OF n(1), of ks] n(2) show "snd (op k (foldl (\<lambda>a k. fst (op k a)) a' ks)) \<longleftrightarrow> r \<noteq> Ok ()"
    using op_panics by simp
qed (simp add: op_panics assms(1,2))

end

definition rustls_client_op :: "('r, 'w) rustls_lib \<Rightarrow> transfer \<Rightarrow> ('r, 'w) rustls_client \<Rightarrow> ('r, 'w) rustls_client \<times> bool" where
  "rustls_client_op L k c = (case k of
       Send m \<Rightarrow> (case rustls_client_send L c m of (c, r) \<Rightarrow> (c, r = Panic))
     | Receive buf \<Rightarrow> (case rustls_client_receive L c buf of (c, _, r) \<Rightarrow> (c, r = Panic))
     | Shutdown \<Rightarrow> (case rustls_client_shutdown L c of (c, r) \<Rightarrow> (c, r = Panic)))"

definition rustls_server_op :: "('r, 'w) rustls_lib \<Rightarrow> transfer \<Rightarrow> ('r, 'w) rustls_server \<Rightarrow> ('r, 'w) rustls_server \<times> bool" where
  "rustls_server_op L k c = (case k of
       Send m \<Rightarrow> (case rustls_server_send L c m of (c, r) \<Rightarrow> (c, r = Panic))
     | Receive buf \<Rightarrow> (case rustls_server_receive L c buf of (c, _, r) \<Rightarrow> (c, r = Panic))
     | Shutdown \<Rightarrow> (case rustls_server_shutdown L c of (c, r) \<Rightarrow> (c, r = Panic)))"

text \<open>A client's two fields are set together; a server that has its halves has given its socket away.\<close>

definition client_wf :: "('r, 'w) rustls_client \<Rightarrow> bool" where
  "client_wf c \<longleftrightarrow> (rc_reader c = None \<longleftrightarrow> rc_writer c = None)"

definition client_ready :: "('r, 'w) rustls_client \<Rightarrow> bool" where
  "client_ready c \<longleftrightarrow> rc_writer c \<noteq> None"

definition server_wf :: "('r, 'w) rustls_server \<Rightarrow> bool" where
  "server_wf s \<longleftrightarrow> (rv_inner s \<noteq> None \<longrightarrow> rv_stream s = None)"

definition server_ready :: "('r, 'w) rustls_server \<Rightarrow> bool" where
  "server_ready s \<longleftrightarrow> rv_inner s \<noteq> None"

lemma andthen_lift_total [simp]: "andthen (lift_ext r) (\<lambda>x. Ok (f x)) \<noteq> Panic" "andthen (lift_ext r) Ok \<noteq> Panic"
  by (cases r; simp)+

lemmas rustls_client_defs = rustls_client_op_def rustls_client_send_def rustls_client_receive_def rustls_client_shutdown_def
lemmas rustls_server_defs = rustls_server_op_def rustls_server_send_def rustls_server_receive_def rustls_server_shutdown_def

interpretation rclient: rustls_endpoint "rustls_client_op L" "rustls_client_negotiate L IO" client_wf client_ready for L IO
proof
  fix a :: "('a, 'b) rustls_client" and k assume "client_wf a"
  then show "snd (rustls_client_op L k a) \<longleftrightarrow> \<not> client_ready a"
    by (cases k) (auto simp: rustls_client_defs client_wf_def client_ready_def split: option.splits prod.splits)
next
  fix a :: "('a, 'b) rustls_client" and k assume "client_wf a"
  then show "client_wf (fst (rustls_client_op L k a)) \<and> client_ready (fst (rustls_client_op L k a)) = client_ready a"
    by (cases k) (auto simp: rustls_client_defs client_wf_def client_ready_def split: option.splits prod.splits)
next
  fix a a' :: "('a, 'b) rustls_client" and r assume "client_wf a" "rustls_client_negotiate L IO a = (a', r)"
  then show "client_wf a' \<and> (client_ready a' \<longleftrightarrow> client_ready a \<or> r = Ok ())"
    by (auto simp: rustls_client_negotiate_def client_wf_def client_ready_def split: res.splits prod.splits)
qed

interpretation rserver: rustls_endpoint "rustls_server_op L" "rustls_server_negotiate IO" server_wf server_ready for L IO
proof
  fix a :: "('a, 'b) rustls_server" and k assume "server_wf a"
  then show "snd (rustls_server_op L k a) \<longleftrightarrow> \<not> server_ready a"
    by (cases k) (auto simp: rustls_server_defs server_wf_def server_ready_def split: option.splits prod.splits)
next
  fix a :: "('a, 'b) rustls_server" and k assume "server_wf a"
  then show "server_wf (fst (rustls_server_op L k a)) \<and> server_ready (fst (rustls_server_op L k a)) = server_ready a"
    by (cases k) (auto simp: rustls_server_defs server_wf_def server_ready_def split: option.splits prod.splits)
next
  fix a a' :: "('a, 'b) rustls_server" and r assume "server_wf a" "rustls_server_negotiate IO a = (a', r)"
  then show "server_wf a' \<and> (server_ready a' \<longleftrightarrow> server_ready a \<or> r = Ok ())"
    by (auto simp: rustls_server_negotiate_def server_wf_def server_ready_def Let_def split: option.splits res.splits prod.splits)
qed

subsection \<open>What rustls promises\<close>

text \<open>
  A finished handshake had the verifier that was set accept the peer's certificate, and a signature over the handshake,
  made with the key of this certificate, pass the same verifier (for TLS 1.2 or 1.3). A server asks for a
  client certificate exactly when it has a verifier for it; \<open>presented\<close> is the certificate the peer of a
  socket sent.
\<close>

definition rustls_verifies :: "deps \<Rightarrow> ('r, 'w) rustls_lib \<Rightarrow> ('r, 'w) rustls_io \<Rightarrow> (socket \<Rightarrow> bytes) \<Rightarrow> bool" where
  "rustls_verifies D L IO presented \<longleftrightarrow>
     (\<forall>cfg name sock h v. tls_connect IO cfg name sock = Inr h \<and> ccfg_verifier cfg = RatsServerVerifier v \<longrightarrow>
        verify_server_cert D v (presented sock) = Ok (Inr ()) \<and>
        (\<exists>m sg. server_verifier_tls12_signature L v m (presented sock) sg = Inr () \<or>
                server_verifier_tls13_signature L v m (presented sock) sg = Inr ())) \<and>
     (\<forall>cfg sock h v. tls_accept IO cfg sock = Inr h \<and> scfg_client_verifier cfg = Some v \<longrightarrow>
        verify_client_cert D v (presented sock) = Ok (Inr ()) \<and>
        (\<exists>m sg. client_verifier_tls12_signature L v m (presented sock) sg = Inr () \<or>
                client_verifier_tls13_signature L v m (presented sock) sg = Inr ()))"

lemma verify_peer_cert_iff:
  "verify_server_cert D v der = Ok (Inr ()) \<longleftrightarrow> (\<exists>claims. verify_cert_der D der = Ok claims)"
  "verify_client_cert D v' der = Ok (Inr ()) \<longleftrightarrow> (\<exists>claims. verify_cert_der D der = Ok claims)"
  by (cases "verify_cert_der D der";
      simp add: verify_server_cert_def verify_client_cert_def cert_verifier_verify_def cert_verifier_new_def)+

text \<open>A rustls whose handshakes succeed with peers presenting \<open>der\<close>, for the witnesses.\<close>

definition sample_rustls :: "(unit, bytes) rustls_lib" where
  "sample_rustls = \<lparr>root_add = (\<lambda>_. Inr ()), webpki_client_build = (\<lambda>_. Inr 1), webpki_server_build = (\<lambda>_. Inr 2),
     check_certified_key = (\<lambda>_ _. Inr ()), webpki_tls12_signature = (\<lambda>_ _ _ _. Inr ()), webpki_tls13_signature = (\<lambda>_ _ _ _. Inr ()),
     webpki_schemes = (\<lambda>_. []), webpki_root_hints = (\<lambda>_. []), parse_socket_addr = (\<lambda>_. Inr [127, 0, 0, 1]),
     server_name_of = (\<lambda>_. Inr ''127.0.0.1''), tcp_connect = (\<lambda>_. Inr 3), tls_write = (\<lambda>w bs. (w @ bs, Inr (length bs))),
     tls_shutdown = (\<lambda>w. (w, Inr ())), tls_read = (\<lambda>r buf. (r, buf, Inr 0))\<rparr>"

definition sample_rustls_io :: "(unit, bytes) rustls_io" where
  "sample_rustls_io = \<lparr>tls_connect = (\<lambda>_ _ _. Inr ((), [])), tls_accept = (\<lambda>_ _. Inr ((), []))\<rparr>"

lemma sample_rustls_credentials:
  obtains der claims where "rustls_credentials ref_deps sample_attester 0 = Ok (Rsa2048 [8, 0], der)"
    "verify_cert_der ref_deps der = Ok claims"
proof -
  obtain bd der where b: "build_with_private_key ref_deps (cert_builder_new sample_attester Sha256) (Rsa2048 [8, 0]) = Ok bd"
    "cert_to_der ref_deps bd = Ok der"
    by (rule sample_key_build [OF sample_keys(4)]) simp_all
  from sample_cert_accepted [OF b] that b show thesis
    by (auto simp: rustls_credentials_def sample_keys(1) ref_deps_def simp del: gen_private_key.simps)
qed

lemma sample_rustls_verifies:
  obtains der claims where "rustls_verifies ref_deps sample_rustls sample_rustls_io (\<lambda>_. der)"
    "verify_cert_der ref_deps der = Ok claims"
proof -
  obtain der claims where v: "verify_cert_der ref_deps der = Ok claims" by (rule sample_rustls_credentials)
  moreover from v have "rustls_verifies ref_deps sample_rustls sample_rustls_io (\<lambda>_. der)"
    unfolding rustls_verifies_def verify_peer_cert_iff
    by (simp add: server_verifier_tls12_signature_def client_verifier_tls12_signature_def sample_rustls_def)
  ultimately show thesis using that by blast
qed

lemma sample_rustls_new:
  "\<exists>c s. rustls_client_new ref_deps sample_rustls sample_attester 0 0 addr mutal = Ok c \<and>
     rustls_server_new ref_deps sample_rustls sample_attester 0 0 sock mutal = Ok s"
proof -
  obtain der claims where "rustls_credentials ref_deps sample_attester 0 = Ok (Rsa2048 [8, 0], der)"
    by (rule sample_rustls_credentials)
  moreover have "to_pkcs8_der (lib_crypto ref_deps) (Rsa2048 [8, 0]) = Ok [0x30, 8, 0]"
    using sample_keys(3) by (simp add: ref_deps_def)
  ultimately show ?thesis by (simp add: rustls_client_new_def rustls_server_new_def sample_rustls_def Let_def del: to_pkcs8_der.simps)
qed

subsection \<open>Properties\<close>

lemma rustls_client_attested:
  assumes "rustls_verifies D L IO presented" and "rustls_client_new D L A g g' addr mutal = Ok c"
    and "rustls_client_negotiate L IO c = (c', Ok ())"
  shows "\<exists>sock v claims m sg. tcp_connect L addr = Inr sock \<and> verify_cert_der D (presented sock) = Ok claims \<and>
     (webpki_tls12_signature L v m (presented sock) sg = Inr () \<or> webpki_tls13_signature L v m (presented sock) sg = Inr ())"
proof -
  from assms(2) obtain v where addr: "rc_addr c = addr" "ccfg_verifier (rc_connector c) = RatsServerVerifier v"
    by (auto simp: rustls_client_new_def Let_def)
  from assms(3) obtain a sock name h where "tcp_connect L addr = Inr sock" "tls_connect IO (rc_connector c) name sock = Inr h"
    by (auto simp: rustls_client_negotiate_def addr split: res.splits)
  with assms(1) addr(2) show ?thesis
    unfolding rustls_verifies_def verify_peer_cert_iff server_verifier_tls12_signature_def server_verifier_tls13_signature_def by meson
qed

lemma rustls_server_attested:
  assumes "rustls_verifies D L IO presented" and "rustls_server_new D L B h h' sock mut = Ok s"
    and "rustls_server_negotiate IO s = (s', Ok ())"
  shows "if mut
    then \<exists>v claims m sg. verify_cert_der D (presented sock) = Ok claims \<and>
       (webpki_tls12_signature L v m (presented sock) sg = Inr () \<or> webpki_tls13_signature L v m (presented sock) sg = Inr ())
    else scfg_client_verifier (rv_acceptor s) = None"
proof -
  from assms(2) have s: "rv_stream s = Some sock" "scfg_client_verifier (rv_acceptor s) = None \<longleftrightarrow> \<not> mut"
    by (auto simp: rustls_server_new_def split: if_splits)
  from assms(3) obtain hs where acc: "tls_accept IO (rv_acceptor s) sock = Inr hs"
    by (auto simp: rustls_server_negotiate_def s(1) Let_def split: res.splits)
  show ?thesis
  proof (cases mut)
    case True
    with s(2) obtain v where "scfg_client_verifier (rv_acceptor s) = Some v" by auto
    with assms(1) acc True show ?thesis
      unfolding rustls_verifies_def verify_peer_cert_iff client_verifier_tls12_signature_def client_verifier_tls13_signature_def
      by (simp only: if_True) meson
  qed (use s(2) in simp)
qed

text \<open>
  C20. The peer of a negotiated rustls endpoint is attested and owns its certificate: a client, and a server
  asked for mutual authentication, that \<open>new\<close> built and whose \<open>negotiate\<close> returned \<open>Ok\<close> talk to a peer whose
  certificate \<open>verify_cert_der\<close> accepts and whose handshake signature the WebPKI verifier checked against
  this certificate. A server built without \<open>mutal\<close> has no verifier.
\<close>

theorem rustls_peer_attested:
  assumes "rustls_verifies D L IO presented"
  shows "(rustls_client_new D L A g g' addr mutal = Ok c \<and> rustls_client_negotiate L IO c = (c', Ok ()) \<longrightarrow>
      (\<exists>sock v claims m sg. tcp_connect L addr = Inr sock \<and> verify_cert_der D (presented sock) = Ok claims \<and>
         (webpki_tls12_signature L v m (presented sock) sg = Inr () \<or> webpki_tls13_signature L v m (presented sock) sg = Inr ()))) \<and>
    (rustls_server_new D L B h h' sock mut = Ok s \<and> rustls_server_negotiate IO s = (s', Ok ()) \<longrightarrow>
      (if mut
       then \<exists>v claims m sg. verify_cert_der D (presented sock) = Ok claims \<and>
         (webpki_tls12_signature L v m (presented sock) sg = Inr () \<or> webpki_tls13_signature L v m (presented sock) sg = Inr ())
       else scfg_client_verifier (rv_acceptor s) = None))"
  by (intro conjI impI; elim conjE; rule rustls_client_attested [OF assms] rustls_server_attested [OF assms])

theorem rustls_peer_attested_witness:
  "\<exists>c c' s s' der claims. rustls_client_new ref_deps sample_rustls sample_attester 0 0 ''localhost'' True = Ok c \<and>
     rustls_client_negotiate sample_rustls sample_rustls_io c = (c', Ok ()) \<and>
     rustls_server_new ref_deps sample_rustls sample_attester 0 0 4 True = Ok s \<and>
     rustls_server_negotiate sample_rustls_io s = (s', Ok ()) \<and> verify_cert_der ref_deps der = Ok claims"
proof -
  obtain der claims where lib: "rustls_verifies ref_deps sample_rustls sample_rustls_io (\<lambda>_. der)"
    and v: "verify_cert_der ref_deps der = Ok claims" by (rule sample_rustls_verifies)
  obtain c s where new: "rustls_client_new ref_deps sample_rustls sample_attester 0 0 ''localhost'' True = Ok c"
    "rustls_server_new ref_deps sample_rustls sample_attester 0 0 4 True = Ok s" using sample_rustls_new by blast
  obtain c' where neg: "rustls_client_negotiate sample_rustls sample_rustls_io c = (c', Ok ())"
    by (simp add: rustls_client_negotiate_def sample_rustls_def sample_rustls_io_def)
  have "rv_stream s = Some 4" using new(2) by (auto simp: rustls_server_new_def)
  then obtain s' where neg': "rustls_server_negotiate sample_rustls_io s = (s', Ok ())"
    by (simp add: rustls_server_negotiate_def sample_rustls_io_def Let_def)
  from conjunct1 [OF rustls_peer_attested [OF lib], rule_format, OF conjI, OF new(1) neg]
  obtain claims' where "verify_cert_der ref_deps der = Ok claims'" by auto
  with new neg neg' show ?thesis by auto
qed

text \<open>
  The order of calls on a rustls endpoint: one that \<open>new\<close> built panics in \<open>send\<close>, \<open>receive\<close> and \<open>shutdown\<close>
  until a \<open>negotiate\<close> succeeded; after the first \<open>negotiate\<close> these never panic, along every sequence of them,
  exactly when it returned \<open>Ok\<close>. A second \<open>negotiate\<close> of a server always panics, also after a failed one.
\<close>

theorem rustls_call_order:
  assumes "rustls_client_new D L A g g' addr mutal = Ok c" and "rustls_client_negotiate L IO c = (c', r)"
    and "rustls_server_new D L B h h' sock mut = Ok s" and "rustls_server_negotiate IO s = (s', q)"
  shows "snd (rustls_client_op L k c) \<and>
    (snd (rustls_client_op L k (foldl (\<lambda>a k. fst (rustls_client_op L k a)) c' ks)) \<longleftrightarrow> r \<noteq> Ok ()) \<and>
    snd (rustls_server_op L k s) \<and>
    (snd (rustls_server_op L k (foldl (\<lambda>a k. fst (rustls_server_op L k a)) s' ks)) \<longleftrightarrow> q \<noteq> Ok ()) \<and>
    q \<noteq> Panic \<and> snd (rustls_server_negotiate IO (foldl (\<lambda>a k. fst (rustls_server_op L k a)) s' ks)) = Panic"
proof -
  from assms(1) have c: "client_wf c" "\<not> client_ready c"
    by (auto simp: rustls_client_new_def client_wf_def client_ready_def Let_def)
  from assms(3) have s: "server_wf s" "\<not> server_ready s" "rv_stream s = Some sock"
    by (auto simp: rustls_server_new_def server_wf_def server_ready_def)
  have stream: "rv_stream (foldl (\<lambda>a k. fst (rustls_server_op L k a)) a ks) = rv_stream a" for a
  proof (induction ks arbitrary: a)
    case (Cons k ks)
    have "rv_stream (fst (rustls_server_op L k a)) = rv_stream a"
      by (cases k) (auto simp: rustls_server_defs split: option.splits prod.splits)
    with Cons show ?case by simp
  qed simp
  have gone: "rv_stream s' = None" "q \<noteq> Panic"
    using assms(4) s(3) by (cases "tls_accept IO (rv_acceptor s) sock"; auto simp: rustls_server_negotiate_def Let_def split: prod.splits)+
  show ?thesis
    using rclient.transfers_after_negotiation [OF c assms(2)] rserver.transfers_after_negotiation [OF s(1,2) assms(4), of L]
      gone stream by (simp add: rustls_server_negotiate_def)
qed

theorem rustls_call_order_witness:
  "\<exists>s s'. rustls_server_new ref_deps sample_rustls sample_attester 0 0 4 False = Ok s \<and>
     snd (rustls_server_op sample_rustls (Send [7]) s) \<and>
     rustls_server_negotiate sample_rustls_io s = (s', Ok ()) \<and> \<not> snd (rustls_server_op sample_rustls (Send [7]) s') \<and>
     snd (rustls_server_negotiate sample_rustls_io s') = Panic"
proof -
  obtain c s where new: "rustls_client_new ref_deps sample_rustls sample_attester 0 0 ''localhost'' False = Ok c"
    "rustls_server_new ref_deps sample_rustls sample_attester 0 0 4 False = Ok s" using sample_rustls_new by blast
  obtain c' r where neg: "rustls_client_negotiate sample_rustls sample_rustls_io c = (c', r)" by fastforce
  have "rv_stream s = Some 4" using new(2) by (auto simp: rustls_server_new_def)
  then obtain s' where neg': "rustls_server_negotiate sample_rustls_io s = (s', Ok ())"
    by (simp add: rustls_server_negotiate_def sample_rustls_io_def Let_def)
  from rustls_call_order [OF new(1) neg new(2) neg', of "Send [7]" "[]"] new(2) neg' show ?thesis by auto
qed

end
