(* ===== verification/TlsExample.thy ===== *)
theory TlsExample
  imports Serving TlsTheorems Rustls
begin

text \<open>
  \<^verbatim>\<open>examples/tls\<close> (\<^verbatim>\<open>src/tls.rs\<close>, \<^verbatim>\<open>src/echo/mod.rs\<close>) over OpenSSL and \<^verbatim>\<open>examples/rustls\<close> (\<^verbatim>\<open>src/rustls.rs\<close>,
  \<^verbatim>\<open>src/echo/mod.rs\<close>) over rustls: the server loops, the clients and the echo test. The world of the first
  is the list of OpenSSL calls, so that what a server leaves allocated can be said.
\<close>

subsection \<open>OpenSSL\<close>

text \<open>
  The body of the server's loop; the connection is a descriptor and whether the peer's address can be read.
  Leaving early drops the server, \<open>func\<close> takes it over.
\<close>

definition tls_serve_one :: "deps \<Rightarrow> ossl_lib \<Rightarrow> 'e attester \<Rightarrow> (nat \<Rightarrow> rng) \<Rightarrow> bool \<Rightarrow>
    (nat \<Rightarrow> tls_server \<Rightarrow> ossl \<Rightarrow> ossl \<times> unit res) \<Rightarrow> nat \<Rightarrow> c_int \<times> bool \<Rightarrow> ossl \<Rightarrow> ossl \<times> tls_server option \<times> unit res option" where
  "tls_serve_one D L A g verify_peer func i conn w =
     (case conn of (fd, known) \<Rightarrow>
        (if \<not> known then (w, None, Some Panic)
         else (case server_build D L A (g i) w
                 (server_with_tcp_stream (server_with_verify_peer server_builder_new verify_peer) fd) of
             (w, Ok server) \<Rightarrow>
               (case server_negotiate L w server of (w, server, r) \<Rightarrow>
                  (if r = Ok () then (case func i server w of (w, r) \<Rightarrow> (w, Some server, Some r))
                   else (server_drop w server, None, Some r)))
           | (w, Err e) \<Rightarrow> (w, None, Some (Err e))
           | (w, Panic) \<Rightarrow> (w, None, Some Panic)
           | (w, UB) \<Rightarrow> (w, None, Some UB))))"

definition with_tls_tcp_server :: "deps \<Rightarrow> ossl_lib \<Rightarrow> 'e attester \<Rightarrow> (nat \<Rightarrow> rng) \<Rightarrow> bool \<Rightarrow>
    (nat \<Rightarrow> tls_server \<Rightarrow> ossl \<Rightarrow> ossl \<times> unit res) \<Rightarrow> (c_int \<times> bool) option list \<Rightarrow> ossl \<Rightarrow> ossl \<times> tls_server list \<times> loop_outcome" where
  "with_tls_tcp_server D L A g verify_peer func conns w =
     accept_loop ''Error accepting connection: {}'' (tls_serve_one D L A g verify_peer func) 0 conns w"

definition with_tls_tcp_client :: "deps \<Rightarrow> ossl_lib \<Rightarrow> 'e attester \<Rightarrow> rng \<Rightarrow> bool \<Rightarrow> (tls_client \<Rightarrow> ossl \<Rightarrow> ossl \<times> unit res) \<Rightarrow>
    c_int option \<Rightarrow> ossl \<Rightarrow> ossl \<times> unit res" where
  "with_tls_tcp_client D L A g attest_self func connected w =
     (case connected of
        None \<Rightarrow> (w, Panic)
      | Some fd \<Rightarrow>
          w_then (client_build D L A g w (client_with_tcp_stream (client_with_attest_self client_builder_new attest_self) fd)) (\<lambda>w client.
            case client_negotiate L w client of (w, client, r) \<Rightarrow>
              (if r = Ok () then func client w else (client_drop w client, r))))"

text \<open>The echo test, at whose end the endpoint is dropped on every path.\<close>

definition tls_echo_server :: "ossl_lib \<Rightarrow> tls_server \<Rightarrow> ossl \<Rightarrow> ossl \<times> unit res" where
  "tls_echo_server L server w =
     (case echo_server (\<lambda>buf (w, s). case server_receive L w s buf of (w, buf, r) \<Rightarrow> ((w, s), buf, r))
         (\<lambda>m (w, s). case server_send L w s m of (w, r) \<Rightarrow> ((w, s), r))
         (\<lambda>(w, s). case server_shutdown w s of (w, r) \<Rightarrow> ((w, s), r)) 1024 (w, server) of
        ((w, s), r) \<Rightarrow> (server_drop w s, r))"

definition tls_echo_client :: "ossl_lib \<Rightarrow> (nat \<Rightarrow> bytes) \<Rightarrow> tls_client \<Rightarrow> ossl \<Rightarrow> ossl \<times> unit res" where
  "tls_echo_client L rnd client w =
     (case echo_client (\<lambda>buf (w, c). case client_receive L w c buf of (w, buf, r) \<Rightarrow> ((w, c), buf, r))
         (\<lambda>m (w, c). case client_send L w c m of (w, r) \<Rightarrow> ((w, c), r))
         (\<lambda>(w, c). case client_shutdown w c of (w, r) \<Rightarrow> ((w, c), r)) rnd 1024 (w, client) of
        ((w, c), r) \<Rightarrow> (client_drop w c, r))"

subsection \<open>rustls\<close>

definition rustls_serve_one :: "deps \<Rightarrow> ('r, 'w) rustls_lib \<Rightarrow> ('r, 'w) rustls_io \<Rightarrow> 'e attester \<Rightarrow> (nat \<Rightarrow> rng) \<Rightarrow> (nat \<Rightarrow> rng) \<Rightarrow> bool \<Rightarrow>
    (nat \<Rightarrow> ('r, 'w) rustls_server \<Rightarrow> unit res) \<Rightarrow> nat \<Rightarrow> socket \<Rightarrow> unit \<Rightarrow> unit \<times> ('r, 'w) rustls_server option \<times> unit res option" where
  "rustls_serve_one D L IO A g g' verify_peer func i strm w =
     (case rustls_server_new D L A (g i) (g' i) strm verify_peer of
        Ok server \<Rightarrow>
          (case rustls_server_negotiate IO server of (server, r) \<Rightarrow>
             (if r = Ok () then (w, Some server, Some (func i server)) else (w, None, Some r)))
      | Err e \<Rightarrow> (w, None, Some (Err e))
      | Panic \<Rightarrow> (w, None, Some Panic)
      | UB \<Rightarrow> (w, None, Some UB))"

definition with_rustls_tcp_server :: "deps \<Rightarrow> ('r, 'w) rustls_lib \<Rightarrow> ('r, 'w) rustls_io \<Rightarrow> 'e attester \<Rightarrow> (nat \<Rightarrow> rng) \<Rightarrow> (nat \<Rightarrow> rng) \<Rightarrow> bool \<Rightarrow>
    (nat \<Rightarrow> ('r, 'w) rustls_server \<Rightarrow> unit res) \<Rightarrow> socket option list \<Rightarrow> ('r, 'w) rustls_server list \<times> loop_outcome" where
  "with_rustls_tcp_server D L IO A g g' verify_peer func conns =
     snd (accept_loop ''{}'' (rustls_serve_one D L IO A g g' verify_peer func) 0 conns ())"

definition with_rustls_tcp_client :: "deps \<Rightarrow> ('r, 'w) rustls_lib \<Rightarrow> ('r, 'w) rustls_io \<Rightarrow> 'e attester \<Rightarrow> rng \<Rightarrow> rng \<Rightarrow> string \<Rightarrow> bool \<Rightarrow>
    (('r, 'w) rustls_client \<Rightarrow> unit res) \<Rightarrow> unit res" where
  "with_rustls_tcp_client D L IO A g g' connect_to_tcp attest_self func =
     andthen (rustls_client_new D L A g g' connect_to_tcp attest_self) (\<lambda>client.
     case rustls_client_negotiate L IO client of (client, r) \<Rightarrow> andthen r (\<lambda>_. func client))"

definition rustls_echo_server :: "('r, 'w) rustls_lib \<Rightarrow> ('r, 'w) rustls_server \<Rightarrow> unit res" where
  "rustls_echo_server L s =
     snd (echo_server (\<lambda>buf s. rustls_server_receive L s buf) (\<lambda>m s. rustls_server_send L s m) (rustls_server_shutdown L) 1024 s)"

definition rustls_echo_client :: "('r, 'w) rustls_lib \<Rightarrow> (nat \<Rightarrow> bytes) \<Rightarrow> ('r, 'w) rustls_client \<Rightarrow> unit res" where
  "rustls_echo_client L rnd c =
     snd (echo_client (\<lambda>buf c. rustls_client_receive L c buf) (\<lambda>m c. rustls_client_send L c m) (rustls_client_shutdown L) rnd 1024 c)"

subsection \<open>The contracts\<close>

interpretation tls_program: server_program "tls_serve_one D L A g verify_peer func" "\<lambda>s. ts_session s \<noteq> None"
  for D L and A :: "'e attester" and g verify_peer func
proof
  fix i conn w w' s out
  have neg: "server_negotiate L w s = (w', s', Ok ()) \<Longrightarrow> ts_session s' \<noteq> None" for w s w' s'
    by (auto simp: server_negotiate_def Let_def split: if_splits option.splits)
  assume "tls_serve_one D L A g verify_peer func i conn w = (w', Some s, out)"
  with neg show "ts_session s \<noteq> None"
    by (auto simp: tls_serve_one_def split: prod.splits if_splits res.splits)
qed

interpretation rustls_program: server_program "rustls_serve_one D L IO A g g' verify_peer func" server_ready
  for D L IO and A :: "'e attester" and g g' verify_peer func
proof
  fix i strm w w' s out
  assume "rustls_serve_one D L IO A g g' verify_peer func i strm w = (w', Some s, out)"
  then show "server_ready s"
    by (auto simp: rustls_serve_one_def rustls_server_negotiate_def server_ready_def Let_def
        split: prod.splits if_splits res.splits option.splits)
qed

subsection \<open>What the OpenSSL server leaves allocated\<close>

text \<open>Contexts and sessions made minus those freed.\<close>

fun ctx_cost :: "ossl_event \<Rightarrow> int" where
  "ctx_cost (CtxNew _ ctx) = (if ctx = 0 then 0 else 1)"
| "ctx_cost (CtxFree _) = -1"
| "ctx_cost _ = 0"

fun ssl_cost :: "ossl_event \<Rightarrow> int" where
  "ssl_cost (SslNew _ ssl) = (if ssl = 0 then 0 else 1)"
| "ssl_cost (SslFree _) = -1"
| "ssl_cost _ = 0"

definition open_ctxs :: "ossl \<Rightarrow> int" where "open_ctxs w = sum_list (map ctx_cost (events w))"
definition open_ssls :: "ossl \<Rightarrow> int" where "open_ssls w = sum_list (map ssl_cost (events w))"

lemma open_log [simp]:
  "open_ctxs (log_event e w) = ctx_cost e + open_ctxs w" "open_ssls (log_event e w) = ssl_cost e + open_ssls w"
  by (simp_all add: open_ctxs_def open_ssls_def)

lemma costs_zero:
  "list_all is_init es \<Longrightarrow> sum_list (map ctx_cost es) = 0" "list_all is_init es \<Longrightarrow> sum_list (map ssl_cost es) = 0"
  "list_all is_credential es \<Longrightarrow> sum_list (map ctx_cost es) = 0" "list_all is_credential es \<Longrightarrow> sum_list (map ssl_cost es) = 0"
proof -
  have "is_init e \<or> is_credential e \<Longrightarrow> ctx_cost e = 0 \<and> ssl_cost e = 0" for e by (cases e) simp_all
  then show "list_all is_init es \<Longrightarrow> sum_list (map ctx_cost es) = 0" "list_all is_init es \<Longrightarrow> sum_list (map ssl_cost es) = 0"
    "list_all is_credential es \<Longrightarrow> sum_list (map ctx_cost es) = 0" "list_all is_credential es \<Longrightarrow> sum_list (map ssl_cost es) = 0"
    by (induction es) auto
qed

lemma server_build_costs:
  assumes "server_build D L A g w b = (w', r)" and "tsb_stream b \<noteq> None"
  shows "open_ssls w' = open_ssls w" and "open_ctxs w' = open_ctxs w + (if \<exists>s. r = Ok s then 1 else 0)"
    and "r = Ok s \<Longrightarrow> ts_session s = None"
proof -
  have "open_ssls w' = open_ssls w \<and> open_ctxs w' = open_ctxs w + (if \<exists>s. r = Ok s then 1 else 0) \<and> (\<forall>s. r = Ok s \<longrightarrow> ts_session s = None)"
    using assms(1)
    by (cases rule: server_build_cases) (use assms(2) in \<open>auto simp: open_ssls_def open_ctxs_def costs_zero\<close>)
  then show "open_ssls w' = open_ssls w" and "open_ctxs w' = open_ctxs w + (if \<exists>s. r = Ok s then 1 else 0)"
    and "r = Ok s \<Longrightarrow> ts_session s = None" by simp_all
qed

lemma server_negotiate_costs:
  assumes "server_negotiate L w s = (w', s', r)" and "ts_session s = None"
  shows "open_ctxs w' = open_ctxs w" and "if r = Ok () then open_ssls w' = open_ssls w + 1 \<and> ts_session s' \<noteq> None
     else open_ssls w' - open_ssls w \<in> {0, 1} \<and> ts_session s' = None"
  using assms by (auto simp: server_negotiate_def Let_def split: option.splits if_splits)

lemma server_drop_costs:
  "open_ctxs (server_drop w s) = open_ctxs w - 1"
  "open_ssls (server_drop w s) = open_ssls w - (if ts_session s = None then 0 else 1)"
  by (auto simp: server_drop_def Let_def split: option.splits)

text \<open>Transfers on a session make and free nothing.\<close>

lemma server_transfer_costs:
  "open_ctxs (fst (server_receive L w s buf)) = open_ctxs w" "open_ssls (fst (server_receive L w s buf)) = open_ssls w"
  "open_ctxs (fst (server_send L w s m)) = open_ctxs w" "open_ssls (fst (server_send L w s m)) = open_ssls w"
  "open_ctxs (fst (server_shutdown w s)) = open_ctxs w" "open_ssls (fst (server_shutdown w s)) = open_ssls w"
  by (auto simp: server_receive_def server_send_def server_shutdown_def Let_def split: option.splits prod.splits)

lemma tls_echo_server_costs:
  assumes "tls_echo_server L s w = (w', r)"
  shows "open_ctxs w' = open_ctxs w - 1" and "open_ssls w' = open_ssls w - (if ts_session s = None then 0 else 1)"
proof -
  let ?receive = "\<lambda>buf (w, s). case server_receive L w s buf of (w, buf, r) \<Rightarrow> ((w, s), buf, r)"
  let ?send = "\<lambda>m (w, s). case server_send L w s m of (w, r) \<Rightarrow> ((w, s), r)"
  let ?shutdown = "\<lambda>(w, s). case server_shutdown w s of (w, r) \<Rightarrow> ((w, s), r)"
  let ?P = "\<lambda>(w1, s1). s1 = s \<and> open_ctxs w1 = open_ctxs w \<and> open_ssls w1 = open_ssls w"
  have "?P (fst (echo_server ?receive ?send ?shutdown 1024 (w, s)))"
  proof (rule echo_server_keeps)
    fix buf x assume "?P x"
    with server_transfer_costs(1,2) [of L "fst x" s buf] show "?P (fst (?receive buf x))"
      by (cases x) (auto split: prod.splits)
  next
    fix m x assume "?P x"
    with server_transfer_costs(3,4) [of L "fst x" s m] show "?P (fst (?send m x))" by (cases x) (auto split: prod.splits)
  next
    fix x assume "?P x"
    with server_transfer_costs(5,6) [of "fst x" s] show "?P (fst (?shutdown x))" by (cases x) (auto split: prod.splits)
  qed simp
  then obtain w1 r1 where "echo_server ?receive ?send ?shutdown 1024 (w, s) = ((w1, s), r1)"
    "open_ctxs w1 = open_ctxs w" "open_ssls w1 = open_ssls w"
    by (cases "echo_server ?receive ?send ?shutdown 1024 (w, s)") auto
  with assms show "open_ctxs w' = open_ctxs w - 1" and "open_ssls w' = open_ssls w - (if ts_session s = None then 0 else 1)"
    by (auto simp: tls_echo_server_def server_drop_costs)
qed

lemma tls_serve_one_costs:
  assumes "tls_serve_one D L A g verify_peer (\<lambda>i. tls_echo_server L) i conn w = (w', x, out)"
  shows "open_ctxs w' = open_ctxs w \<and> open_ssls w' - open_ssls w \<in> (if out = Some (Ok ()) then {0} else {0, 1})"
proof -
  obtain fd known where conn: "conn = (fd, known)" by fastforce
  let ?b = "server_with_tcp_stream (server_with_verify_peer server_builder_new verify_peer) fd"
  obtain w1 r1 where b: "server_build D L A (g i) w ?b = (w1, r1)" by fastforce
  have strm: "tsb_stream ?b \<noteq> None" by (simp add: server_with_tcp_stream_def)
  note build = server_build_costs [OF b strm]
  show ?thesis
  proof (cases "known \<and> (\<exists>s. r1 = Ok s)")
    case False
    with assms conn b build show ?thesis by (cases known; cases r1) (auto simp: tls_serve_one_def)
  next
    case True
    then obtain s where s: "r1 = Ok s" "known" by blast
    obtain w2 s2 r2 where n: "server_negotiate L w1 s = (w2, s2, r2)" using prod_cases3 by blast
    note neg = server_negotiate_costs [OF n build(3) [OF s(1)]]
    show ?thesis
    proof (cases "r2 = Ok ()")
      case True
      obtain w3 r3 where e: "tls_echo_server L s2 w2 = (w3, r3)" by fastforce
      note echo = tls_echo_server_costs [OF e]
      from assms conn s b n True e have "w' = w3" "out = Some r3" by (simp_all add: tls_serve_one_def)
      with echo neg build s True show ?thesis by auto
    next
      case False
      with assms conn s b n have "w' = server_drop w2 s2" "out = Some r2" by (simp_all add: tls_serve_one_def)
      with neg build s False show ?thesis by (auto simp: server_drop_costs)
    qed
  qed
qed

text \<open>
  C23. The OpenSSL echo server frees what it makes: for any connections and whatever OpenSSL answers, when the
  loop waits for the next connection every context and every session it made has been freed. When it has
  ended, every context has been freed and at most one session is left, that of a failed negotiation.
\<close>

theorem tls_server_resources:
  "case with_tls_tcp_server D L A g verify_peer (\<lambda>i. tls_echo_server L) conns w of (w', xs, out) \<Rightarrow>
     open_ctxs w' = open_ctxs w \<and> open_ssls w' - open_ssls w \<in> (if out = Waiting then {0} else {0, 1}) \<and>
     list_all (\<lambda>s. ts_session s \<noteq> None) xs"
proof -
  have "open_ctxs w' = open_ctxs w \<and> open_ssls w' - open_ssls w \<in> (if out = Waiting then {0} else {0, 1})"
    if "accept_loop msg (tls_serve_one D L A g verify_peer (\<lambda>i. tls_echo_server L)) i conns w = (w', xs, out)" for msg i w w' xs out
    using that
  proof (induction conns arbitrary: i w w' xs out)
    case (Cons c conns)
    show ?case
    proof (cases c)
      case (Some conn)
      obtain w1 x o1 where s: "tls_serve_one D L A g verify_peer (\<lambda>i. tls_echo_server L) i conn w = (w1, x, o1)" using prod_cases3 by blast
      note one = tls_serve_one_costs [OF s]
      obtain w2 ys o2 where l: "accept_loop msg (tls_serve_one D L A g verify_peer (\<lambda>i. tls_echo_server L)) (Suc i) conns w1 = (w2, ys, o2)"
        using prod_cases3 by blast
      show ?thesis
      proof (cases "o1 = Some (Ok ())")
        case True
        with Cons.prems Some s l have "w' = w2" "out = o2" by (simp_all add: Let_def)
        with Cons.IH [OF l] one True show ?thesis by auto
      next
        case False
        with Cons.prems Some s have "w' = w1" "out \<noteq> Waiting" by (auto simp: Let_def split: option.splits if_splits)
        with one False show ?thesis by auto
      qed
    qed (use Cons.prems in simp)
  qed simp
  moreover obtain w' xs out where run: "with_tls_tcp_server D L A g verify_peer (\<lambda>i. tls_echo_server L) conns w = (w', xs, out)"
    using prod_cases3 by blast
  ultimately show ?thesis
    using tls_program.all_ready [of "''Error accepting connection: {}''" D L A g verify_peer "\<lambda>i. tls_echo_server L" 0 conns w w' xs out]
    by (simp add: with_tls_tcp_server_def)
qed

end
