(* ===== verification/TlsProgram.thy ===== *)
theory TlsProgram
  imports TlsExample Commands
begin

text \<open>
  The programs \<^verbatim>\<open>examples/tls\<close> and \<^verbatim>\<open>examples/rustls\<close> as they are started from their command lines
  (\<^verbatim>\<open>src/main.rs\<close>), and with whom they exchange data. Both declare the options \<open>--attest-self\<close> and
  \<open>--verify-peer\<close> for both sides, but a server reads only the second and a client only the first.
\<close>

subsection \<open>OpenSSL\<close>

record 'e tls_world =
  tw_clap :: clap
  tw_deps :: deps
  tw_ossl :: ossl_lib
  tw_attester :: "'e attester"
  tw_rng :: "nat \<Rightarrow> rng"
  tw_random :: "nat \<Rightarrow> bytes"
  tw_listen :: "string \<Rightarrow> (c_int \<times> bool) option list option"
  tw_connect :: "string \<Rightarrow> c_int option"

definition tls_client_program :: "'e tls_world \<Rightarrow> common_client_options \<Rightarrow> ossl \<Rightarrow> ossl \<times> loop_outcome" where
  "tls_client_program V opts w =
     (case with_tls_tcp_client (tw_deps V) (tw_ossl V) (tw_attester V) (tw_rng V 0) (co_attest_self opts)
         (tls_echo_client (tw_ossl V) (tw_random V)) (tw_connect V (co_connect_to_tcp opts)) w of
        (w, r) \<Rightarrow> (w, Returned r))"

definition tls_server_program :: "'e tls_world \<Rightarrow> common_server_options \<Rightarrow> ossl \<Rightarrow> ossl \<times> loop_outcome" where
  "tls_server_program V opts w =
     (case tw_listen V (so_listen_on_tcp opts) of
        None \<Rightarrow> (w, Returned Panic)
      | Some conns \<Rightarrow>
          (case with_tls_tcp_server (tw_deps V) (tw_ossl V) (tw_attester V) (tw_rng V) (so_verify_peer opts)
              (\<lambda>i. tls_echo_server (tw_ossl V)) conns w of (w, _, out) \<Rightarrow> (w, out)))"

definition tls_main :: "'e tls_world \<Rightarrow> string list \<Rightarrow> ossl \<Rightarrow> (ossl \<times> loop_outcome) option" where
  "tls_main V argv w =
     map_option (\<lambda>cmd. case cmd of
         EchoClient opts \<Rightarrow> tls_client_program V opts w
       | EchoServer opts \<Rightarrow> tls_server_program V opts w)
     (parse_tls (tw_clap V) argv)"

text \<open>
  A session is attested when its last handshake was one with a peer whose certificate is accepted, and it was
  neither freed nor made anew since; in an attested history every call that moves data on a session is
  made on an attested one.
\<close>

fun replaces :: "ptr \<Rightarrow> ossl_event \<Rightarrow> bool" where
  "replaces s (SslNew _ s') = (s' = s)"
| "replaces s (Handshake _ s' _) = (s' = s)"
| "replaces s (SslFree s') = (s' = s)"
| "replaces s _ = False"

definition attested_session :: "deps \<Rightarrow> (ossl_event list \<Rightarrow> ptr \<Rightarrow> bytes option) \<Rightarrow> ossl_event list \<Rightarrow> ptr \<Rightarrow> bool" where
  "attested_session D peer es s \<longleftrightarrow> (\<exists>new role es1 der claims. es = new @ Handshake role s 1 # es1 \<and>
     list_all (\<lambda>e. \<not> replaces s e) new \<and> peer es1 s = Some der \<and> verify_cert_der D der = Ok claims)"

fun attested_history :: "deps \<Rightarrow> (ossl_event list \<Rightarrow> ptr \<Rightarrow> bytes option) \<Rightarrow> ossl_event list \<Rightarrow> bool" where
  "attested_history D peer [] = True"
| "attested_history D peer (e # es) \<longleftrightarrow> attested_history D peer es \<and>
     (case uses e of Some s \<Rightarrow> attested_session D peer es s | None \<Rightarrow> True)"

lemma attested_history_quiet:
  "list_all (\<lambda>e. uses e = None) new \<Longrightarrow> attested_history D peer (new @ es) \<longleftrightarrow> attested_history D peer es"
  by (induction new) auto

lemma attested_session_use:
  assumes "uses e = Some s" and "attested_session D peer es s'"
  shows "attested_session D peer (e # es) s'"
proof -
  have "\<not> replaces s' e" using assms(1) by (cases e) auto
  moreover from assms(2) obtain new role es1 der claims where "es = new @ Handshake role s' 1 # es1" "list_all (\<lambda>e. \<not> replaces s' e) new"
    "peer es1 s' = Some der" "verify_cert_der D der = Ok claims" unfolding attested_session_def by blast
  ultimately show ?thesis unfolding attested_session_def by (intro exI [of _ "e # new"] exI) auto
qed

text \<open>An endpoint of either side whose session is attested keeps the history attested.\<close>

definition carries :: "deps \<Rightarrow> (ossl_event list \<Rightarrow> ptr \<Rightarrow> bytes option) \<Rightarrow> ptr option \<Rightarrow> ossl \<Rightarrow> bool" where
  "carries D peer session w \<longleftrightarrow> attested_history D peer (events w) \<and>
     (case session of Some s \<Rightarrow> attested_session D peer (events w) s | None \<Rightarrow> False)"

context tls_endpoint
begin

lemma transfer_carries:
  assumes "k \<noteq> OpNegotiate" and "op L k (w, a) = (w', a')" and "carries D peer (session a) w"
  shows "a' = a" and "carries D peer (session a) w'"
proof -
  from transfer [OF assms(1,2)] show "a' = a" by simp
  from transfer [OF assms(1,2)] consider "w' = w" | e s where "events w' = e # events w" "uses e = Some s" "session a = Some s" by blast
  then show "carries D peer (session a) w'"
  proof cases
    case (2 e s)
    with assms(3) show ?thesis by (simp add: carries_def attested_session_use)
  qed (use assms(3) in simp)
qed

lemma negotiate_quiet:
  assumes "op L OpNegotiate (w, a) = (w', a')"
  shows "attested_history D peer (events w') \<longleftrightarrow> attested_history D peer (events w)"
proof -
  from negotiate [OF assms] obtain new where "events w' = new @ events w" "list_all (\<lambda>e. uses e = None \<and> \<not> frees e) new" by blast
  moreover from this(2) have "list_all (\<lambda>e. uses e = None) new" by (simp add: list_all_iff)
  ultimately show ?thesis by (simp add: attested_history_quiet)
qed

end

lemma build_quiet:
  "list_all is_init new \<Longrightarrow> list_all (\<lambda>e. uses e = None) new" "list_all is_credential new \<Longrightarrow> list_all (\<lambda>e. uses e = None) new"
proof -
  have "is_init e \<or> is_credential e \<Longrightarrow> uses e = None" for e by (cases e) simp_all
  then show "list_all is_init new \<Longrightarrow> list_all (\<lambda>e. uses e = None) new"
    "list_all is_credential new \<Longrightarrow> list_all (\<lambda>e. uses e = None) new" by (auto simp: list_all_iff)
qed

lemma client_build_quiet:
  assumes "client_build D L A g w b = (w', r)"
  shows "attested_history D' peer (events w') \<longleftrightarrow> attested_history D' peer (events w)"
  using assms by (cases rule: client_build_cases) (auto simp: attested_history_quiet build_quiet)

lemma server_build_quiet:
  assumes "server_build D L A g w b = (w', r)"
  shows "attested_history D' peer (events w') \<longleftrightarrow> attested_history D' peer (events w)"
  using assms by (cases rule: server_build_cases) (auto simp: attested_history_quiet build_quiet)

lemma drop_quiet:
  "attested_history D peer (events (client_drop w c)) \<longleftrightarrow> attested_history D peer (events w)"
  "attested_history D peer (events (server_drop w s)) \<longleftrightarrow> attested_history D peer (events w)"
  by (auto simp: client_drop_def server_drop_def Let_def split: option.splits)

lemma client_transfer_carries:
  assumes "carries D peer (tc_session c) w"
  shows "carries D peer (tc_session c) (fst (client_receive L w c buf))" and "carries D peer (tc_session c) (fst (client_send L w c m))"
    and "carries D peer (tc_session c) (fst (client_shutdown w c))"
proof -
  have step: "carries D peer (tc_session c) (fst (client_op L k (w, c)))" if "k \<noteq> OpNegotiate" for k
    using client.transfer_carries(2) [OF that _ assms, of L] client.transfer_carries(1) [OF that _ assms, of L]
    by (cases "client_op L k (w, c)") auto
  from step [of "OpReceive buf"] step [of "OpSend m"] step [of OpShutdown]
  show "carries D peer (tc_session c) (fst (client_receive L w c buf))" "carries D peer (tc_session c) (fst (client_send L w c m))"
    "carries D peer (tc_session c) (fst (client_shutdown w c))"
    by (simp_all add: client_op_def split: prod.splits)
qed

lemma server_transfer_carries:
  assumes "carries D peer (ts_session s) w"
  shows "carries D peer (ts_session s) (fst (server_receive L w s buf))" and "carries D peer (ts_session s) (fst (server_send L w s m))"
    and "carries D peer (ts_session s) (fst (server_shutdown w s))"
proof -
  have step: "carries D peer (ts_session s) (fst (server_op L k (w, s)))" if "k \<noteq> OpNegotiate" for k
    using server.transfer_carries(2) [OF that _ assms, of L] server.transfer_carries(1) [OF that _ assms, of L]
    by (cases "server_op L k (w, s)") auto
  from step [of "OpReceive buf"] step [of "OpSend m"] step [of OpShutdown]
  show "carries D peer (ts_session s) (fst (server_receive L w s buf))" "carries D peer (ts_session s) (fst (server_send L w s m))"
    "carries D peer (ts_session s) (fst (server_shutdown w s))"
    by (simp_all add: server_op_def split: prod.splits)
qed

lemma tls_echo_client_attested:
  assumes "carries D peer (tc_session c) w"
  shows "attested_history D peer (events (fst (tls_echo_client L rnd c w)))"
proof -
  let ?P = "\<lambda>(w, c'). c' = c \<and> carries D peer (tc_session c) w"
  let ?receive = "\<lambda>buf (w, c). case client_receive L w c buf of (w, buf, r) \<Rightarrow> ((w, c), buf, r)"
  let ?send = "\<lambda>m (w, c). case client_send L w c m of (w, r) \<Rightarrow> ((w, c), r)"
  let ?shutdown = "\<lambda>(w, c). case client_shutdown w c of (w, r) \<Rightarrow> ((w, c), r)"
  have "?P (fst (echo_client ?receive ?send ?shutdown rnd 1024 (w, c)))"
  proof (rule echo_client_keeps)
    fix buf x assume "?P x"
    with client_transfer_carries(1) [of D peer c "fst x" L buf] show "?P (fst (?receive buf x))" by (cases x) (auto split: prod.splits)
  next
    fix m x assume "?P x"
    with client_transfer_carries(2) [of D peer c "fst x" L m] show "?P (fst (?send m x))" by (cases x) (auto split: prod.splits)
  next
    fix x assume "?P x"
    with client_transfer_carries(3) [of D peer c "fst x"] show "?P (fst (?shutdown x))" by (cases x) (auto split: prod.splits)
  qed (use assms in simp)
  then show ?thesis
    by (cases "echo_client ?receive ?send ?shutdown rnd 1024 (w, c)") (auto simp: tls_echo_client_def drop_quiet carries_def)
qed

lemma tls_echo_server_attested:
  assumes "carries D peer (ts_session s) w"
  shows "attested_history D peer (events (fst (tls_echo_server L s w)))"
proof -
  let ?P = "\<lambda>(w, s'). s' = s \<and> carries D peer (ts_session s) w"
  let ?receive = "\<lambda>buf (w, s). case server_receive L w s buf of (w, buf, r) \<Rightarrow> ((w, s), buf, r)"
  let ?send = "\<lambda>m (w, s). case server_send L w s m of (w, r) \<Rightarrow> ((w, s), r)"
  let ?shutdown = "\<lambda>(w, s). case server_shutdown w s of (w, r) \<Rightarrow> ((w, s), r)"
  have "?P (fst (echo_server ?receive ?send ?shutdown 1024 (w, s)))"
  proof (rule echo_server_keeps)
    fix buf x assume "?P x"
    with server_transfer_carries(1) [of D peer s "fst x" L buf] show "?P (fst (?receive buf x))" by (cases x) (auto split: prod.splits)
  next
    fix m x assume "?P x"
    with server_transfer_carries(2) [of D peer s "fst x" L m] show "?P (fst (?send m x))" by (cases x) (auto split: prod.splits)
  next
    fix x assume "?P x"
    with server_transfer_carries(3) [of D peer s "fst x"] show "?P (fst (?shutdown x))" by (cases x) (auto split: prod.splits)
  qed (use assms in simp)
  then show ?thesis
    by (cases "echo_server ?receive ?send ?shutdown 1024 (w, s)") (auto simp: tls_echo_server_def drop_quiet carries_def)
qed

lemma fresh_session_carries:
  assumes "events w = Handshake role s 1 # es" and "peer es s = Some der" and "verify_cert_der D der = Ok claims"
    and "attested_history D peer (events w)"
  shows "carries D peer (Some s) w"
  unfolding carries_def attested_session_def using assms by (auto intro!: exI [of _ "[]"])

lemma tls_client_run_attested:
  assumes "openssl_verifies D user L invocations peer" and "attested_history D peer (events w)"
  shows "attested_history D peer (events (fst (with_tls_tcp_client D L A g attest_self (tls_echo_client L rnd) connected w)))"
proof (cases connected)
  case (Some fd)
  let ?b = "client_with_tcp_stream (client_with_attest_self client_builder_new attest_self) fd"
  obtain w1 r1 where b: "client_build D L A g w ?b = (w1, r1)" by fastforce
  have w1: "attested_history D peer (events w1)" using assms(2) client_build_quiet [OF b] by simp
  show ?thesis
  proof (cases "\<exists>c. r1 = Ok c")
    case True
    then obtain c where c: "r1 = Ok c" by blast
    have verify: "tc_verify c = Some VerifyCertificateDefault"
      using b [unfolded c]
      by (cases rule: client_build_cases)
        (simp_all add: client_with_tcp_stream_def client_with_attest_self_def client_builder_new_def)
    obtain w2 c2 r2 where n: "client_negotiate L w1 c = (w2, c2, r2)" using prod_cases3 by blast
    have w2: "attested_history D peer (events w2)"
      using w1 client.negotiate_quiet [of L w1 c w2 c2 D peer] n by (simp add: client_op_def)
    show ?thesis
    proof (cases "r2 = Ok ()")
      case True
      with assms(1) verify n obtain s es der claims where "tc_session c2 = Some s" "events w2 = Handshake TlsClient s 1 # es"
        "peer es s = Some der" "verify_cert_der D der = Ok claims" by (auto elim: client_negotiate_attested)
      with fresh_session_carries [OF this(2-4) w2] have "carries D peer (tc_session c2) w2" by simp
      from tls_echo_client_attested [OF this] True n b c Some show ?thesis by (simp add: with_tls_tcp_client_def)
    qed (use n b c Some w2 in \<open>simp add: with_tls_tcp_client_def drop_quiet\<close>)
  next
    case False
    with b Some w1 show ?thesis by (cases r1) (simp_all add: with_tls_tcp_client_def)
  qed
qed (use assms(2) in \<open>simp add: with_tls_tcp_client_def\<close>)

lemma tls_serve_one_attested:
  assumes "openssl_verifies D user L invocations peer" and "attested_history D peer (events w)"
  shows "attested_history D peer (events (fst (tls_serve_one D L A g True (\<lambda>i. tls_echo_server L) i conn w)))"
proof -
  obtain fd known where conn: "conn = (fd, known)" by fastforce
  let ?b = "server_with_tcp_stream (server_with_verify_peer server_builder_new True) fd"
  obtain w1 r1 where b: "server_build D L A (g i) w ?b = (w1, r1)" by fastforce
  have w1: "attested_history D peer (events w1)" using assms(2) server_build_quiet [OF b] by simp
  show ?thesis
  proof (cases "known \<and> (\<exists>s. r1 = Ok s)")
    case True
    then obtain s where s: "r1 = Ok s" "known" by blast
    have verify: "ts_verify s = Some VerifyCertificateDefault"
      using b [unfolded s(1)]
      by (cases rule: server_build_cases)
        (simp_all add: server_with_tcp_stream_def server_with_verify_peer_def server_builder_new_def)
    obtain w2 s2 r2 where n: "server_negotiate L w1 s = (w2, s2, r2)" using prod_cases3 by blast
    have w2: "attested_history D peer (events w2)"
      using w1 server.negotiate_quiet [of L w1 s w2 s2 D peer] n by (simp add: server_op_def)
    show ?thesis
    proof (cases "r2 = Ok ()")
      case True
      with assms(1) verify n obtain x es der claims where "ts_session s2 = Some x" "events w2 = Handshake TlsServer x 1 # es"
        "peer es x = Some der" "verify_cert_der D der = Ok claims" by (auto elim: server_negotiate_attested)
      with fresh_session_carries [OF this(2-4) w2] have "carries D peer (ts_session s2) w2" by simp
      from tls_echo_server_attested [OF this, of L] True n b s conn show ?thesis
        by (cases "tls_echo_server L s2 w2") (simp add: tls_serve_one_def)
    qed (use n b s conn w2 in \<open>simp add: tls_serve_one_def drop_quiet\<close>)
  next
    case False
    with b conn w1 assms(2) show ?thesis by (cases known; cases r1) (simp_all add: tls_serve_one_def)
  qed
qed

lemma tls_server_run_attested:
  assumes "openssl_verifies D user L invocations peer" and "attested_history D peer (events w)"
  shows "attested_history D peer (events (fst (with_tls_tcp_server D L A g True (\<lambda>i. tls_echo_server L) conns w)))"
  unfolding with_tls_tcp_server_def
  by (rule accept_loop_keeps [where P = "\<lambda>w. attested_history D peer (events w)"])
    (use assms in \<open>auto intro: tls_serve_one_attested\<close>)

lemma tls_client_program_attested:
  assumes "openssl_verifies (tw_deps V) user (tw_ossl V) invocations peer" and "attested_history (tw_deps V) peer (events w)"
  shows "attested_history (tw_deps V) peer (events (fst (tls_client_program V opts w)))"
proof -
  obtain w' r where "with_tls_tcp_client (tw_deps V) (tw_ossl V) (tw_attester V) (tw_rng V 0) (co_attest_self opts)
      (tls_echo_client (tw_ossl V) (tw_random V)) (tw_connect V (co_connect_to_tcp opts)) w = (w', r)" by fastforce
  with tls_client_run_attested [OF assms, of "tw_attester V" "tw_rng V 0" "co_attest_self opts" "tw_random V"
      "tw_connect V (co_connect_to_tcp opts)"] show ?thesis by (simp add: tls_client_program_def)
qed

lemma tls_server_program_attested:
  assumes "openssl_verifies (tw_deps V) user (tw_ossl V) invocations peer" and "attested_history (tw_deps V) peer (events w)"
    and "so_verify_peer opts"
  shows "attested_history (tw_deps V) peer (events (fst (tls_server_program V opts w)))"
proof (cases "tw_listen V (so_listen_on_tcp opts)")
  case (Some conns)
  obtain w' xs out where run: "with_tls_tcp_server (tw_deps V) (tw_ossl V) (tw_attester V) (tw_rng V) True
      (\<lambda>i. tls_echo_server (tw_ossl V)) conns w = (w', xs, out)" using prod_cases3 by blast
  with Some assms(3) tls_server_run_attested [OF assms(1,2), of "tw_attester V" "tw_rng V" conns] show ?thesis
    by (simp add: tls_server_program_def)
qed (use assms(2) in \<open>simp add: tls_server_program_def\<close>)

subsection \<open>rustls\<close>

record ('r, 'w, 'e) rustls_world =
  rw_clap :: clap
  rw_deps :: deps
  rw_lib :: "('r, 'w) rustls_lib"
  rw_io :: "('r, 'w) rustls_io"
  rw_attester :: "'e attester"
  rw_rng :: "nat \<Rightarrow> rng"
  rw_root_rng :: "nat \<Rightarrow> rng"
  rw_random :: "nat \<Rightarrow> bytes"
  rw_listen :: "string \<Rightarrow> socket option list option"

definition rustls_client_program :: "('r, 'w, 'e) rustls_world \<Rightarrow> common_client_options \<Rightarrow> ('r, 'w) rustls_server list \<times> loop_outcome" where
  "rustls_client_program R opts =
     ([], Returned (with_rustls_tcp_client (rw_deps R) (rw_lib R) (rw_io R) (rw_attester R) (rw_rng R 0) (rw_root_rng R 0)
        (co_connect_to_tcp opts) (co_attest_self opts) (rustls_echo_client (rw_lib R) (rw_random R))))"

definition rustls_server_program :: "('r, 'w, 'e) rustls_world \<Rightarrow> common_server_options \<Rightarrow> ('r, 'w) rustls_server list \<times> loop_outcome" where
  "rustls_server_program R opts =
     (case rw_listen R (so_listen_on_tcp opts) of
        None \<Rightarrow> ([], Returned Panic)
      | Some conns \<Rightarrow>
          with_rustls_tcp_server (rw_deps R) (rw_lib R) (rw_io R) (rw_attester R) (rw_rng R) (rw_root_rng R)
            (so_verify_peer opts) (\<lambda>i. rustls_echo_server (rw_lib R)) conns)"

definition rustls_main :: "('r, 'w, 'e) rustls_world \<Rightarrow> string list \<Rightarrow> (('r, 'w) rustls_server list \<times> loop_outcome) option" where
  "rustls_main R argv =
     map_option (\<lambda>cmd. case cmd of
         EchoClient opts \<Rightarrow> rustls_client_program R opts
       | EchoServer opts \<Rightarrow> rustls_server_program R opts)
     (parse_rustls (rw_clap R) argv)"

definition accepted_socket :: "deps \<Rightarrow> (socket \<Rightarrow> bytes) \<Rightarrow> socket \<Rightarrow> bool" where
  "accepted_socket D presented sock \<longleftrightarrow> (\<exists>claims. verify_cert_der D (presented sock) = Ok claims)"

lemma rustls_client_run_attested:
  assumes "rustls_verifies D L IO presented" and "with_rustls_tcp_client D L IO A g g' addr attest_self func = Ok ()"
  shows "\<exists>sock. tcp_connect L addr = Inr sock \<and> accepted_socket D presented sock"
proof -
  from assms(2) obtain c where c: "rustls_client_new D L A g g' addr attest_self = Ok c" by (auto simp: with_rustls_tcp_client_def)
  obtain c' r where n: "rustls_client_negotiate L IO c = (c', r)" by fastforce
  with assms(2) c have "r = Ok ()" by (simp add: with_rustls_tcp_client_def)
  with rustls_client_attested [OF assms(1) c] n show ?thesis by (auto simp: accepted_socket_def)
qed

lemma rustls_server_run_attested:
  assumes "rustls_verifies D L IO presented" and "with_rustls_tcp_server D L IO A g g' True func conns = (xs, out)"
  shows "length xs \<le> length conns \<and> (\<forall>c \<in> set (take (length xs) conns). \<exists>sock. c = Some sock \<and> accepted_socket D presented sock)"
proof -
  let ?serve = "rustls_serve_one D L IO A g g' True func"
  from assms(2) obtain w where run: "accept_loop ''{}'' ?serve 0 conns () = (w, xs, out)"
    by (cases "accept_loop ''{}'' ?serve 0 conns ()") (simp add: with_rustls_tcp_server_def)
  show ?thesis
  proof (rule accept_loop_serves_first [where serve = ?serve, OF _ _ run])
    fix i sock w w' a out
    assume "?serve i sock w = (w', Some a, out)"
    then obtain s where "rustls_server_new D L A (g i) (g' i) sock True = Ok s" "rustls_server_negotiate IO s = (a, Ok ())"
      by (auto simp: rustls_serve_one_def split: res.splits prod.splits if_splits)
    from rustls_server_attested [OF assms(1) this] show "accepted_socket D presented sock" by (auto simp: accepted_socket_def)
  next
    fix i sock w w' r
    assume "?serve i sock w = (w', None, Some r)"
    then show "r \<noteq> Ok ()" by (auto simp: rustls_serve_one_def split: res.splits prod.splits if_splits)
  qed
qed

subsection \<open>Property\<close>

text \<open>
  C10. The TLS programs, from their command lines on. When the command line asks for the verification of the
  peer, by \<open>--verify-peer\<close> or, for a client, by default, the OpenSSL program makes every call that moves data
  (\<open>SSL_write\<close>, \<open>SSL_read\<close>, \<open>SSL_shutdown\<close>) on a session whose last handshake was with a peer whose certificate
  \<open>verify_cert_der\<close> accepts and that was not freed or made anew since, over all connections the server takes.
  The rustls client ends normally only if the peer it connected to has such a certificate; the rustls server
  hands on only endpoints to the first connections, all of which have one.
\<close>

theorem tls_programs_attested:
  fixes V :: "'e tls_world" and R :: "('r, 'w, 'f) rustls_world"
  assumes "clap_ok (tw_clap V)" and "openssl_verifies (tw_deps V) user (tw_ossl V) invocations peer"
    and "clap_ok (rw_clap R)" and "rustls_verifies (rw_deps R) (rw_lib R) (rw_io R) presented"
    and "flag_reading toks ''verify-peer'' (name = ''echo-client'')"
  shows "(\<forall>w w' out. attested_history (tw_deps V) peer (events w) \<and> tls_main V (name # toks) w = Some (w', out) \<longrightarrow>
      attested_history (tw_deps V) peer (events w')) \<and>
    (\<forall>xs out. rustls_main R (name # toks) = Some (xs, out) \<longrightarrow>
      (name = ''echo-client'' \<and> out = Returned (Ok ()) \<longrightarrow>
         (\<exists>addr sock. tcp_connect (rw_lib R) addr = Inr sock \<and> accepted_socket (rw_deps R) presented sock)) \<and>
      (xs \<noteq> [] \<longrightarrow> name = ''echo-server'' \<and>
         (\<exists>addr conns. rw_listen R addr = Some conns \<and> length xs \<le> length conns \<and>
            (\<forall>c \<in> set (take (length xs) conns). \<exists>sock. c = Some sock \<and> accepted_socket (rw_deps R) presented sock))))"
proof (intro conjI allI impI)
  fix w w' out
  assume a: "attested_history (tw_deps V) peer (events w) \<and> tls_main V (name # toks) w = Some (w', out)"
  then obtain cmd where cmd: "parse_tls (tw_clap V) (name # toks) = Some cmd" by (auto simp: tls_main_def)
  from parse_echo_reads [OF assms(1) cmd [unfolded parse_tls_def]] have reads: "tls_command_reads (name # toks) cmd" by simp
  show "attested_history (tw_deps V) peer (events w')"
  proof (cases cmd)
    case (EchoClient opts)
    with a cmd tls_client_program_attested [OF assms(2), of w opts] show ?thesis by (simp add: tls_main_def)
  next
    case (EchoServer opts)
    with reads assms(5) have "so_verify_peer opts" by (auto simp: server_reads_def)
    with a cmd EchoServer tls_server_program_attested [OF assms(2), of w opts] show ?thesis by (simp add: tls_main_def)
  qed
next
  fix xs out
  assume main: "rustls_main R (name # toks) = Some (xs, out)" and c: "name = ''echo-client'' \<and> out = Returned (Ok ())"
  then obtain cmd where cmd: "parse_rustls (rw_clap R) (name # toks) = Some cmd" by (auto simp: rustls_main_def)
  from parse_echo_reads [OF assms(3) cmd [unfolded parse_rustls_def]] c obtain opts where "cmd = EchoClient opts" by (cases cmd) auto
  with main cmd c have run: "with_rustls_tcp_client (rw_deps R) (rw_lib R) (rw_io R) (rw_attester R) (rw_rng R 0) (rw_root_rng R 0)
      (co_connect_to_tcp opts) (co_attest_self opts) (rustls_echo_client (rw_lib R) (rw_random R)) = Ok ()"
    by (simp add: rustls_main_def rustls_client_program_def)
  from rustls_client_run_attested [OF assms(4) run]
  show "\<exists>addr sock. tcp_connect (rw_lib R) addr = Inr sock \<and> accepted_socket (rw_deps R) presented sock" by blast
next
  fix xs out
  assume main: "rustls_main R (name # toks) = Some (xs, out)" and ne: "xs \<noteq> []"
  then obtain cmd where cmd: "parse_rustls (rw_clap R) (name # toks) = Some cmd" by (auto simp: rustls_main_def)
  from main cmd ne obtain opts where opts: "cmd = EchoServer opts" by (cases cmd) (auto simp: rustls_main_def rustls_client_program_def)
  with parse_echo_reads [OF assms(3) cmd [unfolded parse_rustls_def]] have name: "name = ''echo-server''" "server_reads toks opts" by auto
  show "name = ''echo-server''" by (rule name(1))
  have "so_verify_peer opts" using name assms(5) by (simp add: server_reads_def)
  with main cmd opts ne obtain conns where "rw_listen R (so_listen_on_tcp opts) = Some conns"
    "with_rustls_tcp_server (rw_deps R) (rw_lib R) (rw_io R) (rw_attester R) (rw_rng R) (rw_root_rng R) True
       (\<lambda>i. rustls_echo_server (rw_lib R)) conns = (xs, out)"
    by (auto simp: rustls_main_def rustls_server_program_def split: option.splits)
  with rustls_server_run_attested [OF assms(4) this(2)]
  show "\<exists>addr conns. rw_listen R addr = Some conns \<and> length xs \<le> length conns \<and>
      (\<forall>c \<in> set (take (length xs) conns). \<exists>sock. c = Some sock \<and> accepted_socket (rw_deps R) presented sock)" by blast
qed

text \<open>A client that verifies its peer, over the reference libraries.\<close>

definition sample_tls_world :: "auto_evidence tls_world" where
  "sample_tls_world = \<lparr>tw_clap = ref_clap, tw_deps = ref_deps, tw_ossl = sample_ossl, tw_attester = sample_attester,
     tw_rng = (\<lambda>_. 0), tw_random = (\<lambda>_. [7]), tw_listen = (\<lambda>_. Some []), tw_connect = (\<lambda>_. Some 5)\<rparr>"

definition sample_rustls_world :: "(unit, bytes, auto_evidence) rustls_world" where
  "sample_rustls_world = \<lparr>rw_clap = ref_clap, rw_deps = ref_deps, rw_lib = sample_rustls, rw_io = sample_rustls_io,
     rw_attester = sample_attester, rw_rng = (\<lambda>_. 0), rw_root_rng = (\<lambda>_. 0), rw_random = (\<lambda>_. [7]), rw_listen = (\<lambda>_. Some [])\<rparr>"

lemma sample_echo_command:
  "parse_tls ref_clap [''echo-client'', ''--connect-to-tcp=h'', ''--verify-peer''] =
     Some (EchoClient \<lparr>co_attest_self = False, co_verify_peer = True, co_connect_to_tcp = ''h''\<rparr>)"
  "parse_rustls ref_clap [''echo-client'', ''--connect-to-tcp=h'', ''--verify-peer''] =
     Some (EchoClient \<lparr>co_attest_self = False, co_verify_peer = True, co_connect_to_tcp = ''h''\<rparr>)"
  by code_simp+

lemma sample_echo_panics:
  "tls_echo_client sample_ossl (\<lambda>_. [7])
     \<lparr>tc_ctx = 2, tc_session = Some 4, tc_verify = Some VerifyCertificateDefault, tc_fd = 5, tc_attest_self = False\<rparr> \<lparr>events = es, START = b\<rparr> =
   (\<lparr>events = CtxFree 2 # SslFree 4 # SslRead 4 1 0 # SslWrite 4 [7] 1 1 # es, START = b\<rparr>, Panic)"
proof -
  obtain n where n: "ECHO_ROUNDS = Suc n" by (cases ECHO_ROUNDS) (simp_all add: ECHO_ROUNDS_def)
  show ?thesis
    unfolding tls_echo_client_def echo_client_def n ping_rounds.simps
    by (simp add: client_send_def client_receive_def client_drop_def sample_ossl_def log_event_def Let_def)
qed

lemma sample_negotiate:
  "client_negotiate sample_ossl \<lparr>events = [CtxNew TlsClient 2, InitSsl 0], START = True\<rparr>
     \<lparr>tc_ctx = 2, tc_session = None, tc_verify = Some VerifyCertificateDefault, tc_fd = 5, tc_attest_self = False\<rparr> =
   (\<lparr>events = [Handshake TlsClient 4 1, ClearError, SetFd 4 5 1, SetExData 2, SslNew 2 4, SetVerify 2 SSL_VERIFY_PEER VerifyCertificateDefault,
      CtxNew TlsClient 2, InitSsl 0], START = True\<rparr>,
    \<lparr>tc_ctx = 2, tc_session = Some 4, tc_verify = Some VerifyCertificateDefault, tc_fd = 5, tc_attest_self = False\<rparr>, Ok ())"
  by (simp add: client_negotiate_def sample_ossl_def log_event_def Let_def eval_nat_numeral)

lemma sample_tls_run:
  "\<exists>es. tls_main sample_tls_world (''echo-client'' # [''--connect-to-tcp=h'', ''--verify-peer'']) fresh_process =
     Some (\<lparr>events = CtxFree 2 # SslFree 4 # SslRead 4 1 0 # SslWrite 4 [7] 1 1 # Handshake TlsClient 4 1 # es, START = True\<rparr>, Returned Panic)"
  using sample_client_build [of ref_deps sample_attester 0]
  by (simp add: tls_main_def sample_tls_world_def sample_echo_command tls_client_program_def with_tls_tcp_client_def
      client_with_attest_self_def client_with_tcp_stream_def client_builder_new_def sample_negotiate sample_echo_panics)

theorem tls_programs_attested_witness:
  "\<exists>w out der claims. tls_main sample_tls_world [''echo-client'', ''--connect-to-tcp=h'', ''--verify-peer''] fresh_process = Some (w, out) \<and>
     SslWrite 4 [7] 1 1 \<in> set (events w) \<and> verify_cert_der ref_deps der = Ok claims \<and>
     attested_history ref_deps (\<lambda>_ _. Some der) (events w)"
proof -
  let ?toks = "[''--connect-to-tcp=h'', ''--verify-peer'']"
  obtain user invocations der claims where lib: "openssl_verifies ref_deps user sample_ossl invocations (\<lambda>_ _. Some der)"
    and ok: "verify_cert_der ref_deps der = Ok claims" by (rule sample_ossl_verifies)
  obtain der' where lib': "rustls_verifies ref_deps sample_rustls sample_rustls_io (\<lambda>_. der')"
    using sample_rustls_verifies by blast
  obtain es where run: "tls_main sample_tls_world (''echo-client'' # ?toks) fresh_process =
     Some (\<lparr>events = CtxFree 2 # SslFree 4 # SslRead 4 1 0 # SslWrite 4 [7] 1 1 # Handshake TlsClient 4 1 # es, START = True\<rparr>, Returned Panic)"
    using sample_tls_run by blast
  have world: "tw_clap sample_tls_world = ref_clap" "tw_deps sample_tls_world = ref_deps" "tw_ossl sample_tls_world = sample_ossl"
    "rw_clap sample_rustls_world = ref_clap" "rw_deps sample_rustls_world = ref_deps" "rw_lib sample_rustls_world = sample_rustls"
    "rw_io sample_rustls_world = sample_rustls_io"
    by (simp_all add: sample_tls_world_def sample_rustls_world_def)
  have flag: "flag_reading ?toks ''verify-peer'' (''echo-client'' = ''echo-client'')" by (simp add: flag_reading_def)
  note attested = tls_programs_attested [where V = sample_tls_world and R = sample_rustls_world, unfolded world,
      OF ref_clap_ok lib ref_clap_ok lib' flag]
  have "attested_history ref_deps (\<lambda>_ _. Some der) (events fresh_process)" by (simp add: fresh_process_def)
  with run have "attested_history ref_deps (\<lambda>_ _. Some der) (events fresh_process) \<and> tls_main sample_tls_world (''echo-client'' # ?toks)
     fresh_process = Some (\<lparr>events = CtxFree 2 # SslFree 4 # SslRead 4 1 0 # SslWrite 4 [7] 1 1 # Handshake TlsClient 4 1 # es, START = True\<rparr>,
       Returned Panic)" by blast
  from attested [THEN conjunct1, rule_format, OF this]
  have "attested_history ref_deps (\<lambda>_ _. Some der) (CtxFree 2 # SslFree 4 # SslRead 4 1 0 # SslWrite 4 [7] 1 1 # Handshake TlsClient 4 1 # es)"
    by simp
  with run ok show ?thesis by auto
qed

end
