(* ===== verification/Hook.thy ===== *)
theory Hook
  imports SampleCert Tls
begin

text \<open>
  \<^verbatim>\<open>examples/openssl-hook/src/lib.rs\<close>: a library preloaded into a program that uses OpenSSL. It exports
  OpenSSL's own names: a call that would set a certificate or a key sets attested ones instead, and a call
  that sets the verification or starts a handshake puts in the crate's verification callback. The real
  functions are looked up with \<open>dlsym\<close>.

  The world is the list of the calls made on the real OpenSSL, newest first, with the address called; the
  parameter \<open>hook_lib\<close> answers them, and the getters, from all calls before.
\<close>

datatype ossl_object = Ssl ptr | SslCtx ptr

datatype hook_event =
    CallSetVerify ptr ossl_object c_int "verify_cb option"
  | CallHandshake ptr ptr c_int
  | CallUseCertificate ptr ossl_object bytes c_int c_int
  | CallUsePrivateKey ptr ossl_object c_int bytes c_int
  | CallSetCertVerifyCallback ptr ptr
  | StoreSetExData ptr
  | HookClearError

type_synonym calls = "hook_event list"

record hook_lib =
  dlsym :: "string \<Rightarrow> ptr \<times> string option"
  get_verify_callback :: "calls \<Rightarrow> ossl_object \<Rightarrow> verify_cb option"
  get_verify_mode :: "calls \<Rightarrow> ossl_object \<Rightarrow> c_int"
  get_ssl_ctx :: "calls \<Rightarrow> ptr \<Rightarrow> ptr"
  real_use_certificate :: "calls \<Rightarrow> ossl_object \<Rightarrow> bytes \<Rightarrow> c_int \<Rightarrow> c_int"
  real_use_private_key :: "calls \<Rightarrow> ossl_object \<Rightarrow> c_int \<Rightarrow> bytes \<Rightarrow> c_int"
  real_handshake :: "calls \<Rightarrow> ptr \<Rightarrow> ptr \<Rightarrow> c_int"

subsection \<open>The table of real functions\<close>

record ossl_ctx =
  ssl_ctx_set_verify :: "ptr option"
  ssl_set_verify :: "ptr option"
  ssl_accept :: "ptr option"
  ssl_connect :: "ptr option"
  ssl_use_certificate_asn1 :: "ptr option"
  ssl_use_privatekey_asn1 :: "ptr option"
  ssl_ctx_use_privatekey_asn1 :: "ptr option"
  ssl_ctx_use_certificate_asn1 :: "ptr option"
  ssl_ctx_set_cert_verify_callback :: "ptr option"

definition ossl_ctx_default :: ossl_ctx where
  "ossl_ctx_default = \<lparr>ssl_ctx_set_verify = None, ssl_set_verify = None, ssl_accept = None, ssl_connect = None,
     ssl_use_certificate_asn1 = None, ssl_use_privatekey_asn1 = None, ssl_ctx_use_privatekey_asn1 = None,
     ssl_ctx_use_certificate_asn1 = None, ssl_ctx_set_cert_verify_callback = None\<rparr>"

text \<open>The second component of \<open>dlsym\<close> is \<open>dlerror\<close> after it.\<close>

definition dlsym_load :: "hook_lib \<Rightarrow> string \<Rightarrow> ptr res" where
  "dlsym_load L name_str =
     (case dlsym L name_str of
        (f, Some e) \<Rightarrow> Err (error_of_msg ''Failed to find symbol with dlsym {}: {}'')
      | (f, None) \<Rightarrow> (if f = 0 then Err (error_of_msg ''Symbol not resolved by dlsym {}'') else Ok f))"

definition init_openssl_ctx :: "hook_lib \<Rightarrow> ossl_ctx res" where
  "init_openssl_ctx L =
     andthen (dlsym_load L ''SSL_accept'') (\<lambda>accept.
     andthen (dlsym_load L ''SSL_connect'') (\<lambda>connect.
     andthen (dlsym_load L ''SSL_set_verify'') (\<lambda>set_verify.
     andthen (dlsym_load L ''SSL_CTX_set_verify'') (\<lambda>ctx_set_verify.
     andthen (dlsym_load L ''SSL_CTX_use_certificate_ASN1'') (\<lambda>ctx_use_certificate.
     andthen (dlsym_load L ''SSL_CTX_use_PrivateKey_ASN1'') (\<lambda>ctx_use_privatekey.
     andthen (dlsym_load L ''SSL_use_PrivateKey_ASN1'') (\<lambda>use_privatekey.
     andthen (dlsym_load L ''SSL_use_certificate_ASN1'') (\<lambda>use_certificate.
     andthen (dlsym_load L ''SSL_CTX_set_cert_verify_callback'') (\<lambda>set_cert_verify.
     Ok \<lparr>ssl_ctx_set_verify = Some ctx_set_verify, ssl_set_verify = Some set_verify, ssl_accept = Some accept,
         ssl_connect = Some connect, ssl_use_certificate_asn1 = Some use_certificate, ssl_use_privatekey_asn1 = Some use_privatekey,
         ssl_ctx_use_privatekey_asn1 = Some ctx_use_privatekey, ssl_ctx_use_certificate_asn1 = Some ctx_use_certificate,
         ssl_ctx_set_cert_verify_callback = Some set_cert_verify\<rparr>)))))))))"

text \<open>The lazy static: without all symbols the table is empty, and every \<open>unwrap\<close> of it panics.\<close>

definition OSSL_CTX :: "hook_lib \<Rightarrow> ossl_ctx" where
  "OSSL_CTX L = (case init_openssl_ctx L of Ok ctx \<Rightarrow> ctx | _ \<Rightarrow> ossl_ctx_default)"

definition unwrap :: "'a option \<Rightarrow> 'a res" where
  "unwrap x = (case x of Some y \<Rightarrow> Ok y | None \<Rightarrow> Panic)"

lemma unwrap_simps [simp]: "unwrap (Some x) = Ok x" "unwrap None = Panic"
  by (simp_all add: unwrap_def)

subsection \<open>Verifier and attester of an object\<close>

definition setup_ssl_verifier :: "hook_lib \<Rightarrow> calls \<Rightarrow> ossl_object \<Rightarrow> calls \<times> unit res" where
  "setup_ssl_verifier L w obj =
     (case obj of
        Ssl ssl \<Rightarrow>
          (let old_cb = get_verify_callback L w (Ssl ssl);
               ctx = get_ssl_ctx L w ssl;
               verify_mode = get_verify_mode L w (Ssl ssl)
           in if old_cb = Some VerifyCertificateDefault then (w, Ok ())
              else (let w = StoreSetExData ctx # w
                    in w_then (w, unwrap (ssl_set_verify (OSSL_CTX L))) (\<lambda>w f.
                       let w = CallSetVerify f (Ssl ssl) verify_mode (Some VerifyCertificateDefault) # w
                       in w_then (w, unwrap (ssl_ctx_set_cert_verify_callback (OSSL_CTX L))) (\<lambda>w f.
                          (CallSetCertVerifyCallback f ctx # w, Ok ())))))
      | SslCtx ctx \<Rightarrow>
          (let old_cb = get_verify_callback L w (SslCtx ctx);
               verify_mode = get_verify_mode L w (SslCtx ctx)
           in if old_cb = Some VerifyCertificateDefault then (w, Ok ())
              else (let w = StoreSetExData ctx # w
                    in w_then (w, unwrap (ssl_ctx_set_verify (OSSL_CTX L))) (\<lambda>w f.
                       let w = CallSetVerify f (SslCtx ctx) verify_mode (Some VerifyCertificateDefault) # w
                       in w_then (w, unwrap (ssl_ctx_set_cert_verify_callback (OSSL_CTX L))) (\<lambda>w f.
                          (CallSetCertVerifyCallback f ctx # w, Ok ()))))))"

text \<open>One real call that installs a certificate or a key; an answer other than 1 is an error.\<close>

definition install_certificate :: "hook_lib \<Rightarrow> calls \<Rightarrow> ptr option \<Rightarrow> ossl_object \<Rightarrow> bytes \<Rightarrow> calls \<times> unit res" where
  "install_certificate L w fn obj cert =
     w_then (w, unwrap fn) (\<lambda>w f.
       let len = word_of_nat (length cert);
           res = real_use_certificate L w obj cert len;
           w = CallUseCertificate f obj cert len res # w
       in if res \<noteq> 1 then (w, Err (error_of_msg ''Failed to setup certificate: {}'')) else (w, Ok ()))"

definition install_private_key :: "hook_lib \<Rightarrow> calls \<Rightarrow> ptr option \<Rightarrow> ossl_object \<Rightarrow> c_int \<Rightarrow> bytes \<Rightarrow> calls \<times> unit res" where
  "install_private_key L w fn obj epkey pkey =
     w_then (w, unwrap fn) (\<lambda>w f.
       let res = real_use_private_key L w obj epkey pkey;
           w = CallUsePrivateKey f obj epkey pkey res # w
       in if res \<noteq> 1 then (w, Err (error_of_msg ''Failed to setup privatekey: {}'')) else (w, Ok ()))"

definition setup_ssl_attester :: "deps \<Rightarrow> hook_lib \<Rightarrow> 'e attester \<Rightarrow> rng \<Rightarrow> calls \<Rightarrow> ossl_object \<Rightarrow> calls \<times> unit res" where
  "setup_ssl_attester D L attester g w obj =
     w_then (w, gen_private_key (lib_crypto D) g AlgoRsa2048) (\<lambda>w privkey.
     w_then (w, andthen (build_with_private_key D (cert_builder_new attester Sha256) privkey) (cert_to_der D)) (\<lambda>w cert.
     let epkey = (case privkey of P256 _ \<Rightarrow> EPV_PKEY_EC | _ \<Rightarrow> EPV_PKEY_RSA)
     in w_then (w, to_pkcs8_der (lib_crypto D) privkey) (\<lambda>w pkey.
        let w = HookClearError # w
        in case obj of
             Ssl ssl \<Rightarrow>
               w_then (install_certificate L w (ssl_use_certificate_asn1 (OSSL_CTX L)) (Ssl ssl) cert) (\<lambda>w _.
               install_private_key L w (ssl_use_privatekey_asn1 (OSSL_CTX L)) (Ssl ssl) epkey pkey)
           | SslCtx ctx \<Rightarrow>
               w_then (install_certificate L w (ssl_ctx_use_certificate_asn1 (OSSL_CTX L)) (SslCtx ctx) cert) (\<lambda>w _.
               install_private_key L w (ssl_ctx_use_privatekey_asn1 (OSSL_CTX L)) (SslCtx ctx) epkey pkey))))"

text \<open>The error is logged and becomes the answer 0.\<close>

definition answer :: "calls \<times> unit res \<Rightarrow> calls \<times> c_int res" where
  "answer x = (case x of
       (w, Ok _) \<Rightarrow> (w, Ok 1)
     | (w, Err _) \<Rightarrow> (w, Ok 0)
     | (w, Panic) \<Rightarrow> (w, Panic)
     | (w, UB) \<Rightarrow> (w, UB))"

definition setup_verifier_with_openssl_ssl_ctx_obj :: "hook_lib \<Rightarrow> calls \<Rightarrow> ptr \<Rightarrow> calls \<times> c_int res" where
  "setup_verifier_with_openssl_ssl_ctx_obj L w ctx = answer (setup_ssl_verifier L w (SslCtx ctx))"

definition setup_verifier_with_openssl_ssl_obj :: "hook_lib \<Rightarrow> calls \<Rightarrow> ptr \<Rightarrow> calls \<times> c_int res" where
  "setup_verifier_with_openssl_ssl_obj L w ssl = answer (setup_ssl_verifier L w (Ssl ssl))"

definition setup_attester_with_openssl_ssl_ctx_obj :: "deps \<Rightarrow> hook_lib \<Rightarrow> 'e attester \<Rightarrow> rng \<Rightarrow> calls \<Rightarrow> ptr \<Rightarrow> calls \<times> c_int res" where
  "setup_attester_with_openssl_ssl_ctx_obj D L attester g w ctx = answer (setup_ssl_attester D L attester g w (SslCtx ctx))"

definition setup_attester_with_openssl_ssl_obj :: "deps \<Rightarrow> hook_lib \<Rightarrow> 'e attester \<Rightarrow> rng \<Rightarrow> calls \<Rightarrow> ptr \<Rightarrow> calls \<times> c_int res" where
  "setup_attester_with_openssl_ssl_obj D L attester g w ssl = answer (setup_ssl_attester D L attester g w (Ssl ssl))"

subsection \<open>The exported functions of the verifier\<close>

definition hook_SSL_CTX_set_verify :: "hook_lib \<Rightarrow> calls \<Rightarrow> ptr \<Rightarrow> c_int \<Rightarrow> verify_cb option \<Rightarrow> calls \<times> unit res" where
  "hook_SSL_CTX_set_verify L w ctx mode verify_callback =
     w_then (w, unwrap (ssl_ctx_set_verify (OSSL_CTX L))) (\<lambda>w f.
     w_then (setup_verifier_with_openssl_ssl_ctx_obj L (CallSetVerify f (SslCtx ctx) mode verify_callback # w) ctx) (\<lambda>w _.
     (w, Ok ())))"

definition hook_SSL_set_verify :: "hook_lib \<Rightarrow> calls \<Rightarrow> ptr \<Rightarrow> c_int \<Rightarrow> verify_cb option \<Rightarrow> calls \<times> unit res" where
  "hook_SSL_set_verify L w ssl mode verify_callback =
     w_then (w, unwrap (ssl_set_verify (OSSL_CTX L))) (\<lambda>w f.
     w_then (setup_verifier_with_openssl_ssl_obj L (CallSetVerify f (Ssl ssl) mode verify_callback # w) ssl) (\<lambda>w _.
     (w, Ok ())))"

definition hook_SSL_accept :: "hook_lib \<Rightarrow> calls \<Rightarrow> ptr \<Rightarrow> calls \<times> c_int res" where
  "hook_SSL_accept L w ssl =
     w_then (setup_verifier_with_openssl_ssl_obj L w ssl) (\<lambda>w _.
     w_then (w, unwrap (ssl_accept (OSSL_CTX L))) (\<lambda>w f.
     let res = real_handshake L w f ssl in (CallHandshake f ssl res # w, Ok res)))"

text \<open>The code calls the accept function here too.\<close>

definition hook_SSL_connect :: "hook_lib \<Rightarrow> calls \<Rightarrow> ptr \<Rightarrow> calls \<times> c_int res" where
  "hook_SSL_connect L w ssl =
     w_then (setup_verifier_with_openssl_ssl_obj L w ssl) (\<lambda>w _.
     w_then (w, unwrap (ssl_accept (OSSL_CTX L))) (\<lambda>w f.
     let res = real_handshake L w f ssl in (CallHandshake f ssl res # w, Ok res)))"

definition hook_SSL_CTX_set_cert_verify_callback :: "hook_lib \<Rightarrow> calls \<Rightarrow> ptr \<Rightarrow> ptr \<Rightarrow> ptr \<Rightarrow> calls \<times> c_int res" where
  "hook_SSL_CTX_set_cert_verify_callback L w ctx cb arg = setup_verifier_with_openssl_ssl_ctx_obj L w ctx"

text \<open>
  \<open>cert_verify_callback\<close>: \<open>res\<close> and \<open>err\<close> are what \<open>X509_verify_cert\<close> returns and the error it leaves in the
  store context. The result is the answer, the error left in the store context and what
  \<open>SSL_set_verify_result\<close> is called with.
\<close>

definition X509_V_OK :: c_int where "X509_V_OK = 0"

definition cert_verify_callback :: "c_int \<times> c_int \<Rightarrow> c_int \<times> c_int \<times> c_int option" where
  "cert_verify_callback x = (case x of (res, err) \<Rightarrow>
     if err = X509_V_ERR_DEPTH_ZERO_SELF_SIGNED_CERT then (res, X509_V_OK, Some 0) else (res, err, None))"

text \<open>The constructor that runs when the library is loaded: an error of the initialisation is only logged.\<close>

definition hook_init :: "ossl_lib \<Rightarrow> ossl \<Rightarrow> ossl" where
  "hook_init L w = fst (ossl_init L w)"

lemma hook_init_again:
  "START (hook_init L w) \<and> events (hook_init L (hook_init L w)) = InitSsl 0 # events (hook_init L w)"
  by (simp add: hook_init_def ossl_init_def log_event_def Let_def)

subsection \<open>The exported functions of the attester\<close>

text \<open>All of them ignore the certificate or the key of the program. \<open>g\<close> is the random state of the call.\<close>

definition hook_SSL_CTX_use_certificate :: "deps \<Rightarrow> hook_lib \<Rightarrow> 'e attester \<Rightarrow> rng \<Rightarrow> calls \<Rightarrow> ptr \<Rightarrow> ptr \<Rightarrow> calls \<times> c_int res" where
  "hook_SSL_CTX_use_certificate D L attester g w ctx x = setup_attester_with_openssl_ssl_ctx_obj D L attester g w ctx"

definition hook_SSL_CTX_use_certificate_ASN1 :: "deps \<Rightarrow> hook_lib \<Rightarrow> 'e attester \<Rightarrow> rng \<Rightarrow> calls \<Rightarrow> ptr \<Rightarrow> c_int \<Rightarrow> ptr \<Rightarrow> calls \<times> c_int res" where
  "hook_SSL_CTX_use_certificate_ASN1 D L attester g w ctx len d = setup_attester_with_openssl_ssl_ctx_obj D L attester g w ctx"

definition hook_SSL_CTX_use_certificate_file :: "deps \<Rightarrow> hook_lib \<Rightarrow> 'e attester \<Rightarrow> rng \<Rightarrow> calls \<Rightarrow> ptr \<Rightarrow> ptr \<Rightarrow> c_int \<Rightarrow> calls \<times> c_int res" where
  "hook_SSL_CTX_use_certificate_file D L attester g w ctx file kind = setup_attester_with_openssl_ssl_ctx_obj D L attester g w ctx"

definition hook_SSL_use_certificate :: "deps \<Rightarrow> hook_lib \<Rightarrow> 'e attester \<Rightarrow> rng \<Rightarrow> calls \<Rightarrow> ptr \<Rightarrow> ptr \<Rightarrow> calls \<times> c_int res" where
  "hook_SSL_use_certificate D L attester g w ssl x = setup_attester_with_openssl_ssl_obj D L attester g w ssl"

definition hook_SSL_use_certificate_ASN1 :: "deps \<Rightarrow> hook_lib \<Rightarrow> 'e attester \<Rightarrow> rng \<Rightarrow> calls \<Rightarrow> ptr \<Rightarrow> ptr \<Rightarrow> c_int \<Rightarrow> calls \<times> c_int res" where
  "hook_SSL_use_certificate_ASN1 D L attester g w ssl d len = setup_attester_with_openssl_ssl_obj D L attester g w ssl"

definition hook_SSL_use_certificate_file :: "deps \<Rightarrow> hook_lib \<Rightarrow> 'e attester \<Rightarrow> rng \<Rightarrow> calls \<Rightarrow> ptr \<Rightarrow> ptr \<Rightarrow> c_int \<Rightarrow> calls \<times> c_int res" where
  "hook_SSL_use_certificate_file D L attester g w ssl file kind = setup_attester_with_openssl_ssl_obj D L attester g w ssl"

definition hook_SSL_CTX_use_certificate_chain_file :: "deps \<Rightarrow> hook_lib \<Rightarrow> 'e attester \<Rightarrow> rng \<Rightarrow> calls \<Rightarrow> ptr \<Rightarrow> ptr \<Rightarrow> calls \<times> c_int res" where
  "hook_SSL_CTX_use_certificate_chain_file D L attester g w ctx file = setup_attester_with_openssl_ssl_ctx_obj D L attester g w ctx"

definition hook_SSL_use_certificate_chain_file :: "deps \<Rightarrow> hook_lib \<Rightarrow> 'e attester \<Rightarrow> rng \<Rightarrow> calls \<Rightarrow> ptr \<Rightarrow> ptr \<Rightarrow> calls \<times> c_int res" where
  "hook_SSL_use_certificate_chain_file D L attester g w ssl file = setup_attester_with_openssl_ssl_obj D L attester g w ssl"

definition hook_SSL_CTX_use_PrivateKey :: "deps \<Rightarrow> hook_lib \<Rightarrow> 'e attester \<Rightarrow> rng \<Rightarrow> calls \<Rightarrow> ptr \<Rightarrow> ptr \<Rightarrow> calls \<times> c_int res" where
  "hook_SSL_CTX_use_PrivateKey D L attester g w ctx pkey = setup_attester_with_openssl_ssl_ctx_obj D L attester g w ctx"

definition hook_SSL_CTX_use_PrivateKey_ASN1 :: "deps \<Rightarrow> hook_lib \<Rightarrow> 'e attester \<Rightarrow> rng \<Rightarrow> calls \<Rightarrow> ptr \<Rightarrow> c_int \<Rightarrow> ptr \<Rightarrow> u64 \<Rightarrow> calls \<times> c_int res" where
  "hook_SSL_CTX_use_PrivateKey_ASN1 D L attester g w ctx pk d len = setup_attester_with_openssl_ssl_ctx_obj D L attester g w ctx"

definition hook_SSL_CTX_use_PrivateKey_file :: "deps \<Rightarrow> hook_lib \<Rightarrow> 'e attester \<Rightarrow> rng \<Rightarrow> calls \<Rightarrow> ptr \<Rightarrow> ptr \<Rightarrow> c_int \<Rightarrow> calls \<times> c_int res" where
  "hook_SSL_CTX_use_PrivateKey_file D L attester g w ctx file kind = setup_attester_with_openssl_ssl_ctx_obj D L attester g w ctx"

definition hook_SSL_CTX_use_RSAPrivateKey :: "deps \<Rightarrow> hook_lib \<Rightarrow> 'e attester \<Rightarrow> rng \<Rightarrow> calls \<Rightarrow> ptr \<Rightarrow> ptr \<Rightarrow> calls \<times> c_int res" where
  "hook_SSL_CTX_use_RSAPrivateKey D L attester g w ctx rsa = setup_attester_with_openssl_ssl_ctx_obj D L attester g w ctx"

definition hook_SSL_CTX_use_RSAPrivateKey_ASN1 :: "deps \<Rightarrow> hook_lib \<Rightarrow> 'e attester \<Rightarrow> rng \<Rightarrow> calls \<Rightarrow> ptr \<Rightarrow> ptr \<Rightarrow> u64 \<Rightarrow> calls \<times> c_int res" where
  "hook_SSL_CTX_use_RSAPrivateKey_ASN1 D L attester g w ctx d len = setup_attester_with_openssl_ssl_ctx_obj D L attester g w ctx"

definition hook_SSL_CTX_use_RSAPrivateKey_file :: "deps \<Rightarrow> hook_lib \<Rightarrow> 'e attester \<Rightarrow> rng \<Rightarrow> calls \<Rightarrow> ptr \<Rightarrow> ptr \<Rightarrow> c_int \<Rightarrow> calls \<times> c_int res" where
  "hook_SSL_CTX_use_RSAPrivateKey_file D L attester g w ctx file kind = setup_attester_with_openssl_ssl_ctx_obj D L attester g w ctx"

definition hook_SSL_use_PrivateKey :: "deps \<Rightarrow> hook_lib \<Rightarrow> 'e attester \<Rightarrow> rng \<Rightarrow> calls \<Rightarrow> ptr \<Rightarrow> ptr \<Rightarrow> calls \<times> c_int res" where
  "hook_SSL_use_PrivateKey D L attester g w ssl pkey = setup_attester_with_openssl_ssl_obj D L attester g w ssl"

definition hook_SSL_use_PrivateKey_ASN1 :: "deps \<Rightarrow> hook_lib \<Rightarrow> 'e attester \<Rightarrow> rng \<Rightarrow> calls \<Rightarrow> ptr \<Rightarrow> c_int \<Rightarrow> ptr \<Rightarrow> u64 \<Rightarrow> calls \<times> c_int res" where
  "hook_SSL_use_PrivateKey_ASN1 D L attester g w ssl pk d len = setup_attester_with_openssl_ssl_obj D L attester g w ssl"

definition hook_SSL_use_PrivateKey_file :: "deps \<Rightarrow> hook_lib \<Rightarrow> 'e attester \<Rightarrow> rng \<Rightarrow> calls \<Rightarrow> ptr \<Rightarrow> ptr \<Rightarrow> c_int \<Rightarrow> calls \<times> c_int res" where
  "hook_SSL_use_PrivateKey_file D L attester g w ssl file kind = setup_attester_with_openssl_ssl_obj D L attester g w ssl"

definition hook_SSL_use_RSAPrivateKey :: "deps \<Rightarrow> hook_lib \<Rightarrow> 'e attester \<Rightarrow> rng \<Rightarrow> calls \<Rightarrow> ptr \<Rightarrow> ptr \<Rightarrow> calls \<times> c_int res" where
  "hook_SSL_use_RSAPrivateKey D L attester g w ssl rsa = setup_attester_with_openssl_ssl_obj D L attester g w ssl"

definition hook_SSL_use_RSAPrivateKey_ASN1 :: "deps \<Rightarrow> hook_lib \<Rightarrow> 'e attester \<Rightarrow> rng \<Rightarrow> calls \<Rightarrow> ptr \<Rightarrow> ptr \<Rightarrow> u64 \<Rightarrow> calls \<times> c_int res" where
  "hook_SSL_use_RSAPrivateKey_ASN1 D L attester g w ssl d len = setup_attester_with_openssl_ssl_obj D L attester g w ssl"

definition hook_SSL_use_RSAPrivateKey_file :: "deps \<Rightarrow> hook_lib \<Rightarrow> 'e attester \<Rightarrow> rng \<Rightarrow> calls \<Rightarrow> ptr \<Rightarrow> ptr \<Rightarrow> c_int \<Rightarrow> calls \<times> c_int res" where
  "hook_SSL_use_RSAPrivateKey_file D L attester g w ssl file kind = setup_attester_with_openssl_ssl_obj D L attester g w ssl"

definition hook_SSL_CTX_use_cert_and_key :: "deps \<Rightarrow> hook_lib \<Rightarrow> 'e attester \<Rightarrow> rng \<Rightarrow> calls \<Rightarrow> ptr \<Rightarrow> ptr \<Rightarrow> ptr \<Rightarrow> ptr \<Rightarrow> c_int \<Rightarrow> calls \<times> c_int res" where
  "hook_SSL_CTX_use_cert_and_key D L attester g w ctx x509 privatekey chain override = setup_attester_with_openssl_ssl_ctx_obj D L attester g w ctx"

definition hook_SSL_use_cert_and_key :: "deps \<Rightarrow> hook_lib \<Rightarrow> 'e attester \<Rightarrow> rng \<Rightarrow> calls \<Rightarrow> ptr \<Rightarrow> ptr \<Rightarrow> ptr \<Rightarrow> ptr \<Rightarrow> c_int \<Rightarrow> calls \<times> c_int res" where
  "hook_SSL_use_cert_and_key D L attester g w ssl x509 privatekey chain override = setup_attester_with_openssl_ssl_obj D L attester g w ssl"

lemmas hooked_functions =
  hook_SSL_CTX_use_certificate_def hook_SSL_CTX_use_certificate_ASN1_def
  hook_SSL_CTX_use_certificate_file_def hook_SSL_use_certificate_def
  hook_SSL_use_certificate_ASN1_def hook_SSL_use_certificate_file_def
  hook_SSL_CTX_use_certificate_chain_file_def hook_SSL_use_certificate_chain_file_def
  hook_SSL_CTX_use_PrivateKey_def hook_SSL_CTX_use_PrivateKey_ASN1_def
  hook_SSL_CTX_use_PrivateKey_file_def hook_SSL_CTX_use_RSAPrivateKey_def
  hook_SSL_CTX_use_RSAPrivateKey_ASN1_def hook_SSL_CTX_use_RSAPrivateKey_file_def
  hook_SSL_use_PrivateKey_def hook_SSL_use_PrivateKey_ASN1_def
  hook_SSL_use_PrivateKey_file_def hook_SSL_use_RSAPrivateKey_def
  hook_SSL_use_RSAPrivateKey_ASN1_def hook_SSL_use_RSAPrivateKey_file_def
  hook_SSL_CTX_use_cert_and_key_def hook_SSL_use_cert_and_key_def

subsection \<open>Interposition\<close>

text \<open>The setting an object got last, and the promise of OpenSSL's getters to return it.\<close>

fun last_setting :: "calls \<Rightarrow> ossl_object \<Rightarrow> (c_int \<times> verify_cb option) option" where
  "last_setting [] obj = None"
| "last_setting (CallSetVerify _ o' mode cb # es) obj = (if o' = obj then Some (mode, cb) else last_setting es obj)"
| "last_setting (_ # es) obj = last_setting es obj"

definition getters_ok :: "hook_lib \<Rightarrow> bool" where
  "getters_ok L \<longleftrightarrow> (\<forall>es obj mode cb. last_setting es obj = Some (mode, cb) \<longrightarrow>
     get_verify_callback L es obj = cb \<and> get_verify_mode L es obj = mode)"

lemma init_openssl_ctx_Ok:
  assumes "init_openssl_ctx L = Ok T"
  obtains a c sv csv uc uk cuk cuc ccb where "OSSL_CTX L = T" "T = \<lparr>ssl_ctx_set_verify = Some csv, ssl_set_verify = Some sv,
     ssl_accept = Some a, ssl_connect = Some c, ssl_use_certificate_asn1 = Some uc, ssl_use_privatekey_asn1 = Some uk,
     ssl_ctx_use_privatekey_asn1 = Some cuk, ssl_ctx_use_certificate_asn1 = Some cuc, ssl_ctx_set_cert_verify_callback = Some ccb\<rparr>"
    "dlsym_load L ''SSL_accept'' = Ok a" "dlsym_load L ''SSL_connect'' = Ok c"
    "dlsym_load L ''SSL_use_certificate_ASN1'' = Ok uc" "dlsym_load L ''SSL_use_PrivateKey_ASN1'' = Ok uk"
    "dlsym_load L ''SSL_CTX_use_certificate_ASN1'' = Ok cuc" "dlsym_load L ''SSL_CTX_use_PrivateKey_ASN1'' = Ok cuk"
  using assms by (auto simp: init_openssl_ctx_def OSSL_CTX_def)

lemma setup_ssl_verifier_total:
  assumes "init_openssl_ctx L = Ok T" and "getters_ok L"
  shows "\<exists>es. setup_ssl_verifier L w obj = (es, Ok ()) \<and> get_verify_callback L es obj = Some VerifyCertificateDefault \<and>
    get_verify_mode L es obj = get_verify_mode L w obj \<and>
    (get_verify_callback L w obj = Some VerifyCertificateDefault \<longrightarrow> es = w)"
proof (cases "get_verify_callback L w obj = Some VerifyCertificateDefault")
  case True
  then show ?thesis by (cases obj) (simp_all add: setup_ssl_verifier_def Let_def)
next
  case False
  let ?mode = "get_verify_mode L w obj"
  have getters: "get_verify_callback L (CallSetCertVerifyCallback g c # CallSetVerify f obj ?mode (Some VerifyCertificateDefault) # es) obj =
        Some VerifyCertificateDefault"
      "get_verify_mode L (CallSetCertVerifyCallback g c # CallSetVerify f obj ?mode (Some VerifyCertificateDefault) # es) obj = ?mode"
    for f g c es
    using assms(2) unfolding getters_ok_def by simp_all
  obtain a c sv csv uc uk cuk cuc ccb where T: "OSSL_CTX L = T" "T = \<lparr>ssl_ctx_set_verify = Some csv, ssl_set_verify = Some sv,
     ssl_accept = Some a, ssl_connect = Some c, ssl_use_certificate_asn1 = Some uc, ssl_use_privatekey_asn1 = Some uk,
     ssl_ctx_use_privatekey_asn1 = Some cuk, ssl_ctx_use_certificate_asn1 = Some cuc, ssl_ctx_set_cert_verify_callback = Some ccb\<rparr>"
    by (rule init_openssl_ctx_Ok [OF assms(1)])
  show ?thesis
    using False getters by (cases obj) (simp_all add: setup_ssl_verifier_def Let_def T)
qed

text \<open>
  C37. Every handshake of a hooked program is verified by the crate, with the program's own mode: once all
  symbols are found, both handshake functions first put the crate's callback on the session unless it is
  there, keep the mode, and then make exactly one call, of the real \<open>SSL_accept\<close>, whose answer they return,
  \<open>SSL_connect\<close> included, which never reaches the real \<open>SSL_connect\<close>; a second setup does nothing. When a
  symbol is missing both panic before any handshake.
\<close>

theorem hook_handshake_exact:
  assumes "getters_ok L"
  shows "hook_SSL_connect L w ssl = hook_SSL_accept L w ssl \<and>
    (case init_openssl_ctx L of
       Ok T \<Rightarrow> (\<exists>es accept. dlsym_load L ''SSL_accept'' = Ok accept \<and>
         hook_SSL_accept L w ssl = (CallHandshake accept ssl (real_handshake L es accept ssl) # es, Ok (real_handshake L es accept ssl)) \<and>
         get_verify_callback L es (Ssl ssl) = Some VerifyCertificateDefault \<and>
         get_verify_mode L es (Ssl ssl) = get_verify_mode L w (Ssl ssl) \<and>
         (get_verify_callback L w (Ssl ssl) = Some VerifyCertificateDefault \<longrightarrow> es = w) \<and>
         setup_ssl_verifier L es (Ssl ssl) = (es, Ok ()))
     | _ \<Rightarrow> snd (hook_SSL_accept L w ssl) = Panic \<and>
         (\<forall>f v. CallHandshake f ssl v \<in> set (fst (hook_SSL_accept L w ssl)) \<longrightarrow> CallHandshake f ssl v \<in> set w))"
proof (cases "init_openssl_ctx L")
  case (Ok T)
  obtain a c sv csv uc uk cuk cuc ccb where T: "OSSL_CTX L = T" "T = \<lparr>ssl_ctx_set_verify = Some csv, ssl_set_verify = Some sv,
     ssl_accept = Some a, ssl_connect = Some c, ssl_use_certificate_asn1 = Some uc, ssl_use_privatekey_asn1 = Some uk,
     ssl_ctx_use_privatekey_asn1 = Some cuk, ssl_ctx_use_certificate_asn1 = Some cuc, ssl_ctx_set_cert_verify_callback = Some ccb\<rparr>"
    "dlsym_load L ''SSL_accept'' = Ok a"
    by (rule init_openssl_ctx_Ok [OF Ok])
  from setup_ssl_verifier_total [OF Ok assms] obtain es where es: "setup_ssl_verifier L w (Ssl ssl) = (es, Ok ())"
    "get_verify_callback L es (Ssl ssl) = Some VerifyCertificateDefault" "get_verify_mode L es (Ssl ssl) = get_verify_mode L w (Ssl ssl)"
    "get_verify_callback L w (Ssl ssl) = Some VerifyCertificateDefault \<longrightarrow> es = w" by blast
  from setup_ssl_verifier_total [OF Ok assms, of es "Ssl ssl"] es(2) have again: "setup_ssl_verifier L es (Ssl ssl) = (es, Ok ())" by auto
  have "hook_SSL_accept L w ssl = (CallHandshake a ssl (real_handshake L es a ssl) # es, Ok (real_handshake L es a ssl))"
    by (simp add: hook_SSL_accept_def setup_verifier_with_openssl_ssl_obj_def es(1) answer_def Let_def T)
  with es again T(3) Ok show ?thesis by (simp add: hook_SSL_connect_def hook_SSL_accept_def)
qed (auto simp: hook_SSL_connect_def hook_SSL_accept_def setup_verifier_with_openssl_ssl_obj_def setup_ssl_verifier_def
    answer_def OSSL_CTX_def ossl_ctx_default_def Let_def)

text \<open>A hook with all symbols, whose getters read the history.\<close>

definition sample_hook :: hook_lib where
  "sample_hook = \<lparr>dlsym = (\<lambda>s. (length s, None)),
     get_verify_callback = (\<lambda>es obj. case last_setting es obj of Some (_, cb) \<Rightarrow> cb | None \<Rightarrow> None),
     get_verify_mode = (\<lambda>es obj. case last_setting es obj of Some (mode, _) \<Rightarrow> mode | None \<Rightarrow> 0), get_ssl_ctx = (\<lambda>_ s. s + 1),
     real_use_certificate = (\<lambda>_ _ _ _. 1), real_use_private_key = (\<lambda>_ _ _ _. 1), real_handshake = (\<lambda>_ _ _. 1)\<rparr>"

lemma sample_getters_ok: "getters_ok sample_hook"
  by (simp add: getters_ok_def sample_hook_def)

lemma sample_hook_init: "\<exists>T. init_openssl_ctx sample_hook = Ok T"
  by (simp add: init_openssl_ctx_def dlsym_load_def) (simp add: sample_hook_def)

theorem hook_handshake_exact_witness:
  "\<exists>es accept. hook_SSL_connect sample_hook [CallSetVerify 7 (Ssl 3) 1 None] 3 = (CallHandshake accept 3 1 # es, Ok 1) \<and>
     dlsym_load sample_hook ''SSL_accept'' = Ok accept \<and>
     last_setting es (Ssl 3) = Some (1, Some VerifyCertificateDefault)"
proof -
  from sample_hook_init obtain T where T: "init_openssl_ctx sample_hook = Ok T" by blast
  have hs: "real_handshake sample_hook es f s = 1" for es f s by (simp add: sample_hook_def)
  from hook_handshake_exact [OF sample_getters_ok, of "[CallSetVerify 7 (Ssl 3) 1 None]" 3] T obtain es accept where
    e: "hook_SSL_connect sample_hook [CallSetVerify 7 (Ssl 3) 1 None] 3 = (CallHandshake accept 3 1 # es, Ok 1)"
      "dlsym_load sample_hook ''SSL_accept'' = Ok accept" "get_verify_callback sample_hook es (Ssl 3) = Some VerifyCertificateDefault"
      "get_verify_mode sample_hook es (Ssl 3) = get_verify_mode sample_hook [CallSetVerify 7 (Ssl 3) 1 None] (Ssl 3)"
    by (auto simp: hs)
  from e(3,4) have "last_setting es (Ssl 3) = Some (1, Some VerifyCertificateDefault)"
    by (simp add: sample_hook_def split: option.splits prod.splits)
  with e(1,2) show ?thesis by blast
qed

text \<open>The generated key, its DER document and the DER of the certificate that \<open>CertBuilder\<close> makes for this key.\<close>

definition fresh_credentials :: "deps \<Rightarrow> 'e attester \<Rightarrow> rng \<Rightarrow> (asymmetric_private_key \<times> bytes \<times> bytes) option" where
  "fresh_credentials D A g =
     (case gen_private_key (lib_crypto D) g AlgoRsa2048 of
        Ok key \<Rightarrow> (case (andthen (build_with_private_key D (cert_builder_new A Sha256) key) (cert_to_der D),
            to_pkcs8_der (lib_crypto D) key) of
          (Ok der, Ok k) \<Rightarrow> Some (key, k, der)
        | _ \<Rightarrow> None)
      | _ \<Rightarrow> None)"

text \<open>The credentials part of \<open>setup_ssl_attester\<close>: it fails with the history untouched, or goes on to install.\<close>

lemma setup_ssl_attester_cases:
  assumes "libs_ok D" and "attester_ok D A" and "\<forall>rd. get_evidence A rd \<noteq> Panic \<and> get_evidence A rd \<noteq> UB"
  obtains (failed) e where "fresh_credentials D A g = None" "setup_ssl_attester D L A g w obj = (w, Err e)"
  | (made) key k der where "fresh_credentials D A g = Some (key, k, der)" "certifies D der key"
      "setup_ssl_attester D L A g w obj = (case obj of
         Ssl ssl \<Rightarrow>
           w_then (install_certificate L (HookClearError # w) (ssl_use_certificate_asn1 (OSSL_CTX L)) (Ssl ssl) der) (\<lambda>w _.
           install_private_key L w (ssl_use_privatekey_asn1 (OSSL_CTX L)) (Ssl ssl) EPV_PKEY_RSA k)
       | SslCtx ctx \<Rightarrow>
           w_then (install_certificate L (HookClearError # w) (ssl_ctx_use_certificate_asn1 (OSSL_CTX L)) (SslCtx ctx) der) (\<lambda>w _.
           install_private_key L w (ssl_ctx_use_privatekey_asn1 (OSSL_CTX L)) (SslCtx ctx) EPV_PKEY_RSA k))"
proof (cases "gen_private_key (lib_crypto D) g AlgoRsa2048")
  case (Ok key)
  then obtain rk where rk: "key = Rsa2048 rk" by auto
  note gen = Ok
  let ?B = "build_with_private_key D (cert_builder_new A Sha256) key"
  let ?C = "andthen ?B (cert_to_der D)"
  have total: "?C \<noteq> Panic \<and> ?C \<noteq> UB"
    using build_inner_total [of D "cert_builder_new A Sha256" key] assms(3)
    by (auto simp: andthen_inv build_with_private_key_def cert_to_der_def gen_cert_step_def cert_builder_new_def
        split: sum.splits)
  show thesis
  proof (cases ?C)
    case (Ok der)
    then obtain bd where "?B = Ok bd" "cert_to_der D bd = Ok der" by auto
    with built_certifies [OF assms(1) _ _ this] assms(2) have cert: "certifies D der key"
      by (simp add: cert_builder_new_def)
    show thesis
    proof (cases "to_pkcs8_der (lib_crypto D) key")
      case (Ok k)
      have creds: "fresh_credentials D A g = Some (key, k, der)"
        by (simp add: fresh_credentials_def gen \<open>?C = Ok der\<close> Ok del: gen_private_key.simps to_pkcs8_der.simps andthen_eq_Ok)
      have epkey: "(case key of P256 _ \<Rightarrow> EPV_PKEY_EC | _ \<Rightarrow> EPV_PKEY_RSA) = EPV_PKEY_RSA" by (simp add: rk)
      show thesis
        by (rule made [OF creds cert]) (cases obj; simp add: setup_ssl_attester_def gen \<open>?C = Ok der\<close> Ok epkey Let_def
            del: gen_private_key.simps to_pkcs8_der.simps andthen_eq_Ok)
    next
      case (Err e)
      show thesis
        by (rule failed) (simp_all add: fresh_credentials_def setup_ssl_attester_def gen \<open>?C = Ok der\<close> Err
            del: gen_private_key.simps to_pkcs8_der.simps)
    qed (simp_all add: rk)
  next
    case (Err e)
    then show thesis by (intro failed) (simp_all add: fresh_credentials_def setup_ssl_attester_def gen del: gen_private_key.simps)
  qed (use total in auto)
next
  case (Err e)
  then show thesis by (intro failed) (simp_all add: fresh_credentials_def setup_ssl_attester_def del: gen_private_key.simps)
qed (auto simp: andthen_inv)

lemma install_pair:
  "answer (w_then (install_certificate L w (Some f) obj der) (\<lambda>w _. install_private_key L w (Some f') obj epkey k)) =
     (let rc = real_use_certificate L w obj der (word_of_nat (length der));
          w1 = CallUseCertificate f obj der (word_of_nat (length der)) rc # w;
          rk = real_use_private_key L w1 obj epkey k
      in if rc \<noteq> 1 then (w1, Ok 0) else (CallUsePrivateKey f' obj epkey k rk # w1, Ok (if rk = 1 then 1 else 0)))"
  by (simp add: install_certificate_def install_private_key_def answer_def Let_def)

text \<open>The two real functions for an object, by the names they are looked up with.\<close>

definition asn1_functions :: "ossl_object \<Rightarrow> string \<times> string" where
  "asn1_functions obj = (case obj of
       Ssl _ \<Rightarrow> (''SSL_use_certificate_ASN1'', ''SSL_use_PrivateKey_ASN1'')
     | SslCtx _ \<Rightarrow> (''SSL_CTX_use_certificate_ASN1'', ''SSL_CTX_use_PrivateKey_ASN1''))"

lemma setup_attester_answer:
  assumes "libs_ok D" and "attester_ok D A" and "\<forall>rd. get_evidence A rd \<noteq> Panic \<and> get_evidence A rd \<noteq> UB"
    and "init_openssl_ctx L = Ok T"
  shows "case fresh_credentials D A g of
      None \<Rightarrow> answer (setup_ssl_attester D L A g w obj) = (w, Ok 0)
    | Some (key, k, der) \<Rightarrow> certifies D der key \<and>
        (\<exists>fc fk rc rk. dlsym_load L (fst (asn1_functions obj)) = Ok fc \<and> dlsym_load L (snd (asn1_functions obj)) = Ok fk \<and>
           rc = real_use_certificate L (HookClearError # w) obj der (word_of_nat (length der)) \<and>
           (let cert = CallUseCertificate fc obj der (word_of_nat (length der)) rc # HookClearError # w
            in rk = real_use_private_key L cert obj EPV_PKEY_RSA k \<and>
               answer (setup_ssl_attester D L A g w obj) =
                 (if rc = 1 then (CallUsePrivateKey fk obj EPV_PKEY_RSA k rk # cert, Ok (if rk = 1 then 1 else 0)) else (cert, Ok 0))))"
  using assms(1-3)
proof (cases rule: setup_ssl_attester_cases [of D A g L w obj])
  case (failed e)
  then show ?thesis by (simp add: answer_def)
next
  case (made key k der)
  show ?thesis
  proof (rule init_openssl_ctx_Ok [OF assms(4)])
    fix a c sv csv uc uk cuk cuc ccb
    assume "OSSL_CTX L = T" "T = \<lparr>ssl_ctx_set_verify = Some csv, ssl_set_verify = Some sv,
        ssl_accept = Some a, ssl_connect = Some c, ssl_use_certificate_asn1 = Some uc, ssl_use_privatekey_asn1 = Some uk,
        ssl_ctx_use_privatekey_asn1 = Some cuk, ssl_ctx_use_certificate_asn1 = Some cuc, ssl_ctx_set_cert_verify_callback = Some ccb\<rparr>"
      and "dlsym_load L ''SSL_use_certificate_ASN1'' = Ok uc" "dlsym_load L ''SSL_use_PrivateKey_ASN1'' = Ok uk"
        "dlsym_load L ''SSL_CTX_use_certificate_ASN1'' = Ok cuc" "dlsym_load L ''SSL_CTX_use_PrivateKey_ASN1'' = Ok cuk"
    with made show ?thesis
      by (cases obj) (simp_all add: asn1_functions_def install_pair Let_def)
  qed
qed

text \<open>
  C38. The 22 exported functions that set a certificate or a key, whatever the program passes to them, never
  panic once all symbols are found. If the key, its document or the certificate cannot be made, they answer 0
  and call nothing. Otherwise they call the real \<open>use_certificate_ASN1\<close> of the object's kind with the certificate
  that \<open>CertBuilder\<close> makes for the generated RSA key (it carries the public key of this key and
  \<open>verify_cert_der\<close> accepts it), then, if OpenSSL took it, the real \<open>use_PrivateKey_ASN1\<close> with this key, and answer
  1 if OpenSSL took both and 0 otherwise. The program's own certificate and key never reach OpenSSL.
\<close>

theorem hook_installs_attested_credentials:
  assumes "libs_ok D" and "attester_ok D A" and "\<forall>rd. get_evidence A rd \<noteq> Panic \<and> get_evidence A rd \<noteq> UB"
    and "init_openssl_ctx L = Ok T"
    and "obj = SslCtx p \<and> run \<in> {
        hook_SSL_CTX_use_certificate D L A g w p x, hook_SSL_CTX_use_certificate_ASN1 D L A g w p n d,
        hook_SSL_CTX_use_certificate_file D L A g w p file kind, hook_SSL_CTX_use_certificate_chain_file D L A g w p file,
        hook_SSL_CTX_use_PrivateKey D L A g w p pkey, hook_SSL_CTX_use_PrivateKey_ASN1 D L A g w p pk d len,
        hook_SSL_CTX_use_PrivateKey_file D L A g w p file kind, hook_SSL_CTX_use_RSAPrivateKey D L A g w p rsa,
        hook_SSL_CTX_use_RSAPrivateKey_ASN1 D L A g w p d len, hook_SSL_CTX_use_RSAPrivateKey_file D L A g w p file kind,
        hook_SSL_CTX_use_cert_and_key D L A g w p x pkey chain override} \<or>
      obj = Ssl p \<and> run \<in> {
        hook_SSL_use_certificate D L A g w p x, hook_SSL_use_certificate_ASN1 D L A g w p d n,
        hook_SSL_use_certificate_file D L A g w p file kind, hook_SSL_use_certificate_chain_file D L A g w p file,
        hook_SSL_use_PrivateKey D L A g w p pkey, hook_SSL_use_PrivateKey_ASN1 D L A g w p pk d len,
        hook_SSL_use_PrivateKey_file D L A g w p file kind, hook_SSL_use_RSAPrivateKey D L A g w p rsa,
        hook_SSL_use_RSAPrivateKey_ASN1 D L A g w p d len, hook_SSL_use_RSAPrivateKey_file D L A g w p file kind,
        hook_SSL_use_cert_and_key D L A g w p x pkey chain override}"
  shows "case fresh_credentials D A g of
      None \<Rightarrow> run = (w, Ok 0)
    | Some (key, k, der) \<Rightarrow> certifies D der key \<and>
        (\<exists>fc fk rc rk. dlsym_load L (fst (asn1_functions obj)) = Ok fc \<and> dlsym_load L (snd (asn1_functions obj)) = Ok fk \<and>
           rc = real_use_certificate L (HookClearError # w) obj der (word_of_nat (length der)) \<and>
           (let cert = CallUseCertificate fc obj der (word_of_nat (length der)) rc # HookClearError # w
            in rk = real_use_private_key L cert obj EPV_PKEY_RSA k \<and>
               run = (if rc = 1 then (CallUsePrivateKey fk obj EPV_PKEY_RSA k rk # cert, Ok (if rk = 1 then 1 else 0)) else (cert, Ok 0))))"
proof -
  have run: "run = answer (setup_ssl_attester D L A g w obj)"
    using assms(5)
    by (elim disjE conjE insertE emptyE)
       (simp_all add: hooked_functions setup_attester_with_openssl_ssl_ctx_obj_def setup_attester_with_openssl_ssl_obj_def)
  show ?thesis unfolding run by (rule setup_attester_answer [OF assms(1-4)])
qed

lemma sample_attester_no_panic: "get_evidence sample_attester rd \<noteq> Panic \<and> get_evidence sample_attester rd \<noteq> UB"
proof (cases "length rd \<le> 64")
  case True
  then show ?thesis using sample_attester_evidence [OF True] by (simp add: sample_attester_def auto_attester_def)
next
  case False
  then show ?thesis
    by (simp add: sample_attester_def auto_attester_def auto_get_evidence_def map_res_def tdx_get_evidence_def extend_report_data_def
        detect_env_def sgx_detect_env_def tdx_detect_env_def sample_platform_def all_features_def)
qed

theorem hook_installs_attested_credentials_witness:
  "\<exists>fc fk der k w. hook_SSL_use_PrivateKey ref_deps sample_hook sample_attester 0 [] 3 9 =
       ([CallUsePrivateKey fk (Ssl 3) EPV_PKEY_RSA k 1, CallUseCertificate fc (Ssl 3) der (word_of_nat (length der)) 1, HookClearError], Ok 1) \<and>
     hook_SSL_CTX_use_certificate_file ref_deps sample_hook sample_attester 0 [] 2 7 1 = (w, Ok 1) \<and>
     fc = 24 \<and> fk = 23 \<and> k = [0x30, 8, 0] \<and> certifies ref_deps der (Rsa2048 [8, 0])"
proof -
  from sample_hook_init obtain T where T: "init_openssl_ctx sample_hook = Ok T" by blast
  have pan: "\<forall>rd. get_evidence sample_attester rd \<noteq> Panic \<and> get_evidence sample_attester rd \<noteq> UB"
    using sample_attester_no_panic by blast
  note installs = hook_installs_attested_credentials [OF ref_libs_ok sample_attester_honest pan T]
  obtain bd der where "build_with_private_key ref_deps (cert_builder_new sample_attester Sha256) (Rsa2048 [8, 0]) = Ok bd"
    "cert_to_der ref_deps bd = Ok der" by (rule sample_key_build [OF sample_keys(4)]) simp_all
  then have creds: "fresh_credentials ref_deps sample_attester 0 = Some (Rsa2048 [8, 0], [0x30, 8, 0], der)"
    using sample_keys(1,3) by (simp add: fresh_credentials_def ref_deps_def del: gen_private_key.simps to_pkcs8_der.simps)
  have ones: "real_use_certificate sample_hook es obj x n = 1" "real_use_private_key sample_hook es obj t x = 1" for es obj x n t
    by (simp_all add: sample_hook_def)
  have load: "dlsym_load sample_hook ''SSL_use_certificate_ASN1'' = Ok 24" "dlsym_load sample_hook ''SSL_use_PrivateKey_ASN1'' = Ok 23"
    by (simp_all add: dlsym_load_def sample_hook_def)
  let ?run = "hook_SSL_use_PrivateKey ref_deps sample_hook sample_attester 0 [] 3 9"
    and ?file = "hook_SSL_CTX_use_certificate_file ref_deps sample_hook sample_attester 0 [] 2 7 1"
  have run: "Ssl 3 = SslCtx 3 \<and> ?run \<in> S \<or> Ssl 3 = Ssl 3 \<and> ?run \<in> insert a (insert b (insert c (insert d (insert ?run R))))"
    for S a b c d R by simp
  have chain: "SslCtx 2 = SslCtx 2 \<and> ?file \<in> insert a (insert b (insert ?file R)) \<or> SslCtx 2 = Ssl 2 \<and> ?file \<in> S"
    for S a b R by simp
  from installs [OF run] creds ones load have ssl: "certifies ref_deps der (Rsa2048 [8, 0])"
    "?run = ([CallUsePrivateKey 23 (Ssl 3) EPV_PKEY_RSA [0x30, 8, 0] 1,
       CallUseCertificate 24 (Ssl 3) der (word_of_nat (length der)) 1, HookClearError], Ok 1)"
    by (simp_all add: asn1_functions_def Let_def)
  from installs [OF chain] creds ones obtain w where "?file = (w, Ok 1)" by (auto simp: Let_def)
  with ssl show ?thesis by blast
qed

text \<open>
  One run of \<open>X509_verify_cert\<close> on a chain, with the crate's callback installed: \<open>qs\<close> are the questions it asks
  the callback, each with the preverification result, the error in the store context and the encoding of
  the current certificate. OpenSSL documents that the run succeeds when every answer is not 0 and fails
  otherwise; nothing is assumed of which questions it asks.
\<close>

definition x509_question :: "c_int \<times> c_int \<times> bytes \<Rightarrow> store_ctx" where
  "x509_question q = (case q of (pre, e, der) \<Rightarrow> \<lparr>store_error = e, i2d_current = (word_of_nat (length der), Some der)\<rparr>)"

definition x509_run :: "deps \<Rightarrow> (c_int \<times> c_int \<times> bytes) list \<Rightarrow> c_int \<Rightarrow> bool" where
  "x509_run D qs res \<longleftrightarrow> (\<forall>(pre, e, der) \<in> set qs. length der < 2147483648) \<and>
     res = (if \<forall>q \<in> set qs. \<exists>v. verify_certificate_default D (fst q) (x509_question q) = Ok v \<and> v \<noteq> 0 then 1 else 0)"

lemma signed_length: "length (der :: bytes) < 2147483648 \<Longrightarrow> \<not> sint (word_of_nat (length der) :: c_int) < 0"
  by (simp add: signed_of_nat take_bit_nat_eq_self signed_take_bit_eq_if_positive bit_iff_odd)

lemma default_callback_iff:
  assumes "length der < 2147483648" and "i2d_current x = (word_of_nat (length der), Some der)"
  shows "(\<exists>v. verify_certificate_default D pre x = Ok v \<and> v \<noteq> 0) \<longleftrightarrow>
    (if pre = 0 then store_error x = 18 else \<exists>claims. verify_cert_der D der = Ok claims)"
proof -
  have "unat (word_of_nat (length der) :: c_int) = length der" using assms(1) by (simp add: unat_of_nat)
  then show ?thesis
    using signed_length [OF assms(1)] assms(2)
    by (cases "verify_cert_der D der")
       (simp_all add: verify_certificate_default_def cert_verifier_verify_def cert_verifier_new_def
          X509_V_ERR_DEPTH_ZERO_SELF_SIGNED_CERT_def)
qed

lemma question_answer:
  assumes "length der < 2147483648"
  shows "(\<exists>v. verify_certificate_default D pre (x509_question (pre, e, der)) = Ok v \<and> v \<noteq> 0) \<longleftrightarrow>
    (if pre = 0 then e = 18 else \<exists>claims. verify_cert_der D der = Ok claims)"
  using default_callback_iff [OF assms, of "x509_question (pre, e, der)" D pre] by (simp add: x509_question_def)

text \<open>
  C39. The hook's verification of a chain, whatever questions OpenSSL asks: the answer is 1 exactly when the
  only error OpenSSL raised is 18, a self-signed certificate without a trusted root, and
  \<open>verify_cert_der\<close> accepts every certificate that is asked about without an error. An error that the run leaves
  in the store context, other than 18, stays there and nothing else is reported; an accepted
  self-signed certificate is reported as verified to a program that reads the result.
\<close>

theorem cert_verify_callback_exact:
  assumes "x509_run D qs res"
  shows "case cert_verify_callback (res, err) of (ans, left, reported) \<Rightarrow>
    (ans = 1 \<longleftrightarrow> (\<forall>(pre, e, der) \<in> set qs. if pre = 0 then e = 18 else \<exists>claims. verify_cert_der D der = Ok claims)) \<and>
    ans \<in> {0, 1} \<and> (err \<noteq> 18 \<longrightarrow> left = err \<and> reported = None) \<and> (ans = 1 \<and> err = 18 \<longrightarrow> left = X509_V_OK \<and> reported = Some X509_V_OK)"
proof -
  have "(\<exists>v. verify_certificate_default D (fst q) (x509_question q) = Ok v \<and> v \<noteq> 0) \<longleftrightarrow>
      (case q of (pre, e, der) \<Rightarrow> if pre = 0 then e = 18 else \<exists>claims. verify_cert_der D der = Ok claims)" if "q \<in> set qs" for q
  proof (cases q)
    case (fields pre e der)
    with assms that have "length der < 2147483648" by (auto simp: x509_run_def)
    from question_answer [OF this, of D pre e] fields show ?thesis by simp
  qed
  then have "res = 1 \<longleftrightarrow> (\<forall>(pre, e, der) \<in> set qs. if pre = 0 then e = 18 else \<exists>claims. verify_cert_der D der = Ok claims)"
    and "res \<in> {0, 1}"
    using assms by (simp_all add: x509_run_def)
  then show ?thesis
    by (auto simp: cert_verify_callback_def X509_V_ERR_DEPTH_ZERO_SELF_SIGNED_CERT_def X509_V_OK_def split: if_splits)
qed

text \<open>
  The run on a self-signed certificate of an attested peer, asked about for the missing root and then for
  itself; and the same run on bytes that are no certificate.
\<close>

theorem cert_verify_callback_exact_witness:
  "\<exists>der claims res. verify_cert_der ref_deps der = Ok claims \<and> x509_run ref_deps [(0, 18, der), (1, 18, der)] 1 \<and>
     cert_verify_callback (1, 18) = (1, X509_V_OK, Some X509_V_OK) \<and>
     x509_run ref_deps [(0, 18, []), (1, 18, [])] res \<and> fst (cert_verify_callback (res, 18)) = 0"
proof -
  obtain bd der where b: "build_with_private_key ref_deps (cert_builder_new sample_attester Sha256) (Rsa2048 [8, 0]) = Ok bd"
    "cert_to_der ref_deps bd = Ok der" "length der < 65536" by (rule sample_key_build [OF sample_keys(4)]) simp_all
  from sample_cert_accepted [OF b(1,2)] obtain claims where ok: "verify_cert_der ref_deps der = Ok claims" by blast
  have run: "x509_run ref_deps [(0, 18, d), (1, 18, d)] (if \<exists>claims. verify_cert_der ref_deps d = Ok claims then 1 else 0)"
    if "length d < 2147483648" for d
    using question_answer [OF that, of ref_deps 0 18] question_answer [OF that, of ref_deps 1 18] that
    by (simp add: x509_run_def)
  have "\<exists>e. ref_cert_from_der [] = Inl e"
    by (simp add: ref_cert_from_der_def ref_read_def)
  then have no: "\<nexists>claims. verify_cert_der ref_deps [] = Ok claims"
    by (auto simp: verify_cert_der_def ref_deps_def ref_x509_def)
  have yes: "x509_run ref_deps [(0, 18, der), (1, 18, der)] 1" using run [of der] b(3) ok by simp
  have bad: "x509_run ref_deps [(0, 18, []), (1, 18, [])] 0" using run [of "[]"] no by simp
  from cert_verify_callback_exact [OF yes, of 18] ok have "cert_verify_callback (1, 18) = (1, X509_V_OK, Some X509_V_OK)"
    by (auto split: prod.splits)
  moreover from cert_verify_callback_exact [OF bad, of 18] no have "fst (cert_verify_callback (0, 18)) = 0"
    by (auto split: prod.splits)
  ultimately show ?thesis using ok yes bad by blast
qed

end
