(* ===== verification/Spec2Isabelle.thy ===== *)
theory Spec2Isabelle
  imports TunnelTypes SpdmProgram TlsProgram Hook
begin

text \<open>
  Verification development of rats-rs, a library that puts remote attestation into certificates and secure
  channels: a TEE's quote is carried by an X.509 certificate whose key the quote vouches for, and SPDM, TLS
  (OpenSSL) and rustls endpoints present and check such certificates. Paths below are relative to
  \<^verbatim>\<open>rats-rs/src\<close> unless they start with \<^verbatim>\<open>examples\<close>.

  \<^bold>\<open>How the parts interact.\<close> An attester turns report data into evidence (a quote). \<open>CertBuilder\<close> hashes a
  CBOR buffer of claims, which names the hash of the certificate key, into the report data, and signs a
  certificate that carries evidence and claims buffer in a DICE extension. \<open>verify_cert_der\<close> undoes each of
  these steps and checks it. Every transport calls \<open>CertBuilder\<close> for its own certificate and
  \<open>verify_cert_der\<close> from the callback its protocol library offers for the peer's. The SPDM endpoints also
  report the claims as a measurement, and move their messages over a framed byte stream.

  \<^bold>\<open>Theories, in the order of dependence, and the code they model.\<close>
  \<^item> \<open>Prelude\<close>: machine integers, byte slices, association lists. \<open>Errors\<close>: \<^verbatim>\<open>errors.rs\<close>, and the type \<open>res\<close> of
    everything a call can end in: \<open>Ok\<close>, \<open>Err\<close>, \<open>Panic\<close>, \<open>UB\<close> (memory read that is not owned).
  \<^item> \<open>Crypto\<close>: \<^verbatim>\<open>crypto/mod.rs\<close>. \<open>Claims\<close>: \<^verbatim>\<open>tee/claims.rs\<close>, \<^verbatim>\<open>cert/mod.rs\<close>. \<open>Cbor\<close>: \<^verbatim>\<open>cert/dice/cbor.rs\<close>;
    \<open>CborRef\<close>: a codec at which the CBOR library is instantiated, and the properties of \<open>Cbor\<close>.
  \<^item> \<open>Dcap\<close>: what the two quote formats share, with the contracts \<open>generic_evidence\<close> and \<open>generic_verifier\<close>
    (the traits of \<^verbatim>\<open>tee/mod.rs\<close>). \<open>SgxDcap\<close>: \<^verbatim>\<open>tee/sgx_dcap\<close>. \<open>Tdx\<close>: \<^verbatim>\<open>tee/tdx\<close>. \<open>Tee\<close>: \<^verbatim>\<open>tee/mod.rs\<close> (detection,
    \<open>AutoEvidence\<close>, \<open>AutoAttester\<close>, \<open>AutoVerifier\<close>). All three interpret both contracts.
  \<^item> \<open>Dice\<close>: \<^verbatim>\<open>cert/dice/extensions.rs\<close>, \<^verbatim>\<open>cert/dice/mod.rs\<close>. \<open>CertCreate\<close>: \<^verbatim>\<open>cert/create.rs\<close>. \<open>CertVerify\<close>:
    \<^verbatim>\<open>cert/verify.rs\<close> and the laws \<open>libs_ok\<close>. \<open>X509Ref\<close>: libraries that satisfy them. \<open>CertTheorems\<close>: the
    properties of the certificate layer. \<open>SampleCert\<close>: one built certificate, for the transports' witnesses.
  \<^item> \<open>FramedStream\<close>: \<^verbatim>\<open>transport/spdm/io/framed_stream.rs\<close>, contract \<open>packet_device\<close>. \<open>TransportEncap\<close>:
    \<^verbatim>\<open>transport/spdm/transport.rs\<close>, contract \<open>transport_layer\<close>, interpreted for SPDM and for application
    messages. \<open>Halves\<close>: \<^verbatim>\<open>transport/spdm/half.rs\<close>.
  \<^item> \<open>Measurement\<close>: \<^verbatim>\<open>transport/spdm/secret/measurement.rs\<close>, contract \<open>measurement_source\<close>. \<open>Secret\<close>:
    \<^verbatim>\<open>cert_provider.rs\<close>, \<^verbatim>\<open>cert_validation.rs\<close>, \<^verbatim>\<open>asym_crypto.rs\<close> beside it. \<open>SpdmEndpoint\<close> and \<open>SpdmNegotiate\<close>:
    \<^verbatim>\<open>transport/spdm/requester.rs\<close> and \<^verbatim>\<open>responder.rs\<close>, the builders and halves first, then \<open>negotiate\<close>.
  \<^item> \<open>Tls\<close>: \<^verbatim>\<open>transport/tls\<close>; \<open>TlsTheorems\<close>: its properties, contract \<open>tls_endpoint\<close> on client and server.
    \<open>Rustls\<close>: \<^verbatim>\<open>transport/rustls\<close>, contract \<open>rustls_endpoint\<close> on client and server. \<open>Hook\<close>:
    \<^verbatim>\<open>examples/openssl-hook/src/lib.rs\<close>.
  \<^item> \<open>Tunnel\<close>: a pass of each of the two threads of \<^verbatim>\<open>examples/spdm/src/tunnel/mod.rs\<close>, their interleavings, and the
    direction from one end to the other; \<open>TunnelTypes\<close>: the well-formedness of a tunnel end. \<open>Serving\<close>: the accept
    loop and the echo test, of which the examples have three copies, with the contracts \<open>server_program\<close> (what
    the loop hands on) and \<open>message_endpoint\<close> (receiving and sending whole messages). \<open>SpdmExample\<close>: the programs
    of \<^verbatim>\<open>examples/spdm\<close>, interpreting both contracts; \<open>SpdmAttested\<close>: whom its endpoints talk to. \<open>TlsExample\<close>: \<^verbatim>\<open>examples/tls\<close> and \<^verbatim>\<open>examples/rustls\<close>,
    interpreting the first.
  \<^item> \<open>Commands\<close>: the command lines the three \<^verbatim>\<open>main.rs\<close> declare, and how the parsed options are read; a reference
    parser. \<open>SpdmProgram\<close> and \<open>TlsProgram\<close>: the programs from their command line on (\<^verbatim>\<open>main.rs\<close>, \<^verbatim>\<open>echo/mod.rs\<close>,
    \<^verbatim>\<open>tunnel/mod.rs\<close>), and with whom they exchange data. This theory: what spans the transports.

  \<^bold>\<open>State.\<close> Each stateful part is a record passed through its operations: \<open>framed_stream\<close> (buffers and the
  stream's coming reads and faults), the halves with spdmlib's context \<open>'c\<close>, the endpoints
  \<open>spdm_requester\<close>, \<open>spdm_responder\<close>, \<open>tls_client\<close>, \<open>tls_server\<close>, \<open>rustls_client\<close>, \<open>rustls_server\<close>. For
  OpenSSL the state is the list of all calls made, so that what is freed, in which order and on which
  session can be stated. A tunnel end (\<open>tunnel_end\<close>) holds what its two threads own and share; an execution is
  any list of turns. An accept loop is run on the list of its accept results, at whose end it is \<open>Waiting\<close>.
  An \<open>await\<close> is a call: the crate's functions are generated in a blocking form too.

  \<^bold>\<open>What the lemmas show.\<close>
  \<^item> Certificates: \<open>verify_cert_der\<close> accepts exactly \<open>cert_accepted\<close>, returns the quote's claims with
    priority over custom ones, binds claims and key to the quote, never panics, and accepts what \<open>CertBuilder\<close>
    makes. The policy on claims is decided exactly.
  \<^item> Evidence: the parsers accept exactly the well-formed quotes, read owned bytes only, exclude each other;
    the claims are the named fields; the verifiers accept exactly trusted quotes with the report data.
  \<^item> Streams: framing and sessions are transparent under every segmentation (refinement of a queue of
    packets), one receive consumes one whole frame or nothing, and the encapsulations round-trip.
  \<^item> SPDM: credentials for every builder setting; the requester's negotiation returns when the peer answers the
    exchanges it reaches and fails with the first that fails, the responder's returns exactly when a run of
    messages reaches an ending turn; measurements are the claims, with exact bounds.
    With \<open>VERIFY_PEER\<close> the requester's peer has an accepted certificate; the responder asks for none.
  \<^item> TLS, rustls, hook: after a negotiation that returns \<open>Ok\<close> the peer's certificate is one
    \<open>verify_cert_der\<close> accepts; sessions are used and freed in order; which calls panic or leak; what the
    hook installs and answers. \<open>transports_agree\<close>: all of them accept the same certificates.
  \<^item> Example programs: a tunnel direction delivers a beginning of what was sent under every interleaving and
    fault, all of it without faults, and every state is well formed; the echo test is one exchange between the
    two ends' wires; the servers hand on negotiated endpoints only, one peer can end them, and the OpenSSL
    server frees what it makes. From the command line on, every program whose peer is to be verified exchanges
    data only with a peer whose certificate \<open>verify_cert_der\<close> accepts.

  \<^bold>\<open>Parameters.\<close> Code outside the repository is a record of functions: \<open>crypto_lib\<close>, \<open>cbor_lib\<close>, \<open>x509_lib\<close>,
  \<open>dcap_layout\<close> (layout of the Intel headers), \<open>qvl\<close> (quote verification), the devices behind the attesters,
  \<open>codec_lib\<close>, \<open>spdm_lib\<close>, \<open>measurement_lib\<close>, \<open>sign_lib\<close>, \<open>endpoint_lib\<close>, \<open>requester_lib\<close>, \<open>responder_lib\<close>,
  \<open>ossl_lib\<close>, \<open>rustls_lib\<close>, \<open>rustls_io\<close>, \<open>hook_lib\<close>. Cargo features and debug overflow checks are arguments.
  Their documented behaviour is a named hypothesis where a property needs it: \<open>libs_ok\<close> (CBOR, SHA-2 lengths,
  X.509 builder, signatures), \<open>attester_ok\<close> (an honest attester), \<open>codec_ok\<close>, \<open>channel_ok\<close> and \<open>negotiated_ok\<close>
  (a secured message decodes to what was encoded), \<open>measurement_ok\<close>, \<open>block_codec_ok\<close>, \<open>requester_lib_ok\<close>,
  \<open>openssl_verifies\<close>, \<open>rustls_verifies\<close> and \<open>spdm_verifies\<close> (a handshake succeeds only if the installed
  callback or strategy accepted),
  \<open>getters_ok\<close>, \<open>x509_run\<close> (a verification succeeds when the callback answered every question); \<open>duplex_ok\<close> (the numbered packets of a session in both directions),
  \<open>duplex_live\<close> (messages up to a length can be sent), together \<open>session_ok\<close>; \<open>slices_ok\<close> (lengths of lent buffers),
  \<open>locals_last\<close> (below).
  The operating system's answers are the record \<open>tunnel_os\<close>. The argument parser clap is a function from the
  declared commands and the arguments to the options it found, with the laws \<open>clap_ok\<close>; \<open>records_keep\<close>: the
  record layer leaves the peer's certificate in the context. \<open>spdm_world\<close>, \<open>tls_world\<close> and \<open>rustls_world\<close> collect
  what a program finds outside: libraries, attester, randomness, connections. Each such property has a witness on a concrete instance.

  \<^bold>\<open>Loops and bounds.\<close> \<open>recv_loop\<close> is a \<open>function\<close> with a measure. \<open>read_blocks\<close> and \<open>negotiate_loop\<close> are
  \<open>partial_function (option)\<close>, so that not returning is \<open>None\<close>; the first ends whenever the reader consumes
  (\<open>requester_negotiate_exact\<close>), the second exactly on runs that reach an ending turn. The requester's exchanges
  block, so each is an option too: \<open>None\<close> is a peer that never answers. The decoder of
  \<open>CborRef\<close> has fuel of twice its input length, shown to be enough in \<open>decode_encode\<close>. The echo test has
  128 rounds (\<open>ECHO_ROUNDS\<close>). A tunnel's receiving thread ends within as many turns as its device holds bytes. Integers that can wrap
  are words (\<open>u16\<close> sizes, the \<open>u8\<close> timeout exponent, \<open>c_int\<close> lengths); \<open>usize\<close> is \<open>nat\<close> where it counts bytes
  in memory.

  \<^bold>\<open>Reads of a dead local.\<close> The macro \<open>as_slice!\<close> of \<^verbatim>\<open>tee/sgx_dcap/claims.rs\<close> and \<^verbatim>\<open>tee/tdx/claims.rs\<close> returns a
  slice of a variable that is out of scope, which is copied in the next step. Rust leaves the bytes found there undefined; the
  parameter \<open>dead_local\<close> of \<open>dcap_layout\<close> gives them, any function of the claim's name, the field's value and the
  position, so that whatever is read is a claim's value and nothing is assumed of it. \<open>locals_last\<close> says that
  the stack still holds the field; only what is said to need it needs it. That the read is undefined
  behaviour as such, beyond the bytes it yields, is not modelled.

  \<^bold>\<open>Not modelled.\<close> Log output and message arguments of \<open>format!\<close> (the format string is kept); the mutexes of
  the SPDM halves, each operation being one step; the descriptor plumbing of \<open>GetFd\<close> beyond the number passed
  on; the loggers that the programs and the hook's constructor start and the hook's destructor, which logs; of the
  example programs the help texts and the closing of sockets when their owner ends; \<^verbatim>\<open>intel-dcap\<close> (a build
  script for generated bindings, whose layout is a parameter); unit tests.
\<close>

text \<open>
  The error combinators keep what the caller set: after \<open>.kind(k)\<close> and any number of
  \<open>.context(..)\<close> calls a foreign failure is an \<open>Err\<close> of exactly kind \<open>k\<close> whose message is the
  contexts, outermost first, joined by ": " in front of the foreign error's display text; a success
  is handed through unchanged.
\<close>
theorem error_context_chain:
  "add_contexts cs (res_kind k (lift_ext r)) =
     (case r of
        Inr x \<Rightarrow> Ok x
      | Inl s \<Rightarrow> Err \<lparr>err_kind = k, err_msg = Some (concat (map (\<lambda>c. c @ '': '') (rev cs)) @ s)\<rparr>)"
proof (cases r)
  case (Inl s)
  have "add_contexts cs (Err \<lparr>err_kind = k, err_msg = Some m\<rparr> :: 'a res) =
      Err \<lparr>err_kind = k, err_msg = Some (concat (map (\<lambda>c. c @ '': '') (rev cs)) @ m)\<rparr>" for m
    by (induction cs arbitrary: m) (simp_all add: res_context_Err with_msg_def)
  with Inl show ?thesis by (simp add: error_defs)
next
  case (Inr x)
  have "add_contexts cs (Ok x) = Ok x"
    by (induction cs) simp_all
  with Inr show ?thesis by simp
qed

text \<open>
  C6. All transports accept the same certificates: the OpenSSL callback, both rustls verifiers and the
  SPDM validation strategy accept a certificate exactly when \<open>verify_cert_der\<close> does, and each answers an
  error of it in its own way without panicking. So the certificate any endpoint builds for itself, with any
  key and an honest attester, is accepted by a peer of every transport.
\<close>

theorem transports_agree:
  assumes "length der < 2147483648" and "i2d_current x = (word_of_nat (length der), Some der)"
  shows "(rats_verify_cert_chain D der = Ok (Inr ()) \<longleftrightarrow> (\<exists>claims. verify_cert_der D der = Ok claims)) \<and>
    (verify_server_cert D sv der = Ok (Inr ()) \<longleftrightarrow> (\<exists>claims. verify_cert_der D der = Ok claims)) \<and>
    (verify_client_cert D cv der = Ok (Inr ()) \<longleftrightarrow> (\<exists>claims. verify_cert_der D der = Ok claims)) \<and>
    ((\<exists>v. verify_certificate_default D 1 x = Ok v \<and> v \<noteq> 0) \<longleftrightarrow> (\<exists>claims. verify_cert_der D der = Ok claims)) \<and>
    (verify_cert_der D der = Err e \<longrightarrow> rats_verify_cert_chain D der = Ok (Inl SPDM_STATUS_INVALID_CERT) \<and>
       verify_certificate_default D 1 x = Ok 0 \<and> (\<exists>m. verify_server_cert D sv der = Ok (Inl m) \<and> verify_client_cert D cv der = Ok (Inl m))) \<and>
    (libs_ok D \<and> attester_ok D A \<and> build_with_private_key D (cert_builder_new A Sha256) key = Ok bd \<and> cert_to_der D bd = Ok der \<longrightarrow>
       rats_verify_cert_chain D der = Ok (Inr ()) \<and> verify_server_cert D sv der = Ok (Inr ()) \<and>
       verify_client_cert D cv der = Ok (Inr ()) \<and> verify_certificate_default D 1 x = Ok 1)"
proof -
  have spdm: "rats_verify_cert_chain D der = Ok (Inr ()) \<longleftrightarrow> (\<exists>claims. verify_cert_der D der = Ok claims)"
    by (cases "verify_cert_der D der") (simp_all add: rats_verify_cert_chain_def)
  have len: "unat (word_of_nat (length der) :: c_int) = length der" using assms(1) by (simp add: unat_of_nat)
  note callback = default_callback_iff [OF assms, of D 1, simplified] signed_length [OF assms(1)]
  have one: "verify_certificate_default D 1 x = Ok v \<Longrightarrow> v \<in> {0, 1}" for v
    by (auto simp: verify_certificate_default_def split: prod.splits option.splits if_splits res.splits verify_policy_output.splits)
  have rejected: "rats_verify_cert_chain D der = Ok (Inl SPDM_STATUS_INVALID_CERT) \<and>
       verify_certificate_default D 1 x = Ok 0 \<and> (\<exists>m. verify_server_cert D sv der = Ok (Inl m) \<and> verify_client_cert D cv der = Ok (Inl m))"
    if "verify_cert_der D der = Err e"
    using that assms(2) len callback(2)
    by (simp add: rats_verify_cert_chain_def verify_certificate_default_def verify_server_cert_def verify_client_cert_def
        cert_verifier_verify_def)
  have built: "\<exists>claims. verify_cert_der D der = Ok claims"
    if "libs_ok D" "attester_ok D A" "build_with_private_key D (cert_builder_new A Sha256) key = Ok bd" "cert_to_der D bd = Ok der"
    by (rule built_cert_verify_Ok [OF that(1) _ _ that(3,4)]) (simp_all add: cert_builder_new_def that(2))
  have all: "rats_verify_cert_chain D der = Ok (Inr ()) \<and> verify_server_cert D sv der = Ok (Inr ()) \<and>
       verify_client_cert D cv der = Ok (Inr ()) \<and> verify_certificate_default D 1 x = Ok 1"
    if "\<exists>claims. verify_cert_der D der = Ok claims"
  proof -
    from that callback(1) obtain v where "verify_certificate_default D 1 x = Ok v" "v \<noteq> 0" by blast
    with one [of v] have "verify_certificate_default D 1 x = Ok 1" by auto
    with that show ?thesis by (simp only: spdm verify_peer_cert_iff)
  qed
  show ?thesis
    by (intro conjI spdm verify_peer_cert_iff callback(1); (intro impI)?) (use rejected all built in \<open>(elim conjE)?, simp\<close>)+
qed

theorem transports_agree_witness:
  "\<exists>der x. length der < 2147483648 \<and> i2d_current x = (word_of_nat (length der), Some der) \<and>
     rats_verify_cert_chain ref_deps der = Ok (Inr ()) \<and> verify_certificate_default ref_deps 1 x = Ok 1"
proof -
  obtain bd der where b: "build_with_private_key ref_deps (cert_builder_new sample_attester Sha256) (P256 [0]) = Ok bd"
    "cert_to_der ref_deps bd = Ok der" "length der < 65536"
    by (rule sample_key_build [OF sample_keys(5)]) simp_all
  let ?x = "\<lparr>store_error = 0, i2d_current = (word_of_nat (length der), Some der)\<rparr>"
  have len: "length der < 2147483648" and x: "i2d_current ?x = (word_of_nat (length der), Some der)" using b(3) by simp_all
  from transports_agree [OF len x, of ref_deps "\<lparr>default_server_verifier = 0\<rparr>" "\<lparr>default_client_verifier = 0\<rparr>" error_unknown
      sample_attester "P256 [0]" bd] b ref_libs_ok sample_attester_honest len x
  show ?thesis by blast
qed

text \<open>A server program seen from outside: the endpoints it hands on, and how it ends, for its accept results.\<close>

definition serves_ready :: "('a \<Rightarrow> bool) \<Rightarrow> ('conn option list \<Rightarrow> 'a list \<times> loop_outcome) \<Rightarrow> bool" where
  "serves_ready ready run \<longleftrightarrow> (\<forall>conns xs out. run conns = (xs, out) \<longrightarrow>
     list_all ready xs \<and> length xs \<le> length conns \<and> out \<noteq> Returned (Ok ()) \<and>
     (out \<noteq> Waiting \<longrightarrow> (\<forall>rest. run (conns @ rest) = (xs, out))))"

lemma serves_readyI:
  assumes "server_program serve ready"
  shows "serves_ready ready (\<lambda>conns. snd (accept_loop msg serve 0 conns w))"
proof -
  have "list_all ready xs \<and> length xs \<le> length conns \<and> out \<noteq> Returned (Ok ()) \<and>
     (out \<noteq> Waiting \<longrightarrow> (\<forall>rest. snd (accept_loop msg serve 0 (conns @ rest) w) = (xs, out)))"
    if snd: "snd (accept_loop msg serve 0 conns w) = (xs, out)" for conns xs out
  proof -
    obtain w' where run: "accept_loop msg serve 0 conns w = (w', xs, out)" using snd
      by (cases "accept_loop msg serve 0 conns w") simp
    from server_program.all_ready [OF assms run] server_program.final [OF assms run] show ?thesis by auto
  qed
  then show ?thesis by (simp add: serves_ready_def)
qed

text \<open>
  C21. The three server programs. Every endpoint they hand on has finished its negotiation: an SPDM responder
  whose session is established, an OpenSSL server with a session, a rustls server with a stream. They never
  return normally, and whatever follows once one has ended no longer matters. In particular a single peer
  ends each of the three servers: if it waited for the next connection and the negotiation there fails with an
  error, the program returns this error, whatever connections follow; the OpenSSL server has then dropped the
  endpoint. If an SPDM negotiation does not come to an end, no later connection is served.
\<close>

theorem servers_hand_on_ready:
  fixes U :: "('c, 'e) spdm_setup"
  assumes "with_spdm_tcp_server U RL K opts func conns w = (w1, xs, Waiting)"
    and "responder_build_with_tcp_stream (su_deps U) (su_endpoint U) (su_io U) (su_mut_auth U) (su_context_new U)
      (su_rng U (length conns)) (su_attester U) (su_claims U)
      (responder_with_verify_mode (responder_with_attest_self responder_builder_new (opt_attest_self opts)) (verify_mode_of opts)) strm = Ok p"
  shows "serves_ready (responder_ready RL) (\<lambda>conns. snd (with_spdm_tcp_server U RL K opts func conns w)) \<and>
    serves_ready (\<lambda>s. ts_session s \<noteq> None) (\<lambda>conns. snd (with_tls_tcp_server D L A g verify_peer tls_func conns v)) \<and>
    serves_ready server_ready (with_rustls_tcp_server D RS IO A g g' verify_peer rustls_func) \<and>
    (\<forall>p' e rest. responder_negotiate RL K (su_io U) (su_endpoint U) p = Some (p', Err e) \<longrightarrow>
       with_spdm_tcp_server U RL K opts func (conns @ Some (strm, True) # rest) w = (w1, xs, Returned (Err e))) \<and>
    (\<forall>rest. responder_negotiate RL K (su_io U) (su_endpoint U) p = None \<longrightarrow>
       with_spdm_tcp_server U RL K opts func (conns @ Some (strm, True) # rest) w = (w1, xs, Hanging)) \<and>
    (\<forall>accepted v v1 v2 v3 ys fd s s' e rest.
       with_tls_tcp_server D L A g verify_peer tls_func accepted v = (v1, ys, Waiting) \<and>
       server_build D L A (g (length accepted)) v1 (server_with_tcp_stream (server_with_verify_peer server_builder_new verify_peer) fd) = (v2, Ok s) \<and>
       server_negotiate L v2 s = (v3, s', Err e) \<longrightarrow>
       with_tls_tcp_server D L A g verify_peer tls_func (accepted @ Some (fd, True) # rest) v = (server_drop v3 s', ys, Returned (Err e))) \<and>
    (\<forall>accepted ys sock s s' e rest.
       with_rustls_tcp_server D RS IO A g g' verify_peer rustls_func accepted = (ys, Waiting) \<and>
       rustls_server_new D RS A (g (length accepted)) (g' (length accepted)) sock verify_peer = Ok s \<and>
       rustls_server_negotiate IO s = (s', Err e) \<longrightarrow>
       with_rustls_tcp_server D RS IO A g g' verify_peer rustls_func (accepted @ Some sock # rest) = (ys, Returned (Err e)))"
proof -
  note contracts = spdm_server.server_program_axioms [of U RL K opts func] tls_program.server_program_axioms [of D L A g verify_peer tls_func]
    rustls_program.server_program_axioms [of D RS IO A g g' verify_peer rustls_func]
  let ?conn = "(strm, True)"
  have serve: "spdm_serve_one U RL K opts func (0 + length conns) ?conn w1 =
      (case responder_negotiate RL K (su_io U) (su_endpoint U) p of None \<Rightarrow> (w1, None, None)
       | Some (responder, r) \<Rightarrow> (if r = Ok () then (case func (length conns) responder w1 of (w, x, r) \<Rightarrow> (w, Some (responder, x), Some r))
           else (w1, None, Some r)))"
    using assms(2) by (simp add: spdm_serve_one_def)
  note one = server_program.one_peer_ends_the_loop [OF contracts(1) assms(1) [unfolded with_spdm_tcp_server_def], of ?conn]
  have "with_spdm_tcp_server U RL K opts func (conns @ Some ?conn # rest) w = (w1, xs, Returned (Err e))"
    if "responder_negotiate RL K (su_io U) (su_endpoint U) p = Some (p', Err e)" for p' e rest
    using one [of w1 None "Some (Err e)" rest] serve that by (simp add: with_spdm_tcp_server_def)
  moreover have "with_spdm_tcp_server U RL K opts func (conns @ Some ?conn # rest) w = (w1, xs, Hanging)"
    if "responder_negotiate RL K (su_io U) (su_endpoint U) p = None" for rest
    using one [of w1 None None rest] serve that by (simp add: with_spdm_tcp_server_def)
  moreover have "serves_ready server_ready (with_rustls_tcp_server D RS IO A g g' verify_peer rustls_func)"
    using serves_readyI [OF contracts(3)] unfolding with_rustls_tcp_server_def [abs_def] .
  moreover have "with_tls_tcp_server D L A g verify_peer tls_func (accepted @ Some (fd, True) # rest) v = (server_drop v3 s', ys, Returned (Err e))"
    if "with_tls_tcp_server D L A g verify_peer tls_func accepted v = (v1, ys, Waiting)"
      "server_build D L A (g (length accepted)) v1 (server_with_tcp_stream (server_with_verify_peer server_builder_new verify_peer) fd) = (v2, Ok s)"
      "server_negotiate L v2 s = (v3, s', Err e)" for accepted v v1 v2 v3 ys fd s s' e rest
    using server_program.one_peer_ends_the_loop [OF contracts(2) that(1) [unfolded with_tls_tcp_server_def],
        of "(fd, True)" "server_drop v3 s'" None "Some (Err e)" rest] that(2,3)
    by (simp add: with_tls_tcp_server_def tls_serve_one_def)
  moreover have "with_rustls_tcp_server D RS IO A g g' verify_peer rustls_func (accepted @ Some sock # rest) = (ys, Returned (Err e))"
    if "with_rustls_tcp_server D RS IO A g g' verify_peer rustls_func accepted = (ys, Waiting)"
      "rustls_server_new D RS A (g (length accepted)) (g' (length accepted)) sock verify_peer = Ok s"
      "rustls_server_negotiate IO s = (s', Err e)" for accepted ys sock s s' e rest
  proof -
    from that(1) have run: "accept_loop ''{}'' (rustls_serve_one D RS IO A g g' verify_peer rustls_func) 0 accepted () = ((), ys, Waiting)"
      by (cases "accept_loop ''{}'' (rustls_serve_one D RS IO A g g' verify_peer rustls_func) 0 accepted ()")
        (simp add: with_rustls_tcp_server_def)
    from server_program.one_peer_ends_the_loop [OF contracts(3) run, of sock "()" None "Some (Err e)" rest] that(2,3)
    show ?thesis by (simp add: with_rustls_tcp_server_def rustls_serve_one_def)
  qed
  moreover have "serves_ready (responder_ready RL) (\<lambda>conns. snd (with_spdm_tcp_server U RL K opts func conns w))"
    using serves_readyI [OF contracts(1)] by (simp add: with_spdm_tcp_server_def)
  moreover have "serves_ready (\<lambda>s. ts_session s \<noteq> None) (\<lambda>conns. snd (with_tls_tcp_server D L A g verify_peer tls_func conns v))"
    using serves_readyI [OF contracts(2)] by (simp add: with_tls_tcp_server_def)
  ultimately show ?thesis by (intro conjI allI impI; (elim conjE)?) blast+
qed

text \<open>A protocol library that refuses the first message, on connections without attestation.\<close>

definition refusing_responder :: "unit responder_lib" where
  "refusing_responder = \<lparr>process_message = (\<lambda>c crypto raw buf. (c, raw, buf, SpdmHandleError SPDM_STATUS_INVALID_CERT)),
     session_state_of = (\<lambda>_ _. None)\<rparr>"

definition sample_setup :: "(unit, auto_evidence) spdm_setup" where
  "sample_setup = \<lparr>su_deps = ref_deps, su_endpoint = sample_endpoint, su_io = small_config, su_mut_auth = False,
     su_context_new = (\<lambda>m s st info prov. ()), su_rng = (\<lambda>_. 0), su_attester = sample_attester, su_claims = (\<lambda>_. Ok [])\<rparr>"

definition refusing_tls :: "(unit, bytes) rustls_io" where
  "refusing_tls = sample_rustls_io\<lparr>tls_accept := \<lambda>_ _. Inl ''no certificate''\<rparr>"

theorem servers_hand_on_ready_witness:
  "\<exists>e. with_spdm_tcp_server sample_setup refusing_responder le_codec \<lparr>opt_attest_self = False, opt_verify_peer = False\<rparr>
       (\<lambda>i p w. (w, (), Ok ())) [Some (stream_of [], True), Some (stream_of [], True)] () = ((), [], Returned (Err e)) \<and> err_kind e = SpdmNegotiate \<and>
     (\<exists>e'. with_rustls_tcp_server ref_deps sample_rustls refusing_tls sample_attester (\<lambda>_. 0) (\<lambda>_. 0) True (\<lambda>i s. Ok ())
        [Some 5, Some 6] = ([], Returned (Err e')))"
proof -
  let ?o = "\<lparr>opt_attest_self = False, opt_verify_peer = False\<rparr>"
  let ?f = "\<lambda>i p w. (w, (), Ok ()) :: unit \<times> unit \<times> unit res"
  have wait: "with_spdm_tcp_server sample_setup refusing_responder le_codec ?o ?f [] () = ((), [], Waiting)"
    by (simp add: with_spdm_tcp_server_def)
  have build: "\<exists>p. responder_build_with_tcp_stream (su_deps sample_setup) (su_endpoint sample_setup) (su_io sample_setup) (su_mut_auth sample_setup)
      (su_context_new sample_setup) (su_rng sample_setup 0) (su_attester sample_setup) (su_claims sample_setup)
      (responder_with_verify_mode (responder_with_attest_self responder_builder_new (opt_attest_self ?o)) (verify_mode_of ?o)) (stream_of []) = Ok p"
    by (simp add: sample_setup_def responder_build_with_tcp_stream_def responder_new_def responder_with_verify_mode_def responder_with_attest_self_def
        responder_builder_new_def verify_mode_of_def mode_contains_peer VERIFY_NONE_def empty_credentials_def empty_get_full_cert_chain_def
        sample_endpoint_def secure_versions_def)
  then obtain p where p: "responder_build_with_tcp_stream (su_deps sample_setup) (su_endpoint sample_setup) (su_io sample_setup) (su_mut_auth sample_setup)
      (su_context_new sample_setup) (su_rng sample_setup (length ([] :: (stream \<times> bool) option list))) (su_attester sample_setup) (su_claims sample_setup)
      (responder_with_verify_mode (responder_with_attest_self responder_builder_new (opt_attest_self ?o)) (verify_mode_of ?o)) (stream_of []) = Ok p"
    by auto
  have "\<exists>p' e. responder_negotiate refusing_responder le_codec cfg E p = Some (p', Err e) \<and> err_kind e = SpdmNegotiate" for cfg E
    by (simp add: responder_negotiate_def negotiate_loop.simps negotiate_turn_def refusing_responder_def res_context_Err with_msg_def)
  then obtain p' e where n: "responder_negotiate refusing_responder le_codec (su_io sample_setup) (su_endpoint sample_setup) p = Some (p', Err e)"
    "err_kind e = SpdmNegotiate" by blast
  note ends = servers_hand_on_ready [OF wait p, where D = ref_deps and RS = sample_rustls and IO = refusing_tls and A = sample_attester
      and g = "\<lambda>_. 0" and g' = "\<lambda>_. 0" and verify_peer = True and rustls_func = "\<lambda>i s. Ok ()", THEN conjunct2, THEN conjunct2, THEN conjunct2]
  obtain s where s: "rustls_server_new ref_deps sample_rustls sample_attester 0 0 5 True = Ok (s :: (unit, bytes) rustls_server)"
    using sample_rustls_new by blast
  then have "rv_stream s = Some 5" by (auto simp: rustls_server_new_def)
  then obtain s' e' where refused: "rustls_server_negotiate refusing_tls s = (s', Err e')"
    by (simp add: rustls_server_negotiate_def refusing_tls_def Let_def)
  have idle: "with_rustls_tcp_server ref_deps sample_rustls refusing_tls sample_attester (\<lambda>_. 0) (\<lambda>_. 0) True (\<lambda>i s. Ok ()) [] = ([], Waiting)"
    by (simp add: with_rustls_tcp_server_def)
  from ends [THEN conjunct2, THEN conjunct2, THEN conjunct2, rule_format, of "[]" "[]" 5 s s' e' "[Some 6]"] s refused idle
  have "with_rustls_tcp_server ref_deps sample_rustls refusing_tls sample_attester (\<lambda>_. 0) (\<lambda>_. 0) True (\<lambda>i s. Ok ())
      [Some 5, Some 6] = ([], Returned (Err e'))" by simp
  with ends [THEN conjunct1, rule_format, OF n(1), of "[Some (stream_of [], True)]"] n(2) show ?thesis by auto
qed

end
